(* ===== verification/Prelude.thy ===== *)
theory Prelude
  imports Main "HOL-Library.Word" "HOL-Library.Char_ord" "HOL-Library.List_Lexorder"
begin

text \<open>
  Shared vocabulary of the development: the integer types of the bridge at their C++ width, the
  ways a C++ call can leave a function without returning (exceptions and undefined behaviour) as
  values, the bind of the resulting sum type, decimal printing (\<open>std::to_string\<close>) and decimal
  reading (\<open>std::stoi\<close>), and the generic list, map and word lemmas the components share.
\<close>

section \<open>Integer types\<close>

type_synonym u8 = "8 word"
type_synonym u16 = "16 word"
type_synonym u32 = "32 word"
type_synonym u64 = "64 word"

type_synonym endpoint_id = u16
type_synonym group_id = u16
type_synonym fabric_index = u8
type_synonym cluster_id = u32
type_synonym attribute_id = u32
type_synonym command_id = u32
type_synonym device_type_id = u32

type_synonym unid = string

section \<open>Exceptions and undefined behaviour as values\<close>

datatype exn =
    Out_Of_Range
  | Bad_Variant_Access
  | Bad_Optional_Access
  | Invalid_Argument
  | Json_Type_Error
  | Json_Parse_Error
  | Null_Dereference
  | Out_Of_Bounds_Read
  | Fatal_Assertion
  | Uninitialised_Read
  | Nontermination

type_synonym 'a res = "exn + 'a"

definition rbind :: "'a res \<Rightarrow> ('a \<Rightarrow> 'b res) \<Rightarrow> 'b res" where
  "rbind m f = (case m of Inl e \<Rightarrow> Inl e | Inr x \<Rightarrow> f x)"

text \<open>A loop that may run forever is an option; not returning is one more way to fail.\<close>

definition run_loop :: "'a res option \<Rightarrow> 'a res" where
  "run_loop r = (case r of Some m \<Rightarrow> m | None \<Rightarrow> Inl Nontermination)"

named_theorems res_simps \<open>unfolding the result type\<close>

lemma rbind_Inl [simp, res_simps]: "rbind (Inl e) f = Inl e"
  by (simp add: rbind_def)

lemma rbind_Inr [simp, res_simps]: "rbind (Inr x) f = f x"
  by (simp add: rbind_def)

lemma rbind_eq_Inr: "rbind m f = Inr y \<longleftrightarrow> (\<exists>x. m = Inr x \<and> f x = Inr y)"
  by (cases m) auto

lemma rbind_eq_Inl: "rbind m f = Inl e \<longleftrightarrow> m = Inl e \<or> (\<exists>x. m = Inr x \<and> f x = Inl e)"
  by (cases m) auto

lemma rbind_assoc: "rbind (rbind m f) g = rbind m (\<lambda>x. rbind (f x) g)"
  by (cases m) auto

lemma rbind_cong [fundef_cong]:
  "m = m' \<Longrightarrow> (\<And>x. m' = Inr x \<Longrightarrow> f x = f' x) \<Longrightarrow> rbind m f = rbind m' f'"
  by (cases m') auto

section \<open>Decimal numbers\<close>

definition digit_char :: "nat \<Rightarrow> char" where
  "digit_char d = char_of (48 + d :: nat)"

definition char_digit :: "char \<Rightarrow> nat" where
  "char_digit c = of_char c - (48 :: nat)"

definition is_digit :: "char \<Rightarrow> bool" where
  "is_digit c \<longleftrightarrow> (48 :: nat) \<le> of_char c \<and> of_char c \<le> (57 :: nat)"

text \<open>\<open>std::to_string\<close> of a non-negative integer.\<close>

fun nat_to_string :: "nat \<Rightarrow> string" where
  "nat_to_string n =
     (if n < 10 then [digit_char n] else nat_to_string (n div 10) @ [digit_char (n mod 10)])"

declare nat_to_string.simps [simp del]

definition word_to_string :: "('a::len) word \<Rightarrow> string" where
  "word_to_string w = nat_to_string (unat w)"

definition decimal_value :: "string \<Rightarrow> nat" where
  "decimal_value s = foldl (\<lambda>v c. 10 * v + char_digit c) 0 s"

definition is_space_char :: "char \<Rightarrow> bool" where
  "is_space_char c \<longleftrightarrow> of_char c \<in> {9 :: nat, 10, 11, 12, 13, 32}"

text \<open>
  \<open>std::stoi\<close> in base 10: leading white space, an optional sign, the longest run of digits;
  \<open>std::invalid_argument\<close> when there is no digit, \<open>std::out_of_range\<close> when the value does
  not fit a 32-bit \<open>int\<close>. Characters after the digits are ignored.
\<close>

definition stoi_sign :: "string \<Rightarrow> bool \<times> string" where
  "stoi_sign s = (case s of [] \<Rightarrow> (False, [])
     | c # cs \<Rightarrow> if c = CHR ''-'' then (True, cs)
                 else if c = CHR ''+'' then (False, cs) else (False, s))"

definition stoi :: "string \<Rightarrow> int res" where
  "stoi s =
     (let (neg, t) = stoi_sign (dropWhile is_space_char s);
          ds = takeWhile is_digit t;
          v = (if neg then - int (decimal_value ds) else int (decimal_value ds))
      in if ds = [] then Inl Invalid_Argument
         else if v < - (2 ^ 31) \<or> 2 ^ 31 \<le> v then Inl Out_Of_Range
         else Inr v)"

lemma of_char_digit_char: "d < 10 \<Longrightarrow> of_char (digit_char d) = (48 + d :: nat)"
  by (simp add: digit_char_def)

lemma is_digit_digit_char [simp]: "d < 10 \<Longrightarrow> is_digit (digit_char d)"
  by (simp add: is_digit_def of_char_digit_char)

lemma char_digit_digit_char [simp]: "d < 10 \<Longrightarrow> char_digit (digit_char d) = d"
  by (simp add: char_digit_def of_char_digit_char)

lemma nat_to_string_nonempty [simp]: "nat_to_string n \<noteq> []"
  by (subst nat_to_string.simps) simp

lemma nat_to_string_digits: "list_all is_digit (nat_to_string n)"
proof (induction n rule: nat_to_string.induct)
  case (1 n)
  then show ?case by (subst nat_to_string.simps) auto
qed

lemma decimal_value_snoc: "decimal_value (s @ [c]) = 10 * decimal_value s + char_digit c"
  by (simp add: decimal_value_def)

lemma decimal_value_nat_to_string [simp]: "decimal_value (nat_to_string n) = n"
proof (induction n rule: nat_to_string.induct)
  case (1 n)
  show ?case
  proof (cases "n < 10")
    case True
    then show ?thesis by (subst nat_to_string.simps) (simp add: decimal_value_def)
  next
    case False
    with 1 show ?thesis by (subst nat_to_string.simps) (simp add: decimal_value_snoc)
  qed
qed

lemma nat_to_string_inject [simp]: "nat_to_string m = nat_to_string n \<longleftrightarrow> m = n"
  by (metis decimal_value_nat_to_string)

lemma word_to_string_inject [simp]: "word_to_string v = word_to_string w \<longleftrightarrow> v = w"
  by (simp add: word_to_string_def word_unat_eq_iff)

lemma word_to_string_digits: "list_all is_digit (word_to_string w)"
  by (simp add: word_to_string_def nat_to_string_digits)

lemma word_to_string_nonempty [simp]: "word_to_string w \<noteq> []"
  by (simp add: word_to_string_def)

lemma digit_not_special:
  assumes "is_digit c"
  shows "\<not> is_space_char c" and "c \<noteq> CHR ''-''" and "c \<noteq> CHR ''+''" and "c \<noteq> CHR ''/''"
  using assms by (auto simp: is_digit_def is_space_char_def)

lemma takeWhile_all: "list_all P xs \<Longrightarrow> takeWhile P xs = xs"
  by (induction xs) auto

lemma stoi_digits:
  assumes "list_all is_digit s" and "s \<noteq> []" and "decimal_value s < 2 ^ 31"
  shows "stoi s = Inr (int (decimal_value s))"
proof -
  obtain c cs where s: "s = c # cs" using assms(2) by (cases s) auto
  then have c: "is_digit c" using assms(1) by simp
  have "dropWhile is_space_char s = s" using s digit_not_special(1) [OF c] by simp
  moreover have "stoi_sign s = (False, s)"
    using s digit_not_special(2,3) [OF c] by (simp add: stoi_sign_def)
  moreover have "takeWhile is_digit s = s" using assms(1) by (rule takeWhile_all)
  moreover have "int (decimal_value s) < 2 ^ 31" using assms(3) by simp
  ultimately show ?thesis
    using assms(2) by (simp add: stoi_def Let_def del: takeWhile_eq_all_conv)
qed

lemma stoi_nat_to_string: "n < 2 ^ 31 \<Longrightarrow> stoi (nat_to_string n) = Inr (int n)"
  using stoi_digits [OF nat_to_string_digits nat_to_string_nonempty, of n] by simp

section \<open>Words\<close>

lemma unat16_less: "unat (w :: u16) < 65536"
  using unsigned_less [of w, where ?'a = nat] by simp

lemma unat8_less: "unat (w :: u8) < 256"
  using unsigned_less [of w, where ?'a = nat] by simp

lemma unat_succ16: "(w :: u16) \<noteq> 65535 \<Longrightarrow> unat (w + 1) = Suc (unat w)"
  using unat_word_ariths(1) [of w 1] unat16_less [of w] by (simp add: word_unat_eq_iff)

lemma unat_succ8: "(w :: u8) \<noteq> 255 \<Longrightarrow> unat (w + 1) = Suc (unat w)"
  using unat_word_ariths(1) [of w 1] unat8_less [of w] by (simp add: word_unat_eq_iff)

section \<open>Generic lemmas\<close>

lemma map_of_SomeD_fst: "map_of xs k = Some v \<Longrightarrow> k \<in> fst ` set xs"
  by (metis map_of_SomeD image_eqI fst_conv)

lemma find_Some_iff_mem: "find P xs = Some x \<Longrightarrow> x \<in> set xs \<and> P x"
  by (auto simp: find_Some_iff)

lemma find_distinct: "distinct (map f xs) \<Longrightarrow> find (\<lambda>x. f x = k) xs = Some y \<longleftrightarrow> y \<in> set xs \<and> f y = k"
  by (induction xs) force+

lemma find_None_iff_all: "find P xs = None \<longleftrightarrow> (\<forall>x \<in> set xs. \<not> P x)"
  by (auto simp: find_None_iff)

lemma distinct_map_eq: "distinct (map f xs) \<Longrightarrow> x \<in> set xs \<Longrightarrow> y \<in> set xs \<Longrightarrow> f x = f y \<Longrightarrow> x = y"
  by (auto simp: distinct_map inj_on_def)

lemma split_at_first_unique:
  assumes "xs @ a # ys = us @ a # vs" and "a \<notin> set xs" and "a \<notin> set us"
  shows "xs = us \<and> ys = vs"
proof -
  have "takeWhile (\<lambda>x. x \<noteq> a) (xs @ a # ys) = xs" using assms(2) by (induction xs) auto
  moreover have "takeWhile (\<lambda>x. x \<noteq> a) (us @ a # vs) = us" using assms(3) by (induction us) auto
  ultimately have "xs = us" using assms(1) by simp
  with assms(1) show ?thesis by simp
qed

lemma split_at_last_unique:
  assumes "xs @ a # ys = us @ a # vs" and "a \<notin> set ys" and "a \<notin> set vs"
  shows "xs = us \<and> ys = vs"
proof -
  from assms(1) have "rev ys @ a # rev xs = rev vs @ a # rev us"
    by (metis append.assoc append_Cons append_Nil rev.simps(2) rev_append)
  then have "rev ys = rev vs \<and> rev xs = rev us"
    by (rule split_at_first_unique) (use assms in auto)
  then show ?thesis by simp
qed

end
