(* ===== verification/Chip_Types.thy ===== *)
theory Chip_Types
  imports Prelude
begin

text \<open>
  The Matter vocabulary the bridge is written in: cluster, attribute and command identifiers (the
  numbers of linux/zap-generated/data-models/matter_support_model.js and of the comments of the
  generated translators), \<open>CHIP_ERROR\<close> codes, interaction-model status codes, attribute and
  command paths, JSON values, and the messages the bridge hands to its MQTT client.
\<close>

section \<open>Identifiers\<close>

abbreviation Identify_Id :: cluster_id where "Identify_Id \<equiv> 3"
abbreviation Groups_Id :: cluster_id where "Groups_Id \<equiv> 4"
abbreviation OnOff_Id :: cluster_id where "OnOff_Id \<equiv> 6"
abbreviation LevelControl_Id :: cluster_id where "LevelControl_Id \<equiv> 8"
abbreviation Descriptor_Id :: cluster_id where "Descriptor_Id \<equiv> 29"
abbreviation BridgedDeviceBasicInformation_Id :: cluster_id
  where "BridgedDeviceBasicInformation_Id \<equiv> 57"
abbreviation DoorLock_Id :: cluster_id where "DoorLock_Id \<equiv> 257"
abbreviation WindowCovering_Id :: cluster_id where "WindowCovering_Id \<equiv> 258"
abbreviation Thermostat_Id :: cluster_id where "Thermostat_Id \<equiv> 513"
abbreviation ColorControl_Id :: cluster_id where "ColorControl_Id \<equiv> 768"
abbreviation TemperatureMeasurement_Id :: cluster_id where "TemperatureMeasurement_Id \<equiv> 1026"
abbreviation PressureMeasurement_Id :: cluster_id where "PressureMeasurement_Id \<equiv> 1027"

abbreviation EventList_Id :: attribute_id where "EventList_Id \<equiv> 65530"
abbreviation FeatureMap_Id :: attribute_id where "FeatureMap_Id \<equiv> 65532"
abbreviation ClusterRevision_Id :: attribute_id where "ClusterRevision_Id \<equiv> 65533"

text \<open>\<open>chip::kInvalidEndpointId\<close> and \<open>chip::kInvalidCommandId\<close>: all bits set.\<close>

abbreviation kInvalidEndpointId :: endpoint_id where "kInvalidEndpointId \<equiv> 65535"
abbreviation kInvalidCommandId :: command_id where "kInvalidCommandId \<equiv> 4294967295"

section \<open>Error and status codes\<close>

datatype chip_error =
    CHIP_NO_ERROR
  | CHIP_ERROR_INVALID_ARGUMENT
  | CHIP_ERROR_NOT_IMPLEMENTED
  | CHIP_ERROR_BAD_REQUEST
  | CHIP_ERROR_IN_PROGRESS
  | CHIP_ERROR_NO_MESSAGE_HANDLER
  | CHIP_ERROR_NO_MEMORY
  | CHIP_IM_ConstraintError
  | CHIP_ERROR_OTHER nat

datatype im_status =
    Success
  | Failure
  | InvalidCommand
  | Busy
  | UnsupportedCommand

section \<open>Paths\<close>

type_synonym attr_path = "endpoint_id \<times> cluster_id \<times> attribute_id"

record command_path =
  cp_endpoint :: endpoint_id
  cp_cluster :: cluster_id
  cp_command :: command_id

section \<open>JSON values\<close>

text \<open>
  The values \<open>nlohmann::json\<close> stores. An object keeps its members as an association list;
  \<open>jset\<close> is \<open>obj[key] = value\<close> (a null value becomes an object first), \<open>jempty\<close> is
  \<open>empty()\<close>. Text output and input (\<open>dump\<close>, \<open>parse\<close>) belong to the library and are
  parameters wherever they are used.
\<close>

datatype json =
    JNull
  | JBool bool
  | JInt int
  | JString string
  | JArray "json list"
  | JObject "(string \<times> json) list"

fun json_get_string :: "json \<Rightarrow> string res" where
  "json_get_string (JString s) = Inr s"
| "json_get_string _ = Inl Json_Type_Error"

fun jset :: "string \<Rightarrow> json \<Rightarrow> json \<Rightarrow> json res" where
  "jset k v JNull = Inr (JObject [(k, v)])"
| "jset k v (JObject ms) =
     Inr (JObject (if k \<in> fst ` set ms then map (\<lambda>(k', w). if k' = k then (k', v) else (k', w)) ms
                   else ms @ [(k, v)]))"
| "jset _ _ _ = Inl Json_Type_Error"

fun jempty :: "json \<Rightarrow> bool" where
  "jempty JNull = True"
| "jempty (JArray xs) = (xs = [])"
| "jempty (JObject ms) = (ms = [])"
| "jempty _ = False"

fun jget :: "string \<Rightarrow> json \<Rightarrow> json option" where
  "jget k (JObject ms) = map_of ms k"
| "jget _ _ = None"

fun jset_all :: "(string \<times> json) list \<Rightarrow> json \<Rightarrow> json res" where
  "jset_all [] j = Inr j"
| "jset_all ((k, v) # kvs) j = rbind (jset k v j) (jset_all kvs)"

lemma jget_jset_same: "jset k v j = Inr j' \<Longrightarrow> jget k j' = Some v"
proof (cases j)
  case (JObject ms)
  assume "jset k v j = Inr j'"
  moreover have "map_of (map (\<lambda>(k', w). if k' = k then (k', v) else (k', w)) ms) k = Some v"
    if "k \<in> fst ` set ms" using that by (induction ms) auto
  moreover have "map_of (ms @ [(k, v)]) k = Some v" if "k \<notin> fst ` set ms"
    using that by (induction ms) auto
  ultimately show ?thesis using JObject by (auto simp del: map_of_append split: if_splits)
qed auto

lemma jget_jset_other: "jset k v j = Inr j' \<Longrightarrow> k' \<noteq> k \<Longrightarrow> jget k' j' = jget k' j"
proof (cases j)
  case (JObject ms)
  assume "jset k v j = Inr j'" and ne: "k' \<noteq> k"
  moreover have "map_of (map (\<lambda>(l, w). if l = k then (l, v) else (l, w)) ms) k' = map_of ms k'"
    using ne by (induction ms) auto
  moreover have "map_of (ms @ [(k, v)]) k' = map_of ms k'"
    using ne by (induction ms) auto
  ultimately show ?thesis using JObject by (auto split: if_splits)
qed auto

text \<open>
  \<open>get<int>()\<close> and \<open>get<uint16_t>()\<close> of a JSON value: numbers are narrowed to the type,
  booleans are accepted as 0 and 1, anything else throws \<open>json::type_error\<close>.
\<close>

fun json_number :: "json \<Rightarrow> int res" where
  "json_number (JInt n) = Inr n"
| "json_number (JBool b) = Inr (if b then 1 else 0)"
| "json_number _ = Inl Json_Type_Error"

definition json_get_int :: "json \<Rightarrow> int res" where
  "json_get_int j = rbind (json_number j) (\<lambda>n. Inr (sint (word_of_int n :: u32)))"

definition json_get_u16 :: "json \<Rightarrow> u16 res" where
  "json_get_u16 j = rbind (json_number j) (\<lambda>n. Inr (word_of_int n))"

section \<open>MQTT messages\<close>

text \<open>
  What the bridge hands to \<open>UnifyMqtt\<close> (linux/src/matter_wrappers/unify_mqtt_wrapper.cpp), which
  passes it on to the MQTT client of the Unify library unchanged.
\<close>

datatype mqtt_action =
    Publish string string bool
  | SubscribeEx string
  | UnsubscribeEx string

definition by_unid_topic :: "unid \<Rightarrow> u8 \<Rightarrow> string" where
  "by_unid_topic u ep = ''ucl/by-unid/'' @ u @ ''/ep'' @ word_to_string ep"

end
