(* ===== verification/Attribute_State_Cache.thy ===== *)
theory Attribute_State_Cache
  imports Chip_Types
begin

text \<open>
  linux/include/attribute_state_cache.hpp: the map from attribute paths to a variant value that
  holds the last state reported by the Unify side, and its two template functions \<open>set\<close> and
  \<open>get\<close>. The template argument \<open>T\<close> is a value of \<open>cpp_type\<close>; a \<open>std::get\<close> of the wrong
  alternative throws \<open>std::bad_variant_access\<close>; a span obtained from a local vector is a
  dangling span of which only the length is known.
\<close>

section \<open>The variant and the template arguments\<close>

datatype value_t =
    VBool bool
  | VFloat u32
  | VInt8 u8
  | VUInt8 u8
  | VInt16 u16
  | VUInt16 u16
  | VUInt32 u32
  | VUInt64 u64
  | VInt u32
  | VString string
  | VCharVec "u8 list"
  | VByteVec "u8 list"

datatype vtype =
    TBool | TFloat | TInt8 | TUInt8 | TInt16 | TUInt16 | TUInt32 | TUInt64 | TInt
  | TString | TCharVec | TByteVec

fun value_type :: "value_t \<Rightarrow> vtype" where
  "value_type (VBool _) = TBool"
| "value_type (VFloat _) = TFloat"
| "value_type (VInt8 _) = TInt8"
| "value_type (VUInt8 _) = TUInt8"
| "value_type (VInt16 _) = TInt16"
| "value_type (VUInt16 _) = TUInt16"
| "value_type (VUInt32 _) = TUInt32"
| "value_type (VUInt64 _) = TUInt64"
| "value_type (VInt _) = TInt"
| "value_type (VString _) = TString"
| "value_type (VCharVec _) = TCharVec"
| "value_type (VByteVec _) = TByteVec"

text \<open>
  The template argument: a plain alternative of the variant, an enumeration or a bit mask over an
  integer type, a byte span, a nullable of one of these. (\<open>is_enum\<close>, \<open>is_span\<close>,
  \<open>is_bitmask\<close>, \<open>is_nullable\<close> of linux/include/chip_type_traits.hpp.)
\<close>

datatype cpp_type =
    Plain vtype
  | Enum vtype
  | Bitmask vtype
  | Span
  | Nullable cpp_type

datatype cdata =
    Scalar value_t
  | Bytes "u8 list"
  | Dangling_Span nat
  | Null
  | Non_Null cdata

type_synonym cache = "attr_path \<rightharpoonup> value_t"

section \<open>The operations\<close>

text \<open>
  \<open>set<T>(path, data)\<close>. \<open>encodable\<close> stands for \<open>ExistingValueInEncodableRange\<close> of the Matter
  library. The span case allocates a vector of \<open>size\<close> zero bytes and then appends the data with
  a \<open>back_inserter\<close>.
\<close>

fun cache_set :: "(cdata \<Rightarrow> bool) \<Rightarrow> cpp_type \<Rightarrow> attr_path \<Rightarrow> cdata \<Rightarrow> cache \<Rightarrow> cache res" where
  "cache_set encodable (Enum t) p (Scalar v) c = Inr (c(p \<mapsto> v))"
| "cache_set encodable Span p (Bytes bs) c =
     Inr (c(p \<mapsto> VByteVec (replicate (length bs) 0 @ bs)))"
| "cache_set encodable (Bitmask t) p (Scalar v) c = Inr (c(p \<mapsto> v))"
| "cache_set encodable (Nullable T) p d c =
     (if encodable d
      then (case d of Non_Null d' \<Rightarrow> cache_set encodable T p d' c | _ \<Rightarrow> Inl Fatal_Assertion)
      else Inr c)"
| "cache_set encodable (Plain t) p (Scalar v) c = Inr (c(p \<mapsto> v))"
| "cache_set encodable _ p _ c = Inl Bad_Variant_Access"

definition std_get :: "vtype \<Rightarrow> value_t \<Rightarrow> value_t res" where
  "std_get t v = (if value_type v = t then Inr v else Inl Bad_Variant_Access)"

text \<open>
  \<open>const T & get<T>(path)\<close>: the throwing getter, used with plain types.
\<close>

definition cache_get_ref :: "vtype \<Rightarrow> cache \<Rightarrow> attr_path \<Rightarrow> value_t res" where
  "cache_get_ref t c p =
     (case c p of Some v \<Rightarrow> std_get t v | None \<Rightarrow> Inl Out_Of_Range)"

text \<open>
  \<open>bool get<T>(path, T & value)\<close>: the result and the new content of \<open>value\<close>, whose old
  content (\<open>old\<close>) stays where the code does not assign it.
\<close>

fun cache_get :: "cpp_type \<Rightarrow> cache \<Rightarrow> attr_path \<Rightarrow> cdata \<Rightarrow> (bool \<times> cdata) res" where
  "cache_get (Enum t) c p old =
     (case c p of Some v \<Rightarrow> rbind (std_get t v) (\<lambda>v. Inr (True, Scalar v)) | None \<Rightarrow> Inr (False, old))"
| "cache_get Span c p old =
     (case c p of
        Some v \<Rightarrow> rbind (std_get TByteVec v)
          (\<lambda>v. Inr (True, Dangling_Span (case v of VByteVec bs \<Rightarrow> length bs | _ \<Rightarrow> 0)))
      | None \<Rightarrow> Inr (False, old))"
| "cache_get (Nullable T) c p old =
     (case c p of
        Some _ \<Rightarrow> rbind (cache_get T c p (Scalar (VBool False)))
          (\<lambda>(found, v). Inr (True, if found then Non_Null v else old))
      | None \<Rightarrow> Inr (True, Null))"
| "cache_get (Bitmask t) c p old =
     (case c p of Some v \<Rightarrow> rbind (std_get t v) (\<lambda>v. Inr (True, Scalar v)) | None \<Rightarrow> Inr (False, old))"
| "cache_get (Plain t) c p old =
     (case c p of Some v \<Rightarrow> rbind (std_get t v) (\<lambda>v. Inr (True, Scalar v)) | None \<Rightarrow> Inr (False, old))"

section \<open>Readings at one type\<close>

text \<open>
  The calls the bridge makes, as options: \<open>None\<close> where \<open>get\<close> returns false. The integer
  alternatives are read at their own type.
\<close>

definition get_scalar :: "cpp_type \<Rightarrow> cache \<Rightarrow> attr_path \<Rightarrow> value_t option res" where
  "get_scalar T c p = rbind (cache_get T c p Null)
     (\<lambda>(found, d). Inr (if found then (case d of Scalar v \<Rightarrow> Some v | _ \<Rightarrow> None) else None))"

definition get_u8 :: "cpp_type \<Rightarrow> cache \<Rightarrow> attr_path \<Rightarrow> u8 option res" where
  "get_u8 T c p = rbind (get_scalar T c p)
     (\<lambda>r. Inr (case r of Some (VUInt8 w) \<Rightarrow> Some w | _ \<Rightarrow> None))"

definition get_u16 :: "cpp_type \<Rightarrow> cache \<Rightarrow> attr_path \<Rightarrow> u16 option res" where
  "get_u16 T c p = rbind (get_scalar T c p)
     (\<lambda>r. Inr (case r of Some (VUInt16 w) \<Rightarrow> Some w | _ \<Rightarrow> None))"

definition get_i16 :: "cache \<Rightarrow> attr_path \<Rightarrow> u16 option res" where
  "get_i16 c p = rbind (get_scalar (Plain TInt16) c p)
     (\<lambda>r. Inr (case r of Some (VInt16 w) \<Rightarrow> Some w | _ \<Rightarrow> None))"

text \<open>A nullable reading: \<open>None\<close> is the null value.\<close>

definition get_nullable :: "vtype \<Rightarrow> cache \<Rightarrow> attr_path \<Rightarrow> value_t option res" where
  "get_nullable t c p = rbind (cache_get (Nullable (Plain t)) c p Null)
     (\<lambda>(_, d). Inr (case d of Non_Null (Scalar v) \<Rightarrow> Some v | _ \<Rightarrow> None))"

section \<open>Lemmas\<close>

lemmas cache_get_defs = get_scalar_def get_u8_def get_u16_def get_i16_def get_nullable_def std_get_def

lemma get_u8_plain:
  "get_u8 (Plain TUInt8) c p =
     (case c p of None \<Rightarrow> Inr None | Some (VUInt8 w) \<Rightarrow> Inr (Some w) | Some _ \<Rightarrow> Inl Bad_Variant_Access)"
  by (auto simp: cache_get_defs split: option.splits value_t.splits)

lemma get_u8_mask:
  "get_u8 (Bitmask TUInt8) c p =
     (case c p of None \<Rightarrow> Inr None | Some (VUInt8 w) \<Rightarrow> Inr (Some w) | Some _ \<Rightarrow> Inl Bad_Variant_Access)"
  by (auto simp: cache_get_defs split: option.splits value_t.splits)

lemma get_u8_enum:
  "get_u8 (Enum TUInt8) c p =
     (case c p of None \<Rightarrow> Inr None | Some (VUInt8 w) \<Rightarrow> Inr (Some w) | Some _ \<Rightarrow> Inl Bad_Variant_Access)"
  by (auto simp: cache_get_defs split: option.splits value_t.splits)

lemma get_u16_plain:
  "get_u16 (Plain TUInt16) c p =
     (case c p of None \<Rightarrow> Inr None | Some (VUInt16 w) \<Rightarrow> Inr (Some w) | Some _ \<Rightarrow> Inl Bad_Variant_Access)"
  by (auto simp: cache_get_defs split: option.splits value_t.splits)

lemma get_u16_mask:
  "get_u16 (Bitmask TUInt16) c p =
     (case c p of None \<Rightarrow> Inr None | Some (VUInt16 w) \<Rightarrow> Inr (Some w) | Some _ \<Rightarrow> Inl Bad_Variant_Access)"
  by (auto simp: cache_get_defs split: option.splits value_t.splits)

lemma get_i16_cases:
  "get_i16 c p =
     (case c p of None \<Rightarrow> Inr None | Some (VInt16 w) \<Rightarrow> Inr (Some w) | Some _ \<Rightarrow> Inl Bad_Variant_Access)"
  by (auto simp: cache_get_defs split: option.splits value_t.splits)

lemma get_nullable_cases:
  "get_nullable t c p =
     (case c p of None \<Rightarrow> Inr None
      | Some v \<Rightarrow> if value_type v = t then Inr (Some v) else Inl Bad_Variant_Access)"
  by (auto simp: cache_get_defs split: option.splits)

lemmas get_cases = get_u8_plain get_u8_mask get_u8_enum get_u16_plain get_u16_mask get_i16_cases
  get_nullable_cases

lemma cache_set_frame:
  "cache_set enc T p d c = Inr c' \<Longrightarrow> q \<noteq> p \<Longrightarrow> c' q = c q"
  by (induction enc T p d c rule: cache_set.induct) (auto split: if_splits cdata.splits)

lemma cache_get_local: "c p = c' p \<Longrightarrow> cache_get T c p old = cache_get T c' p old"
  by (induction T arbitrary: old) (auto split: option.split)

section \<open>The store interface\<close>

text \<open>
  What the translators and emulators rely on: writing a value and reading it back at the same
  type gives the value, whatever was stored before, and other paths keep their content.
  \<open>good\<close> says which values can be read back (the interpretations show for which template
  arguments the cache provides this).
\<close>

locale attribute_store =
  fixes store :: "attr_path \<Rightarrow> 'a \<Rightarrow> cache \<Rightarrow> cache res"
    and load :: "cache \<Rightarrow> attr_path \<Rightarrow> 'a option res"
    and good :: "'a \<Rightarrow> bool"
  assumes store_total: "good v \<Longrightarrow> \<exists>c'. store p v c = Inr c'"
    and load_store: "good v \<Longrightarrow> store p v c = Inr c' \<Longrightarrow> load c' p = Inr (Some v)"
    and store_frame: "store p v c = Inr c' \<Longrightarrow> q \<noteq> p \<Longrightarrow> c' q = c q"
    and load_local: "c p = c' p \<Longrightarrow> load c p = load c' p"
begin

lemma load_store_other:
  "store p v c = Inr c' \<Longrightarrow> q \<noteq> p \<Longrightarrow> load c' q = load c q"
  using store_frame load_local by blast

lemma last_store_wins:
  assumes "good v" and "store p u c = Inr c1" and "store p v c1 = Inr c2"
  shows "load c2 p = Inr (Some v)"
  using assms load_store by blast

lemma stores_commute_for_readers:
  assumes "p \<noteq> q" and "good u" and "good v"
    and "store p u c = Inr c1" and "store q v c1 = Inr c2"
  shows "load c2 p = Inr (Some u) \<and> load c2 q = Inr (Some v)"
  using assms load_store load_store_other by metis

end

definition u8_store :: "attr_path \<Rightarrow> u8 \<Rightarrow> cache \<Rightarrow> cache res" where
  "u8_store p w c = cache_set (\<lambda>_. True) (Plain TUInt8) p (Scalar (VUInt8 w)) c"

definition mask8_store :: "attr_path \<Rightarrow> u8 \<Rightarrow> cache \<Rightarrow> cache res" where
  "mask8_store p w c = cache_set (\<lambda>_. True) (Bitmask TUInt8) p (Scalar (VUInt8 w)) c"

definition u16_store :: "attr_path \<Rightarrow> u16 \<Rightarrow> cache \<Rightarrow> cache res" where
  "u16_store p w c = cache_set (\<lambda>_. True) (Plain TUInt16) p (Scalar (VUInt16 w)) c"

definition i16_store :: "attr_path \<Rightarrow> u16 \<Rightarrow> cache \<Rightarrow> cache res" where
  "i16_store p w c = cache_set (\<lambda>_. True) (Plain TInt16) p (Scalar (VInt16 w)) c"

interpretation u8_cell: attribute_store u8_store "get_u8 (Plain TUInt8)" "\<lambda>_. True"
  by unfold_locales (auto simp: u8_store_def get_cases split: if_splits)

interpretation mask8_cell: attribute_store mask8_store "get_u8 (Bitmask TUInt8)" "\<lambda>_. True"
  by unfold_locales (auto simp: mask8_store_def get_cases split: if_splits)

interpretation u16_cell: attribute_store u16_store "get_u16 (Plain TUInt16)" "\<lambda>_. True"
  by unfold_locales (auto simp: u16_store_def get_cases split: if_splits)

interpretation i16_cell: attribute_store i16_store get_i16 "\<lambda>_. True"
  by unfold_locales (auto simp: i16_store_def get_cases split: if_splits)

text \<open>A nullable of an integer: the values that can be read back are the encodable ones.\<close>

definition nullable_u8_store ::
  "(cdata \<Rightarrow> bool) \<Rightarrow> attr_path \<Rightarrow> u8 \<Rightarrow> cache \<Rightarrow> cache res" where
  "nullable_u8_store enc p w c =
     cache_set enc (Nullable (Plain TUInt8)) p (Non_Null (Scalar (VUInt8 w))) c"

definition nullable_u8_load :: "cache \<Rightarrow> attr_path \<Rightarrow> u8 option res" where
  "nullable_u8_load c p = rbind (get_nullable TUInt8 c p)
     (\<lambda>r. Inr (case r of Some (VUInt8 w) \<Rightarrow> Some w | _ \<Rightarrow> None))"

interpretation nullable_u8_cell: attribute_store "nullable_u8_store enc" nullable_u8_load
    "\<lambda>w. enc (Non_Null (Scalar (VUInt8 w)))"
  for enc
  by unfold_locales
    (auto simp: nullable_u8_store_def nullable_u8_load_def get_cases split: if_splits)

end
