(* ===== verification/Endpoint_Builder.thy ===== *)
theory Endpoint_Builder
  imports Chip_Types
begin

text \<open>
  linux/src/matter_node_state_monitor/matter_endpoint_builder.hpp and matter_endpoint_builder.cpp:
  the builders that collect the attributes and commands of the clusters of one Matter endpoint,
  and the Ember structures they produce. Ember type codes and attribute masks are enumerations
  here; a default value is \<open>None\<close> for \<open>ZAP_EMPTY_DEFAULT\<close> and \<open>Some n\<close> for
  \<open>ZAP_SIMPLE_DEFAULT(n)\<close>. The data the Unify node state monitor delivers is given as records.
\<close>

section \<open>Ember structures\<close>

datatype ember_type =
    ZCL_ARRAY
  | ZCL_BOOLEAN
  | ZCL_BITMAP8
  | ZCL_BITMAP16
  | ZCL_BITMAP32
  | ZCL_ENUM8
  | ZCL_INT16U
  | ZCL_CHAR_STRING
  | ZCL_EVENT_ID
  | ZCL_TYPE u8

datatype attribute_mask = EXTERNAL_STORAGE | WRITABLE

record ember_attribute =
  ea_default :: "u16 option"
  ea_id :: attribute_id
  ea_size :: u16
  ea_type :: ember_type
  ea_mask :: "attribute_mask list"

text \<open>
  \<open>EmberAfCluster\<close>: a cluster points at arrays it does not own; the accepted and generated
  command lists carry no length.
\<close>

record ember_cluster =
  ec_cluster_id :: cluster_id
  ec_attributes :: "ember_attribute list"
  ec_attribute_count :: u16
  ec_accepted_commands :: "command_id list"
  ec_generated_commands :: "command_id list"

record ember_endpoint =
  ee_clusters :: "ember_cluster list"
  ee_cluster_count :: u8

section \<open>The builders\<close>

record cluster_builder =
  cb_attributes :: "ember_attribute list"
  cb_incoming_commands :: "command_id list"
  cb_outgoing_commands :: "command_id list"

definition new_cluster_builder :: cluster_builder where
  "new_cluster_builder =
     \<lparr>cb_attributes = [], cb_incoming_commands = [], cb_outgoing_commands = []\<rparr>"

definition add_attribute :: "ember_attribute \<Rightarrow> cluster_builder \<Rightarrow> cluster_builder" where
  "add_attribute a b = b\<lparr>cb_attributes := cb_attributes b @ [a]\<rparr>"

definition add_incoming :: "command_id \<Rightarrow> cluster_builder \<Rightarrow> cluster_builder" where
  "add_incoming c b = b\<lparr>cb_incoming_commands := cb_incoming_commands b @ [c]\<rparr>"

definition add_outgoing :: "command_id \<Rightarrow> cluster_builder \<Rightarrow> cluster_builder" where
  "add_outgoing c b = b\<lparr>cb_outgoing_commands := cb_outgoing_commands b @ [c]\<rparr>"

text \<open>
  The \<open>on_done\<close> callback of \<open>register_cluster\<close>, which the destructor of the cluster builder
  runs: it appends the finished cluster to the endpoint.
\<close>

definition finished_cluster :: "cluster_id \<Rightarrow> cluster_builder \<Rightarrow> ember_cluster" where
  "finished_cluster cluster_id b =
     \<lparr>ec_cluster_id = cluster_id, ec_attributes = cb_attributes b,
      ec_attribute_count = word_of_nat (length (cb_attributes b)),
      ec_accepted_commands = cb_incoming_commands b,
      ec_generated_commands = cb_outgoing_commands b\<rparr>"

definition cluster_done ::
  "cluster_id \<Rightarrow> cluster_builder \<Rightarrow> ember_cluster list \<Rightarrow> ember_cluster list" where
  "cluster_done cluster_id b clusters = clusters @ [finished_cluster cluster_id b]"

lemma finished_cluster_id [simp]: "ec_cluster_id (finished_cluster cl b) = cl"
  by (simp add: finished_cluster_def)

definition finalize :: "ember_cluster list \<Rightarrow> ember_endpoint" where
  "finalize clusters =
     \<lparr>ee_clusters = clusters, ee_cluster_count = word_of_nat (length clusters)\<rparr>"

lemmas builder_defs = add_attribute_def add_incoming_def add_outgoing_def cluster_done_def

section \<open>What Unify reports of a node\<close>

record unify_cluster =
  uc_cluster_name :: string
  uc_attributes :: "string list"
  uc_supported_commands :: "string list"
  uc_generated_commands :: "string list"

record unify_endpoint =
  ue_clusters :: "(string \<times> unify_cluster) list"

record unify_node =
  un_unid :: unid
  un_endpoints :: "(u8 \<times> unify_endpoint) list"
  un_online :: bool

end
