(* ===== verification/Emulator.thy ===== *)
theory Emulator
  imports Attribute_State_Cache Endpoint_Builder
begin

text \<open>
  linux/src/cluster_translator/emulations/emulator.hpp: the interface of the cluster emulators,
  the command data they hand on, and the parts of the Matter command handler and attribute
  encoder they use. \<open>DataModel::Decode\<close> reads the TLV payload of the request and belongs to the
  Matter library: its outcome is \<open>hc_decode n\<close> for the \<open>n\<close>-th decoding of the same request (the
  reader is not rewound between two decodings, so a second one need not give the same result).
\<close>

section \<open>Decoded command fields\<close>

text \<open>
  The C++ types a command field can have, as far as the overloads of \<open>to_json\<close> in
  linux/zap-generated/data_model_translator/chip_types_to_json.hpp tell them apart. An enumeration
  is given by the name its overload returns, \<open>None\<close> for a value it has no case for; a bit mask by
  its named bits. Json_Conversions makes both from the value and the generated table.
\<close>

datatype arg =
    A_Int int
  | A_Bool bool
  | A_Span string
  | A_List
  | A_Null
  | A_Enum "string option"
  | A_Bits "(string \<times> bool) list"
  | A_Struct "(string \<times> json) list"

type_synonym args = "(string \<times> arg) list"

fun to_json :: "arg \<Rightarrow> json" where
  "to_json (A_Int n) = JInt n"
| "to_json (A_Bool b) = JBool b"
| "to_json (A_Span s) = JString s"
| "to_json A_List = JString ''{}''"
| "to_json A_Null = JNull"
| "to_json (A_Enum (Some name)) = JString name"
| "to_json (A_Enum None) = JString ''{}''"
| "to_json (A_Bits bs) = JObject (map (\<lambda>(n, b). (n, JBool b)) bs)"
| "to_json (A_Struct ms) = JObject ms"

section \<open>The request\<close>

datatype session =
    No_Exchange
  | Unicast_Session
  | Group_Session group_id fabric_index

record handler_ctx =
  hc_path :: command_path
  hc_session :: session
  hc_decode :: "nat \<Rightarrow> args option"
  hc_decodes :: nat
  hc_statuses :: "(command_path \<times> im_status) list"
  hc_handled :: bool

definition add_status :: "im_status \<Rightarrow> handler_ctx \<Rightarrow> handler_ctx" where
  "add_status s ctx = ctx\<lparr>hc_statuses := hc_statuses ctx @ [(hc_path ctx, s)]\<rparr>"

definition set_command_handled :: "handler_ctx \<Rightarrow> handler_ctx" where
  "set_command_handled ctx = ctx\<lparr>hc_handled := True\<rparr>"

definition decode :: "handler_ctx \<Rightarrow> args option \<times> handler_ctx" where
  "decode ctx = (hc_decode ctx (hc_decodes ctx), ctx\<lparr>hc_decodes := Suc (hc_decodes ctx)\<rparr>)"

definition field :: "args \<Rightarrow> string \<Rightarrow> arg" where
  "field as name = (case map_of as name of Some a \<Rightarrow> a | None \<Rightarrow> A_Null)"

definition select_fields :: "args \<Rightarrow> (string \<times> string) list \<Rightarrow> (string \<times> arg) list" where
  "select_fields as kfs = map (\<lambda>(k, f). (k, field as f)) kfs"

lemma decode_frame [simp]:
  "hc_path (snd (decode ctx)) = hc_path ctx"
  "hc_session (snd (decode ctx)) = hc_session ctx"
  "hc_statuses (snd (decode ctx)) = hc_statuses ctx"
  "hc_handled (snd (decode ctx)) = hc_handled ctx"
  by (simp_all add: decode_def)

lemma status_frame [simp]:
  "hc_path (add_status s ctx) = hc_path ctx"
  "hc_session (add_status s ctx) = hc_session ctx"
  "hc_handled (add_status s ctx) = hc_handled ctx"
  "hc_statuses (add_status s ctx) = hc_statuses ctx @ [(hc_path ctx, s)]"
  "hc_path (set_command_handled ctx) = hc_path ctx"
  "hc_session (set_command_handled ctx) = hc_session ctx"
  "hc_statuses (set_command_handled ctx) = hc_statuses ctx"
  "hc_handled (set_command_handled ctx)"
  by (simp_all add: add_status_def set_command_handled_def)

section \<open>Command data and attribute replies\<close>

record emulated_cmd_payload =
  ecp_cmd :: string
  ecp_payload :: json
  ecp_completed :: bool

definition new_cmd_payload :: emulated_cmd_payload where
  "new_cmd_payload = \<lparr>ecp_cmd = [], ecp_payload = JNull, ecp_completed = True\<rparr>"

text \<open>
  What a read returns: the value handed to \<open>aEncoder.Encode\<close>, or an error code without a call of
  the encoder. \<open>Encode_Dangling_List\<close> is a list over an array that is out of scope.
\<close>

datatype read_reply =
    Encode cdata
  | Encode_Empty_List
  | Encode_Dangling_List nat
  | Read_Error chip_error

type_synonym command_outcome = "chip_error \<times> cache \<times> handler_ctx \<times> emulated_cmd_payload"

text \<open>
  A sequence of assignments \<open>payload[key] = to_json(field)\<close> inside one \<open>try\<close> block: the first one
  that throws ends the block and the earlier ones stay.
\<close>

fun put_fields :: "(string \<times> arg) list \<Rightarrow> json \<Rightarrow> json" where
  "put_fields [] j = j"
| "put_fields ((k, a) # kvs) j =
     (case jset k (to_json a) j of Inr j' \<Rightarrow> put_fields kvs j' | Inl _ \<Rightarrow> j)"

section \<open>The interface\<close>

record emulator =
  em_cluster :: cluster_id
  em_cluster_name :: string
  em_attributes :: "attribute_id list"
  em_commands :: "command_id list"
  em_emulate :: "unify_cluster \<Rightarrow> cluster_builder \<Rightarrow> chip_error \<times> cluster_builder"
  em_command :: "cache \<Rightarrow> handler_ctx \<Rightarrow> emulated_cmd_payload \<Rightarrow> command_outcome res"
  em_read :: "cache \<Rightarrow> attr_path \<Rightarrow> read_reply res"
  em_write :: "cache \<Rightarrow> attr_path \<Rightarrow> (cdata, chip_error) sum \<Rightarrow> chip_error res"

text \<open>The handler an emulator inherits when it has no commands of its own.\<close>

definition no_command :: "cache \<Rightarrow> handler_ctx \<Rightarrow> emulated_cmd_payload \<Rightarrow> command_outcome res" where
  "no_command c ctx d = Inr (CHIP_ERROR_NOT_IMPLEMENTED, c, ctx, d)"

definition default_emulator :: "cluster_id \<Rightarrow> string \<Rightarrow> emulator" where
  "default_emulator cluster name =
     \<lparr>em_cluster = cluster, em_cluster_name = name, em_attributes = [], em_commands = [],
      em_emulate = (\<lambda>_ b. (CHIP_NO_ERROR, b)),
      em_command = no_command,
      em_read = (\<lambda>_ _. Inr (Read_Error CHIP_ERROR_NOT_IMPLEMENTED)),
      em_write = (\<lambda>_ _ _. Inr CHIP_ERROR_NOT_IMPLEMENTED)\<rparr>"

text \<open>
  What every emulator promises of its command handler: it keeps the request path and session,
  changes the cache at most at attributes of the requested cluster on the requested endpoint, and
  answers the request (adds a status and marks it handled) only when it has completed the
  emulation; otherwise the request is left to the caller without a status.
\<close>

definition same_request :: "handler_ctx \<Rightarrow> handler_ctx \<Rightarrow> bool" where
  "same_request ctx ctx' \<longleftrightarrow> hc_path ctx' = hc_path ctx \<and> hc_session ctx' = hc_session ctx"

definition cache_frame :: "endpoint_id \<Rightarrow> cluster_id \<Rightarrow> cache \<Rightarrow> cache \<Rightarrow> bool" where
  "cache_frame ep cl c c' \<longleftrightarrow> (\<forall>e k a. (e, k) \<noteq> (ep, cl) \<longrightarrow> c' (e, k, a) = c (e, k, a))"

locale command_emulator =
  fixes handle :: "cache \<Rightarrow> handler_ctx \<Rightarrow> emulated_cmd_payload \<Rightarrow> command_outcome res"
  assumes keeps_request: "handle c ctx d = Inr (err, c', ctx', d') \<Longrightarrow> same_request ctx ctx'"
    and keeps_cache: "handle c ctx d = Inr (err, c', ctx', d') \<Longrightarrow>
      cache_frame (cp_endpoint (hc_path ctx)) (cp_cluster (hc_path ctx)) c c'"
    and answers_when_completed: "handle c ctx d = Inr (err, c', ctx', d') \<Longrightarrow>
      hc_statuses ctx' \<noteq> hc_statuses ctx \<Longrightarrow> ecp_completed d' \<and> hc_handled ctx'"
    and open_unless_answered: "handle c ctx d = Inr (err, c', ctx', d') \<Longrightarrow>
      \<not> ecp_completed d' \<Longrightarrow> hc_statuses ctx' = hc_statuses ctx \<and> hc_handled ctx' = hc_handled ctx"
begin

lemma other_endpoint_untouched:
  "handle c ctx d = Inr (err, c', ctx', d') \<Longrightarrow> e \<noteq> cp_endpoint (hc_path ctx) \<Longrightarrow>
   c' (e, k, a) = c (e, k, a)"
  using keeps_cache unfolding cache_frame_def by blast

lemma not_answered_twice:
  "handle c ctx d = Inr (err, c', ctx', d') \<Longrightarrow> \<not> ecp_completed d' \<Longrightarrow>
   hc_statuses ctx' = hc_statuses ctx"
  using open_unless_answered by blast

end

lemma cache_frame_refl [simp]: "cache_frame ep cl c c"
  by (simp add: cache_frame_def)

lemma cache_frame_upd [simp]: "cache_frame ep cl c (c((ep, cl, a) \<mapsto> v))"
  by (simp add: cache_frame_def)

lemma same_request_refl [simp]: "same_request ctx ctx"
  by (simp add: same_request_def)

interpretation inherited: command_emulator no_command
  by unfold_locales (auto simp: no_command_def)

end
