(* ===== verification/Emulate_Level.thy ===== *)
theory Emulate_Level
  imports Emulator
begin

text \<open>
  linux/src/cluster_translator/emulations/emulate_level.hpp: the Level cluster. Reads clamp the
  reported levels to the range Matter allows, and a \<open>Move\<close> without a rate is rejected.
\<close>

section \<open>Identifiers\<close>

abbreviation CurrentLevel_Id :: attribute_id where "CurrentLevel_Id \<equiv> 0"
abbreviation MinLevel_Id :: attribute_id where "MinLevel_Id \<equiv> 2"
abbreviation MaxLevel_Id :: attribute_id where "MaxLevel_Id \<equiv> 3"
abbreviation StartUpCurrentLevel_Id :: attribute_id where "StartUpCurrentLevel_Id \<equiv> 16384"
abbreviation Move_Id :: command_id where "Move_Id \<equiv> 1"

section \<open>Reading\<close>

definition nullable_u8 :: "u8 option \<Rightarrow> cdata" where
  "nullable_u8 r = (case r of Some w \<Rightarrow> Non_Null (Scalar (VUInt8 w)) | None \<Rightarrow> Null)"

definition level_read :: "cache \<Rightarrow> attr_path \<Rightarrow> read_reply res" where
  "level_read c p =
     (let a = snd (snd p) in
      if a = StartUpCurrentLevel_Id then
        rbind (get_u8 (Plain TUInt8) c p) (\<lambda>r. Inr (Encode (nullable_u8
          (case r of Some v \<Rightarrow> if v < 255 then Some v else None | None \<Rightarrow> None))))
      else if a = MinLevel_Id then
        rbind (get_u8 (Plain TUInt8) c p) (\<lambda>r. Inr
          (case r of Some v \<Rightarrow> Encode (Scalar (VUInt8 (if v < 1 then 1 else v)))
           | None \<Rightarrow> Read_Error CHIP_ERROR_INVALID_ARGUMENT))
      else if a = MaxLevel_Id then
        rbind (get_u8 (Plain TUInt8) c p) (\<lambda>r. Inr
          (case r of Some v \<Rightarrow> Encode (Scalar (VUInt8 (if v > 254 then 254 else v)))
           | None \<Rightarrow> Read_Error CHIP_ERROR_INVALID_ARGUMENT))
      else if a = CurrentLevel_Id then
        rbind (get_u8 (Plain TUInt8) c p) (\<lambda>r. Inr (Encode (nullable_u8
          (case r of Some v \<Rightarrow> if v < 1 then Some 1 else if v < 255 then Some v else None
           | None \<Rightarrow> None))))
      else Inr (Read_Error CHIP_ERROR_INVALID_ARGUMENT))"

section \<open>The command\<close>

definition no_rate :: "args \<Rightarrow> bool" where
  "no_rate as \<longleftrightarrow> field as ''rate'' = A_Null \<or> field as ''rate'' = A_Int 0"

definition level_command :: "cache \<Rightarrow> handler_ctx \<Rightarrow> emulated_cmd_payload \<Rightarrow> command_outcome res" where
  "level_command c ctx d =
     (let d = d\<lparr>ecp_completed := False\<rparr> in
      if cp_command (hc_path ctx) = Move_Id then
        (case decode ctx of
           (None, ctx) \<Rightarrow> Inr (CHIP_NO_ERROR, c, ctx, d)
         | (Some as, ctx) \<Rightarrow>
             if no_rate as then
               Inr (CHIP_ERROR_BAD_REQUEST, c, set_command_handled (add_status InvalidCommand ctx),
                    d\<lparr>ecp_completed := True\<rparr>)
             else
               Inr (CHIP_NO_ERROR, c, ctx, d\<lparr>ecp_cmd := ''Move'', ecp_payload := put_fields
                 [(''MoveMode'', field as ''moveMode''), (''Rate'', field as ''rate''),
                  (''OptionsMask'', field as ''optionsMask''),
                  (''OptionsOverride'', field as ''optionsOverride'')] (ecp_payload d)\<rparr>))
      else Inr (CHIP_ERROR_NOT_IMPLEMENTED, c, ctx, d))"

definition emulate_level :: emulator where
  "emulate_level = (default_emulator LevelControl_Id ''Level'')
     \<lparr>em_attributes := [MinLevel_Id, CurrentLevel_Id, MaxLevel_Id], em_commands := [Move_Id],
      em_read := level_read, em_command := level_command\<rparr>"

interpretation level: command_emulator level_command
  by unfold_locales
    (auto simp: level_command_def same_request_def decode_def Let_def split: if_splits option.splits)

section \<open>Properties\<close>

text \<open>Whatever level Unify reported, a read of \<open>CurrentLevel\<close>, \<open>MinLevel\<close> or \<open>MaxLevel\<close>
  never hands the encoder a level outside the Matter range: \<open>CurrentLevel\<close> is null or between 1 and
  254, \<open>MinLevel\<close> is at least 1, \<open>MaxLevel\<close> is at most 254, and levels in range are passed
  unchanged.\<close>

theorem level_read_in_range:
  "(c (e, LevelControl_Id, CurrentLevel_Id) = Some (VUInt8 v) \<longrightarrow>
      (\<exists>r. level_read c (e, LevelControl_Id, CurrentLevel_Id) = Inr (Encode (nullable_u8 r)) \<and>
         (case r of None \<Rightarrow> v = 255 | Some w \<Rightarrow> 1 \<le> w \<and> w \<le> 254 \<and> (1 \<le> v \<longrightarrow> w = v)))) \<and>
   (c (e, LevelControl_Id, MinLevel_Id) = Some (VUInt8 v) \<longrightarrow>
      level_read c (e, LevelControl_Id, MinLevel_Id) = Inr (Encode (Scalar (VUInt8 (max 1 v))))) \<and>
   (c (e, LevelControl_Id, MaxLevel_Id) = Some (VUInt8 v) \<longrightarrow>
      level_read c (e, LevelControl_Id, MaxLevel_Id) = Inr (Encode (Scalar (VUInt8 (min 254 v)))))"
proof -
  have ge1: "1 \<le> v \<longleftrightarrow> \<not> v < 1" by (simp only: not_less)
  have v255: "v < 255 \<or> v = 255" by (simp add: word_less_nat_alt word_unat_eq_iff) (use unat8_less [of v] in linarith)
  have le254: "v < 255 \<Longrightarrow> v \<le> 254" by (simp add: word_less_nat_alt word_le_nat_alt)
  show ?thesis
    using ge1 v255 le254 by (auto simp: level_read_def get_u8_plain Let_def max_def min_def
        intro: exI [of _ "if v < 1 then Some 1 else if v < 255 then Some v else None"])
qed

lemma level_read_in_range_witness:
  "level_read [(5, LevelControl_Id, CurrentLevel_Id) \<mapsto> VUInt8 0] (5, LevelControl_Id, CurrentLevel_Id) =
     Inr (Encode (nullable_u8 (Some 1))) \<and>
   level_read [(5, LevelControl_Id, MaxLevel_Id) \<mapsto> VUInt8 255] (5, LevelControl_Id, MaxLevel_Id) =
     Inr (Encode (Scalar (VUInt8 254)))"
  using level_read_in_range [of "[(5, LevelControl_Id, CurrentLevel_Id) \<mapsto> VUInt8 0]" 5 0]
    level_read_in_range [of "[(5, LevelControl_Id, MaxLevel_Id) \<mapsto> VUInt8 255]" 5 255]
  by (simp add: level_read_def get_u8_plain min_def)

end
