(* ===== verification/Emulate_Simple.thy ===== *)
theory Emulate_Simple
  imports Emulator
begin

text \<open>
  linux/src/cluster_translator/emulations/emulate_identify.hpp, emulate_groups.hpp and
  emulate_doorlock.hpp: emulators that mostly extend the description of the endpoint.
\<close>

section \<open>Identify\<close>

abbreviation IdentifyType_Id :: attribute_id where "IdentifyType_Id \<equiv> 1"

definition external_attribute ::
  "u16 option \<Rightarrow> attribute_id \<Rightarrow> u16 \<Rightarrow> ember_type \<Rightarrow> ember_attribute" where
  "external_attribute d a n t =
     \<lparr>ea_default = d, ea_id = a, ea_size = n, ea_type = t, ea_mask = [EXTERNAL_STORAGE]\<rparr>"

definition identify_emulate ::
  "unify_cluster \<Rightarrow> cluster_builder \<Rightarrow> chip_error \<times> cluster_builder" where
  "identify_emulate uc b =
     (CHIP_NO_ERROR, add_attribute (external_attribute None IdentifyType_Id 1 ZCL_ENUM8) b)"

definition identify_read :: "cache \<Rightarrow> attr_path \<Rightarrow> read_reply res" where
  "identify_read c p =
     (if snd (snd p) = IdentifyType_Id then Inr (Encode (Scalar (VUInt8 0)))
      else Inr (Read_Error CHIP_ERROR_INVALID_ARGUMENT))"

definition emulate_identify :: emulator where
  "emulate_identify = (default_emulator Identify_Id ''Identify'')
     \<lparr>em_attributes := [IdentifyType_Id], em_emulate := identify_emulate,
      em_read := identify_read\<rparr>"

section \<open>Groups\<close>

abbreviation NameSupport_Id :: attribute_id where "NameSupport_Id \<equiv> 0"

text \<open>
  Requests \<open>AddGroup\<close>, \<open>ViewGroup\<close>, \<open>GetGroupMembership\<close>, \<open>RemoveGroup\<close>,
  \<open>RemoveAllGroups\<close>, \<open>AddGroupIfIdentifying\<close>; responses \<open>AddGroupResponse\<close>,
  \<open>ViewGroupResponse\<close>, \<open>GetGroupMembershipResponse\<close>, \<open>RemoveGroupResponse\<close>.
\<close>

definition groups_emulate ::
  "unify_cluster \<Rightarrow> cluster_builder \<Rightarrow> chip_error \<times> cluster_builder" where
  "groups_emulate uc b =
     (CHIP_NO_ERROR,
      \<lparr>cb_attributes =
         [external_attribute (Some 128) NameSupport_Id 1 ZCL_BITMAP8,
          external_attribute (Some 4) ClusterRevision_Id 2 ZCL_INT16U,
          external_attribute (Some 1) FeatureMap_Id 2 ZCL_INT16U],
       cb_incoming_commands = [0, 1, 2, 3, 4, 5],
       cb_outgoing_commands = [0, 1, 2, 3]\<rparr>)"

definition emulate_groups :: emulator where
  "emulate_groups = (default_emulator Groups_Id ''Groups'')\<lparr>em_emulate := groups_emulate\<rparr>"

section \<open>Door lock\<close>

abbreviation OperatingMode_Id :: attribute_id where "OperatingMode_Id \<equiv> 37"
abbreviation SupportedOperatingModes_Id :: attribute_id where "SupportedOperatingModes_Id \<equiv> 38"
abbreviation LockDoor_Id :: command_id where "LockDoor_Id \<equiv> 0"
abbreviation UnlockDoor_Id :: command_id where "UnlockDoor_Id \<equiv> 1"

definition doorlock_emulate ::
  "unify_cluster \<Rightarrow> cluster_builder \<Rightarrow> chip_error \<times> cluster_builder" where
  "doorlock_emulate uc b =
     (CHIP_NO_ERROR,
      add_incoming UnlockDoor_Id (add_incoming LockDoor_Id
        (add_attribute (external_attribute None SupportedOperatingModes_Id 2 ZCL_BITMAP16)
          (add_attribute (external_attribute None OperatingMode_Id 1 ZCL_ENUM8) b))))"

definition doorlock_read :: "cache \<Rightarrow> attr_path \<Rightarrow> read_reply res" where
  "doorlock_read c p =
     (let a = snd (snd p) in
      if a = OperatingMode_Id then
        rbind (get_u8 (Enum TUInt8) c p)
          (\<lambda>r. Inr (Encode (Scalar (VUInt8 (case r of Some v \<Rightarrow> v | None \<Rightarrow> 0)))))
      else if a = SupportedOperatingModes_Id then
        rbind (get_u16 (Bitmask TUInt16) c p)
          (\<lambda>r. Inr (Encode (Scalar (VUInt16 (case r of Some v \<Rightarrow> v | None \<Rightarrow> 0xFFF6)))))
      else Inr (Read_Error CHIP_ERROR_INVALID_ARGUMENT))"

text \<open>
  The body the two commands share up to the command name. The \<open>else\<close> branch is outside the
  \<open>try\<close> block.
\<close>

definition doorlock_pin ::
  "string \<Rightarrow> cache \<Rightarrow> handler_ctx \<Rightarrow> emulated_cmd_payload \<Rightarrow> command_outcome res" where
  "doorlock_pin cmd c ctx d =
     (let d = d\<lparr>ecp_cmd := cmd\<rparr> in
      case decode ctx of
        (None, ctx) \<Rightarrow> Inr (CHIP_NO_ERROR, c, ctx, d)
      | (Some as, ctx) \<Rightarrow>
          (case map_of as ''PINCode'' of
             Some pin \<Rightarrow>
               Inr (CHIP_NO_ERROR, c, ctx,
                    d\<lparr>ecp_payload := put_fields [(''PINOrRFIDCode'', pin)] (ecp_payload d)\<rparr>)
           | None \<Rightarrow>
               rbind (jset ''PINOrRFIDCode'' (JString '''') (ecp_payload d))
                 (\<lambda>j. Inr (CHIP_NO_ERROR, c, ctx, d\<lparr>ecp_payload := j\<rparr>))))"

definition doorlock_command ::
  "cache \<Rightarrow> handler_ctx \<Rightarrow> emulated_cmd_payload \<Rightarrow> command_outcome res" where
  "doorlock_command c ctx d =
     (let d = d\<lparr>ecp_completed := False\<rparr> in
      if cp_command (hc_path ctx) = LockDoor_Id then doorlock_pin ''LockDoor'' c ctx d
      else if cp_command (hc_path ctx) = UnlockDoor_Id then doorlock_pin ''UnlockDoor'' c ctx d
      else Inr (CHIP_ERROR_NOT_IMPLEMENTED, c, ctx, d))"

definition emulate_doorlock :: emulator where
  "emulate_doorlock = (default_emulator DoorLock_Id ''DoorLock'')
     \<lparr>em_attributes := [OperatingMode_Id, SupportedOperatingModes_Id],
      em_commands := [LockDoor_Id, UnlockDoor_Id], em_emulate := doorlock_emulate,
      em_read := doorlock_read, em_command := doorlock_command\<rparr>"

lemma doorlock_pin_frame:
  "doorlock_pin cmd c ctx d = Inr (err, c', ctx', d') \<Longrightarrow>
     c' = c \<and> ecp_completed d' = ecp_completed d \<and> same_request ctx ctx' \<and>
     hc_statuses ctx' = hc_statuses ctx \<and> hc_handled ctx' = hc_handled ctx"
  by (auto simp: doorlock_pin_def decode_def same_request_def rbind_eq_Inr Let_def
      split: option.splits)

interpretation doorlock: command_emulator doorlock_command
  by unfold_locales
    (auto simp: doorlock_command_def Let_def dest: doorlock_pin_frame split: if_splits)

end
