(* ===== verification/Emulate_Thermostat.thy ===== *)
theory Emulate_Thermostat
  imports Emulator
begin

text \<open>
  linux/src/cluster_translator/emulations/emulate_thermostat.hpp. Setpoints and limits are
  \<open>int16_t\<close> values in hundredths of a degree, kept as 16-bit words and read with \<open>sint\<close>; a raise or
  lower amount is an \<open>int8_t\<close> in tenths of a degree. Arithmetic on them is done on \<open>int\<close> (the C++
  integer promotion) and narrowed where the code narrows it. Division is C++ division, which
  truncates towards zero.
\<close>

section \<open>Identifiers and limits\<close>

abbreviation OccupiedCoolingSetpoint_Id :: attribute_id where "OccupiedCoolingSetpoint_Id \<equiv> 17"
abbreviation OccupiedHeatingSetpoint_Id :: attribute_id where "OccupiedHeatingSetpoint_Id \<equiv> 18"
abbreviation MinHeatSetpointLimit_Id :: attribute_id where "MinHeatSetpointLimit_Id \<equiv> 21"
abbreviation MaxHeatSetpointLimit_Id :: attribute_id where "MaxHeatSetpointLimit_Id \<equiv> 22"
abbreviation MinCoolSetpointLimit_Id :: attribute_id where "MinCoolSetpointLimit_Id \<equiv> 23"
abbreviation MaxCoolSetpointLimit_Id :: attribute_id where "MaxCoolSetpointLimit_Id \<equiv> 24"
abbreviation SetpointRaiseLower_Id :: command_id where "SetpointRaiseLower_Id \<equiv> 0"

definition MIN_COOL_SETPOINT_LIMIT :: u16 where "MIN_COOL_SETPOINT_LIMIT = 1600"
definition MAX_COOL_SETPOINT_LIMIT :: u16 where "MAX_COOL_SETPOINT_LIMIT = 3200"
definition MIN_HEAT_SETPOINT_LIMIT :: u16 where "MIN_HEAT_SETPOINT_LIMIT = 700"
definition MAX_HEAT_SETPOINT_LIMIT :: u16 where "MAX_HEAT_SETPOINT_LIMIT = 3000"

lemmas setpoint_limits = MIN_COOL_SETPOINT_LIMIT_def MAX_COOL_SETPOINT_LIMIT_def
  MIN_HEAT_SETPOINT_LIMIT_def MAX_HEAT_SETPOINT_LIMIT_def

section \<open>Reading and writing setpoints\<close>

definition thermostat_read :: "cache \<Rightarrow> attr_path \<Rightarrow> read_reply res" where
  "thermostat_read c p =
     (if snd (snd p) = OccupiedCoolingSetpoint_Id \<or> snd (snd p) = OccupiedHeatingSetpoint_Id then
        rbind (get_i16 c p) (\<lambda>r. Inr (case r of
            None \<Rightarrow> Read_Error CHIP_ERROR_NOT_IMPLEMENTED
          | Some v \<Rightarrow> Encode (Scalar (VInt16 v))))
      else Inr (Read_Error CHIP_ERROR_NOT_IMPLEMENTED))"

text \<open>A limit attribute, or the default where Unify has not reported it.\<close>

definition limit_of :: "cache \<Rightarrow> attr_path \<Rightarrow> u16 \<Rightarrow> u16 res" where
  "limit_of c p dflt = rbind (get_i16 c p) (\<lambda>r. Inr (case r of Some v \<Rightarrow> v | None \<Rightarrow> dflt))"

text \<open>
  \<open>write_attribute\<close>. The decoder is the outcome of \<open>aDecoder.Decode\<close>: the decoded value or an
  error code; the code decodes at the type \<open>int16_t\<close>, so the last case cannot occur. A value in range is not stored here: the caller goes on when it gets
  \<open>CHIP_ERROR_IN_PROGRESS\<close>.
\<close>

definition write_in_limits ::
  "cache \<Rightarrow> attr_path \<Rightarrow> attr_path \<Rightarrow> u16 \<Rightarrow> u16 \<Rightarrow> (cdata, chip_error) sum \<Rightarrow> chip_error res" where
  "write_in_limits c lo hi lo_default hi_default decoded =
     (case decoded of
        Inr err \<Rightarrow> Inr err
      | Inl (Scalar (VInt16 v)) \<Rightarrow>
          rbind (limit_of c lo lo_default) (\<lambda>l.
          rbind (limit_of c hi hi_default) (\<lambda>h.
          Inr (if sint v < sint l \<or> sint v > sint h then CHIP_IM_ConstraintError
               else CHIP_ERROR_IN_PROGRESS)))
      | Inl _ \<Rightarrow> Inr CHIP_ERROR_INVALID_ARGUMENT)"

definition thermostat_write ::
  "cache \<Rightarrow> attr_path \<Rightarrow> (cdata, chip_error) sum \<Rightarrow> chip_error res" where
  "thermostat_write c p decoded =
     (case p of (e, cl, a) \<Rightarrow>
        if a = OccupiedCoolingSetpoint_Id then
          write_in_limits c (e, cl, MinCoolSetpointLimit_Id) (e, cl, MaxCoolSetpointLimit_Id)
            MIN_COOL_SETPOINT_LIMIT MAX_COOL_SETPOINT_LIMIT decoded
        else if a = OccupiedHeatingSetpoint_Id then
          write_in_limits c (e, cl, MinHeatSetpointLimit_Id) (e, cl, MaxHeatSetpointLimit_Id)
            MIN_HEAT_SETPOINT_LIMIT MAX_HEAT_SETPOINT_LIMIT decoded
        else Inr CHIP_ERROR_NOT_IMPLEMENTED)"

section \<open>Raising and lowering\<close>

datatype raise_lower_mode = kHeat | kCool | kBoth | kUnknownMode

text \<open>C++ integer division on \<open>int\<close>.\<close>

definition cdiv :: "int \<Rightarrow> int \<Rightarrow> int" where
  "cdiv a b = sgn a * sgn b * (abs a div abs b)"

text \<open>
  The body of \<open>UpdateHeatingSetpoint\<close> and \<open>UpdateCoolingSetpoint\<close>: the error code and the
  clamped amount. \<open>static_cast<uint8_t>\<close> followed by the assignment to an \<open>int8_t\<close> keeps the low
  eight bits. The second test reads the setpoint computed from the original amount.
\<close>

definition clamp_amount :: "u16 \<Rightarrow> u16 \<Rightarrow> u16 \<Rightarrow> u8 \<Rightarrow> u8" where
  "clamp_amount lo hi setpoint amount =
     (let updated = (word_of_int (sint setpoint + sint amount * 10) :: u16);
          amount1 = (if sint updated < sint lo
                     then word_of_int (cdiv (sint lo - sint setpoint) 10) else amount)
      in if sint updated > sint hi
         then word_of_int (cdiv (sint hi - sint setpoint) 10) else amount1)"

definition update_setpoint ::
  "cache \<Rightarrow> attr_path \<Rightarrow> attr_path \<Rightarrow> attr_path \<Rightarrow> u16 \<Rightarrow> u16 \<Rightarrow> raise_lower_mode \<Rightarrow> u8 \<Rightarrow>
     (chip_error \<times> u8) res" where
  "update_setpoint c sp lo hi lo_default hi_default mode amount =
     rbind (get_i16 c sp) (\<lambda>r. case r of
       None \<Rightarrow> Inr (if mode = kBoth then CHIP_NO_ERROR else CHIP_ERROR_INVALID_ARGUMENT, amount)
     | Some setpoint \<Rightarrow>
         rbind (limit_of c lo lo_default) (\<lambda>l.
         rbind (limit_of c hi hi_default) (\<lambda>h.
         Inr (CHIP_NO_ERROR, clamp_amount l h setpoint amount))))"

definition update_heating_setpoint ::
  "cache \<Rightarrow> handler_ctx \<Rightarrow> raise_lower_mode \<Rightarrow> u8 \<Rightarrow> (chip_error \<times> u8) res" where
  "update_heating_setpoint c ctx mode amount =
     (let e = cp_endpoint (hc_path ctx); cl = cp_cluster (hc_path ctx) in
      update_setpoint c (e, cl, OccupiedHeatingSetpoint_Id) (e, cl, MinHeatSetpointLimit_Id)
        (e, cl, MaxHeatSetpointLimit_Id) MIN_HEAT_SETPOINT_LIMIT MAX_HEAT_SETPOINT_LIMIT mode amount)"

definition update_cooling_setpoint ::
  "cache \<Rightarrow> handler_ctx \<Rightarrow> raise_lower_mode \<Rightarrow> u8 \<Rightarrow> (chip_error \<times> u8) res" where
  "update_cooling_setpoint c ctx mode amount =
     (let e = cp_endpoint (hc_path ctx); cl = cp_cluster (hc_path ctx) in
      update_setpoint c (e, cl, OccupiedCoolingSetpoint_Id) (e, cl, MinCoolSetpointLimit_Id)
        (e, cl, MaxCoolSetpointLimit_Id) MIN_COOL_SETPOINT_LIMIT MAX_COOL_SETPOINT_LIMIT mode amount)"

text \<open>The decoded \<open>mode\<close> and \<open>amount\<close> fields of the command and their JSON form.\<close>

definition mode_of :: "args \<Rightarrow> raise_lower_mode" where
  "mode_of as = (case field as ''mode'' of
       A_Enum (Some m) \<Rightarrow> (if m = ''Heat'' then kHeat else if m = ''Cool'' then kCool
                           else if m = ''Both'' then kBoth else kUnknownMode)
     | _ \<Rightarrow> kUnknownMode)"

definition amount_of :: "args \<Rightarrow> u8" where
  "amount_of as = (case field as ''amount'' of A_Int n \<Rightarrow> word_of_int n | _ \<Rightarrow> 0)"

definition thermostat_command ::
  "cache \<Rightarrow> handler_ctx \<Rightarrow> emulated_cmd_payload \<Rightarrow> command_outcome res" where
  "thermostat_command c ctx d =
     (let d = d\<lparr>ecp_completed := False\<rparr> in
      if cp_command (hc_path ctx) = SetpointRaiseLower_Id then
        (let d = d\<lparr>ecp_cmd := ''SetpointRaiseLower''\<rparr> in
         case decode ctx of
           (None, ctx) \<Rightarrow> Inr (CHIP_ERROR_NOT_IMPLEMENTED, c, ctx, d)
         | (Some as, ctx) \<Rightarrow>
             (let mode = mode_of as; amount = amount_of as in
              rbind (if mode = kHeat \<or> mode = kBoth then update_heating_setpoint c ctx mode amount
                     else if mode = kCool \<or> mode = kBoth then update_cooling_setpoint c ctx mode amount
                     else Inr (CHIP_ERROR_INVALID_ARGUMENT, amount)) (\<lambda>(err, amount).
              if err \<noteq> CHIP_NO_ERROR then Inr (err, c, ctx, d)
              else Inr (CHIP_ERROR_NOT_IMPLEMENTED, c, ctx,
                     d\<lparr>ecp_payload := put_fields [(''Mode'', field as ''mode''),
                         (''Amount'', A_Int (sint amount))] (ecp_payload d)\<rparr>))))
      else Inr (CHIP_ERROR_NOT_IMPLEMENTED, c, ctx, d))"

definition emulate_thermostat :: emulator where
  "emulate_thermostat = (default_emulator Thermostat_Id ''Thermostat'')
     \<lparr>em_attributes := [OccupiedCoolingSetpoint_Id, OccupiedHeatingSetpoint_Id],
      em_commands := [SetpointRaiseLower_Id], em_read := thermostat_read,
      em_write := thermostat_write, em_command := thermostat_command\<rparr>"

interpretation thermostat: command_emulator thermostat_command
  by unfold_locales
    (auto simp: thermostat_command_def same_request_def decode_def Let_def rbind_eq_Inr
      split: if_splits option.splits)

section \<open>Properties\<close>

definition limit_or :: "cache \<Rightarrow> attr_path \<Rightarrow> u16 \<Rightarrow> u16" where
  "limit_or c p dflt = (case c p of Some (VInt16 w) \<Rightarrow> w | _ \<Rightarrow> dflt)"

definition int16_or_absent :: "cache \<Rightarrow> attr_path \<Rightarrow> bool" where
  "int16_or_absent c p \<longleftrightarrow> (case c p of None \<Rightarrow> True | Some v \<Rightarrow> value_type v = TInt16)"

lemma limit_of_eq: "int16_or_absent c p \<Longrightarrow> limit_of c p dflt = Inr (limit_or c p dflt)"
  by (auto simp: limit_of_def limit_or_def int16_or_absent_def get_i16_cases
      split: option.splits value_t.splits)

text \<open>C32: A write of a heating setpoint is let through exactly when the value lies between the
  reported limits, or the defaults 7 and 30 degrees where none are reported; any other value gets
  a constraint error, and a value that cannot be decoded keeps the error of the decoder. The same
  holds of the cooling setpoint with 16 and 32 degrees.\<close>

theorem thermostat_write_checks_limits:
  assumes "\<forall>a \<in> {MinHeatSetpointLimit_Id, MaxHeatSetpointLimit_Id, MinCoolSetpointLimit_Id,
      MaxCoolSetpointLimit_Id}. int16_or_absent c (e, Thermostat_Id, a)"
  shows "thermostat_write c (e, Thermostat_Id, OccupiedHeatingSetpoint_Id) (Inl (Scalar (VInt16 v))) =
      Inr (if sint v \<in> {sint (limit_or c (e, Thermostat_Id, MinHeatSetpointLimit_Id) 700) ..
                        sint (limit_or c (e, Thermostat_Id, MaxHeatSetpointLimit_Id) 3000)}
           then CHIP_ERROR_IN_PROGRESS else CHIP_IM_ConstraintError) \<and>
    thermostat_write c (e, Thermostat_Id, OccupiedCoolingSetpoint_Id) (Inl (Scalar (VInt16 v))) =
      Inr (if sint v \<in> {sint (limit_or c (e, Thermostat_Id, MinCoolSetpointLimit_Id) 1600) ..
                        sint (limit_or c (e, Thermostat_Id, MaxCoolSetpointLimit_Id) 3200)}
           then CHIP_ERROR_IN_PROGRESS else CHIP_IM_ConstraintError) \<and>
    thermostat_write c (e, Thermostat_Id, OccupiedHeatingSetpoint_Id) (Inr err) = Inr err"
  using assms
  by (auto simp: thermostat_write_def write_in_limits_def limit_of_eq setpoint_limits not_less)

lemma thermostat_write_checks_limits_witness:
  "thermostat_write [(2, Thermostat_Id, MaxHeatSetpointLimit_Id) \<mapsto> VInt16 2500]
     (2, Thermostat_Id, OccupiedHeatingSetpoint_Id) (Inl (Scalar (VInt16 2600))) =
   Inr CHIP_IM_ConstraintError"
  using thermostat_write_checks_limits
    [of "[(2, Thermostat_Id, MaxHeatSetpointLimit_Id) \<mapsto> VInt16 2500]" 2 2600]
  by (simp add: int16_or_absent_def limit_or_def)

lemma cdiv_bounds:
  "0 \<le> a \<Longrightarrow> 0 \<le> cdiv a 10 \<and> 10 * cdiv a 10 \<le> a"
  "a \<le> 0 \<Longrightarrow> cdiv a 10 \<le> 0 \<and> a \<le> 10 * cdiv a 10"
  by (auto simp: cdiv_def sgn_if)

lemma sint_word8: "- 128 \<le> n \<Longrightarrow> n \<le> 127 \<Longrightarrow> sint (word_of_int n :: u8) = n"
  by (simp add: int_word_sint)

lemma sint_word16: "- 32768 \<le> n \<Longrightarrow> n \<le> 32767 \<Longrightarrow> sint (word_of_int n :: u16) = n"
  by (simp add: int_word_sint)

lemma sint8_bounds: "- 128 \<le> sint (w :: u8) \<and> sint w \<le> 127"
  using sint_ge [of w] sint_lt [of w] by simp

lemma clamp_amount_cases:
  fixes lo hi sp :: u16 and amount :: u8
  assumes no_wrap: "- 32768 \<le> sint sp + 10 * sint amount" "sint sp + 10 * sint amount \<le> 32767"
    and ordered: "sint lo \<le> sint hi"
  shows "sint sp + 10 * sint amount < sint lo \<Longrightarrow>
      clamp_amount lo hi sp amount = word_of_int (cdiv (sint lo - sint sp) 10)"
    and "sint sp + 10 * sint amount > sint hi \<Longrightarrow>
      clamp_amount lo hi sp amount = word_of_int (cdiv (sint hi - sint sp) 10)"
    and "sint lo \<le> sint sp + 10 * sint amount \<Longrightarrow> sint sp + 10 * sint amount \<le> sint hi \<Longrightarrow>
      clamp_amount lo hi sp amount = amount"
proof -
  have "sint (word_of_int (sint sp + sint amount * 10) :: u16) = sint sp + 10 * sint amount"
    using no_wrap by (subst sint_word16) simp_all
  note eq = clamp_amount_def [of lo hi sp amount, unfolded Let_def this]
  show "sint sp + 10 * sint amount < sint lo \<Longrightarrow>
      clamp_amount lo hi sp amount = word_of_int (cdiv (sint lo - sint sp) 10)"
    and "sint sp + 10 * sint amount > sint hi \<Longrightarrow>
      clamp_amount lo hi sp amount = word_of_int (cdiv (sint hi - sint sp) 10)"
    and "sint lo \<le> sint sp + 10 * sint amount \<Longrightarrow> sint sp + 10 * sint amount \<le> sint hi \<Longrightarrow>
      clamp_amount lo hi sp amount = amount"
    unfolding eq using ordered by simp_all
qed

text \<open>When the current setpoint lies between its limits and the step does not leave the range
  of \<open>int16_t\<close>, the clamped amount moves the setpoint to a value between the limits, never reverses
  or enlarges the step, and leaves a step that stays inside the limits as it was.\<close>

theorem clamp_amount_keeps_limits:
  assumes "sint lo \<le> sint sp" and "sint sp \<le> sint hi"
    and "- 32768 \<le> sint sp + 10 * sint amount" and "sint sp + 10 * sint amount \<le> 32767"
  defines "amount' \<equiv> clamp_amount lo hi sp amount"
  shows "sint lo \<le> sint sp + 10 * sint amount' \<and> sint sp + 10 * sint amount' \<le> sint hi \<and>
    (if 0 \<le> sint amount then 0 \<le> sint amount' \<and> sint amount' \<le> sint amount
     else sint amount \<le> sint amount' \<and> sint amount' \<le> 0) \<and>
    (sint sp + 10 * sint amount \<in> {sint lo .. sint hi} \<longrightarrow> amount' = amount)"
proof -
  have ordered: "sint lo \<le> sint hi" using assms(1,2) by simp
  note cases = clamp_amount_cases [OF assms(3,4) ordered]
  consider (low) "sint sp + 10 * sint amount < sint lo" | (high) "sint sp + 10 * sint amount > sint hi"
    | (inside) "sint lo \<le> sint sp + 10 * sint amount" "sint sp + 10 * sint amount \<le> sint hi"
    by linarith
  then show ?thesis
  proof cases
    case low
    let ?q = "cdiv (sint lo - sint sp) 10"
    have q: "?q \<le> 0" "sint lo - sint sp \<le> 10 * ?q"
      using cdiv_bounds(2) [of "sint lo - sint sp"] assms(1) by simp_all
    have "sint amount < ?q" using low q(2) by simp
    moreover have "sint amount' = ?q"
      unfolding amount'_def using cases(1) [OF low] sint_word8 [of ?q] sint8_bounds [of amount]
        \<open>sint amount < ?q\<close> q(1) by simp
    ultimately show ?thesis using low q assms(1,2) by auto
  next
    case high
    let ?q = "cdiv (sint hi - sint sp) 10"
    have q: "0 \<le> ?q" "10 * ?q \<le> sint hi - sint sp"
      using cdiv_bounds(1) [of "sint hi - sint sp"] assms(2) by simp_all
    have "?q < sint amount" using high q(2) by simp
    moreover have "sint amount' = ?q"
      unfolding amount'_def using cases(2) [OF high] sint_word8 [of ?q] sint8_bounds [of amount]
        \<open>?q < sint amount\<close> q(1) by simp
    ultimately show ?thesis using high q assms(1,2) by auto
  next
    case inside
    then show ?thesis unfolding amount'_def using cases(3) by auto
  qed
qed

lemma clamp_amount_keeps_limits_witness:
  "sint (clamp_amount 700 3000 2900 50) = 10"
proof -
  have "sint (50 :: u8) = 50" "sint (2900 :: u16) = 2900" "sint (700 :: u16) = 700"
      "sint (3000 :: u16) = 3000"
    by simp_all
  then show ?thesis
    using clamp_amount_keeps_limits [of 700 2900 3000 50]
    by (simp add: clamp_amount_def cdiv_def)
qed

text \<open>The raise/lower command never reports success to its caller. In the mode for both
  setpoints only the heating setpoint bounds the amount: the outcome does not depend on the cooling
  setpoint and its limits.\<close>

theorem thermostat_both_ignores_cooling:
  assumes "hc_path ctx = \<lparr>cp_endpoint = e, cp_cluster = Thermostat_Id, cp_command = SetpointRaiseLower_Id\<rparr>"
    and "decode ctx = (Some as, ctx')" and "mode_of as = kBoth"
  shows "rbind (thermostat_command c ctx d) (\<lambda>(err, _, ctx'', d'). Inr (err, ctx'', d')) =
    rbind (thermostat_command
        (\<lambda>p. if p \<in> {(e, Thermostat_Id, OccupiedCoolingSetpoint_Id), (e, Thermostat_Id, MinCoolSetpointLimit_Id),
                       (e, Thermostat_Id, MaxCoolSetpointLimit_Id)} then v p else c p) ctx d)
      (\<lambda>(err, _, ctx'', d'). Inr (err, ctx'', d')) \<and>
    (\<forall>err c' ctx'' d'. thermostat_command c ctx d = Inr (err, c', ctx'', d') \<longrightarrow> err \<noteq> CHIP_NO_ERROR)"
proof -
  have path: "hc_path ctx' = hc_path ctx" using decode_frame(1) [of ctx] assms(2) by simp
  let ?c = "\<lambda>p. if p \<in> {(e, Thermostat_Id, OccupiedCoolingSetpoint_Id), (e, Thermostat_Id, MinCoolSetpointLimit_Id),
      (e, Thermostat_Id, MaxCoolSetpointLimit_Id)} then v p else c p"
  have "update_heating_setpoint ?c ctx' kBoth n = update_heating_setpoint c ctx' kBoth n" for n
    using path assms(1)
    by (simp add: update_heating_setpoint_def update_setpoint_def limit_of_def get_i16_cases)
  then show ?thesis
    using assms by (cases "update_heating_setpoint c ctx' kBoth (amount_of as)")
      (auto simp: thermostat_command_def Let_def split: if_splits)
qed

lemma thermostat_both_ignores_cooling_witness:
  "let ctx = \<lparr>hc_path = \<lparr>cp_endpoint = 2, cp_cluster = Thermostat_Id, cp_command = SetpointRaiseLower_Id\<rparr>,
         hc_session = Unicast_Session,
         hc_decode = (\<lambda>_. Some [(''mode'', A_Enum (Some ''Both'')), (''amount'', A_Int 50)]),
         hc_decodes = 0, hc_statuses = [], hc_handled = False\<rparr>
   in rbind (thermostat_command Map.empty ctx new_cmd_payload) (\<lambda>(err, _, ctx', d'). Inr (err, ctx', d')) =
      rbind (thermostat_command
          (\<lambda>p. if p \<in> {(2, Thermostat_Id, OccupiedCoolingSetpoint_Id), (2, Thermostat_Id, MinCoolSetpointLimit_Id),
                         (2, Thermostat_Id, MaxCoolSetpointLimit_Id)} then Some (VInt16 3100) else None) ctx new_cmd_payload)
        (\<lambda>(err, _, ctx', d'). Inr (err, ctx', d'))"
proof -
  let ?ctx = "\<lparr>hc_path = \<lparr>cp_endpoint = 2, cp_cluster = Thermostat_Id, cp_command = SetpointRaiseLower_Id\<rparr>,
         hc_session = Unicast_Session,
         hc_decode = (\<lambda>_. Some [(''mode'', A_Enum (Some ''Both'')), (''amount'', A_Int 50)]),
         hc_decodes = 0, hc_statuses = [], hc_handled = False\<rparr>"
  have d: "decode ?ctx = (Some [(''mode'', A_Enum (Some ''Both'')), (''amount'', A_Int 50)], ?ctx\<lparr>hc_decodes := 1\<rparr>)"
    by (simp add: decode_def)
  have m: "mode_of [(''mode'', A_Enum (Some ''Both'')), (''amount'', A_Int 50)] = kBoth"
    by (simp add: mode_of_def field_def)
  show ?thesis
    unfolding Let_def
    using thermostat_both_ignores_cooling [OF _ d m, where e = 2 and c = Map.empty
        and v = "\<lambda>_. Some (VInt16 3100)" and d = new_cmd_payload]
    by (simp only: handler_ctx.simps refl simp_thms)
qed

end
