(* ===== verification/Emulate_WindowCovering.thy ===== *)
theory Emulate_WindowCovering
  imports Emulator
begin

text \<open>
  linux/src/cluster_translator/emulations/emulate_windowcovering.hpp and
  attribute_callback_registry.hpp: the emulated operational status of a window covering. Commands
  set it to opening, closing or stopped; reports of an end position set it back to stopped. No
  command is taken in calibration or maintenance mode.
\<close>

section \<open>Identifiers\<close>

abbreviation CurrentPositionLift_Id :: attribute_id where "CurrentPositionLift_Id \<equiv> 3"
abbreviation CurrentPositionLiftPercentage_Id :: attribute_id
  where "CurrentPositionLiftPercentage_Id \<equiv> 8"
abbreviation OperationalStatus_Id :: attribute_id where "OperationalStatus_Id \<equiv> 10"
abbreviation EndProductType_Id :: attribute_id where "EndProductType_Id \<equiv> 13"
abbreviation InstalledOpenLimitLift_Id :: attribute_id where "InstalledOpenLimitLift_Id \<equiv> 16"
abbreviation InstalledClosedLimitLift_Id :: attribute_id where "InstalledClosedLimitLift_Id \<equiv> 17"
abbreviation Mode_Id :: attribute_id where "Mode_Id \<equiv> 23"
abbreviation UpOrOpen_Id :: command_id where "UpOrOpen_Id \<equiv> 0"
abbreviation DownOrClose_Id :: command_id where "DownOrClose_Id \<equiv> 1"
abbreviation StopMotion_Id :: command_id where "StopMotion_Id \<equiv> 2"

text \<open>Mode bits: calibration 2, maintenance 4.\<close>

definition WNCV_NOT_MOVING :: u8 where "WNCV_NOT_MOVING = 0x00"
definition WNCV_OPENING :: u8 where "WNCV_OPENING = 0x05"
definition WNCV_CLOSING :: u8 where "WNCV_CLOSING = 0x0A"
definition WNCV_MIN_LIFT_PERCENTAGE :: u8 where "WNCV_MIN_LIFT_PERCENTAGE = 0x00"
definition WNCV_MAX_LIFT_PERCENTAGE :: u8 where "WNCV_MAX_LIFT_PERCENTAGE = 0x64"

lemmas wncv_defs = WNCV_NOT_MOVING_def WNCV_OPENING_def WNCV_CLOSING_def
  WNCV_MIN_LIFT_PERCENTAGE_def WNCV_MAX_LIFT_PERCENTAGE_def

section \<open>The callback registry\<close>

type_synonym attribute_callback = "json \<Rightarrow> endpoint_id \<Rightarrow> cache \<Rightarrow> cache res"
type_synonym callback_registry = "string \<rightharpoonup> attribute_callback"

definition register_callback ::
  "string \<Rightarrow> attribute_callback \<Rightarrow> callback_registry \<Rightarrow> callback_registry" where
  "register_callback name f reg = reg(name \<mapsto> f)"

definition get_registered_callback :: "callback_registry \<Rightarrow> string \<Rightarrow> attribute_callback option" where
  "get_registered_callback reg name = reg name"

section \<open>The callbacks\<close>

definition on_lift_percentage :: attribute_callback where
  "on_lift_percentage value e c =
     rbind (json_get_int value) (\<lambda>n.
       if n = uint WNCV_MIN_LIFT_PERCENTAGE \<or> n = uint WNCV_MAX_LIFT_PERCENTAGE
       then mask8_store (e, WindowCovering_Id, OperationalStatus_Id) WNCV_NOT_MOVING c
       else Inr c)"

definition on_lift :: attribute_callback where
  "on_lift value e c =
     rbind (get_u16 (Plain TUInt16) c (e, WindowCovering_Id, InstalledOpenLimitLift_Id)) (\<lambda>open_limit.
     rbind (get_u16 (Plain TUInt16) c (e, WindowCovering_Id, InstalledClosedLimitLift_Id)) (\<lambda>closed_limit.
     rbind (json_get_u16 value) (\<lambda>lift.
       case (closed_limit, open_limit) of
         (Some cl, Some op) \<Rightarrow>
           if lift = op \<or> lift = cl
           then mask8_store (e, WindowCovering_Id, OperationalStatus_Id) WNCV_NOT_MOVING c
           else Inr c
       | _ \<Rightarrow> Inr c)))"

definition register_window_covering_callbacks :: "callback_registry \<Rightarrow> callback_registry" where
  "register_window_covering_callbacks reg =
     register_callback ''WindowCovering::CurrentPositionLift'' on_lift
       (register_callback ''WindowCovering::CurrentPositionLiftPercentage'' on_lift_percentage reg)"

section \<open>Description and reading\<close>

definition window_covering_emulate ::
  "unify_cluster \<Rightarrow> cluster_builder \<Rightarrow> chip_error \<times> cluster_builder" where
  "window_covering_emulate uc b =
     (CHIP_NO_ERROR,
      add_attribute \<lparr>ea_default = None, ea_id = EndProductType_Id, ea_size = 2,
          ea_type = ZCL_ENUM8, ea_mask = [EXTERNAL_STORAGE]\<rparr>
        (add_attribute \<lparr>ea_default = None, ea_id = OperationalStatus_Id, ea_size = 1,
          ea_type = ZCL_BITMAP8, ea_mask = [EXTERNAL_STORAGE]\<rparr> b))"

definition window_covering_read :: "cache \<Rightarrow> attr_path \<Rightarrow> read_reply res" where
  "window_covering_read c p =
     (let a = snd (snd p) in
      if a = EndProductType_Id then
        rbind (get_u8 (Enum TUInt8) c p)
          (\<lambda>r. Inr (Encode (Scalar (VUInt8 (case r of Some v \<Rightarrow> v | None \<Rightarrow> 0)))))
      else if a = OperationalStatus_Id then
        rbind (get_u8 (Bitmask TUInt8) c p)
          (\<lambda>r. Inr (Encode (Scalar (VUInt8 (case r of Some v \<Rightarrow> v | None \<Rightarrow> 0)))))
      else Inr (Read_Error CHIP_ERROR_INVALID_ARGUMENT))"

section \<open>Commands\<close>

definition is_command_allowed ::
  "cache \<Rightarrow> handler_ctx \<Rightarrow> emulated_cmd_payload \<Rightarrow> (bool \<times> handler_ctx \<times> emulated_cmd_payload) res" where
  "is_command_allowed c ctx d =
     rbind (get_u8 (Bitmask TUInt8) c (cp_endpoint (hc_path ctx), cp_cluster (hc_path ctx), Mode_Id))
       (\<lambda>mode. case mode of
          None \<Rightarrow> Inr (False, ctx, d\<lparr>ecp_completed := True\<rparr>)
        | Some m \<Rightarrow>
            if bit m 1 then
              Inr (False, set_command_handled (add_status Failure ctx), d\<lparr>ecp_completed := True\<rparr>)
            else if bit m 2 then
              Inr (False, set_command_handled (add_status Busy ctx), d\<lparr>ecp_completed := True\<rparr>)
            else Inr (True, ctx, d))"

text \<open>
  The status a movement towards an end starts: moving if the reported percentage is known and not
  the end percentage, or if the limit is known and the reported position is known and not the
  limit.
\<close>

definition movement_status ::
  "u8 \<Rightarrow> u8 \<Rightarrow> value_t option \<Rightarrow> value_t option \<Rightarrow> u16 option \<Rightarrow> u8" where
  "movement_status moving end_percentage percentage lift limit =
     (case percentage of
        Some (VUInt8 p) \<Rightarrow>
          if p \<noteq> end_percentage then moving
          else (case (limit, lift) of
                  (Some l, Some (VUInt16 v)) \<Rightarrow> if v \<noteq> l then moving else WNCV_NOT_MOVING
                | _ \<Rightarrow> WNCV_NOT_MOVING)
      | _ \<Rightarrow> (case (limit, lift) of
                (Some l, Some (VUInt16 v)) \<Rightarrow> if v \<noteq> l then moving else WNCV_NOT_MOVING
              | _ \<Rightarrow> WNCV_NOT_MOVING))"

definition movement_command ::
  "cache \<Rightarrow> handler_ctx \<Rightarrow> emulated_cmd_payload \<Rightarrow> value_t option \<Rightarrow> value_t option \<Rightarrow> command_outcome res" where
  "movement_command c ctx d percentage lift =
     (let e = cp_endpoint (hc_path ctx); cl = cp_cluster (hc_path ctx);
          cmd = cp_command (hc_path ctx) in
      if cmd = UpOrOpen_Id then
        rbind (get_u16 (Plain TUInt16) c (e, cl, InstalledOpenLimitLift_Id)) (\<lambda>limit.
        rbind (mask8_store (e, cl, OperationalStatus_Id)
            (movement_status WNCV_OPENING WNCV_MIN_LIFT_PERCENTAGE percentage lift limit) c) (\<lambda>c.
        Inr (CHIP_NO_ERROR, c, ctx, d\<lparr>ecp_cmd := ''UpOrOpen''\<rparr>)))
      else if cmd = DownOrClose_Id then
        rbind (get_u16 (Plain TUInt16) c (e, cl, InstalledClosedLimitLift_Id)) (\<lambda>limit.
        rbind (mask8_store (e, cl, OperationalStatus_Id)
            (movement_status WNCV_CLOSING WNCV_MAX_LIFT_PERCENTAGE percentage lift limit) c) (\<lambda>c.
        Inr (CHIP_NO_ERROR, c, ctx, d\<lparr>ecp_cmd := ''DownOrClose''\<rparr>)))
      else if cmd = StopMotion_Id then
        rbind (mask8_store (e, cl, OperationalStatus_Id) WNCV_NOT_MOVING c) (\<lambda>c.
        Inr (CHIP_NO_ERROR, c, ctx, d\<lparr>ecp_cmd := ''StopMotion''\<rparr>))
      else Inr (CHIP_ERROR_NOT_IMPLEMENTED, c, ctx, d))"

definition window_covering_command ::
  "cache \<Rightarrow> handler_ctx \<Rightarrow> emulated_cmd_payload \<Rightarrow> command_outcome res" where
  "window_covering_command c ctx d =
     (let d = d\<lparr>ecp_completed := False\<rparr>;
          e = cp_endpoint (hc_path ctx); cl = cp_cluster (hc_path ctx) in
      rbind (get_nullable TUInt8 c (e, cl, CurrentPositionLiftPercentage_Id)) (\<lambda>percentage.
      rbind (get_nullable TUInt16 c (e, cl, CurrentPositionLift_Id)) (\<lambda>lift.
      rbind (is_command_allowed c ctx d) (\<lambda>(allowed, ctx, d).
      if \<not> allowed then Inr (CHIP_ERROR_BAD_REQUEST, c, ctx, d)
      else movement_command c ctx d percentage lift))))"

definition emulate_window_covering :: emulator where
  "emulate_window_covering = (default_emulator WindowCovering_Id ''WindowCovering'')
     \<lparr>em_attributes := [OperationalStatus_Id, EndProductType_Id],
      em_commands := [UpOrOpen_Id, DownOrClose_Id, StopMotion_Id],
      em_emulate := window_covering_emulate, em_read := window_covering_read,
      em_command := window_covering_command\<rparr>"

lemma mask8_store_eq: "mask8_store p w c = Inr (c(p \<mapsto> VUInt8 w))"
  by (simp add: mask8_store_def)

lemma is_command_allowed_cases:
  assumes "is_command_allowed c ctx d = Inr (ok, ctx', d')"
  shows "(ok \<and> ctx' = ctx \<and> d' = d) \<or> (\<not> ok \<and> d' = d\<lparr>ecp_completed := True\<rparr> \<and>
     (ctx' = ctx \<or> (\<exists>s. ctx' = set_command_handled (add_status s ctx))))"
proof -
  from assms obtain mode where "get_u8 (Bitmask TUInt8) c
      (cp_endpoint (hc_path ctx), cp_cluster (hc_path ctx), Mode_Id) = Inr mode"
    unfolding is_command_allowed_def rbind_eq_Inr by blast
  with assms show ?thesis
    by (cases mode) (simp_all add: is_command_allowed_def split: if_splits, blast+)
qed

lemma movement_status_values: "movement_status m p x y z \<in> {WNCV_NOT_MOVING, m}"
  by (auto simp: movement_status_def split: option.splits value_t.splits)

text \<open>What a command stores in the status attribute.\<close>

definition status_write :: "handler_ctx \<Rightarrow> cache \<Rightarrow> cache \<Rightarrow> bool" where
  "status_write ctx c c' \<longleftrightarrow> c' = c \<or> (\<exists>w \<in> {WNCV_NOT_MOVING, WNCV_OPENING, WNCV_CLOSING}.
     c' = c((cp_endpoint (hc_path ctx), cp_cluster (hc_path ctx), OperationalStatus_Id) \<mapsto> VUInt8 w))"

lemma status_writeI:
  "w \<in> {WNCV_NOT_MOVING, WNCV_OPENING, WNCV_CLOSING} \<Longrightarrow> status_write ctx c
     (c((cp_endpoint (hc_path ctx), cp_cluster (hc_path ctx), OperationalStatus_Id) \<mapsto> VUInt8 w))"
  unfolding status_write_def by blast

lemma status_write_movement:
  "m \<in> {WNCV_OPENING, WNCV_CLOSING} \<Longrightarrow> status_write ctx c
     (c((cp_endpoint (hc_path ctx), cp_cluster (hc_path ctx), OperationalStatus_Id) \<mapsto>
        VUInt8 (movement_status m p x y z)))"
  using movement_status_values [of m p x y z] by (intro status_writeI) blast

lemma status_write_stop: "status_write ctx c
     (c((cp_endpoint (hc_path ctx), cp_cluster (hc_path ctx), OperationalStatus_Id) \<mapsto> VUInt8 WNCV_NOT_MOVING))"
  by (rule status_writeI) simp

lemma movement_command_cases:
  assumes "movement_command c ctx d percentage lift = Inr (err, c', ctx', d')"
  shows "ctx' = ctx \<and> ecp_completed d' = ecp_completed d \<and> status_write ctx c c'"
proof -
  consider (up) "cp_command (hc_path ctx) = UpOrOpen_Id" | (down) "cp_command (hc_path ctx) = DownOrClose_Id"
    | (stop) "cp_command (hc_path ctx) = StopMotion_Id"
    | (none) "cp_command (hc_path ctx) \<notin> {UpOrOpen_Id, DownOrClose_Id, StopMotion_Id}"
    by blast
  then show ?thesis
  proof cases
    case up
    then show ?thesis using assms
      by (cases "get_u16 (Plain TUInt16) c (cp_endpoint (hc_path ctx), cp_cluster (hc_path ctx), InstalledOpenLimitLift_Id)")
        (auto simp: movement_command_def mask8_store_eq intro: status_write_movement)
  next
    case down
    then show ?thesis using assms
      by (cases "get_u16 (Plain TUInt16) c (cp_endpoint (hc_path ctx), cp_cluster (hc_path ctx), InstalledClosedLimitLift_Id)")
        (auto simp: movement_command_def mask8_store_eq intro: status_write_movement)
  next
    case stop
    then show ?thesis using assms by (auto simp: movement_command_def mask8_store_eq intro: status_write_stop)
  next
    case none
    then show ?thesis using assms by (simp add: movement_command_def status_write_def)
  qed
qed

lemma window_covering_command_cases:
  assumes "window_covering_command c ctx d = Inr (err, c', ctx', d')"
  shows "(c' = c \<and> ecp_completed d' \<and> (ctx' = ctx \<or> (\<exists>s. ctx' = set_command_handled (add_status s ctx)))) \<or>
     (\<not> ecp_completed d' \<and> ctx' = ctx \<and> status_write ctx c c')"
proof -
  from assms obtain percentage lift ok ctx1 d1 where
    al: "is_command_allowed c ctx (d\<lparr>ecp_completed := False\<rparr>) = Inr (ok, ctx1, d1)"
    and run: "(if \<not> ok then Inr (CHIP_ERROR_BAD_REQUEST, c, ctx1, d1)
       else movement_command c ctx1 d1 percentage lift) = Inr (err, c', ctx', d')"
    unfolding window_covering_command_def Let_def rbind_eq_Inr by (auto simp del: not_not)
  from is_command_allowed_cases [OF al] run show ?thesis
    by (cases ok) (auto dest: movement_command_cases)
qed

interpretation window_covering: command_emulator window_covering_command
proof
  fix c ctx d err c' ctx' d'
  assume run: "window_covering_command c ctx d = Inr (err, c', ctx', d')"
  note cases = window_covering_command_cases [OF run]
  from cases show "same_request ctx ctx'" by (auto simp: same_request_def)
  from cases show "cache_frame (cp_endpoint (hc_path ctx)) (cp_cluster (hc_path ctx)) c c'"
    by (auto simp: status_write_def)
  from cases show "hc_statuses ctx' \<noteq> hc_statuses ctx \<Longrightarrow> ecp_completed d' \<and> hc_handled ctx'"
    by auto
  from cases show "\<not> ecp_completed d' \<Longrightarrow> hc_statuses ctx' = hc_statuses ctx \<and> hc_handled ctx' = hc_handled ctx"
    by auto
qed

lemma on_lift_percentage_cases:
  "on_lift_percentage value e c = Inr c' \<Longrightarrow>
     c' = c \<or> c' = c((e, WindowCovering_Id, OperationalStatus_Id) \<mapsto> VUInt8 WNCV_NOT_MOVING)"
  by (auto simp: on_lift_percentage_def rbind_eq_Inr mask8_store_eq split: if_splits)

lemma on_lift_cases:
  "on_lift value e c = Inr c' \<Longrightarrow>
     c' = c \<or> c' = c((e, WindowCovering_Id, OperationalStatus_Id) \<mapsto> VUInt8 WNCV_NOT_MOVING)"
  by (auto simp: on_lift_def rbind_eq_Inr mask8_store_eq split: if_splits option.splits)

definition well_typed :: "cache \<Rightarrow> attr_path \<Rightarrow> vtype \<Rightarrow> bool" where
  "well_typed c p t \<longleftrightarrow> (case c p of None \<Rightarrow> True | Some v \<Rightarrow> value_type v = t)"

definition away_from :: "cache \<Rightarrow> endpoint_id \<Rightarrow> u8 \<Rightarrow> attribute_id \<Rightarrow> bool" where
  "away_from c e end_percentage limit_id \<longleftrightarrow>
     (\<exists>p. c (e, WindowCovering_Id, CurrentPositionLiftPercentage_Id) = Some (VUInt8 p) \<and> p \<noteq> end_percentage) \<or>
     (\<exists>v l. c (e, WindowCovering_Id, CurrentPositionLift_Id) = Some (VUInt16 v) \<and>
        c (e, WindowCovering_Id, limit_id) = Some (VUInt16 l) \<and> v \<noteq> l)"

lemma movement_status_away:
  assumes "well_typed c (e, WindowCovering_Id, CurrentPositionLiftPercentage_Id) TUInt8"
    and "well_typed c (e, WindowCovering_Id, CurrentPositionLift_Id) TUInt16"
    and "well_typed c (e, WindowCovering_Id, limit_id) TUInt16"
  shows "\<exists>l. get_u16 (Plain TUInt16) c (e, WindowCovering_Id, limit_id) = Inr l \<and>
    movement_status m end_percentage (c (e, WindowCovering_Id, CurrentPositionLiftPercentage_Id))
      (c (e, WindowCovering_Id, CurrentPositionLift_Id)) l =
    (if away_from c e end_percentage limit_id then m else WNCV_NOT_MOVING)"
  using assms
  by (auto simp: well_typed_def movement_status_def away_from_def get_u16_plain
      split: option.splits value_t.splits)

lemma covering_movement:
  assumes mode: "c (e, WindowCovering_Id, Mode_Id) = Some (VUInt8 m)" "\<not> bit m 1" "\<not> bit m 2"
    and path: "hc_path ctx = \<lparr>cp_endpoint = e, cp_cluster = WindowCovering_Id, cp_command = cmd\<rparr>"
    and typed: "well_typed c (e, WindowCovering_Id, CurrentPositionLiftPercentage_Id) TUInt8"
      "well_typed c (e, WindowCovering_Id, CurrentPositionLift_Id) TUInt16"
      "well_typed c (e, WindowCovering_Id, InstalledOpenLimitLift_Id) TUInt16"
      "well_typed c (e, WindowCovering_Id, InstalledClosedLimitLift_Id) TUInt16"
    and known: "cmd \<in> {UpOrOpen_Id, DownOrClose_Id, StopMotion_Id}"
  shows "\<exists>name. window_covering_command c ctx d =
    Inr (CHIP_NO_ERROR,
      c((e, WindowCovering_Id, OperationalStatus_Id) \<mapsto> VUInt8
        (if cmd = UpOrOpen_Id \<and> away_from c e 0 InstalledOpenLimitLift_Id then 0x05
         else if cmd = DownOrClose_Id \<and> away_from c e 100 InstalledClosedLimitLift_Id then 0x0A else 0x00)),
      ctx, d\<lparr>ecp_completed := False, ecp_cmd := name\<rparr>)"
proof -
  let ?d = "d\<lparr>ecp_completed := False\<rparr>"
  have allowed: "is_command_allowed c ctx ?d = Inr (True, ctx, ?d)"
    using mode path by (simp add: is_command_allowed_def get_u8_mask)
  have pct: "get_nullable TUInt8 c (e, WindowCovering_Id, CurrentPositionLiftPercentage_Id) =
      Inr (c (e, WindowCovering_Id, CurrentPositionLiftPercentage_Id))"
    and lift: "get_nullable TUInt16 c (e, WindowCovering_Id, CurrentPositionLift_Id) =
      Inr (c (e, WindowCovering_Id, CurrentPositionLift_Id))"
    using typed(1,2) by (auto simp: well_typed_def get_nullable_cases split: option.splits)
  have run: "window_covering_command c ctx d = movement_command c ctx ?d
      (c (e, WindowCovering_Id, CurrentPositionLiftPercentage_Id)) (c (e, WindowCovering_Id, CurrentPositionLift_Id))"
    using path pct lift allowed by (simp add: window_covering_command_def)
  obtain l1 l2 where
    up: "get_u16 (Plain TUInt16) c (e, WindowCovering_Id, InstalledOpenLimitLift_Id) = Inr l1"
      "movement_status WNCV_OPENING WNCV_MIN_LIFT_PERCENTAGE (c (e, WindowCovering_Id, CurrentPositionLiftPercentage_Id))
        (c (e, WindowCovering_Id, CurrentPositionLift_Id)) l1 =
       (if away_from c e 0 InstalledOpenLimitLift_Id then 0x05 else 0x00)"
    and down: "get_u16 (Plain TUInt16) c (e, WindowCovering_Id, InstalledClosedLimitLift_Id) = Inr l2"
      "movement_status WNCV_CLOSING WNCV_MAX_LIFT_PERCENTAGE (c (e, WindowCovering_Id, CurrentPositionLiftPercentage_Id))
        (c (e, WindowCovering_Id, CurrentPositionLift_Id)) l2 =
       (if away_from c e 100 InstalledClosedLimitLift_Id then 0x0A else 0x00)"
    using movement_status_away [OF typed(1,2,3)] movement_status_away [OF typed(1,2,4)]
    unfolding wncv_defs by metis
  show ?thesis
    unfolding run using known path up down
    by (auto simp: movement_command_def mask8_store_eq WNCV_NOT_MOVING_def)
qed

text \<open>In calibration mode every covering command is answered with \<open>Failure\<close>, in maintenance
  mode with \<open>Busy\<close>, exactly once, and neither the cache nor the command data changes otherwise. When
  Unify has not reported the mode yet, the request is taken as completed without any answer.\<close>

theorem window_covering_blocked:
  assumes "hc_path ctx = \<lparr>cp_endpoint = e, cp_cluster = WindowCovering_Id, cp_command = cmd\<rparr>"
    and "well_typed c (e, WindowCovering_Id, CurrentPositionLiftPercentage_Id) TUInt8"
    and "well_typed c (e, WindowCovering_Id, CurrentPositionLift_Id) TUInt16"
    and "c (e, WindowCovering_Id, Mode_Id) = mode"
    and "mode = None \<or> mode = Some (VUInt8 m) \<and> (bit m 1 \<or> bit m 2)"
  shows "window_covering_command c ctx d = Inr (CHIP_ERROR_BAD_REQUEST, c,
      (if mode = None then ctx
       else set_command_handled (add_status (if bit m 1 then Failure else Busy) ctx)),
      d\<lparr>ecp_completed := True\<rparr>)"
proof -
  obtain x y where "get_nullable TUInt8 c (e, WindowCovering_Id, CurrentPositionLiftPercentage_Id) = Inr x"
      "get_nullable TUInt16 c (e, WindowCovering_Id, CurrentPositionLift_Id) = Inr y"
    using assms(2,3) by (auto simp: well_typed_def get_nullable_cases split: option.splits)
  then show ?thesis
    using assms by (auto simp: window_covering_command_def is_command_allowed_def get_u8_mask)
qed

lemma window_covering_blocked_witness:
  "let c = [(3, WindowCovering_Id, Mode_Id) \<mapsto> VUInt8 4];
       ctx = \<lparr>hc_path = \<lparr>cp_endpoint = 3, cp_cluster = WindowCovering_Id, cp_command = UpOrOpen_Id\<rparr>,
         hc_session = Unicast_Session, hc_decode = (\<lambda>_. Some []), hc_decodes = 0,
         hc_statuses = [], hc_handled = False\<rparr>
   in window_covering_command c ctx new_cmd_payload = Inr (CHIP_ERROR_BAD_REQUEST, c,
        set_command_handled (add_status Busy ctx), new_cmd_payload\<lparr>ecp_completed := True\<rparr>)"
  unfolding Let_def
  using window_covering_blocked [where e = 3 and m = 4 and mode = "Some (VUInt8 4)" and cmd = UpOrOpen_Id
      and c = "[(3, WindowCovering_Id, Mode_Id) \<mapsto> VUInt8 4]" and d = new_cmd_payload
      and ctx = "\<lparr>hc_path = \<lparr>cp_endpoint = 3, cp_cluster = WindowCovering_Id, cp_command = UpOrOpen_Id\<rparr>,
         hc_session = Unicast_Session, hc_decode = (\<lambda>_. Some []), hc_decodes = 0,
         hc_statuses = [], hc_handled = False\<rparr>"]
  by (simp add: well_typed_def bit_numeral_rec)

section \<open>The covering as a machine\<close>

text \<open>
  What the code does with the events of one covering, and a machine that knows nothing of caches and paths: its state
  is what is known of the covering, its status included. The events are the commands of clients, the reports of
  positions to the registered callbacks, whose exceptions the message callback catches or which end the bridge without
  a change, and any change of another attribute, which keeps the type of the attributes used here.
\<close>

datatype covering_event =
    Take_Command command_id handler_ctx emulated_cmd_payload
  | Report_Percentage json
  | Report_Lift json
  | Change_Attribute attr_path "value_t option"

definition unless_raised :: "cache \<Rightarrow> cache res \<Rightarrow> cache" where
  "unless_raised c r = (case r of Inr c' \<Rightarrow> c' | Inl _ \<Rightarrow> c)"

fun take_event :: "endpoint_id \<Rightarrow> covering_event \<Rightarrow> cache \<Rightarrow> cache res" where
  "take_event e (Take_Command cmd ctx d) c =
     rbind (window_covering_command c
       (ctx\<lparr>hc_path := \<lparr>cp_endpoint = e, cp_cluster = WindowCovering_Id, cp_command = cmd\<rparr>\<rparr>) d) (\<lambda>(_, c, _). Inr c)"
| "take_event e (Report_Percentage j) c = Inr (unless_raised c (on_lift_percentage j e c))"
| "take_event e (Report_Lift j) c = Inr (unless_raised c (on_lift j e c))"
| "take_event e (Change_Attribute p v) c = Inr (c(p := v))"

fun take_events :: "endpoint_id \<Rightarrow> covering_event list \<Rightarrow> cache \<Rightarrow> cache res" where
  "take_events e [] c = Inr c"
| "take_events e (x # xs) c = rbind (take_event e x c) (take_events e xs)"

record covering =
  cv_mode :: "u8 option"
  cv_percentage :: "u8 option"
  cv_lift :: "u16 option"
  cv_open_limit :: "u16 option"
  cv_closed_limit :: "u16 option"
  cv_status :: u8

definition is_away :: "u8 \<Rightarrow> u8 option \<Rightarrow> u16 option \<Rightarrow> u16 option \<Rightarrow> bool" where
  "is_away end_percentage percentage limit lift \<longleftrightarrow> (\<exists>p. percentage = Some p \<and> p \<noteq> end_percentage) \<or>
     (\<exists>l v. limit = Some l \<and> lift = Some v \<and> v \<noteq> l)"

definition byte_of :: "value_t option \<Rightarrow> u8 option" where
  "byte_of v = (case v of Some (VUInt8 w) \<Rightarrow> Some w | _ \<Rightarrow> None)"

definition short_of :: "value_t option \<Rightarrow> u16 option" where
  "short_of v = (case v of Some (VUInt16 w) \<Rightarrow> Some w | _ \<Rightarrow> None)"

fun covering_step :: "endpoint_id \<Rightarrow> covering_event \<Rightarrow> covering \<Rightarrow> covering" where
  "covering_step e (Take_Command cmd ctx d) s =
     (case cv_mode s of
        None \<Rightarrow> s
      | Some m \<Rightarrow>
          if bit m 1 \<or> bit m 2 then s
          else if cmd = UpOrOpen_Id then
            s\<lparr>cv_status := if is_away 0 (cv_percentage s) (cv_open_limit s) (cv_lift s) then 0x05 else 0x00\<rparr>
          else if cmd = DownOrClose_Id then
            s\<lparr>cv_status := if is_away 100 (cv_percentage s) (cv_closed_limit s) (cv_lift s) then 0x0A else 0x00\<rparr>
          else if cmd = StopMotion_Id then s\<lparr>cv_status := 0x00\<rparr>
          else s)"
| "covering_step e (Report_Percentage j) s =
     (if json_get_int j \<in> {Inr 0, Inr 100} then s\<lparr>cv_status := 0x00\<rparr> else s)"
| "covering_step e (Report_Lift j) s =
     (case (json_get_u16 j, cv_open_limit s, cv_closed_limit s) of
        (Inr v, Some l, Some l') \<Rightarrow> if v = l \<or> v = l' then s\<lparr>cv_status := 0x00\<rparr> else s
      | _ \<Rightarrow> s)"
| "covering_step e (Change_Attribute p v) s =
     (if p = (e, WindowCovering_Id, Mode_Id) then s\<lparr>cv_mode := byte_of v\<rparr>
      else if p = (e, WindowCovering_Id, CurrentPositionLiftPercentage_Id) then s\<lparr>cv_percentage := byte_of v\<rparr>
      else if p = (e, WindowCovering_Id, CurrentPositionLift_Id) then s\<lparr>cv_lift := short_of v\<rparr>
      else if p = (e, WindowCovering_Id, InstalledOpenLimitLift_Id) then s\<lparr>cv_open_limit := short_of v\<rparr>
      else if p = (e, WindowCovering_Id, InstalledClosedLimitLift_Id) then s\<lparr>cv_closed_limit := short_of v\<rparr>
      else s)"

definition covering_view :: "endpoint_id \<Rightarrow> cache \<Rightarrow> covering" where
  "covering_view e c =
     \<lparr>cv_mode = byte_of (c (e, WindowCovering_Id, Mode_Id)),
      cv_percentage = byte_of (c (e, WindowCovering_Id, CurrentPositionLiftPercentage_Id)),
      cv_lift = short_of (c (e, WindowCovering_Id, CurrentPositionLift_Id)),
      cv_open_limit = short_of (c (e, WindowCovering_Id, InstalledOpenLimitLift_Id)),
      cv_closed_limit = short_of (c (e, WindowCovering_Id, InstalledClosedLimitLift_Id)),
      cv_status = (case byte_of (c (e, WindowCovering_Id, OperationalStatus_Id)) of Some w \<Rightarrow> w | None \<Rightarrow> 0x00)\<rparr>"

definition covering_typed :: "endpoint_id \<Rightarrow> cache \<Rightarrow> bool" where
  "covering_typed e c \<longleftrightarrow> well_typed c (e, WindowCovering_Id, Mode_Id) TUInt8 \<and>
     well_typed c (e, WindowCovering_Id, CurrentPositionLiftPercentage_Id) TUInt8 \<and>
     well_typed c (e, WindowCovering_Id, CurrentPositionLift_Id) TUInt16 \<and>
     well_typed c (e, WindowCovering_Id, InstalledOpenLimitLift_Id) TUInt16 \<and>
     well_typed c (e, WindowCovering_Id, InstalledClosedLimitLift_Id) TUInt16 \<and>
     well_typed c (e, WindowCovering_Id, OperationalStatus_Id) TUInt8"

fun event_typed :: "endpoint_id \<Rightarrow> covering_event \<Rightarrow> bool" where
  "event_typed e (Change_Attribute p v) \<longleftrightarrow> p \<noteq> (e, WindowCovering_Id, OperationalStatus_Id) \<and> covering_typed e (Map.empty(p := v))"
| "event_typed e _ \<longleftrightarrow> True"

lemma typed_byte: "well_typed c p TUInt8 \<Longrightarrow> c p = map_option VUInt8 (byte_of (c p))"
  by (cases "c p") (auto simp: well_typed_def byte_of_def split: value_t.splits)

lemma typed_short: "well_typed c p TUInt16 \<Longrightarrow> c p = map_option VUInt16 (short_of (c p))"
  by (cases "c p") (auto simp: well_typed_def short_of_def split: value_t.splits)

lemma of_values [simp]: "byte_of (Some (VUInt8 w)) = Some w" "short_of (Some (VUInt16 v)) = Some v"
  "byte_of None = None" "short_of None = None"
  by (simp_all add: byte_of_def short_of_def)

lemma byte_of_Some: "byte_of x = Some w \<longleftrightarrow> x = Some (VUInt8 w)"
  by (auto simp: byte_of_def split: option.splits value_t.splits)

lemma short_of_Some: "short_of x = Some w \<longleftrightarrow> x = Some (VUInt16 w)"
  by (auto simp: short_of_def split: option.splits value_t.splits)

lemma away_from_view:
  "away_from c e end_percentage limit_id \<longleftrightarrow>
     is_away end_percentage (byte_of (c (e, WindowCovering_Id, CurrentPositionLiftPercentage_Id)))
       (short_of (c (e, WindowCovering_Id, limit_id))) (short_of (c (e, WindowCovering_Id, CurrentPositionLift_Id)))"
  by (auto simp: away_from_def is_away_def byte_of_Some short_of_Some)

lemma stored_status:
  "covering_view e (c((e, WindowCovering_Id, OperationalStatus_Id) \<mapsto> VUInt8 w)) = (covering_view e c)\<lparr>cv_status := w\<rparr>"
  "covering_typed e c \<Longrightarrow> covering_typed e (c((e, WindowCovering_Id, OperationalStatus_Id) \<mapsto> VUInt8 w))"
  by (simp_all add: covering_view_def covering_typed_def well_typed_def)

lemma view_fields:
  "cv_mode (covering_view e c) = byte_of (c (e, WindowCovering_Id, Mode_Id))"
  "cv_percentage (covering_view e c) = byte_of (c (e, WindowCovering_Id, CurrentPositionLiftPercentage_Id))"
  "cv_lift (covering_view e c) = short_of (c (e, WindowCovering_Id, CurrentPositionLift_Id))"
  "cv_open_limit (covering_view e c) = short_of (c (e, WindowCovering_Id, InstalledOpenLimitLift_Id))"
  "cv_closed_limit (covering_view e c) = short_of (c (e, WindowCovering_Id, InstalledClosedLimitLift_Id))"
  by (simp_all add: covering_view_def)

lemma command_simulated:
  assumes "covering_typed e c"
  shows "\<exists>c'. take_event e (Take_Command cmd ctx d) c = Inr c' \<and> covering_typed e c' \<and>
    covering_view e c' = covering_step e (Take_Command cmd ctx d) (covering_view e c)"
proof -
  let ?ctx = "ctx\<lparr>hc_path := \<lparr>cp_endpoint = e, cp_cluster = WindowCovering_Id, cp_command = cmd\<rparr>\<rparr>"
  note typed = assms [unfolded covering_typed_def]
  consider (blocked) "c (e, WindowCovering_Id, Mode_Id) = None"
    | (mode) m where "c (e, WindowCovering_Id, Mode_Id) = Some (VUInt8 m)" "bit m 1 \<or> bit m 2"
    | (unknown) m where "c (e, WindowCovering_Id, Mode_Id) = Some (VUInt8 m)" "\<not> bit m 1" "\<not> bit m 2"
        "cmd \<notin> {UpOrOpen_Id, DownOrClose_Id, StopMotion_Id}"
    | (moves) m where "c (e, WindowCovering_Id, Mode_Id) = Some (VUInt8 m)" "\<not> bit m 1" "\<not> bit m 2"
        "cmd \<in> {UpOrOpen_Id, DownOrClose_Id, StopMotion_Id}"
    using typed_byte [of c "(e, WindowCovering_Id, Mode_Id)"] typed
    by (cases "byte_of (c (e, WindowCovering_Id, Mode_Id))") auto
  then show ?thesis
  proof cases
    case blocked
    then show ?thesis
      using window_covering_blocked [of ?ctx e cmd c None _ d] typed assms by (simp add: view_fields)
  next
    case mode
    then show ?thesis
      using window_covering_blocked [of ?ctx e cmd c "Some (VUInt8 m)" m d] typed assms by (simp add: view_fields)
  next
    case unknown
    have "get_nullable TUInt8 c (e, WindowCovering_Id, CurrentPositionLiftPercentage_Id) =
        Inr (c (e, WindowCovering_Id, CurrentPositionLiftPercentage_Id))"
      "get_nullable TUInt16 c (e, WindowCovering_Id, CurrentPositionLift_Id) =
        Inr (c (e, WindowCovering_Id, CurrentPositionLift_Id))"
      using typed by (auto simp: well_typed_def get_nullable_cases split: option.splits)
    then show ?thesis
      using unknown assms
      by (simp add: window_covering_command_def is_command_allowed_def get_u8_mask movement_command_def view_fields)
  next
    case moves
    have "\<exists>name. window_covering_command c ?ctx d = Inr (CHIP_NO_ERROR,
        c((e, WindowCovering_Id, OperationalStatus_Id) \<mapsto> VUInt8
          (if cmd = UpOrOpen_Id \<and> away_from c e 0 InstalledOpenLimitLift_Id then 0x05
           else if cmd = DownOrClose_Id \<and> away_from c e 100 InstalledClosedLimitLift_Id then 0x0A else 0x00)),
        ?ctx, d\<lparr>ecp_completed := False, ecp_cmd := name\<rparr>)"
      using moves typed by (intro covering_movement [where m = m]) simp_all
    then have "take_event e (Take_Command cmd ctx d) c = Inr (c((e, WindowCovering_Id, OperationalStatus_Id) \<mapsto> VUInt8
          (if cmd = UpOrOpen_Id \<and> away_from c e 0 InstalledOpenLimitLift_Id then 0x05
           else if cmd = DownOrClose_Id \<and> away_from c e 100 InstalledClosedLimitLift_Id then 0x0A else 0x00)))"
      by (elim exE) (simp only: take_event.simps rbind_Inr prod.case)
    then show ?thesis
      using moves stored_status assms by (auto simp: view_fields away_from_view)
  qed
qed

lemma percentage_simulated:
  assumes "covering_typed e c"
  shows "\<exists>c'. take_event e (Report_Percentage j) c = Inr c' \<and> covering_typed e c' \<and>
    covering_view e c' = covering_step e (Report_Percentage j) (covering_view e c)"
  using assms
  by (cases "json_get_int j")
    (auto simp: unless_raised_def on_lift_percentage_def mask8_store_eq wncv_defs stored_status)

lemma lift_simulated:
  assumes "covering_typed e c"
  shows "\<exists>c'. take_event e (Report_Lift j) c = Inr c' \<and> covering_typed e c' \<and>
    covering_view e c' = covering_step e (Report_Lift j) (covering_view e c)"
proof -
  have limits: "get_u16 (Plain TUInt16) c (e, WindowCovering_Id, InstalledOpenLimitLift_Id) =
      Inr (cv_open_limit (covering_view e c))"
    "get_u16 (Plain TUInt16) c (e, WindowCovering_Id, InstalledClosedLimitLift_Id) =
      Inr (cv_closed_limit (covering_view e c))"
    using assms by (auto simp: covering_typed_def well_typed_def get_u16_plain view_fields short_of_def
        split: option.splits value_t.splits)
  show ?thesis
    using assms
    by (cases "json_get_u16 j"; cases "cv_open_limit (covering_view e c)"; cases "cv_closed_limit (covering_view e c)")
      (auto simp: unless_raised_def on_lift_def mask8_store_eq wncv_defs stored_status limits)
qed

lemma change_simulated:
  assumes "covering_typed e c" and "event_typed e (Change_Attribute p v)"
  shows "covering_typed e (c(p := v)) \<and>
    covering_view e (c(p := v)) = covering_step e (Change_Attribute p v) (covering_view e c)"
proof
  show "covering_typed e (c(p := v))"
    using assms by (auto simp: covering_typed_def well_typed_def split: if_splits)
  show "covering_view e (c(p := v)) = covering_step e (Change_Attribute p v) (covering_view e c)"
    using assms(2) by (auto simp: covering_view_def)
qed

lemma event_simulated:
  assumes "covering_typed e c" and "event_typed e x"
  shows "\<exists>c'. take_event e x c = Inr c' \<and> covering_typed e c' \<and> covering_view e c' = covering_step e x (covering_view e c)"
  using assms command_simulated percentage_simulated lift_simulated change_simulated
  by (cases x) (simp_all only: take_event.simps sum.inject, blast+)

lemma events_simulated:
  assumes "covering_typed e c" and "list_all (event_typed e) xs"
  shows "\<exists>c'. take_events e xs c = Inr c' \<and> covering_typed e c' \<and>
    covering_view e c' = fold (covering_step e) xs (covering_view e c)"
  using assms
proof (induction xs arbitrary: c)
  case (Cons x xs)
  then obtain c1 where "take_event e x c = Inr c1" "covering_typed e c1"
      "covering_view e c1 = covering_step e x (covering_view e c)"
    using event_simulated [of e c x] by auto
  then show ?case using Cons.IH [of c1] Cons.prems by simp
qed simp

lemma read_status:
  assumes "covering_typed e c"
  shows "window_covering_read c (e, WindowCovering_Id, OperationalStatus_Id) =
    Inr (Encode (Scalar (VUInt8 (cv_status (covering_view e c)))))"
  using assms
  by (auto simp: covering_typed_def well_typed_def window_covering_read_def get_u8_mask covering_view_def
      byte_of_def split: option.splits value_t.splits)

lemma status_values: "cv_status s \<in> {0x00, 0x05, 0x0A} \<Longrightarrow> cv_status (covering_step e x s) \<in> {0x00, 0x05, 0x0A}"
  by (cases x) (auto split: option.split sum.split)

lemma status_values_fold: "cv_status s \<in> {0x00, 0x05, 0x0A} \<Longrightarrow> cv_status (fold (covering_step e) xs s) \<in> {0x00, 0x05, 0x0A}"
  by (induction xs arbitrary: s) (simp_all only: fold_simps(1) fold_Cons comp_apply id_apply status_values)

section \<open>Properties\<close>

text \<open>C18: The emulated status of a covering is the one of the abstract machine: from any cache with attributes of their
  declared types, through any sequence of commands of clients (in any mode), reports of positions (of any JSON value)
  and other changes, no step fails, and what a Matter client reads as operational status is exactly the status the
  machine computes from the events. It starts opening or closing exactly at an allowed command away from the end, is
  stopped by a stop or at an end position, and from a status that was never set it is never another value.\<close>

theorem covering_status_refines:
  assumes "covering_typed e c" and "list_all (event_typed e) events"
  shows "\<exists>c'. take_events e events c = Inr c' \<and>
    covering_view e c' = fold (covering_step e) events (covering_view e c) \<and>
    window_covering_read c' (e, WindowCovering_Id, OperationalStatus_Id) =
      Inr (Encode (Scalar (VUInt8 (cv_status (fold (covering_step e) events (covering_view e c)))))) \<and>
    (c (e, WindowCovering_Id, OperationalStatus_Id) = None \<longrightarrow>
      cv_status (fold (covering_step e) events (covering_view e c)) \<in> {0x00, 0x05, 0x0A})"
proof -
  obtain c' where c': "take_events e events c = Inr c'" "covering_typed e c'"
      "covering_view e c' = fold (covering_step e) events (covering_view e c)"
    using events_simulated [OF assms] by blast
  have "cv_status (covering_view e c) \<in> {0x00, 0x05, 0x0A}" if "c (e, WindowCovering_Id, OperationalStatus_Id) = None"
    using that by (simp add: covering_view_def)
  then show ?thesis using c' read_status [OF c'(2)] status_values_fold by metis
qed

text \<open>A covering at 40 percent is told to open, reports the open end, is told to close and stopped.\<close>

definition sample_covering_events :: "covering_event list" where
  "sample_covering_events =
     (let ctx = \<lparr>hc_path = \<lparr>cp_endpoint = 3, cp_cluster = WindowCovering_Id, cp_command = UpOrOpen_Id\<rparr>,
         hc_session = Unicast_Session, hc_decode = (\<lambda>_. Some []), hc_decodes = 0, hc_statuses = [], hc_handled = False\<rparr>
      in [Change_Attribute (3, WindowCovering_Id, Mode_Id) (Some (VUInt8 1)),
          Change_Attribute (3, WindowCovering_Id, CurrentPositionLiftPercentage_Id) (Some (VUInt8 40)),
          Take_Command UpOrOpen_Id ctx new_cmd_payload, Report_Percentage (JInt 0),
          Take_Command DownOrClose_Id ctx new_cmd_payload, Take_Command StopMotion_Id ctx new_cmd_payload])"

lemma covering_status_refines_witness:
  "map (\<lambda>n. rbind (take_events 3 (take n sample_covering_events) Map.empty)
      (\<lambda>c. window_covering_read c (3, WindowCovering_Id, OperationalStatus_Id))) [2, 3, 4, 5, 6] =
   map (\<lambda>w. Inr (Encode (Scalar (VUInt8 w)))) [0x00, 0x05, 0x00, 0x0A, 0x00]"
proof -
  have typed: "covering_typed 3 Map.empty" by (simp add: covering_typed_def well_typed_def)
  have events: "list_all (event_typed 3) (take n sample_covering_events)" for n
  proof -
    have "list_all (event_typed 3) sample_covering_events"
      by (simp add: sample_covering_events_def Let_def covering_typed_def well_typed_def)
    then show ?thesis by (auto simp: list_all_iff dest: in_set_takeD)
  qed
  have read: "rbind (take_events 3 (take n sample_covering_events) Map.empty)
      (\<lambda>c. window_covering_read c (3, WindowCovering_Id, OperationalStatus_Id)) =
      Inr (Encode (Scalar (VUInt8 (cv_status (fold (covering_step 3) (take n sample_covering_events) (covering_view 3 Map.empty))))))"
    for n using covering_status_refines [OF typed events [of n]] by auto
  have machine: "map (\<lambda>n. cv_status (fold (covering_step 3) (take n sample_covering_events) (covering_view 3 Map.empty)))
      [2, 3, 4, 5, 6] = [0x00, 0x05, 0x00, 0x0A, 0x00]"
    by (simp add: sample_covering_events_def Let_def covering_view_def is_away_def json_get_int_def)
  show ?thesis using machine unfolding read by simp
qed

text \<open>C33: Outside calibration and maintenance mode, with attributes of their declared types,
  \<open>UpOrOpen\<close> sets the status to opening exactly when a reported position is away from the open
  end, \<open>DownOrClose\<close> to closing exactly when it is away from the closed end, and both to stopped
  otherwise; \<open>StopMotion\<close> sets it to stopped. Nothing else in the cache changes and the request is
  left to the caller.\<close>

theorem window_covering_movement:
  assumes mode: "c (e, WindowCovering_Id, Mode_Id) = Some (VUInt8 m)" "\<not> bit m 1" "\<not> bit m 2"
    and path: "hc_path ctx = \<lparr>cp_endpoint = e, cp_cluster = WindowCovering_Id, cp_command = cmd\<rparr>"
    and typed: "well_typed c (e, WindowCovering_Id, CurrentPositionLiftPercentage_Id) TUInt8"
      "well_typed c (e, WindowCovering_Id, CurrentPositionLift_Id) TUInt16"
      "well_typed c (e, WindowCovering_Id, InstalledOpenLimitLift_Id) TUInt16"
      "well_typed c (e, WindowCovering_Id, InstalledClosedLimitLift_Id) TUInt16"
    and known: "cmd \<in> {UpOrOpen_Id, DownOrClose_Id, StopMotion_Id}"
  shows "\<exists>name. window_covering_command c ctx d =
    Inr (CHIP_NO_ERROR,
      c((e, WindowCovering_Id, OperationalStatus_Id) \<mapsto> VUInt8
        (if cmd = UpOrOpen_Id \<and> away_from c e 0 InstalledOpenLimitLift_Id then 0x05
         else if cmd = DownOrClose_Id \<and> away_from c e 100 InstalledClosedLimitLift_Id then 0x0A else 0x00)),
      ctx, d\<lparr>ecp_completed := False, ecp_cmd := name\<rparr>)"
  using assms by (rule covering_movement)

lemma window_covering_movement_witness:
  "let c = [(3, WindowCovering_Id, Mode_Id) \<mapsto> VUInt8 1,
            (3, WindowCovering_Id, CurrentPositionLiftPercentage_Id) \<mapsto> VUInt8 40];
       ctx = \<lparr>hc_path = \<lparr>cp_endpoint = 3, cp_cluster = WindowCovering_Id, cp_command = UpOrOpen_Id\<rparr>,
         hc_session = Unicast_Session, hc_decode = (\<lambda>_. Some []), hc_decodes = 0,
         hc_statuses = [], hc_handled = False\<rparr>
   in \<exists>name. window_covering_command c ctx new_cmd_payload = Inr (CHIP_NO_ERROR,
       c((3, WindowCovering_Id, OperationalStatus_Id) \<mapsto> VUInt8 5), ctx,
       new_cmd_payload\<lparr>ecp_completed := False, ecp_cmd := name\<rparr>)"
proof -
  let ?c = "[(3, WindowCovering_Id, Mode_Id) \<mapsto> VUInt8 1,
      (3, WindowCovering_Id, CurrentPositionLiftPercentage_Id) \<mapsto> VUInt8 40] :: cache"
  let ?ctx = "\<lparr>hc_path = \<lparr>cp_endpoint = 3, cp_cluster = WindowCovering_Id, cp_command = UpOrOpen_Id\<rparr>,
      hc_session = Unicast_Session, hc_decode = (\<lambda>_. Some []), hc_decodes = 0,
      hc_statuses = [], hc_handled = False\<rparr>"
  have away: "away_from ?c 3 0 InstalledOpenLimitLift_Id" by (simp add: away_from_def)
  show ?thesis
    unfolding Let_def
    using window_covering_movement [of ?c 3 1 ?ctx UpOrOpen_Id new_cmd_payload] away
    by (simp add: well_typed_def)
qed

end
