(* ===== verification/Emulate_ColorControl.thy ===== *)
theory Emulate_ColorControl
  imports Emulator
begin

text \<open>
  linux/src/cluster_translator/emulations/emulate_colorcontrol.hpp: the color control commands that
  Matter rejects when they ask for no movement. Every case has the same shape: the command name,
  the test that rejects the request, and the fields put into the payload inside one \<open>try\<close> block.
\<close>

section \<open>The cases\<close>

text \<open>
  The identifiers of \<open>MoveHue\<close>, \<open>StepHue\<close>, \<open>MoveSaturation\<close>, \<open>StepSaturation\<close>,
  \<open>StepColor\<close>, \<open>MoveColorTemperature\<close>, \<open>StepColorTemperature\<close>, \<open>EnhancedMoveHue\<close>,
  \<open>EnhancedStepHue\<close>.
\<close>

abbreviation MoveHue_Id :: command_id where "MoveHue_Id \<equiv> 1"
abbreviation StepHue_Id :: command_id where "StepHue_Id \<equiv> 2"
abbreviation MoveSaturation_Id :: command_id where "MoveSaturation_Id \<equiv> 4"
abbreviation StepSaturation_Id :: command_id where "StepSaturation_Id \<equiv> 5"
abbreviation StepColor_Id :: command_id where "StepColor_Id \<equiv> 9"
abbreviation EnhancedMoveHue_Id :: command_id where "EnhancedMoveHue_Id \<equiv> 65"
abbreviation EnhancedStepHue_Id :: command_id where "EnhancedStepHue_Id \<equiv> 66"
abbreviation MoveColorTemperature_Id :: command_id where "MoveColorTemperature_Id \<equiv> 75"
abbreviation StepColorTemperature_Id :: command_id where "StepColorTemperature_Id \<equiv> 76"

definition moves_without_rate :: "args \<Rightarrow> bool" where
  "moves_without_rate as \<longleftrightarrow>
     (field as ''moveMode'' = A_Enum (Some ''Up'') \<or> field as ''moveMode'' = A_Enum (Some ''Down'')) \<and>
     field as ''rate'' = A_Int 0"

definition steps_by_zero :: "args \<Rightarrow> bool" where
  "steps_by_zero as \<longleftrightarrow> field as ''stepSize'' = A_Int 0"

definition steps_no_color :: "args \<Rightarrow> bool" where
  "steps_no_color as \<longleftrightarrow> field as ''stepX'' = A_Int 0 \<and> field as ''stepY'' = A_Int 0"

definition move_fields :: "(string \<times> string) list" where
  "move_fields = [(''MoveMode'', ''moveMode''), (''Rate'', ''rate''),
     (''OptionsMask'', ''optionsMask''), (''OptionsOverride'', ''optionsOverride'')]"

definition step_fields :: "(string \<times> string) list" where
  "step_fields = [(''StepMode'', ''stepMode''), (''StepSize'', ''stepSize''),
     (''TransitionTime'', ''transitionTime''), (''OptionsMask'', ''optionsMask''),
     (''OptionsOverride'', ''optionsOverride'')]"

definition color_case :: "command_id \<Rightarrow> (string \<times> (args \<Rightarrow> bool) \<times> (string \<times> string) list) option" where
  "color_case cmd =
     (if cmd = MoveHue_Id then Some (''MoveHue'', moves_without_rate, move_fields)
      else if cmd = StepHue_Id then Some (''StepHue'', steps_by_zero, step_fields)
      else if cmd = MoveSaturation_Id then Some (''MoveSaturation'', moves_without_rate, move_fields)
      else if cmd = StepSaturation_Id then Some (''StepSaturation'', steps_by_zero, step_fields)
      else if cmd = StepColor_Id then Some (''StepColor'', steps_no_color,
        [(''StepX'', ''stepX''), (''StepY'', ''stepY''), (''TransitionTime'', ''transitionTime''),
         (''OptionsMask'', ''optionsMask''), (''OptionsOverride'', ''optionsOverride'')])
      else if cmd = MoveColorTemperature_Id then Some (''MoveColorTemperature'', moves_without_rate,
        [(''MoveMode'', ''moveMode''), (''Rate'', ''rate''),
         (''ColorTemperatureMinimumMireds'', ''colorTemperatureMinimumMireds''),
         (''ColorTemperatureMaximumMireds'', ''colorTemperatureMaximumMireds''),
         (''OptionsMask'', ''optionsMask''), (''OptionsOverride'', ''optionsOverride'')])
      else if cmd = StepColorTemperature_Id then Some (''StepColorTemperature'', steps_by_zero,
        [(''StepMode'', ''stepMode''), (''StepSize'', ''stepSize''),
         (''TransitionTime'', ''transitionTime''),
         (''ColorTemperatureMinimumMireds'', ''colorTemperatureMinimumMireds''),
         (''ColorTemperatureMaximumMireds'', ''colorTemperatureMaximumMireds''),
         (''OptionsMask'', ''optionsMask''), (''OptionsOverride'', ''optionsOverride'')])
      else if cmd = EnhancedMoveHue_Id then Some (''EnhancedMoveHue'', moves_without_rate, move_fields)
      else if cmd = EnhancedStepHue_Id then Some (''EnhancedStepHue'', steps_by_zero, step_fields)
      else None)"

section \<open>The command\<close>

definition color_command :: "cache \<Rightarrow> handler_ctx \<Rightarrow> emulated_cmd_payload \<Rightarrow> command_outcome res" where
  "color_command c ctx d =
     (let d = d\<lparr>ecp_completed := False\<rparr> in
      case color_case (cp_command (hc_path ctx)) of
        None \<Rightarrow> Inr (CHIP_ERROR_NOT_IMPLEMENTED, c, ctx, d)
      | Some (name, rejected, kfs) \<Rightarrow>
          (let d = d\<lparr>ecp_cmd := name\<rparr> in
           case decode ctx of
             (None, ctx) \<Rightarrow> Inr (CHIP_NO_ERROR, c, ctx, d)
           | (Some as, ctx) \<Rightarrow>
               if rejected as then
                 Inr (CHIP_NO_ERROR, c, set_command_handled (add_status InvalidCommand ctx),
                      d\<lparr>ecp_completed := True\<rparr>)
               else Inr (CHIP_NO_ERROR, c, ctx,
                      d\<lparr>ecp_payload := put_fields (select_fields as kfs) (ecp_payload d)\<rparr>)))"

definition emulate_color_control :: emulator where
  "emulate_color_control = (default_emulator ColorControl_Id ''ColorControl'')
     \<lparr>em_commands := [MoveHue_Id, StepHue_Id, MoveSaturation_Id, StepSaturation_Id, StepColor_Id,
        MoveColorTemperature_Id, StepColorTemperature_Id, EnhancedMoveHue_Id, EnhancedStepHue_Id],
      em_command := color_command\<rparr>"

interpretation color: command_emulator color_command
  by unfold_locales
    (auto simp: color_command_def same_request_def decode_def Let_def split: if_splits option.splits)

end
