(* ===== verification/Cluster_Emulator.thy ===== *)
theory Cluster_Emulator
  imports Emulate_Level Emulate_Simple Emulate_Thermostat Emulate_WindowCovering
    Emulate_ColorControl
begin

text \<open>
  linux/src/cluster_translator/cluster_emulator.hpp and cluster_emulator.cpp: the registry of the
  emulators, the dispatch of reads, writes and commands to them, the emulated global attributes
  (cluster revision, feature map, event list) and the external read callback of the Ember
  framework. \<open>emberAfFindServerCluster\<close> is the parameter \<open>find_server\<close>; the types of the
  pressure attributes are those of the Matter library and the parameter \<open>pressure_type\<close>.
\<close>

section \<open>The registry\<close>

definition cluster_emulators :: "emulator list" where
  "cluster_emulators =
     [emulate_identify, emulate_level, emulate_doorlock, emulate_window_covering, emulate_groups,
      emulate_thermostat, emulate_color_control]"

text \<open>
  The three maps the constructor fills with \<open>insert\<close>: the first entry of a key stays.
\<close>

definition command_emulator_map :: "cluster_id \<times> command_id \<rightharpoonup> emulator" where
  "command_emulator_map = map_of
     (concat (map (\<lambda>e. map (\<lambda>a. ((em_cluster e, a), e)) (em_commands e)) cluster_emulators))"

definition attribute_emulator_map :: "cluster_id \<times> attribute_id \<rightharpoonup> emulator" where
  "attribute_emulator_map = map_of
     (concat (map (\<lambda>e. map (\<lambda>a. ((em_cluster e, a), e)) (em_attributes e)) cluster_emulators))"

definition string_emulator_map :: "string \<rightharpoonup> emulator" where
  "string_emulator_map = map_of (map (\<lambda>e. (em_cluster_name e, e)) cluster_emulators)"

definition is_command_emulated :: "command_path \<Rightarrow> bool" where
  "is_command_emulated p \<longleftrightarrow> command_emulator_map (cp_cluster p, cp_command p) \<noteq> None"

definition is_attribute_emulated :: "attr_path \<Rightarrow> bool" where
  "is_attribute_emulated p \<longleftrightarrow>
     snd (snd p) \<in> {ClusterRevision_Id, FeatureMap_Id, EventList_Id} \<or>
     attribute_emulator_map (snd p) \<noteq> None"

section \<open>Describing an endpoint\<close>

definition add_emulated_commands_and_attributes ::
  "unify_cluster \<Rightarrow> cluster_builder \<Rightarrow> cluster_builder" where
  "add_emulated_commands_and_attributes uc b =
     (let b = add_attribute (external_attribute None FeatureMap_Id 4 ZCL_BITMAP32) b;
          b = add_attribute (external_attribute None ClusterRevision_Id 2 ZCL_INT16U) b;
          b = add_attribute (external_attribute None EventList_Id 4 ZCL_EVENT_ID) b
      in case string_emulator_map (uc_cluster_name uc) of
           Some e \<Rightarrow> snd (em_emulate e uc b)
         | None \<Rightarrow> b)"

section \<open>Global attributes\<close>

text \<open>linux/zap-generated/data_model_translator/cluster_revision_table.hpp.\<close>

definition zap_cluster_revisions :: "(cluster_id \<times> u32) list" where
  "zap_cluster_revisions =
     [(3, 4), (4, 4), (6, 6), (8, 6), (28, 0), (29, 2), (30, 0), (31, 2), (37, 0), (40, 3),
      (41, 0), (42, 0), (43, 0), (44, 0), (45, 1), (46, 1), (47, 0), (48, 0), (49, 0), (50, 0),
      (51, 2), (52, 0), (53, 2), (54, 0), (55, 0), (56, 2), (57, 3), (59, 2), (60, 0), (62, 0),
      (63, 0), (64, 0), (65, 0), (66, 0), (67, 0), (68, 0), (69, 1), (70, 3), (71, 1), (72, 1),
      (73, 1), (74, 1), (80, 2), (81, 2), (82, 2), (83, 1), (84, 3), (85, 3), (86, 0), (87, 0),
      (89, 2), (91, 0), (92, 1), (93, 0), (94, 1), (95, 0), (96, 1), (97, 1), (98, 1), (113, 0),
      (114, 0), (128, 1), (129, 1), (144, 1), (145, 1), (148, 2), (150, 4), (151, 3), (152, 4),
      (153, 4), (155, 1), (156, 1), (157, 1), (158, 1), (159, 1), (257, 7), (258, 5), (336, 1),
      (512, 3), (513, 7), (514, 4), (516, 2), (768, 7), (769, 4), (1024, 3), (1026, 0),
      (1027, 3), (1028, 3), (1029, 3), (1030, 5), (1036, 3), (1037, 3), (1043, 3), (1045, 3),
      (1066, 3), (1067, 3), (1068, 3), (1069, 3), (1070, 3), (1071, 3), (1105, 1), (1106, 1),
      (1107, 1), (1283, 1), (1284, 2), (1285, 2), (1286, 2), (1287, 0), (1288, 0), (1289, 0),
      (1290, 1), (1291, 0), (1292, 0), (1293, 0), (1294, 2), (1295, 0), (1296, 0), (1363, 1),
      (1366, 1), (1872, 1), (1873, 1), (4294048773, 0), (4294048774, 0), (4294048800, 0)]"

definition read_cluster_revision :: "cluster_id \<Rightarrow> u32" where
  "read_cluster_revision cl =
     (if cl = TemperatureMeasurement_Id then 4
      else case map_of zap_cluster_revisions cl of Some r \<Rightarrow> r | None \<Rightarrow> 0)"

text \<open>The event list is a span over a local array of two identifiers.\<close>

definition read_event_list :: "cluster_id \<Rightarrow> read_reply" where
  "read_event_list cl = (if cl = DoorLock_Id then Encode_Dangling_List 2 else Encode_Empty_List)"

abbreviation ColorCapabilities_Id :: attribute_id where "ColorCapabilities_Id \<equiv> 16394"
abbreviation ScaledValue_Id :: attribute_id where "ScaledValue_Id \<equiv> 16"
abbreviation MinScaledValue_Id :: attribute_id where "MinScaledValue_Id \<equiv> 17"
abbreviation MaxScaledValue_Id :: attribute_id where "MaxScaledValue_Id \<equiv> 18"
abbreviation Scale_Id :: attribute_id where "Scale_Id \<equiv> 20"

definition color_feature_map :: "u16 \<Rightarrow> u32" where
  "color_feature_map w =
     (let field = (\<lambda>n. if bit w n then 1 else 0 :: u32) in
      or (push_bit 4 (field 4)) (or (push_bit 3 (field 3)) (or (push_bit 2 (field 2))
        (or (push_bit 1 (field 1)) (field 0)))))"

definition has_value :: "cpp_type \<Rightarrow> cache \<Rightarrow> attr_path \<Rightarrow> bool res" where
  "has_value T c p = rbind (cache_get T c p Null) (\<lambda>(found, _). Inr found)"

definition read_feature_map ::
  "(endpoint_id \<Rightarrow> cluster_id \<Rightarrow> bool) \<Rightarrow> (attribute_id \<Rightarrow> cpp_type) \<Rightarrow> cache \<Rightarrow>
     endpoint_id \<Rightarrow> cluster_id \<Rightarrow> u32 res" where
  "read_feature_map find_server pressure_type c e cl =
     (if cl = ColorControl_Id then
        rbind (get_u16 (Bitmask TUInt16) c (e, cl, ColorCapabilities_Id))
          (\<lambda>r. Inr (case r of Some w \<Rightarrow> color_feature_map w | None \<Rightarrow> 0))
      else if cl = OnOff_Id then Inr (if find_server e LevelControl_Id then 1 else 0)
      else if cl = LevelControl_Id then Inr (if find_server e OnOff_Id then 7 else 0)
      else if cl = Thermostat_Id then
        rbind (get_i16 c (e, cl, OccupiedCoolingSetpoint_Id)) (\<lambda>cooling.
        rbind (get_i16 c (e, cl, OccupiedHeatingSetpoint_Id)) (\<lambda>heating.
        Inr (or (if cooling = None then 0 else 2) (if heating = None then 0 else 1))))
      else if cl = DoorLock_Id then Inr 0
      else if cl = WindowCovering_Id then Inr (if find_server e WindowCovering_Id then 1 else 0)
      else if cl = PressureMeasurement_Id then
        rbind (has_value (pressure_type ScaledValue_Id) c (e, cl, ScaledValue_Id)) (\<lambda>scaled.
        rbind (has_value (pressure_type MinScaledValue_Id) c (e, cl, MinScaledValue_Id)) (\<lambda>min.
        rbind (has_value (pressure_type MaxScaledValue_Id) c (e, cl, MaxScaledValue_Id)) (\<lambda>max.
        rbind (has_value (pressure_type Scale_Id) c (e, cl, Scale_Id)) (\<lambda>scale.
        Inr (if scaled \<and> scale \<and> max \<and> min then 1 else 0)))))
      else Inr 0)"

section \<open>Dispatch\<close>

definition emulator_invoke_command ::
  "cache \<Rightarrow> handler_ctx \<Rightarrow> emulated_cmd_payload \<Rightarrow> command_outcome res" where
  "emulator_invoke_command c ctx d =
     (case command_emulator_map (cp_cluster (hc_path ctx), cp_command (hc_path ctx)) of
        Some e \<Rightarrow> em_command e c ctx d
      | None \<Rightarrow> Inr (CHIP_ERROR_NOT_IMPLEMENTED, c, ctx, d))"

definition emulator_read_attribute ::
  "(endpoint_id \<Rightarrow> cluster_id \<Rightarrow> bool) \<Rightarrow> (attribute_id \<Rightarrow> cpp_type) \<Rightarrow> cache \<Rightarrow> attr_path \<Rightarrow>
     read_reply res" where
  "emulator_read_attribute find_server pressure_type c p =
     (case p of (e, cl, a) \<Rightarrow>
        if a = ClusterRevision_Id then Inr (Encode (Scalar (VUInt32 (read_cluster_revision cl))))
        else if a = FeatureMap_Id then
          rbind (read_feature_map find_server pressure_type c e cl)
            (\<lambda>w. Inr (Encode (Scalar (VUInt32 w))))
        else if a = EventList_Id then Inr (read_event_list cl)
        else case attribute_emulator_map (cl, a) of
               Some em \<Rightarrow> em_read em c p
             | None \<Rightarrow> Inr (Read_Error CHIP_ERROR_INVALID_ARGUMENT))"

text \<open>\<open>at\<close> throws for the global attributes, which no emulator registers.\<close>

definition emulator_write_attribute ::
  "cache \<Rightarrow> attr_path \<Rightarrow> (cdata, chip_error) sum \<Rightarrow> chip_error res" where
  "emulator_write_attribute c p decoded =
     (if is_attribute_emulated p then
        (case attribute_emulator_map (snd p) of
           Some em \<Rightarrow> em_write em c p decoded
         | None \<Rightarrow> Inl Out_Of_Range)
      else Inr CHIP_ERROR_NOT_IMPLEMENTED)"

text \<open>
  \<open>emberAfExternalAttributeReadCallback\<close>: the value whose low \<open>size\<close> bytes are copied to the
  buffer. The first branch copies from a local \<open>uint16_t\<close>, the second from the default value of
  the metadata, a union of eight bytes.
\<close>

definition external_attribute_read ::
  "cache \<Rightarrow> endpoint_id \<Rightarrow> cluster_id \<Rightarrow> ember_attribute \<Rightarrow> u16 res" where
  "external_attribute_read c e cl meta =
     (let dflt = (case ea_default meta of Some n \<Rightarrow> n | None \<Rightarrow> 0) in
      if ea_id meta = 0 then
        rbind (get_u16 (Plain TUInt16) c (e, cl, ea_id meta)) (\<lambda>r.
          let v = (case r of Some w \<Rightarrow> w | None \<Rightarrow> dflt)
          in if 2 < ea_size meta then Inl Out_Of_Bounds_Read else Inr v)
      else if 8 < ea_size meta then Inl Out_Of_Bounds_Read else Inr dflt)"

section \<open>The contract of the registered emulators\<close>

lemmas emulator_defs = emulate_identify_def emulate_level_def emulate_doorlock_def
  emulate_window_covering_def emulate_groups_def emulate_thermostat_def emulate_color_control_def
  default_emulator_def

lemma registered_command_emulator: "e \<in> set cluster_emulators \<Longrightarrow> command_emulator (em_command e)"
  using inherited.command_emulator_axioms level.command_emulator_axioms
    doorlock.command_emulator_axioms window_covering.command_emulator_axioms
    thermostat.command_emulator_axioms color.command_emulator_axioms
  by (auto simp: cluster_emulators_def emulator_defs)

lemma map_of_concat_mem: "map_of (concat (map (\<lambda>e. map (\<lambda>a. ((f e, a), e)) (g e)) es)) (k, a) = Some e \<Longrightarrow>
    e \<in> set es \<and> f e = k \<and> a \<in> set (g e)"
  by (auto dest!: map_of_SomeD)

lemma command_emulator_map_mem:
  "command_emulator_map (k, a) = Some e \<Longrightarrow>
     e \<in> set cluster_emulators \<and> em_cluster e = k \<and> a \<in> set (em_commands e)"
  unfolding command_emulator_map_def by (rule map_of_concat_mem)

lemma command_emulator_map_emulator:
  "command_emulator_map k = Some e \<Longrightarrow> command_emulator (em_command e)"
  by (cases k) (auto dest: command_emulator_map_mem registered_command_emulator)

lemma command_emulator_map_eqs:
  "command_emulator_map (LevelControl_Id, Move_Id) = Some emulate_level"
  "command_emulator_map (Thermostat_Id, SetpointRaiseLower_Id) = Some emulate_thermostat"
  "command_emulator_map (WindowCovering_Id, UpOrOpen_Id) = Some emulate_window_covering"
  "command_emulator_map (DoorLock_Id, LockDoor_Id) = Some emulate_doorlock"
  "command_emulator_map (DoorLock_Id, UnlockDoor_Id) = Some emulate_doorlock"
  "command_emulator_map (OnOff_Id, n) = None"
  by (simp_all add: command_emulator_map_def cluster_emulators_def emulator_defs)

interpretation registry: command_emulator emulator_invoke_command
proof
  fix c ctx d err c' ctx' d'
  assume run: "emulator_invoke_command c ctx d = Inr (err, c', ctx', d')"
  show "same_request ctx ctx'"
    using run command_emulator.keeps_request [OF command_emulator_map_emulator]
    by (auto simp: emulator_invoke_command_def split: option.splits)
  show "cache_frame (cp_endpoint (hc_path ctx)) (cp_cluster (hc_path ctx)) c c'"
    using run command_emulator.keeps_cache [OF command_emulator_map_emulator]
    by (auto simp: emulator_invoke_command_def split: option.splits)
  show "hc_statuses ctx' \<noteq> hc_statuses ctx \<Longrightarrow> ecp_completed d' \<and> hc_handled ctx'"
    using run command_emulator.answers_when_completed [OF command_emulator_map_emulator]
    by (auto simp: emulator_invoke_command_def split: option.splits)
  show "\<not> ecp_completed d' \<Longrightarrow> hc_statuses ctx' = hc_statuses ctx \<and> hc_handled ctx' = hc_handled ctx"
    using run command_emulator.open_unless_answered [OF command_emulator_map_emulator]
    by (auto simp: emulator_invoke_command_def split: option.splits)
qed

section \<open>Properties\<close>

text \<open>C17: Whatever command a client sends, handling it in the emulators changes no cached attribute
  of another endpoint or another cluster, keeps the request, and adds a status only if the emulation
  is then reported as completed and handled; a command no emulator registers leaves everything as it
  was.\<close>

theorem emulator_command_contract:
  assumes "emulator_invoke_command c ctx d = Inr (err, c', ctx', d')"
  shows "hc_path ctx' = hc_path ctx \<and> hc_session ctx' = hc_session ctx \<and>
    ((e, k) \<noteq> (cp_endpoint (hc_path ctx), cp_cluster (hc_path ctx)) \<longrightarrow> c' (e, k, a) = c (e, k, a)) \<and>
    (hc_statuses ctx' = hc_statuses ctx \<or> ecp_completed d' \<and> hc_handled ctx') \<and>
    (is_command_emulated (hc_path ctx) \<or> err = CHIP_ERROR_NOT_IMPLEMENTED \<and> c' = c \<and> ctx' = ctx \<and> d' = d)"
  using registry.keeps_request [OF assms] registry.keeps_cache [OF assms]
    registry.answers_when_completed [OF assms] assms
  by (auto simp: same_request_def cache_frame_def is_command_emulated_def
      emulator_invoke_command_def)

abbreviation move_request :: handler_ctx where
  "move_request \<equiv> \<lparr>hc_path = \<lparr>cp_endpoint = 4, cp_cluster = LevelControl_Id, cp_command = Move_Id\<rparr>,
     hc_session = Unicast_Session,
     hc_decode = (\<lambda>_. Some [(''moveMode'', A_Enum (Some ''Up'')), (''rate'', A_Int 0)]),
     hc_decodes = 0, hc_statuses = [], hc_handled = False\<rparr>"

lemma emulator_command_contract_witness:
  "\<exists>err c' ctx' d'. emulator_invoke_command [(9, OnOff_Id, 0) \<mapsto> VBool True] move_request new_cmd_payload =
      Inr (err, c', ctx', d') \<and> c' (9, OnOff_Id, 0) = Some (VBool True) \<and>
      (hc_statuses ctx' = [] \<or> ecp_completed d' \<and> hc_handled ctx')"
proof -
  obtain err c' ctx' d' where
    run: "emulator_invoke_command [(9, OnOff_Id, 0) \<mapsto> VBool True] move_request new_cmd_payload =
      Inr (err, c', ctx', d')"
    by (simp add: emulator_invoke_command_def command_emulator_map_eqs emulate_level_def
        level_command_def decode_def no_rate_def field_def)
  show ?thesis
    using emulator_command_contract [OF run, of 9 OnOff_Id 0] run by auto
qed

text \<open>The feature map of the color cluster is the low five bits of \<open>ColorCapabilities\<close>, and 0
  while Unify has not reported them.\<close>

theorem color_feature_map_bits:
  "emulator_read_attribute find_server pressure_type
      (c((e, ColorControl_Id, ColorCapabilities_Id) := Some (VUInt16 w))) (e, ColorControl_Id, FeatureMap_Id) =
     Inr (Encode (Scalar (VUInt32 (ucast (take_bit 5 w))))) \<and>
   emulator_read_attribute find_server pressure_type
      (c((e, ColorControl_Id, ColorCapabilities_Id) := None)) (e, ColorControl_Id, FeatureMap_Id) =
     Inr (Encode (Scalar (VUInt32 0)))"
proof -
  have "color_feature_map w = ucast (take_bit 5 w)"
  proof (rule bit_word_eqI)
    fix n :: nat
    assume n: "n < LENGTH(32)"
    show "bit (color_feature_map w) n = bit (ucast (take_bit 5 w) :: u32) n"
    proof -
      consider "n = 0" | "n = 1" | "n = 2" | "n = 3" | "n = 4" | "5 \<le> n" by linarith
      then show ?thesis
        by cases (auto simp: color_feature_map_def bit_simps n)
    qed
  qed
  then show ?thesis
    by (simp add: emulator_read_attribute_def read_feature_map_def get_u16_mask)
qed

text \<open>A write to a global attribute (cluster revision, feature map or event list) counts as
  emulated, but no emulator is registered for it, so the lookup throws \<open>std::out_of_range\<close>; a
  write to an attribute that is not emulated is refused without touching an emulator.\<close>

theorem emulated_write_outcomes:
  "(if a \<in> {ClusterRevision_Id, FeatureMap_Id, EventList_Id}
    then emulator_write_attribute c (e, cl, a) decoded = Inl Out_Of_Range
    else if is_attribute_emulated (e, cl, a)
    then \<exists>em \<in> set cluster_emulators. em_cluster em = cl \<and> a \<in> set (em_attributes em) \<and>
       emulator_write_attribute c (e, cl, a) decoded = em_write em c (e, cl, a) decoded
    else emulator_write_attribute c (e, cl, a) decoded = Inr CHIP_ERROR_NOT_IMPLEMENTED)"
proof -
  have some: "em \<in> set cluster_emulators \<and> em_cluster em = cl \<and> a \<in> set (em_attributes em)"
    if "attribute_emulator_map (cl, a) = Some em" for em
    using that unfolding attribute_emulator_map_def by (rule map_of_concat_mem)
  have not_global: "a \<notin> {ClusterRevision_Id, FeatureMap_Id, EventList_Id}"
    if "em \<in> set cluster_emulators" "a \<in> set (em_attributes em)" for em
    using that by (auto simp: cluster_emulators_def emulator_defs)
  show ?thesis
  proof (cases "attribute_emulator_map (cl, a)")
    case None
    then show ?thesis
      by (cases "a \<in> {ClusterRevision_Id, FeatureMap_Id, EventList_Id}")
        (simp_all only: emulator_write_attribute_def is_attribute_emulated_def snd_conv if_True if_False
          not_False_eq_True simp_thms option.case)
  next
    case (Some em)
    have "emulator_write_attribute c (e, cl, a) decoded = em_write em c (e, cl, a) decoded"
      using Some by (simp only: emulator_write_attribute_def is_attribute_emulated_def snd_conv
          option.case option.distinct simp_thms if_True)
    moreover have "is_attribute_emulated (e, cl, a)" using Some by (simp add: is_attribute_emulated_def)
    moreover have "\<exists>em \<in> set cluster_emulators. em_cluster em = cl \<and> a \<in> set (em_attributes em) \<and>
       emulator_write_attribute c (e, cl, a) decoded = em_write em c (e, cl, a) decoded"
      by (rule bexI [of _ em]) (use some [OF Some] calculation in simp_all)
    moreover have "a \<notin> {ClusterRevision_Id, FeatureMap_Id, EventList_Id}"
      by (rule not_global [of em]) (simp_all add: some [OF Some])
    ultimately show ?thesis by (simp only: if_False if_True)
  qed
qed

text \<open>With the scaled pressure values nullable, as Matter declares them, the extended feature
  bit of the pressure cluster depends on \<open>Scale\<close> alone: reading a nullable value that Unify never
  reported succeeds with null, so the scaled values cannot be found missing.\<close>

theorem pressure_feature_depends_on_scale:
  assumes "pressure_type ScaledValue_Id = Nullable (Plain TInt16)"
    and "pressure_type MinScaledValue_Id = Nullable (Plain TInt16)"
    and "pressure_type MaxScaledValue_Id = Nullable (Plain TInt16)"
    and "pressure_type Scale_Id = Plain TInt8"
    and "\<forall>a \<in> {ScaledValue_Id, MinScaledValue_Id, MaxScaledValue_Id}.
      c (e, PressureMeasurement_Id, a) \<in> insert None (range (\<lambda>w. Some (VInt16 w)))"
    and "c (e, PressureMeasurement_Id, Scale_Id) \<in> insert None (range (\<lambda>w. Some (VInt8 w)))"
  shows "read_feature_map find_server pressure_type c e PressureMeasurement_Id =
    Inr (if c (e, PressureMeasurement_Id, Scale_Id) = None then 0 else 1)"
proof -
  have scaled: "has_value (Nullable (Plain TInt16)) c (e, PressureMeasurement_Id, a) = Inr True"
    if "a \<in> {ScaledValue_Id, MinScaledValue_Id, MaxScaledValue_Id}" for a
  proof -
    have "c (e, PressureMeasurement_Id, a) \<in> insert None (range (\<lambda>w. Some (VInt16 w)))"
      by (rule bspec [OF assms(5) that])
    then show ?thesis by (auto simp: has_value_def std_get_def)
  qed
  have "has_value (Plain TInt8) c (e, PressureMeasurement_Id, Scale_Id) =
      Inr (c (e, PressureMeasurement_Id, Scale_Id) \<noteq> None)"
    using assms(6) by (auto simp: has_value_def std_get_def)
  then show ?thesis
    using assms(1-4) scaled by (simp add: read_feature_map_def)
qed

lemma pressure_feature_depends_on_scale_witness:
  "read_feature_map (\<lambda>_ _. True)
     (\<lambda>a. if a = Scale_Id then Plain TInt8 else Nullable (Plain TInt16))
     [(7, PressureMeasurement_Id, Scale_Id) \<mapsto> VInt8 2] 7 PressureMeasurement_Id = Inr 1"
  using pressure_feature_depends_on_scale
    [where c = "[(7, PressureMeasurement_Id, Scale_Id) \<mapsto> VInt8 2]" and e = 7
      and find_server = "\<lambda>_ _. True"
      and pressure_type = "\<lambda>a. if a = Scale_Id then Plain TInt8 else Nullable (Plain TInt16)"]
  by simp

text \<open>The external read callback serves \<open>IdentifyTime\<close> by its attribute number 0 alone: for
  any cluster whose attribute 0 is cached with another type than \<open>uint16_t\<close>, such as the group
  name support or the on/off state, the read throws \<open>std::bad_variant_access\<close>; without a cached
  value it gives the default of the metadata.\<close>

theorem external_read_attribute_zero:
  assumes "ea_id meta = 0" and "ea_size meta \<le> 2"
  shows "external_attribute_read c e cl meta =
    (case c (e, cl, 0) of
       None \<Rightarrow> Inr (case ea_default meta of Some n \<Rightarrow> n | None \<Rightarrow> 0)
     | Some (VUInt16 w) \<Rightarrow> Inr w
     | Some _ \<Rightarrow> Inl Bad_Variant_Access)"
  using assms
  by (auto simp: external_attribute_read_def get_u16_plain Let_def not_less
      split: option.splits value_t.splits)

lemma external_read_attribute_zero_witness:
  "external_attribute_read [(4, Groups_Id, NameSupport_Id) \<mapsto> VUInt8 128] 4 Groups_Id
     (external_attribute (Some 128) NameSupport_Id 1 ZCL_BITMAP8) = Inl Bad_Variant_Access"
  using external_read_attribute_zero
    [of "external_attribute (Some 128) NameSupport_Id 1 ZCL_BITMAP8"
      "[(4, Groups_Id, NameSupport_Id) \<mapsto> VUInt8 128]" 4 Groups_Id]
  by (simp add: external_attribute_def)

end
