(* ===== verification/Device_Translator.thy ===== *)
theory Device_Translator
  imports Endpoint_Builder
begin

text \<open>
  linux/src/device_type_mapper/matter_device_translator.hpp and matter_device_translator.cpp: the
  lookups between names and identifiers, and the tables of the device types. The name tables are
  constants of generated include files whose values are identifiers of the Matter library; they
  are fields of a record here, so that every result holds for any content of them. The table of
  device types is the one of
  linux/zap-generated/device_spec_compliance/device-type-mapper/matter_device_types_clusters_list.inc.
\<close>

section \<open>Data\<close>

record device_cluster_data =
  dc_cluster_name :: string
  dc_is_mandatory :: bool
  dc_required_commands :: "string list"
  dc_required_attributes :: "string list"

record device_type_data =
  dt_clusters :: "device_cluster_data list"
  dt_device_type_name :: string

definition cluster_req :: "string \<Rightarrow> bool \<Rightarrow> string list \<Rightarrow> string list \<Rightarrow> device_cluster_data" where
  "cluster_req n m cs as = \<lparr>dc_cluster_name = n, dc_is_mandatory = m, dc_required_commands = cs,
     dc_required_attributes = as\<rparr>"

definition device_type :: "string \<Rightarrow> device_cluster_data list \<Rightarrow> device_type_data" where
  "device_type n cs = \<lparr>dt_clusters = cs, dt_device_type_name = n\<rparr>"

type_synonym name_map = "string \<rightharpoonup> u32"

record device_translator =
  unify_cluster_id_map :: name_map
  unify_to_matter_attribute_id_map :: "string \<rightharpoonup> name_map"
  unify_to_matter_command_id_map :: "string \<rightharpoonup> name_map"
  matter_cluster_id_map :: name_map
  matter_attribute_id_map :: "string \<rightharpoonup> name_map"
  matter_command_id_map :: "string \<rightharpoonup> name_map"
  m_spec_compliant :: bool

section \<open>The device types\<close>

definition matter_device_type_vs_clusters_map :: "(device_type_id \<times> device_type_data) list" where
  "matter_device_type_vs_clusters_map =
     [(10, device_type ''doorlock'' [cluster_req ''DoorLock'' True [] [],
         cluster_req ''Identify'' True [''Identify''] [''IdentifyTime'', ''IdentifyType''],
         cluster_req ''TimeSynchronization'' False [] []]),
      (256, device_type ''onofflight'' [cluster_req ''Groups'' True [''AddGroup'',
        ''ViewGroup'', ''GetGroupMembership'', ''RemoveGroup'', ''RemoveAllGroups'',
        ''AddGroupIfIdentifying''] [''NameSupport''],
         cluster_req ''Identify'' True [''Identify''] [''IdentifyTime'', ''IdentifyType''],
         cluster_req ''LevelControl'' False [''MoveToLevel'', ''Move'', ''Step'', ''Stop'',
           ''MoveToLevelWithOnOff'', ''MoveWithOnOff'', ''StepWithOnOff'', ''StopWithOnOff'']
           [''CurrentLevel'', ''Options'', ''RemainingTime'', ''MinLevel'', ''OnLevel'',
           ''StartUpCurrentLevel''],
         cluster_req ''OccupancySensing'' False [] [],
         cluster_req ''OnOff'' True [''Off'', ''On'', ''Toggle'', ''OffWithEffect'',
           ''OnWithRecallGlobalScene'', ''OnWithTimedOff''] [''OnOff'', ''GlobalSceneControl'',
           ''OnTime'', ''OffWaitTime'', ''StartUpOnOff'']]),
      (257, device_type ''dimmablelight'' [cluster_req ''Binding'' False [] [],
         cluster_req ''Groups'' True [''AddGroup'', ''ViewGroup'', ''GetGroupMembership'',
           ''RemoveGroup'', ''RemoveAllGroups'', ''AddGroupIfIdentifying''] [''NameSupport''],
         cluster_req ''Identify'' True [''Identify''] [''IdentifyTime'', ''IdentifyType''],
         cluster_req ''LevelControl'' True [''MoveToLevel'', ''Move'', ''Step'', ''Stop'',
           ''MoveToLevelWithOnOff'', ''MoveWithOnOff'', ''StepWithOnOff'', ''StopWithOnOff'']
           [''CurrentLevel'', ''Options'', ''RemainingTime'', ''MinLevel'', ''OnLevel'',
           ''StartUpCurrentLevel''],
         cluster_req ''OccupancySensing'' False [] [],
         cluster_req ''OnOff'' True [''Off'', ''On'', ''Toggle'', ''OffWithEffect'',
           ''OnWithRecallGlobalScene'', ''OnWithTimedOff''] [''OnOff'', ''GlobalSceneControl'',
           ''OnTime'', ''OffWaitTime'', ''StartUpOnOff'']]),
      (259, device_type ''onofflightswitch'' [cluster_req ''Binding'' True [] [],
         cluster_req ''Groups'' False [''AddGroup'', ''ViewGroup'', ''GetGroupMembership'',
           ''RemoveGroup'', ''RemoveAllGroups'', ''AddGroupIfIdentifying''] [''NameSupport''],
         cluster_req ''Identify'' True [''Identify''] [''IdentifyTime'', ''IdentifyType''],
         cluster_req ''OnOff'' True [] []]),
      (262, device_type ''lightsensor'' [cluster_req ''Binding'' False [] [],
         cluster_req ''Groups'' False [] [],
         cluster_req ''Identify'' True [''Identify''] [''IdentifyTime'', ''IdentifyType''],
         cluster_req ''IlluminanceMeasurement'' True [] [''MeasuredValue'',
           ''MinMeasuredValue'', ''MaxMeasuredValue'']]),
      (263, device_type ''occupancysensor'' [cluster_req ''Binding'' False [] [],
         cluster_req ''Groups'' False [] [],
         cluster_req ''Identify'' True [''Identify''] [''IdentifyTime'', ''IdentifyType''],
         cluster_req ''OccupancySensing'' True [] [''Occupancy'', ''OccupancySensorType'']]),
      (266, device_type ''onoffpluginunit'' [cluster_req ''Groups'' True [''AddGroup'',
        ''ViewGroup'', ''GetGroupMembership'', ''RemoveGroup'', ''RemoveAllGroups'',
        ''AddGroupIfIdentifying''] [''NameSupport''],
         cluster_req ''Identify'' True [''Identify''] [''IdentifyTime'', ''IdentifyType''],
         cluster_req ''LevelControl'' False [''MoveToLevel'', ''Move'', ''Step'', ''Stop'',
           ''MoveToLevelWithOnOff'', ''MoveWithOnOff'', ''StepWithOnOff'', ''StopWithOnOff'']
           [''CurrentLevel'', ''Options'', ''RemainingTime'', ''MinLevel'', ''OnLevel'',
           ''StartUpCurrentLevel''],
         cluster_req ''OnOff'' True [''Off'', ''On'', ''Toggle'', ''OffWithEffect'',
           ''OnWithRecallGlobalScene'', ''OnWithTimedOff''] [''OnOff'', ''GlobalSceneControl'',
           ''OnTime'', ''OffWaitTime'', ''StartUpOnOff'']]),
      (267, device_type ''dimmablepluginunit'' [cluster_req ''Groups'' True [''AddGroup'',
        ''ViewGroup'', ''GetGroupMembership'', ''RemoveGroup'', ''RemoveAllGroups'',
        ''AddGroupIfIdentifying''] [''NameSupport''],
         cluster_req ''Identify'' True [''Identify''] [''IdentifyTime'', ''IdentifyType''],
         cluster_req ''LevelControl'' True [''MoveToLevel'', ''Move'', ''Step'', ''Stop'',
           ''MoveToLevelWithOnOff'', ''MoveWithOnOff'', ''StepWithOnOff'', ''StopWithOnOff'']
           [''CurrentLevel'', ''Options'', ''RemainingTime'', ''MinLevel'', ''OnLevel'',
           ''StartUpCurrentLevel''],
         cluster_req ''OnOff'' True [''Off'', ''On'', ''Toggle'', ''OffWithEffect'',
           ''OnWithRecallGlobalScene'', ''OnWithTimedOff''] [''OnOff'', ''GlobalSceneControl'',
           ''OnTime'', ''OffWaitTime'', ''StartUpOnOff'']]),
      (269, device_type ''extendedcolorlight'' [cluster_req ''ColorControl'' True
        [''MoveToColor'', ''MoveColor'', ''StepColor'', ''MoveToColorTemperature'',
        ''StopMoveStep'', ''MoveColorTemperature'', ''StepColorTemperature''] [''RemainingTime'',
        ''CurrentX'', ''CurrentY'', ''ColorTemperatureMireds'', ''ColorMode'', ''Options'',
        ''NumberOfPrimaries'', ''EnhancedColorMode'', ''ColorCapabilities'',
        ''ColorTempPhysicalMinMireds'', ''ColorTempPhysicalMaxMireds'',
        ''CoupleColorTempToLevelMinMireds'', ''StartUpColorTemperatureMireds''],
         cluster_req ''Groups'' True [''AddGroup'', ''ViewGroup'', ''GetGroupMembership'',
           ''RemoveGroup'', ''RemoveAllGroups'', ''AddGroupIfIdentifying''] [''NameSupport''],
         cluster_req ''Identify'' True [''Identify''] [''IdentifyTime'', ''IdentifyType''],
         cluster_req ''LevelControl'' True [''MoveToLevel'', ''Move'', ''Step'', ''Stop'',
           ''MoveToLevelWithOnOff'', ''MoveWithOnOff'', ''StepWithOnOff'', ''StopWithOnOff'']
           [''CurrentLevel'', ''Options'', ''RemainingTime'', ''MinLevel'', ''OnLevel'',
           ''StartUpCurrentLevel''],
         cluster_req ''OnOff'' True [''Off'', ''On'', ''Toggle'', ''OffWithEffect'',
           ''OnWithRecallGlobalScene'', ''OnWithTimedOff''] [''OnOff'', ''GlobalSceneControl'',
           ''OnTime'', ''OffWaitTime'', ''StartUpOnOff'']]),
      (514, device_type ''windowcovering'' [cluster_req ''Groups'' False [''AddGroup'',
        ''ViewGroup'', ''GetGroupMembership'', ''RemoveGroup'', ''RemoveAllGroups'',
        ''AddGroupIfIdentifying''] [''NameSupport''],
         cluster_req ''Identify'' True [''Identify''] [''IdentifyTime'', ''IdentifyType''],
         cluster_req ''WindowCovering'' True [] []]),
      (769, device_type ''thermostat'' [cluster_req ''Binding'' False [] [],
         cluster_req ''FanControl'' False [] [],
         cluster_req ''Groups'' False [''AddGroup'', ''ViewGroup'', ''GetGroupMembership'',
           ''RemoveGroup'', ''RemoveAllGroups'', ''AddGroupIfIdentifying''] [''NameSupport''],
         cluster_req ''Identify'' True [''Identify''] [''IdentifyTime'', ''IdentifyType''],
         cluster_req ''OccupancySensing'' False [] [],
         cluster_req ''RelativeHumidityMeasurement'' False [] [],
         cluster_req ''TemperatureMeasurement'' False [] [],
         cluster_req ''Thermostat'' True [] [],
         cluster_req ''ThermostatUserInterfaceConfiguration'' False [] [],
         cluster_req ''TimeSynchronization'' False [] []]),
      (773, device_type ''pressuresensor'' [cluster_req ''Identify'' True [''Identify'']
        [''IdentifyTime'', ''IdentifyType''],
         cluster_req ''PressureMeasurement'' True [] []]),
      (774, device_type ''flowsensor'' [cluster_req ''FlowMeasurement'' True [] [],
         cluster_req ''Identify'' True [''Identify''] [''IdentifyTime'', ''IdentifyType'']])]"

section \<open>Lookups\<close>

definition get_cluster_id :: "device_translator \<Rightarrow> string \<Rightarrow> cluster_id option" where
  "get_cluster_id t name = unify_cluster_id_map t name"

definition get_attribute_id :: "device_translator \<Rightarrow> string \<Rightarrow> string \<Rightarrow> attribute_id option" where
  "get_attribute_id t cluster name =
     (case unify_to_matter_attribute_id_map t cluster of Some m \<Rightarrow> m name | None \<Rightarrow> None)"

definition get_command_id :: "device_translator \<Rightarrow> string \<Rightarrow> string \<Rightarrow> command_id option" where
  "get_command_id t cluster name =
     (case unify_to_matter_command_id_map t cluster of Some m \<Rightarrow> m name | None \<Rightarrow> None)"

definition get_matter_cluster_id :: "device_translator \<Rightarrow> string \<Rightarrow> cluster_id option" where
  "get_matter_cluster_id t name = matter_cluster_id_map t name"

definition get_matter_command_id :: "device_translator \<Rightarrow> string \<Rightarrow> string \<Rightarrow> command_id option" where
  "get_matter_command_id t cluster name =
     (case matter_command_id_map t cluster of Some m \<Rightarrow> m name | None \<Rightarrow> None)"

definition get_matter_attribute_id ::
  "device_translator \<Rightarrow> string \<Rightarrow> string \<Rightarrow> attribute_id option" where
  "get_matter_attribute_id t cluster name =
     (case matter_attribute_id_map t cluster of Some m \<Rightarrow> m name | None \<Rightarrow> None)"

definition get_device_name :: "device_type_id \<Rightarrow> string option" where
  "get_device_name d =
     map_option dt_device_type_name (map_of matter_device_type_vs_clusters_map d)"

end
