(* ===== verification/Device_Type_Selection.thy ===== *)
theory Device_Type_Selection
  imports Device_Translator "HOL-Library.Product_Lexorder" "HOL-Library.Multiset"
begin

text \<open>
  linux/src/device_type_mapper/matter_device_type_selection.cpp and .hpp: which Matter device types
  a list of clusters conforms to, their scores, and the order in which they are proposed. The loop
  counters, scores and indices keep their C++ width: \<open>uint8_t\<close> counters and scores, an \<open>int8_t\<close>
  cluster index, 32-bit counts. \<open>std::sort\<close> on the at most 13 scores is the insertion sort of the
  GNU library (used up to 16 elements); its comparator is not irreflexive.
\<close>

section \<open>Scores of cluster lists\<close>

definition compare_clusters ::
  "device_translator \<Rightarrow> cluster_id \<Rightarrow> device_cluster_data list \<Rightarrow> bool \<Rightarrow> u8" where
  "compare_clusters t cl ds only_required =
     (case find (\<lambda>d. get_matter_cluster_id t (dc_cluster_name d) = Some cl) ds of
        Some d \<Rightarrow> if only_required \<and> dc_is_mandatory d then 1
                  else if \<not> only_required then 1 else 0
      | None \<Rightarrow> 0)"

definition score_comparisons ::
  "device_translator \<Rightarrow> ember_cluster list \<Rightarrow> device_cluster_data list \<Rightarrow> bool \<Rightarrow> u8" where
  "score_comparisons t clusters ds only_required =
     foldl (\<lambda>n c. n + compare_clusters t (ec_cluster_id c) ds only_required) 0 clusters"

text \<open>The position of a cluster, narrowed to \<open>int8_t\<close>.\<close>

fun position :: "('a \<Rightarrow> bool) \<Rightarrow> 'a list \<Rightarrow> nat option" where
  "position P [] = None"
| "position P (x # xs) = (if P x then Some 0 else map_option Suc (position P xs))"

definition check_if_cluster_in_array :: "cluster_id \<Rightarrow> ember_cluster list \<Rightarrow> u8" where
  "check_if_cluster_in_array cl clusters =
     (case position (\<lambda>c. ec_cluster_id c = cl) clusters of
        Some n \<Rightarrow> word_of_nat n
      | None \<Rightarrow> - 1)"

section \<open>Required attributes\<close>

text \<open>
  The inner loop of \<open>compare_attributes\<close>: the counter is a \<open>uint8_t\<close>, the bound a
  \<open>uint16_t\<close>. It does not end when the bound exceeds 255 and the attribute is not among the first
  256.
\<close>

partial_function (option) scan_attributes ::
  "ember_attribute list \<Rightarrow> u16 \<Rightarrow> attribute_id \<Rightarrow> u8 \<Rightarrow> bool res option" where
  "scan_attributes attrs attr_count a i =
     (if unat i < unat attr_count then
        (if length attrs \<le> unat i then Some (Inl Out_Of_Bounds_Read)
         else if ea_id (attrs ! unat i) = a then Some (Inr True)
         else scan_attributes attrs attr_count a (i + 1))
      else Some (Inr False))"

fun compare_attributes ::
  "device_translator \<Rightarrow> ember_attribute list \<Rightarrow> u16 \<Rightarrow> string \<Rightarrow> string list \<Rightarrow> bool res" where
  "compare_attributes t attrs attr_count cluster [] = Inr True"
| "compare_attributes t attrs attr_count cluster (r # rs) =
     (case get_matter_attribute_id t cluster r of
        None \<Rightarrow> Inr False
      | Some a \<Rightarrow> rbind (run_loop (scan_attributes attrs attr_count a 0))
          (\<lambda>found. if found then compare_attributes t attrs attr_count cluster rs else Inr False))"

text \<open>linux/src/device_type_mapper/matter_required_additional_command_attribute_list.inc.\<close>

definition additional_required_attributes :: "string \<Rightarrow> string list option" where
  "additional_required_attributes cluster =
     (if cluster = ''WindowCovering'' then
        Some [''CurrentPositionLiftPercentage'', ''CurrentPositionLift'',
              ''InstalledOpenLimitLift'', ''InstalledClosedLimitLift'']
      else None)"

definition compare_additional_required_attributes ::
  "device_translator \<Rightarrow> ember_attribute list \<Rightarrow> u16 \<Rightarrow> string \<Rightarrow> bool res" where
  "compare_additional_required_attributes t attrs attr_count cluster =
     (case additional_required_attributes cluster of
        None \<Rightarrow> Inr True
      | Some rs \<Rightarrow> compare_attributes t attrs attr_count cluster rs)"

section \<open>Required commands\<close>

text \<open>
  \<open>sizeof(commands)\<close> is the size of a pointer, 8 bytes, and the end marker compared with is 255;
  the lists the builder makes end with \<open>kInvalidCommandId\<close>, which is not 255.
\<close>

fun scan_commands :: "command_id list \<Rightarrow> command_id \<Rightarrow> nat \<Rightarrow> bool res" where
  "scan_commands cmds a 0 = Inr False"
| "scan_commands [] a (Suc n) = Inl Out_Of_Bounds_Read"
| "scan_commands (x # xs) a (Suc n) =
     (if x = 255 then Inr False else if x = a then Inr True else scan_commands xs a n)"

fun compare_commands ::
  "device_translator \<Rightarrow> command_id list \<Rightarrow> string \<Rightarrow> string list \<Rightarrow> bool res" where
  "compare_commands t cmds cluster [] = Inr True"
| "compare_commands t cmds cluster (r # rs) =
     (case get_matter_command_id t cluster r of
        None \<Rightarrow> Inr False
      | Some a \<Rightarrow> rbind (scan_commands cmds a 8)
          (\<lambda>found. if found then compare_commands t cmds cluster rs else Inr False))"

section \<open>Conformance\<close>

definition cluster_at :: "ember_cluster list \<Rightarrow> u8 \<Rightarrow> ember_cluster res" where
  "cluster_at clusters i =
     (if sint i < 0 \<or> length clusters \<le> nat (sint i) then Inl Out_Of_Range
      else Inr (clusters ! nat (sint i)))"

definition requirement_met ::
  "device_translator \<Rightarrow> ember_cluster list \<Rightarrow> device_cluster_data \<Rightarrow> bool res" where
  "requirement_met t clusters d =
     (if \<not> dc_is_mandatory d then Inr True
      else case get_matter_cluster_id t (dc_cluster_name d) of
        None \<Rightarrow> Inr False
      | Some cl \<Rightarrow>
          if \<not> m_spec_compliant t then Inr True
          else (let i = check_if_cluster_in_array cl clusters in
            if i = - 1 then Inr False
            else rbind (cluster_at clusters i) (\<lambda>c.
              rbind (compare_attributes t (ec_attributes c) (ec_attribute_count c)
                       (dc_cluster_name d) (dc_required_attributes d)) (\<lambda>ok.
              if \<not> ok then Inr False else
              rbind (compare_commands t (ec_accepted_commands c)
                       (dc_cluster_name d) (dc_required_commands d)) (\<lambda>ok.
              if \<not> ok then Inr False else
              compare_additional_required_attributes t (ec_attributes c) (ec_attribute_count c)
                (dc_cluster_name d))))))"

fun conform_to_device_type ::
  "device_translator \<Rightarrow> ember_cluster list \<Rightarrow> device_cluster_data list \<Rightarrow> bool res" where
  "conform_to_device_type t clusters [] = Inr True"
| "conform_to_device_type t clusters (d # ds) =
     rbind (requirement_met t clusters d)
       (\<lambda>ok. if ok then conform_to_device_type t clusters ds else Inr False)"

section \<open>Scores\<close>

record cluster_score =
  extra_matter_clusters_count :: u32
  matter_miss_count :: u32
  required_matter_clusters_count :: u32
  device_type_id :: device_type_id

definition score_less :: "cluster_score \<Rightarrow> cluster_score \<Rightarrow> bool" where
  "score_less a b =
     (if matter_miss_count a < matter_miss_count b then True
      else if matter_miss_count b < matter_miss_count a then False
      else if required_matter_clusters_count a > required_matter_clusters_count b then True
      else if required_matter_clusters_count b > required_matter_clusters_count a then False
      else extra_matter_clusters_count a \<le> extra_matter_clusters_count b)"

definition score_of ::
  "device_translator \<Rightarrow> ember_cluster list \<Rightarrow> device_type_id \<times> device_type_data \<Rightarrow> cluster_score" where
  "score_of t clusters = (\<lambda>(d, data).
     let matched = score_comparisons t clusters (dt_clusters data) False;
         required = score_comparisons t clusters (dt_clusters data) True
     in \<lparr>extra_matter_clusters_count = word_of_nat (length clusters) - ucast matched,
         matter_miss_count = word_of_nat (length (dt_clusters data)) - ucast matched,
         required_matter_clusters_count = ucast required, device_type_id = d\<rparr>)"

fun conforming_scores ::
  "device_translator \<Rightarrow> ember_cluster list \<Rightarrow> (device_type_id \<times> device_type_data) list \<Rightarrow>
     cluster_score list res" where
  "conforming_scores t clusters [] = Inr []"
| "conforming_scores t clusters (d # ds) =
     rbind (conform_to_device_type t clusters (dt_clusters (snd d))) (\<lambda>ok.
     rbind (conforming_scores t clusters ds) (\<lambda>scores.
     Inr (if ok then score_of t clusters d # scores else scores)))"

text \<open>
  The insertion sort: an element that compares before the first one goes to the front, any other
  is moved down from the end while it compares before its neighbour.
\<close>

fun linear_insert :: "('a \<Rightarrow> 'a \<Rightarrow> bool) \<Rightarrow> 'a \<Rightarrow> 'a list \<Rightarrow> 'a list" where
  "linear_insert lt x [] = [x]"
| "linear_insert lt x (y # ys) = (if lt x y then y # linear_insert lt x ys else x # y # ys)"

definition sort_step :: "('a \<Rightarrow> 'a \<Rightarrow> bool) \<Rightarrow> 'a list \<Rightarrow> 'a \<Rightarrow> 'a list" where
  "sort_step lt prefix x =
     (case prefix of
        [] \<Rightarrow> [x]
      | y # _ \<Rightarrow> if lt x y then x # prefix else rev (linear_insert lt x (rev prefix)))"

definition std_sort :: "('a \<Rightarrow> 'a \<Rightarrow> bool) \<Rightarrow> 'a list \<Rightarrow> 'a list" where
  "std_sort lt xs = foldl (sort_step lt) [] xs"

definition compute_device_type_match_score ::
  "device_translator \<Rightarrow> ember_cluster list \<Rightarrow> cluster_score list res" where
  "compute_device_type_match_score t clusters =
     rbind (conforming_scores t clusters matter_device_type_vs_clusters_map)
       (\<lambda>scores. Inr (std_sort score_less scores))"

section \<open>Selection\<close>

definition numerical_score :: "cluster_score \<Rightarrow> u8" where
  "numerical_score s = ucast (20 + matter_miss_count s + extra_matter_clusters_count s -
     required_matter_clusters_count s)"

fun select_loop :: "cluster_score \<Rightarrow> device_type_id list \<Rightarrow> cluster_score list \<Rightarrow> device_type_id list" where
  "select_loop best ids [] = ids"
| "select_loop best ids (s # ss) =
     (if numerical_score best \<ge> numerical_score s then select_loop s (device_type_id s # ids) ss
      else select_loop best ids ss)"

definition select_scored :: "cluster_score list \<Rightarrow> device_type_id list" where
  "select_scored scores =
     (case scores of [] \<Rightarrow> [] | best # rest \<Rightarrow> select_loop best [device_type_id best] rest)"

definition select_possible_device_types_on_score ::
  "device_translator \<Rightarrow> ember_cluster list \<Rightarrow> device_type_id list res" where
  "select_possible_device_types_on_score t clusters =
     rbind (compute_device_type_match_score t clusters) (\<lambda>scores. Inr (select_scored scores))"

definition get_device_types :: "device_translator \<Rightarrow> ember_cluster list \<Rightarrow> device_type_id list res" where
  "get_device_types t clusters = select_possible_device_types_on_score t clusters"

section \<open>The loops\<close>

declare scan_attributes.simps [code]

lemma scan_attributes_found:
  assumes "unat attr_count \<le> length attrs"
    and "unat i \<le> n" and "n < unat attr_count" and "n < 256" and "ea_id (attrs ! n) = a"
  shows "scan_attributes attrs attr_count a i = Some (Inr True)"
  using assms(2)
proof (induction "n - unat i" arbitrary: i)
  case 0
  then have "unat i = n" by simp
  then show ?case using assms by (subst scan_attributes.simps) simp
next
  case (Suc k)
  then have lt: "unat i < n" by simp
  then have "i \<noteq> 255" using assms(4) by auto
  then have s: "unat (i + 1) = Suc (unat i)" by (rule unat_succ8)
  have "scan_attributes attrs attr_count a (i + 1) = Some (Inr True)"
    using Suc(1) [of "i + 1"] Suc(2) lt s by simp
  then show ?case using assms lt by (subst scan_attributes.simps) simp
qed

lemma scan_attributes_absent:
  assumes "unat attr_count \<le> length attrs" and "unat attr_count < 256"
    and "\<forall>n < unat attr_count. ea_id (attrs ! n) \<noteq> a"
  shows "scan_attributes attrs attr_count a i = Some (Inr False)"
proof (induction "unat attr_count - unat i" arbitrary: i)
  case 0
  then show ?case by (subst scan_attributes.simps) simp
next
  case (Suc k)
  then have lt: "unat i < unat attr_count" by simp
  then have "i \<noteq> 255" using assms(2) by auto
  then have s: "unat (i + 1) = Suc (unat i)" by (rule unat_succ8)
  have "scan_attributes attrs attr_count a (i + 1) = Some (Inr False)"
    using Suc s by simp
  then show ?case using assms lt by (subst scan_attributes.simps) simp
qed

text \<open>
  With more than 255 attributes and none of the first 256 matching, no amount of unfolding gives a
  result: the counter runs through all its values without meeting the bound.
\<close>

lemma scan_attributes_no_result:
  assumes "scan_attributes attrs attr_count a i = Some r"
  shows "\<not> (unat attr_count \<le> length attrs \<and> 256 \<le> unat attr_count \<and> (\<forall>n < 256. ea_id (attrs ! n) \<noteq> a))"
proof (rule scan_attributes.raw_induct [OF _ assms, where P = "\<lambda>attrs attr_count a i r.
    \<not> (unat attr_count \<le> length attrs \<and> 256 \<le> unat attr_count \<and> (\<forall>n < 256. ea_id (attrs ! n) \<noteq> a))"])
  fix scan :: "ember_attribute list \<Rightarrow> u16 \<Rightarrow> attribute_id \<Rightarrow> u8 \<Rightarrow> bool res option" and attrs attr_count a i r
  assume IH: "\<And>attrs attr_count a i r. scan attrs attr_count a i = Some r \<Longrightarrow>
      \<not> (unat attr_count \<le> length attrs \<and> 256 \<le> unat attr_count \<and> (\<forall>n < 256. ea_id (attrs ! n) \<noteq> a))"
    and body: "(if unat i < unat attr_count then
        (if length attrs \<le> unat i then Some (Inl Out_Of_Bounds_Read)
         else if ea_id (attrs ! unat i) = a then Some (Inr True)
         else scan attrs attr_count a (i + 1))
      else Some (Inr False)) = Some r"
  have i: "unat i < 256" by (rule unat8_less)
  show "\<not> (unat attr_count \<le> length attrs \<and> 256 \<le> unat attr_count \<and> (\<forall>n < 256. ea_id (attrs ! n) \<noteq> a))"
  proof
    assume h: "unat attr_count \<le> length attrs \<and> 256 \<le> unat attr_count \<and> (\<forall>n < 256. ea_id (attrs ! n) \<noteq> a)"
    with body i have "scan attrs attr_count a (i + 1) = Some r" by (auto split: if_splits)
    from IH [OF this] h show False by blast
  qed
qed

lemma nth_below_in_take:
  "(\<exists>n < min k (length xs). f (xs ! n) = a) \<longleftrightarrow> a \<in> f ` set (take k xs)"
proof -
  have "set (take k xs) = {take k xs ! n |n. n < min k (length xs)}"
    using set_conv_nth [of "take k xs"] by (simp add: min.commute)
  then show ?thesis by (auto simp: image_iff)
qed

lemma scan_attributes_eq:
  assumes "unat attr_count \<le> length attrs"
  shows "scan_attributes attrs attr_count a 0 =
    (if \<exists>n < min 256 (unat attr_count). ea_id (attrs ! n) = a then Some (Inr True)
     else if unat attr_count < 256 then Some (Inr False) else None)"
proof (cases "\<exists>n < min 256 (unat attr_count). ea_id (attrs ! n) = a")
  case True
  then obtain n where "n < 256" "n < unat attr_count" "ea_id (attrs ! n) = a" by auto
  then show ?thesis using scan_attributes_found [OF assms, of 0 n a] True by auto
next
  case False
  show ?thesis
  proof (cases "unat attr_count < 256")
    case True
    then have "\<forall>n < unat attr_count. ea_id (attrs ! n) \<noteq> a" using False by auto
    then show ?thesis using scan_attributes_absent [OF assms True] False True by simp
  next
    case big: False
    then have "\<forall>n < 256. ea_id (attrs ! n) \<noteq> a" using False by auto
    then have "scan_attributes attrs attr_count a 0 = None"
      using scan_attributes_no_result [of attrs attr_count a 0] assms big by (cases "scan_attributes attrs attr_count a 0") auto
    then show ?thesis using False big by simp
  qed
qed

section \<open>Well-formed clusters\<close>

text \<open>What the endpoint builder makes: the attribute count is the number of attributes.\<close>

definition cluster_wf :: "ember_cluster \<Rightarrow> bool" where
  "cluster_wf c \<longleftrightarrow> ec_attribute_count c = word_of_nat (length (ec_attributes c)) \<and>
     length (ec_attributes c) < 65536"

lemma cluster_wf_count: "cluster_wf c \<Longrightarrow> unat (ec_attribute_count c) = length (ec_attributes c)"
  by (simp add: cluster_wf_def unat_of_nat)

definition has_attribute :: "device_translator \<Rightarrow> ember_cluster \<Rightarrow> string \<Rightarrow> string \<Rightarrow> bool" where
  "has_attribute t c cluster name \<longleftrightarrow> (\<exists>a \<in> ea_id ` set (ec_attributes c).
     get_matter_attribute_id t cluster name = Some a)"

lemma compare_attributes_small:
  assumes "cluster_wf c" and "length (ec_attributes c) < 256"
  shows "compare_attributes t (ec_attributes c) (ec_attribute_count c) cluster rs =
    Inr (list_all (has_attribute t c cluster) rs)"
proof (induction rs)
  case (Cons r rs)
  have attr_count: "unat (ec_attribute_count c) = length (ec_attributes c)" using assms(1) by (rule cluster_wf_count)
  have "run_loop (scan_attributes (ec_attributes c) (ec_attribute_count c) a 0) =
      Inr (a \<in> ea_id ` set (ec_attributes c))" for a
    using scan_attributes_eq [of "ec_attribute_count c" "ec_attributes c" a] assms(2) attr_count
      nth_below_in_take [of 256 "ec_attributes c" ea_id a]
    by (simp add: run_loop_def)
  then show ?case using Cons
    by (auto simp: has_attribute_def split: option.split)
qed simp

lemma scan_commands_eq:
  "scan_commands cmds a n =
    (if a \<in> set (takeWhile (\<lambda>x. x \<noteq> 255) (take n cmds)) then Inr True
     else if length cmds < n \<and> 255 \<notin> set cmds then Inl Out_Of_Bounds_Read else Inr False)"
  by (induction cmds a n rule: scan_commands.induct) auto

section \<open>The specification of conformance\<close>

definition accepts_command :: "device_translator \<Rightarrow> ember_cluster \<Rightarrow> string \<Rightarrow> string \<Rightarrow> bool" where
  "accepts_command t c cluster name \<longleftrightarrow>
     (\<exists>a \<in> set (takeWhile (\<lambda>x. x \<noteq> 255) (take 8 (ec_accepted_commands c))).
        get_matter_command_id t cluster name = Some a)"

definition meets :: "device_translator \<Rightarrow> ember_cluster list \<Rightarrow> device_cluster_data \<Rightarrow> bool" where
  "meets t clusters d \<longleftrightarrow> \<not> dc_is_mandatory d \<or>
     (\<exists>cl. get_matter_cluster_id t (dc_cluster_name d) = Some cl \<and>
       (m_spec_compliant t \<longrightarrow>
         (case find (\<lambda>c. ec_cluster_id c = cl) clusters of
            None \<Rightarrow> False
          | Some c \<Rightarrow>
              list_all (has_attribute t c (dc_cluster_name d)) (dc_required_attributes d) \<and>
              list_all (accepts_command t c (dc_cluster_name d)) (dc_required_commands d) \<and>
              (case additional_required_attributes (dc_cluster_name d) of
                 None \<Rightarrow> True
               | Some rs \<Rightarrow> list_all (has_attribute t c (dc_cluster_name d)) rs))))"

text \<open>
  The first mandatory requirement that is not met makes the code read a command list past its end when the cluster is
  present with all its required attributes, and the first required command it does not accept is known but the list
  is shorter than eight and has no 255.
\<close>

definition overreads :: "device_translator \<Rightarrow> ember_cluster list \<Rightarrow> device_cluster_data \<Rightarrow> bool" where
  "overreads t clusters d \<longleftrightarrow> dc_is_mandatory d \<and> m_spec_compliant t \<and>
     (\<exists>cl c r. get_matter_cluster_id t (dc_cluster_name d) = Some cl \<and>
        find (\<lambda>c. ec_cluster_id c = cl) clusters = Some c \<and>
        list_all (has_attribute t c (dc_cluster_name d)) (dc_required_attributes d) \<and>
        find (\<lambda>r. \<not> accepts_command t c (dc_cluster_name d) r) (dc_required_commands d) = Some r \<and>
        get_matter_command_id t (dc_cluster_name d) r \<noteq> None \<and>
        length (ec_accepted_commands c) < 8 \<and> 255 \<notin> set (ec_accepted_commands c))"

definition bridgeable :: "ember_cluster \<Rightarrow> bool" where
  "bridgeable c \<longleftrightarrow> cluster_wf c \<and> length (ec_attributes c) < 256"

lemma compare_commands_eq:
  "compare_commands t (ec_accepted_commands c) cluster rs =
   (case find (\<lambda>r. \<not> accepts_command t c cluster r) rs of
      None \<Rightarrow> Inr True
    | Some r \<Rightarrow> if get_matter_command_id t cluster r \<noteq> None \<and> length (ec_accepted_commands c) < 8 \<and>
        255 \<notin> set (ec_accepted_commands c) then Inl Out_Of_Bounds_Read else Inr False)"
proof (induction rs)
  case (Cons r rs)
  then show ?case
    by (auto simp: accepts_command_def scan_commands_eq split: option.split)
qed simp

lemma find_list_all: "find (\<lambda>x. \<not> P x) xs = None \<longleftrightarrow> list_all P xs"
  by (simp add: find_None_iff_all list_all_iff)

lemma position_find:
  "position P xs = None \<Longrightarrow> find P xs = None"
  "position P xs = Some n \<Longrightarrow> n < length xs \<and> find P xs = Some (xs ! n)"
  by (induction xs arbitrary: n) (auto split: if_splits)

lemma sint_small8: "n < 128 \<Longrightarrow> sint (word_of_nat n :: u8) = int n"
  using int_word_sint [where 'a = 8, of "int n"] by simp

lemma cluster_lookup:
  assumes "length clusters \<le> 128"
  shows "(let i = check_if_cluster_in_array cl clusters in
      if i = - 1 then Inr False else rbind (cluster_at clusters i) f) =
    (case find (\<lambda>c. ec_cluster_id c = cl) clusters of None \<Rightarrow> Inr False | Some c \<Rightarrow> f c)"
proof (cases "position (\<lambda>c. ec_cluster_id c = cl) clusters")
  case None
  then show ?thesis by (simp add: check_if_cluster_in_array_def position_find)
next
  case (Some n)
  note found = position_find(2) [OF Some]
  then have n: "n < 128" using assms by simp
  have "word_of_nat n \<noteq> (- 1 :: u8)" using sint_small8 [OF n] by auto
  then show ?thesis
    using found Some sint_small8 [OF n]
    by (simp add: check_if_cluster_in_array_def cluster_at_def)
qed

lemma requirement_met_eq:
  assumes "length clusters \<le> 128" and "\<forall>c \<in> set clusters. bridgeable c"
  shows "requirement_met t clusters d =
    (if meets t clusters d then Inr True
     else if overreads t clusters d then Inl Out_Of_Bounds_Read else Inr False)"
proof (cases "dc_is_mandatory d \<and> m_spec_compliant t")
  case True
  let ?name = "dc_cluster_name d"
  show ?thesis
  proof (cases "get_matter_cluster_id t ?name")
    case (Some cl)
    show ?thesis
    proof (cases "find (\<lambda>c. ec_cluster_id c = cl) clusters")
      case None
      with True Some show ?thesis
        by (simp add: requirement_met_def cluster_lookup [OF assms(1)] meets_def overreads_def)
    next
      case (Some c)
      then have "bridgeable c" using assms(2) find_Some_iff_mem by metis
      then have "cluster_wf c" "length (ec_attributes c) < 256" by (simp_all add: bridgeable_def)
      note attributes = compare_attributes_small [OF this]
      have additional: "compare_additional_required_attributes t (ec_attributes c) (ec_attribute_count c) ?name =
          Inr (case additional_required_attributes ?name of None \<Rightarrow> True
            | Some rs \<Rightarrow> list_all (has_attribute t c ?name) rs)"
        by (simp add: compare_additional_required_attributes_def attributes split: option.split)
      have "requirement_met t clusters d = rbind (Inr (list_all (has_attribute t c ?name) (dc_required_attributes d)))
          (\<lambda>ok. if \<not> ok then Inr False else rbind (compare_commands t (ec_accepted_commands c) ?name (dc_required_commands d))
          (\<lambda>ok. if \<not> ok then Inr False
            else Inr (case additional_required_attributes ?name of None \<Rightarrow> True
              | Some rs \<Rightarrow> list_all (has_attribute t c ?name) rs)))"
        using True \<open>get_matter_cluster_id t ?name = Some cl\<close> Some
        by (simp add: requirement_met_def cluster_lookup [OF assms(1)] attributes
            additional cong: if_cong)
      then show ?thesis
        using True \<open>get_matter_cluster_id t ?name = Some cl\<close> Some
          find_list_all [of "accepts_command t c ?name" "dc_required_commands d"]
        by (cases "find (\<lambda>r. \<not> accepts_command t c ?name r) (dc_required_commands d)")
          (auto simp: compare_commands_eq meets_def overreads_def)
    qed
  qed (use True in \<open>simp add: requirement_met_def meets_def overreads_def\<close>)
qed (auto simp: requirement_met_def meets_def overreads_def split: option.split)

lemma conform_eq:
  assumes "length clusters \<le> 128" and "\<forall>c \<in> set clusters. bridgeable c"
  shows "conform_to_device_type t clusters ds =
    (case find (\<lambda>d. \<not> meets t clusters d) ds of
       None \<Rightarrow> Inr True
     | Some d \<Rightarrow> if overreads t clusters d then Inl Out_Of_Bounds_Read else Inr False)"
  by (induction ds) (simp_all add: requirement_met_eq [OF assms])

text \<open>The scores computed are those of the conforming device types.\<close>

definition conforming ::
  "device_translator \<Rightarrow> ember_cluster list \<Rightarrow> (device_type_id \<times> device_type_data) list \<Rightarrow> (device_type_id \<times> device_type_data) list" where
  "conforming t clusters ds = filter (\<lambda>d. conform_to_device_type t clusters (dt_clusters (snd d)) = Inr True) ds"

lemma conforming_scores_eq:
  "conforming_scores t clusters ds = Inr scores \<Longrightarrow> scores = map (score_of t clusters) (conforming t clusters ds)"
  by (induction ds arbitrary: scores) (auto simp: conforming_def rbind_eq_Inr)

lemma conforming_scores_some:
  assumes "length clusters \<le> 128" and "\<forall>c \<in> set clusters. bridgeable c"
    and "\<forall>d \<in> set ds. \<forall>r \<in> set (dt_clusters (snd d)). \<not> overreads t clusters r"
  shows "conforming_scores t clusters ds = Inr (map (score_of t clusters) (conforming t clusters ds))"
  using assms(3)
proof (induction ds)
  case (Cons d ds)
  have "conform_to_device_type t clusters (dt_clusters (snd d)) \<in> {Inr True, Inr False}"
  proof (cases "find (\<lambda>d. \<not> meets t clusters d) (dt_clusters (snd d))")
    case (Some r)
    then have "\<not> overreads t clusters r" using Cons.prems find_Some_iff_mem [OF Some] by simp
    then show ?thesis using Some by (simp add: conform_eq [OF assms(1,2)])
  qed (simp add: conform_eq [OF assms(1,2)])
  then show ?case using Cons by (auto simp: conforming_def)
qed (simp add: conforming_def)

lemma score_of_id [simp]: "device_type_id (score_of t clusters d) = fst d"
  by (cases d) (simp add: score_of_def Let_def)

section \<open>Sorting\<close>

definition score_leq :: "cluster_score \<Rightarrow> cluster_score \<Rightarrow> bool" where
  "score_leq a b \<longleftrightarrow>
     (matter_miss_count a, - uint (required_matter_clusters_count a), extra_matter_clusters_count a) \<le>
     (matter_miss_count b, - uint (required_matter_clusters_count b), extra_matter_clusters_count b)"

text \<open>The comparator is the total preorder, not its strict part.\<close>

lemma score_less_eq: "score_less a b \<longleftrightarrow> score_leq a b"
  by (auto simp: score_less_def score_leq_def less_eq_prod_def word_less_def word_le_def)

lemma score_leq_trans: "score_leq a b \<Longrightarrow> score_leq b c \<Longrightarrow> score_leq a c"
  unfolding score_leq_def by (rule order_trans)

lemma score_leq_total: "score_leq a b \<or> score_leq b a"
  unfolding score_leq_def by (rule linear)

lemma score_leq_refl: "score_leq a a"
  by (simp add: score_leq_def)

lemma mset_linear_insert [simp]: "mset (linear_insert lt x ys) = add_mset x (mset ys)"
  by (induction ys) auto

lemma mset_sort_step [simp]: "mset (sort_step lt ys x) = add_mset x (mset ys)"
  by (simp add: sort_step_def split: list.split)

lemma mset_sort_foldl: "mset (foldl (sort_step lt) ys xs) = mset ys + mset xs"
  by (induction xs arbitrary: ys) auto

lemma mset_std_sort [simp]: "mset (std_sort lt xs) = mset xs"
  by (simp add: std_sort_def mset_sort_foldl)

lemma set_linear_insert [simp]: "set (linear_insert lt x ys) = insert x (set ys)"
  by (induction ys) auto

text \<open>A reversed sorted prefix stays sorted downwards when an element is moved in.\<close>

lemma linear_insert_sorted:
  "sorted_wrt (\<lambda>a b. score_leq b a) ys \<Longrightarrow> sorted_wrt (\<lambda>a b. score_leq b a) (linear_insert score_leq x ys)"
proof (induction ys)
  case (Cons y ys)
  then show ?case using score_leq_total [of x y] score_leq_trans by (auto)
qed simp

lemma sort_step_sorted:
  assumes "sorted_wrt score_leq ys"
  shows "sorted_wrt score_leq (sort_step score_leq ys x)"
proof (cases ys)
  case (Cons y zs)
  show ?thesis
  proof (cases "score_leq x y")
    case True
    then show ?thesis using assms Cons score_leq_trans by (auto simp: sort_step_def)
  next
    case False
    have "sorted_wrt (\<lambda>a b. score_leq b a) (rev ys)" using assms by (simp add: sorted_wrt_rev)
    then have "sorted_wrt (\<lambda>a b. score_leq b a) (linear_insert score_leq x (rev ys))"
      by (rule linear_insert_sorted)
    then show ?thesis using False Cons by (simp add: sort_step_def sorted_wrt_rev)
  qed
qed (simp add: sort_step_def)

lemma std_sort_sorted: "sorted_wrt score_leq (std_sort score_less xs)"
proof -
  have "score_less = score_leq" by (intro ext) (rule score_less_eq)
  moreover have "sorted_wrt score_leq ys \<Longrightarrow> sorted_wrt score_leq (foldl (sort_step score_leq) ys xs)" for ys
    by (induction xs arbitrary: ys) (auto intro: sort_step_sorted)
  ultimately show ?thesis by (simp add: std_sort_def)
qed

section \<open>Choosing\<close>

lemma select_loop_head:
  assumes "ids \<noteq> []" and "hd ids = device_type_id best"
  shows "\<exists>s \<in> insert best (set ss). hd (select_loop best ids ss) = device_type_id s \<and>
    (\<forall>s' \<in> insert best (set ss). numerical_score s \<le> numerical_score s')"
  using assms
proof (induction best ids ss rule: select_loop.induct)
  case (2 best ids s ss)
  show ?case
  proof (cases "numerical_score best \<ge> numerical_score s")
    case True
    then have "\<exists>s1 \<in> insert s (set ss). hd (select_loop s (device_type_id s # ids) ss) = device_type_id s1 \<and>
        (\<forall>s' \<in> insert s (set ss). numerical_score s1 \<le> numerical_score s')"
      using 2 by simp
    then show ?thesis using True by (auto intro: order_trans)
  next
    case False
    then have "\<exists>s1 \<in> insert best (set ss). hd (select_loop best ids ss) = device_type_id s1 \<and>
        (\<forall>s' \<in> insert best (set ss). numerical_score s1 \<le> numerical_score s')"
      using 2 by simp
    then show ?thesis using False by (auto intro: order_trans)
  qed
qed simp

lemma select_loop_set: "set (select_loop best ids ss) \<subseteq> set ids \<union> device_type_id ` set ss"
  by (induction best ids ss rule: select_loop.induct) auto

lemma select_loop_nonempty: "ids \<noteq> [] \<Longrightarrow> select_loop best ids ss \<noteq> []"
  by (induction best ids ss rule: select_loop.induct) auto

section \<open>A small translator\<close>

text \<open>
  A door lock and an identify cluster with the identifiers of the Matter library, for concrete
  instances.
\<close>

definition sample_translator :: "bool \<Rightarrow> device_translator" where
  "sample_translator compliant =
     \<lparr>unify_cluster_id_map = [''DoorLock'' \<mapsto> 257, ''Identify'' \<mapsto> 3],
      unify_to_matter_attribute_id_map = [''Identify'' \<mapsto> [''IdentifyTime'' \<mapsto> 0]],
      unify_to_matter_command_id_map = [''Identify'' \<mapsto> [''Identify'' \<mapsto> 0]],
      matter_cluster_id_map = [''DoorLock'' \<mapsto> 257, ''Identify'' \<mapsto> 3],
      matter_attribute_id_map = [''Identify'' \<mapsto> [''IdentifyTime'' \<mapsto> 0, ''IdentifyType'' \<mapsto> 1]],
      matter_command_id_map = [''Identify'' \<mapsto> [''Identify'' \<mapsto> 0]],
      m_spec_compliant = compliant\<rparr>"

definition sample_attribute :: "attribute_id \<Rightarrow> ember_attribute" where
  "sample_attribute a = \<lparr>ea_default = None, ea_id = a, ea_size = 1, ea_type = ZCL_ENUM8, ea_mask = []\<rparr>"

definition sample_cluster :: "cluster_id \<Rightarrow> attribute_id list \<Rightarrow> command_id list \<Rightarrow> ember_cluster" where
  "sample_cluster cl as cs = \<lparr>ec_cluster_id = cl, ec_attributes = map sample_attribute as,
     ec_attribute_count = word_of_nat (length as), ec_accepted_commands = cs,
     ec_generated_commands = []\<rparr>"

lemmas sample_defs = sample_translator_def sample_attribute_def sample_cluster_def
  get_matter_cluster_id_def get_matter_attribute_id_def get_matter_command_id_def

abbreviation eight_commands :: "command_id list" where
  "eight_commands \<equiv> [0, 64, kInvalidCommandId, kInvalidCommandId, kInvalidCommandId,
     kInvalidCommandId, kInvalidCommandId, kInvalidCommandId]"

abbreviation lock_clusters :: "ember_cluster list" where
  "lock_clusters \<equiv> [sample_cluster 257 [0] eight_commands, sample_cluster 3 [0, 1] eight_commands]"

lemma lock_clusters_ok: "length lock_clusters \<le> 128 \<and> (\<forall>c \<in> set lock_clusters. bridgeable c)"
  by (simp add: sample_defs bridgeable_def cluster_wf_def)

section \<open>Properties\<close>

text \<open>A command that is not among the accepted commands read (the first eight, up to a 255) is
  reported missing, even when it is listed further on; a list of fewer than eight commands that does
  not hold it is read past its end, since the end marker \<open>kInvalidCommandId\<close> is not recognised.\<close>

theorem compare_commands_window:
  assumes "get_matter_command_id t cluster name = Some a" and "255 \<notin> set cmds"
  shows "compare_commands t cmds cluster [name] =
    (if a \<in> set (take 8 cmds) then Inr True
     else if length cmds < 8 then Inl Out_Of_Bounds_Read else Inr False)"
proof -
  have "255 \<notin> set xs \<Longrightarrow> scan_commands xs a n =
      (if a \<in> set (take n xs) then Inr True else if length xs < n then Inl Out_Of_Bounds_Read else Inr False)"
    for xs n
    by (induction xs a n rule: scan_commands.induct) auto
  then show ?thesis using assms by simp
qed

lemma compare_commands_window_witness:
  "compare_commands (sample_translator True) [1, 2, 3, 4, 5, 6, 7, 8, 0, kInvalidCommandId] ''Identify''
     [''Identify''] = Inr False \<and>
   compare_commands (sample_translator True) [64, kInvalidCommandId] ''Identify'' [''Identify''] =
     Inl Out_Of_Bounds_Read"
  using compare_commands_window
      [of "sample_translator True" "''Identify''" "''Identify''" 0 "[1, 2, 3, 4, 5, 6, 7, 8, 0, kInvalidCommandId]"]
    compare_commands_window
      [of "sample_translator True" "''Identify''" "''Identify''" 0 "[64, kInvalidCommandId]"]
  by (simp add: sample_defs)

text \<open>C37: With 256 or more attributes in a cluster and a required attribute that is not among the
  first 256, the attribute comparison never returns; with fewer it returns whether the attribute is
  there.\<close>

theorem compare_attributes_terminates_iff:
  assumes "cluster_wf c" and "get_matter_attribute_id t cluster name = Some a"
  shows "compare_attributes t (ec_attributes c) (ec_attribute_count c) cluster [name] =
    (if a \<in> ea_id ` set (take 256 (ec_attributes c)) then Inr True
     else if length (ec_attributes c) < 256 then Inr False else Inl Nontermination)"
proof -
  have "(\<exists>n < min 256 (length (ec_attributes c)). ea_id (ec_attributes c ! n) = a) \<longleftrightarrow>
      a \<in> ea_id ` set (take 256 (ec_attributes c))"
    by (rule nth_below_in_take)
  then show ?thesis
    using assms(2) scan_attributes_eq [of "ec_attribute_count c" "ec_attributes c" a]
      cluster_wf_count [OF assms(1)]
    by (simp add: run_loop_def)
qed

lemma compare_attributes_terminates_iff_witness:
  "compare_attributes (sample_translator True) (ec_attributes (sample_cluster 3 (replicate 256 7) []))
     (ec_attribute_count (sample_cluster 3 (replicate 256 7) [])) ''Identify'' [''IdentifyType''] =
   Inl Nontermination"
proof -
  have "cluster_wf (sample_cluster 3 (replicate 256 7) [])"
    by (simp add: cluster_wf_def sample_cluster_def)
  then show ?thesis
    using compare_attributes_terminates_iff
      [of "sample_cluster 3 (replicate 256 7) []" "sample_translator True" "''Identify''" "''IdentifyType''" 1]
    by (simp add: sample_defs image_iff)
qed

text \<open>The scores are the scores of the conforming device types, in the order of the fewest
  missing clusters, then the most required clusters, then the fewest extra clusters, none lost or
  added.\<close>

theorem match_scores_sorted:
  assumes "compute_device_type_match_score t clusters = Inr scores"
  shows "sorted_wrt score_leq scores \<and>
    mset scores = mset (map (score_of t clusters) (conforming t clusters matter_device_type_vs_clusters_map))"
proof -
  obtain xs where xs: "conforming_scores t clusters matter_device_type_vs_clusters_map = Inr xs" "scores = std_sort score_less xs"
    using assms by (auto simp: compute_device_type_match_score_def rbind_eq_Inr)
  show ?thesis unfolding xs(2) conforming_scores_eq [OF xs(1)] using std_sort_sorted by simp
qed

text \<open>C27: The device types the bridge proposes all conform to the clusters; there is none exactly when no device
  type conforms; and the first one, which it takes, has the least numerical score of all that conform.\<close>

theorem selected_device_type_best:
  assumes "get_device_types t clusters = Inr ids"
  shows "(ids = [] \<longleftrightarrow> (\<forall>(d, data) \<in> set matter_device_type_vs_clusters_map.
      conform_to_device_type t clusters (dt_clusters data) \<noteq> Inr True)) \<and>
    (\<forall>d \<in> set ids. \<exists>data. (d, data) \<in> set matter_device_type_vs_clusters_map \<and>
      conform_to_device_type t clusters (dt_clusters data) = Inr True) \<and>
    (ids \<noteq> [] \<longrightarrow> (\<exists>data. (hd ids, data) \<in> set matter_device_type_vs_clusters_map \<and>
      conform_to_device_type t clusters (dt_clusters data) = Inr True \<and>
      (\<forall>(d', data') \<in> set matter_device_type_vs_clusters_map.
         conform_to_device_type t clusters (dt_clusters data') = Inr True \<longrightarrow>
         numerical_score (score_of t clusters (hd ids, data)) \<le> numerical_score (score_of t clusters (d', data')))))"
proof -
  obtain scores where scores: "compute_device_type_match_score t clusters = Inr scores" and ids: "ids = select_scored scores"
    using assms by (auto simp: get_device_types_def select_possible_device_types_on_score_def rbind_eq_Inr)
  have "mset scores = mset (map (score_of t clusters) (conforming t clusters matter_device_type_vs_clusters_map))"
    using scores by (auto simp: compute_device_type_match_score_def rbind_eq_Inr dest: conforming_scores_eq)
  then have set: "set scores = score_of t clusters ` set (conforming t clusters matter_device_type_vs_clusters_map)"
    by (metis set_mset_mset list.set_map)
  have none: "ids = [] \<longleftrightarrow> scores = []"
    unfolding ids select_scored_def by (cases scores) (auto dest: select_loop_nonempty [THEN notE, rotated])
  have mem: "set ids \<subseteq> device_type_id ` set scores"
    unfolding ids select_scored_def using select_loop_set by (cases scores) fastforce+
  have best: "\<exists>s \<in> set scores. hd ids = device_type_id s \<and> (\<forall>s' \<in> set scores. numerical_score s \<le> numerical_score s')"
    if some: "ids \<noteq> []"
  proof -
    obtain s0 rest where "scores = s0 # rest" using none some by (cases scores) auto
    then show ?thesis unfolding ids select_scored_def
      using select_loop_head [of "[device_type_id s0]" s0 rest] by auto
  qed
  have "ids = [] \<longleftrightarrow> (\<forall>(d, data) \<in> set matter_device_type_vs_clusters_map.
      conform_to_device_type t clusters (dt_clusters data) \<noteq> Inr True)"
  proof -
    have "scores = [] \<longleftrightarrow> set scores = {}" by simp
    then show ?thesis unfolding none set by (auto simp: conforming_def filter_empty_conv)
  qed
  moreover have "\<exists>data. (d, data) \<in> set matter_device_type_vs_clusters_map \<and>
      conform_to_device_type t clusters (dt_clusters data) = Inr True" if "d \<in> set ids" for d
    using subsetD [OF mem that] unfolding set by (auto simp: conforming_def)
  moreover have "\<exists>data. (hd ids, data) \<in> set matter_device_type_vs_clusters_map \<and>
      conform_to_device_type t clusters (dt_clusters data) = Inr True \<and>
      (\<forall>(d', data') \<in> set matter_device_type_vs_clusters_map.
         conform_to_device_type t clusters (dt_clusters data') = Inr True \<longrightarrow>
         numerical_score (score_of t clusters (hd ids, data)) \<le> numerical_score (score_of t clusters (d', data')))"
    if "ids \<noteq> []"
    using best [OF that] unfolding set by (fastforce simp: conforming_def)
  ultimately show ?thesis by blast
qed

text \<open>Of the device types only the door lock conforms to the clusters of the lock.\<close>

lemma lock_not_overread: "\<not> overreads t lock_clusters r"
  by (auto simp: overreads_def sample_cluster_def split: if_splits)

lemma lock_conforming:
  "map fst (conforming (sample_translator True) lock_clusters matter_device_type_vs_clusters_map) = [10]"
  unfolding conforming_def conform_eq [OF lock_clusters_ok [THEN conjunct1] lock_clusters_ok [THEN conjunct2]]
  by (simp add: matter_device_type_vs_clusters_map_def device_type_def cluster_req_def sample_defs meets_def
      has_attribute_def accepts_command_def additional_required_attributes_def lock_not_overread)

lemma lock_device_types: "get_device_types (sample_translator True) lock_clusters = Inr [10]"
proof -
  obtain data where c: "conforming (sample_translator True) lock_clusters matter_device_type_vs_clusters_map = [(10, data)]"
    using lock_conforming by (auto simp: map_eq_Cons_conv)
  have "conforming_scores (sample_translator True) lock_clusters matter_device_type_vs_clusters_map =
      Inr [score_of (sample_translator True) lock_clusters (10, data)]"
    using conforming_scores_some [OF lock_clusters_ok [THEN conjunct1] lock_clusters_ok [THEN conjunct2]]
      lock_not_overread by (simp add: c)
  then show ?thesis
    by (simp add: get_device_types_def select_possible_device_types_on_score_def compute_device_type_match_score_def
        std_sort_def sort_step_def select_scored_def)
qed

lemma selected_device_type_best_witness:
  "get_device_types (sample_translator True) lock_clusters = Inr [10] \<and>
   (\<exists>data. (10, data) \<in> set matter_device_type_vs_clusters_map \<and>
     conform_to_device_type (sample_translator True) lock_clusters (dt_clusters data) = Inr True)"
  using lock_device_types selected_device_type_best [OF lock_device_types] by simp

end
