(* ===== verification/Cluster_Interactor.thy ===== *)
theory Cluster_Interactor
  imports Cluster_Emulator Device_Type_Selection
begin

text \<open>
  linux/src/matter_node_state_monitor/matter_cluster_interactor.hpp and
  matter_cluster_interactor.cpp: from the clusters Unify reports of an endpoint to the clusters of
  the Matter endpoint, and its device type. The type and size of an attribute come from the
  generated attribute_type_size.cpp (Attribute_Sizes) and are the argument \<open>type_size\<close>. The clusters of an endpoint
  are an unordered map in the code: the list is its iteration order.
\<close>

section \<open>Identifiers\<close>

abbreviation NodeLabel_Id :: attribute_id where "NodeLabel_Id \<equiv> 5"
abbreviation Reachable_Id :: attribute_id where "Reachable_Id \<equiv> 17"
abbreviation DeviceTypeList_Id :: attribute_id where "DeviceTypeList_Id \<equiv> 0"
abbreviation ServerList_Id :: attribute_id where "ServerList_Id \<equiv> 1"
abbreviation ClientList_Id :: attribute_id where "ClientList_Id \<equiv> 2"
abbreviation PartsList_Id :: attribute_id where "PartsList_Id \<equiv> 3"

definition plain_attribute :: "attribute_id \<Rightarrow> u16 \<Rightarrow> ember_type \<Rightarrow> ember_attribute" where
  "plain_attribute a n t = \<lparr>ea_default = None, ea_id = a, ea_size = n, ea_type = t, ea_mask = []\<rparr>"

section \<open>Building\<close>

definition descriptor_cluster_attributes :: "ember_attribute list" where
  "descriptor_cluster_attributes =
     [plain_attribute DeviceTypeList_Id 254 ZCL_ARRAY, plain_attribute ServerList_Id 254 ZCL_ARRAY,
      plain_attribute ClientList_Id 254 ZCL_ARRAY, plain_attribute PartsList_Id 254 ZCL_ARRAY,
      plain_attribute ClusterRevision_Id 2 ZCL_INT16U]"

definition append_bridged_clusters :: "ember_cluster list \<Rightarrow> ember_cluster list" where
  "append_bridged_clusters clusters = cluster_done Descriptor_Id
     (new_cluster_builder\<lparr>cb_attributes := descriptor_cluster_attributes\<rparr>) clusters"

definition bridged_basic_cluster :: "ember_cluster list \<Rightarrow> ember_cluster list" where
  "bridged_basic_cluster clusters = cluster_done BridgedDeviceBasicInformation_Id
     (new_cluster_builder\<lparr>cb_attributes :=
        [plain_attribute NodeLabel_Id 32 ZCL_CHAR_STRING, plain_attribute Reachable_Id 1 ZCL_BOOLEAN,
         plain_attribute FeatureMap_Id 4 ZCL_BITMAP32,
         plain_attribute ClusterRevision_Id 2 ZCL_INT16U]\<rparr>) clusters"

text \<open>The body of the loop for a cluster with a Matter identifier.\<close>

definition build_cluster ::
  "device_translator \<Rightarrow> (cluster_id \<Rightarrow> attribute_id \<Rightarrow> u16 \<times> ember_type) \<Rightarrow> string \<Rightarrow> cluster_id \<Rightarrow>
     unify_cluster \<Rightarrow> cluster_builder" where
  "build_cluster t type_size name cl uc =
     (let b = new_cluster_builder;
          b = b\<lparr>cb_incoming_commands :=
                 List.map_filter (get_command_id t name) (uc_supported_commands uc) @ [kInvalidCommandId]\<rparr>;
          b = b\<lparr>cb_outgoing_commands :=
                 List.map_filter (get_command_id t name) (uc_generated_commands uc) @ [kInvalidCommandId]\<rparr>;
          b = b\<lparr>cb_attributes := List.map_filter (\<lambda>a. map_option (\<lambda>i.
                 \<lparr>ea_default = None, ea_id = i, ea_size = fst (type_size cl i),
                  ea_type = snd (type_size cl i), ea_mask = [EXTERNAL_STORAGE, WRITABLE]\<rparr>)
                 (get_attribute_id t name a)) (uc_attributes uc)\<rparr>;
          b = (if name = ''Basic''
               then add_attribute (plain_attribute Reachable_Id 1 ZCL_BOOLEAN)
                      (add_attribute (plain_attribute NodeLabel_Id 32 ZCL_CHAR_STRING) b)
               else b)
      in add_emulated_commands_and_attributes uc b)"

fun build_clusters ::
  "device_translator \<Rightarrow> (cluster_id \<Rightarrow> attribute_id \<Rightarrow> u16 \<times> ember_type) \<Rightarrow>
     (string \<times> unify_cluster) list \<Rightarrow> bool \<Rightarrow> ember_cluster list \<Rightarrow> bool \<times> ember_cluster list" where
  "build_clusters t type_size [] basic clusters = (basic, clusters)"
| "build_clusters t type_size ((name, uc) # ucs) basic clusters =
     (if uc_attributes uc = [] then build_clusters t type_size ucs basic clusters
      else if name = ''NameAndLocation'' then build_clusters t type_size ucs basic clusters
      else case get_cluster_id t name of
        None \<Rightarrow> build_clusters t type_size ucs basic clusters
      | Some cl \<Rightarrow> build_clusters t type_size ucs (basic \<or> name = ''Basic'')
          (cluster_done cl (build_cluster t type_size name cl uc) clusters))"

definition build_matter_cluster ::
  "device_translator \<Rightarrow> (cluster_id \<Rightarrow> attribute_id \<Rightarrow> u16 \<times> ember_type) \<Rightarrow>
     (string \<times> unify_cluster) list \<Rightarrow> ember_cluster list" where
  "build_matter_cluster t type_size ucs =
     (let (basic, clusters) = build_clusters t type_size ucs False []
      in append_bridged_clusters (if basic then clusters else bridged_basic_cluster clusters))"

text \<open>The device type is narrowed to \<open>uint16_t\<close>.\<close>

definition get_matter_type :: "device_translator \<Rightarrow> ember_cluster list \<Rightarrow> u16 option res" where
  "get_matter_type t clusters = rbind (get_device_types t clusters)
     (\<lambda>ids. Inr (case ids of [] \<Rightarrow> None | d # _ \<Rightarrow> Some (ucast d)))"

section \<open>Lemmas\<close>

definition mapped_clusters :: "device_translator \<Rightarrow> (string \<times> unify_cluster) list \<Rightarrow> (string \<times> unify_cluster) list" where
  "mapped_clusters t ucs = filter (\<lambda>(name, uc). uc_attributes uc \<noteq> [] \<and> name \<noteq> ''NameAndLocation'' \<and>
     get_cluster_id t name \<noteq> None) ucs"

lemma build_clusters_eq:
  "build_clusters t type_size ucs basic clusters =
     (basic \<or> ''Basic'' \<in> fst ` set (mapped_clusters t ucs),
      clusters @ map (\<lambda>(name, uc). finished_cluster (the (get_cluster_id t name))
        (build_cluster t type_size name (the (get_cluster_id t name)) uc)) (mapped_clusters t ucs))"
  by (induction t type_size ucs basic clusters rule: build_clusters.induct)
    (auto simp: mapped_clusters_def cluster_done_def)

lemma string_emulator_map_eqs:
  "string_emulator_map ''Groups'' = Some emulate_groups"
  "string_emulator_map ''DoorLock'' = Some emulate_doorlock"
  by (simp_all add: string_emulator_map_def cluster_emulators_def emulator_defs)

text \<open>What is built has the shape the device type selection expects.\<close>

lemma built_attributes_length:
  "length (cb_attributes (build_cluster t type_size name cl uc)) \<le> length (uc_attributes uc) + 8"
proof -
  have "length (List.map_filter f xs) \<le> length xs" for f :: "string \<Rightarrow> ember_attribute option" and xs
    by (induction xs) (auto simp: List.map_filter_simps split: option.split)
  then have bound: "length (List.map_filter f xs) \<le> n + length xs" for f :: "string \<Rightarrow> ember_attribute option" and xs n
    using trans_le_add2 by blast
  show ?thesis
    unfolding build_cluster_def add_emulated_commands_and_attributes_def string_emulator_map_def Let_def
    by (auto simp: cluster_emulators_def emulator_defs default_emulator_def builder_defs new_cluster_builder_def
        window_covering_emulate_def identify_emulate_def doorlock_emulate_def groups_emulate_def le_SucI bound bound [where n = 1, simplified]
        bound [where n = 2, simplified])
qed

lemma finished_bridgeable: "length (cb_attributes b) < 256 \<Longrightarrow> bridgeable (finished_cluster cl b)"
  by (simp add: bridgeable_def cluster_wf_def finished_cluster_def)

lemma built_bridgeable:
  assumes "\<forall>(name, uc) \<in> set ucs. length (uc_attributes uc) < 248"
  shows "\<forall>c \<in> set (build_matter_cluster t type_size ucs). bridgeable c"
proof -
  have "length (cb_attributes (build_cluster t type_size name cl uc)) < 256" if "(name, uc) \<in> set ucs" for name cl uc
    using built_attributes_length [of t type_size name cl uc] bspec [OF assms that] by simp
  then have "bridgeable (finished_cluster cl (build_cluster t type_size name cl uc))" if "(name, uc) \<in> set ucs" for name cl uc
    using that finished_bridgeable by blast
  then show ?thesis
    by (auto simp: build_matter_cluster_def build_clusters_eq append_bridged_clusters_def bridged_basic_cluster_def
        cluster_done_def mapped_clusters_def descriptor_cluster_attributes_def intro!: finished_bridgeable)
qed

lemma built_length: "length (build_matter_cluster t type_size ucs) \<le> length ucs + 2"
proof -
  have "length (mapped_clusters t ucs) \<le> length ucs" by (simp add: mapped_clusters_def)
  then show ?thesis
    by (simp add: build_matter_cluster_def build_clusters_eq append_bridged_clusters_def bridged_basic_cluster_def
        cluster_done_def)
qed

section \<open>Properties\<close>

text \<open>The Matter endpoint has one cluster for every reported cluster that has attributes, is not
  \<open>NameAndLocation\<close> and has a Matter identifier, in the order reported, then the bridged device
  information unless Unify reports \<open>Basic\<close>, and last the descriptor; nothing else.\<close>

theorem built_cluster_ids:
  "map ec_cluster_id (build_matter_cluster t type_size ucs) =
     map (\<lambda>(name, uc). the (get_cluster_id t name)) (mapped_clusters t ucs) @
     (if ''Basic'' \<in> fst ` set (mapped_clusters t ucs) then [] else [BridgedDeviceBasicInformation_Id]) @
     [Descriptor_Id]"
  by (simp add: build_matter_cluster_def build_clusters_eq append_bridged_clusters_def
      bridged_basic_cluster_def cluster_done_def comp_def split_beta)

text \<open>The command lists of a built cluster are meant to end with \<open>kInvalidCommandId\<close>. The door
  lock emulation appends its commands after that mark, so a reader that stops at the mark does not see
  them, and the group emulation replaces the lists by lists without any mark.\<close>

theorem emulated_command_lists:
  "(uc_cluster_name uc = ''DoorLock'' \<longrightarrow>
     cb_incoming_commands (build_cluster t type_size name cl uc) =
       List.map_filter (get_command_id t name) (uc_supported_commands uc) @
       [kInvalidCommandId, LockDoor_Id, UnlockDoor_Id]) \<and>
   (uc_cluster_name uc = ''Groups'' \<longrightarrow>
     kInvalidCommandId \<notin> set (cb_incoming_commands (build_cluster t type_size name cl uc)) \<and>
     kInvalidCommandId \<notin> set (cb_outgoing_commands (build_cluster t type_size name cl uc)))"
  by (simp add: build_cluster_def add_emulated_commands_and_attributes_def string_emulator_map_eqs
      emulate_doorlock_def doorlock_emulate_def emulate_groups_def groups_emulate_def builder_defs
      default_emulator_def new_cluster_builder_def Let_def)

lemma emulated_command_lists_witness:
  "let uc = \<lparr>uc_cluster_name = ''DoorLock'', uc_attributes = [''LockState''],
         uc_supported_commands = [], uc_generated_commands = []\<rparr>
   in cb_incoming_commands (build_cluster (sample_translator True) (\<lambda>_ _. (1, ZCL_ENUM8)) ''DoorLock'' 257 uc) =
      [kInvalidCommandId, LockDoor_Id, UnlockDoor_Id]"
  using emulated_command_lists [of "\<lparr>uc_cluster_name = ''DoorLock'', uc_attributes = [''LockState''],
      uc_supported_commands = [], uc_generated_commands = []\<rparr>"
      "sample_translator True" "\<lambda>_ _. (1, ZCL_ENUM8)" "''DoorLock''" 257]
  by (simp add: List.map_filter_simps)

text \<open>C14: For the clusters the bridge builds of up to 126 reported clusters with fewer than 248 attributes each, the
  loops that check a device type return what the specification says: the type is accepted exactly when every
  mandatory cluster of it is known and, in the strict mode, present with all required attributes and with all required
  commands among its first eight. The first requirement that is not met refuses the type, or reads past the end of the
  list of commands: exactly when the cluster has its attributes, but not the first of the missing commands, which
  the tables know, in a list shorter than eight.\<close>

theorem conformance_specification:
  assumes "length ucs \<le> 126" and "\<forall>(name, uc) \<in> set ucs. length (uc_attributes uc) < 248"
  shows "conform_to_device_type t (build_matter_cluster t type_size ucs) ds =
    (case find (\<lambda>d. \<not> meets t (build_matter_cluster t type_size ucs) d) ds of
       None \<Rightarrow> Inr True
     | Some d \<Rightarrow> if overreads t (build_matter_cluster t type_size ucs) d then Inl Out_Of_Bounds_Read else Inr False)"
proof -
  have "length (build_matter_cluster t type_size ucs) \<le> 128" using built_length [of t type_size ucs] assms(1) by simp
  then show ?thesis using built_bridgeable [OF assms(2)] by (rule conform_eq)
qed

definition lock_ucs :: "string list \<Rightarrow> (string \<times> unify_cluster) list" where
  "lock_ucs commands =
     [(''DoorLock'', \<lparr>uc_cluster_name = ''DoorLock'', uc_attributes = [''LockState''],
         uc_supported_commands = [], uc_generated_commands = []\<rparr>),
      (''Identify'', \<lparr>uc_cluster_name = ''Identify'', uc_attributes = [''IdentifyTime''],
         uc_supported_commands = commands, uc_generated_commands = []\<rparr>)]"

abbreviation lock_requirements :: "device_cluster_data list" where
  "lock_requirements \<equiv> [cluster_req ''DoorLock'' True [] [],
     cluster_req ''Identify'' True [''Identify''] [''IdentifyTime'', ''IdentifyType'']]"

text \<open>A lock that reports the command \<open>Identify\<close> conforms; without it the list of commands is read past its end.\<close>

lemma conformance_specification_witness:
  "conform_to_device_type (sample_translator True)
     (build_matter_cluster (sample_translator True) (\<lambda>_ _. (1, ZCL_ENUM8)) (lock_ucs [''Identify''])) lock_requirements =
     Inr True \<and>
   conform_to_device_type (sample_translator True)
     (build_matter_cluster (sample_translator True) (\<lambda>_ _. (1, ZCL_ENUM8)) (lock_ucs [])) lock_requirements =
     Inl Out_Of_Bounds_Read"
proof -
  let ?b = "\<lambda>cmds. build_matter_cluster (sample_translator True) (\<lambda>_ _. (1, ZCL_ENUM8)) (lock_ucs cmds)"
  have ok: "length (lock_ucs cmds) \<le> 126" "\<forall>(name, uc) \<in> set (lock_ucs cmds). length (uc_attributes uc) < 248" for cmds
    by (simp_all add: lock_ucs_def)
  have emu: "string_emulator_map ''Identify'' = Some emulate_identify"
    by (simp add: string_emulator_map_def cluster_emulators_def emulator_defs)
  note defs = build_matter_cluster_def build_clusters.simps lock_ucs_def build_cluster_def cluster_done_def
    add_emulated_commands_and_attributes_def string_emulator_map_eqs emu append_bridged_clusters_def bridged_basic_cluster_def
    emulate_doorlock_def doorlock_emulate_def emulate_identify_def identify_emulate_def default_emulator_def builder_defs
    new_cluster_builder_def sample_defs get_cluster_id_def get_attribute_id_def get_command_id_def finished_cluster_def
    List.map_filter_simps cluster_req_def external_attribute_def
  have "find (\<lambda>d. \<not> meets (sample_translator True) (?b [''Identify'']) d) lock_requirements = None"
    by (simp add: meets_def has_attribute_def accepts_command_def additional_required_attributes_def defs)
  moreover have "find (\<lambda>d. \<not> meets (sample_translator True) (?b []) d) lock_requirements =
      Some (cluster_req ''Identify'' True [''Identify''] [''IdentifyTime'', ''IdentifyType''])"
    by (simp add: meets_def has_attribute_def accepts_command_def additional_required_attributes_def defs)
  moreover have "overreads (sample_translator True) (?b []) (cluster_req ''Identify'' True [''Identify''] [''IdentifyTime'', ''IdentifyType''])"
    by (simp add: overreads_def has_attribute_def accepts_command_def defs)
  ultimately show ?thesis
    using conformance_specification [OF ok, of "sample_translator True" "\<lambda>_ _. (1, ZCL_ENUM8)" "[''Identify'']" lock_requirements]
      conformance_specification [OF ok, of "sample_translator True" "\<lambda>_ _. (1, ZCL_ENUM8)" "[]" lock_requirements]
    by simp
qed

end
