(* ===== verification/Ember_Interface.thy ===== *)
theory Ember_Interface
  imports Endpoint_Builder
begin

text \<open>
  linux/src/matter_wrappers/unify_ember_interface.hpp: the search for a free dynamic endpoint. The
  Ember functions it wraps belong to the Matter library and are a record of parameters on a state
  \<open>'em\<close>; \<open>FIXED_ENDPOINT_COUNT\<close> and \<open>MAX_ENDPOINT_COUNT\<close> are fields of it. The documented
  behaviour of the dynamic endpoint table is the locale \<open>ember_table\<close>.
\<close>

section \<open>The wrapped functions\<close>

record 'em ember_ops =
  ei_fixed_count :: u16
  ei_max_count :: u16
  ei_dynamic_index :: "endpoint_id \<Rightarrow> 'em \<Rightarrow> u16"
  ei_set_dynamic :: "u16 \<Rightarrow> endpoint_id \<Rightarrow> ember_endpoint \<Rightarrow> nat \<Rightarrow> u16 \<Rightarrow> 'em \<Rightarrow> chip_error \<times> 'em"
  ei_clear_dynamic :: "u16 \<Rightarrow> 'em \<Rightarrow> endpoint_id \<times> 'em"

abbreviation kEmberInvalidEndpointIndex :: u16 where "kEmberInvalidEndpointIndex \<equiv> 65535"

definition is_free :: "('em, 'x) ember_ops_scheme \<Rightarrow> 'em \<Rightarrow> endpoint_id \<Rightarrow> bool" where
  "is_free ops em e \<longleftrightarrow> ei_dynamic_index ops e em = kInvalidEndpointId"

section \<open>The search\<close>

text \<open>Both loops of the search: from \<open>e\<close> on, below \<open>MAX_ENDPOINT_COUNT\<close>.\<close>

function free_from :: "('em, 'x) ember_ops_scheme \<Rightarrow> 'em \<Rightarrow> endpoint_id \<Rightarrow> endpoint_id option" where
  "free_from ops em e =
     (if e < ei_max_count ops then (if is_free ops em e then Some e else free_from ops em (e + 1))
      else None)"
  by pat_completeness auto

lemma word_less_succ16: "(e :: u16) < m \<Longrightarrow> unat (e + 1) = Suc (unat e)"
  by (rule unat_succ16) (use unat16_less [of m] in \<open>auto simp: word_less_nat_alt\<close>)

termination free_from
  by (relation "measure (\<lambda>(ops, em, e). unat (ei_max_count ops) - unat e)")
    (auto simp: word_less_succ16 word_less_nat_alt)

declare free_from.simps [simp del]

text \<open>
  \<open>getNextDynamicAvailableEndpointIndex\<close>: the endpoint and the new
  \<open>last_returned_available_endpoint_id\<close>, which only the first loop updates.
\<close>

definition get_next_endpoint ::
  "('em, 'x) ember_ops_scheme \<Rightarrow> 'em \<Rightarrow> endpoint_id \<Rightarrow> endpoint_id \<times> endpoint_id" where
  "get_next_endpoint ops em last_returned =
     (case free_from ops em (last_returned + 1) of
        Some e \<Rightarrow> (e, e)
      | None \<Rightarrow> (case free_from ops em (ei_fixed_count ops) of
                   Some e \<Rightarrow> (e, last_returned)
                 | None \<Rightarrow> (kInvalidEndpointId, last_returned)))"

lemma free_from_Some:
  "free_from ops em e = Some x \<Longrightarrow> e \<le> x \<and> x < ei_max_count ops \<and> is_free ops em x"
proof (induction ops em e rule: free_from.induct)
  case (1 ops em e)
  from "1.prems" show ?case
  proof (subst (asm) free_from.simps, split if_splits, simp_all)
    assume lt: "e < ei_max_count ops"
    assume r: "(if is_free ops em e then Some e else free_from ops em (e + 1)) = Some x"
    show "e \<le> x \<and> x < ei_max_count ops \<and> is_free ops em x"
    proof (cases "is_free ops em e")
      case True
      then show ?thesis using r lt by simp
    next
      case False
      then have "e + 1 \<le> x \<and> x < ei_max_count ops \<and> is_free ops em x" using "1.IH" r lt by simp
      then show ?thesis using word_less_succ16 [OF lt] by (simp add: word_le_nat_alt)
    qed
  qed
qed

lemma next_endpoint_is_free:
  "get_next_endpoint ops em l = (e, l') \<Longrightarrow> e \<noteq> kInvalidEndpointId \<Longrightarrow> is_free ops em e"
  using free_from_Some by (fastforce simp: get_next_endpoint_def split: option.splits)

lemma free_from_None:
  "free_from ops em e = None \<Longrightarrow> e \<le> x \<Longrightarrow> x < ei_max_count ops \<Longrightarrow> \<not> is_free ops em x"
proof (induction ops em e rule: free_from.induct)
  case (1 ops em e)
  have lt: "e < ei_max_count ops" using "1.prems"(2,3) by simp
  with "1.prems"(1) have e: "\<not> is_free ops em e"
    by (simp add: free_from.simps [of ops em e] split: if_splits)
  with "1.prems"(1) lt have n: "free_from ops em (e + 1) = None"
    by (simp add: free_from.simps [of ops em e])
  show ?case
  proof (cases "x = e")
    case False
    then have "e + 1 \<le> x"
      using "1.prems"(2) word_less_succ16 [OF lt]
      by (simp add: word_le_nat_alt word_unat_eq_iff)
    then show ?thesis using "1.IH" [OF lt e n] "1.prems"(3) by simp
  qed (use e in simp)
qed

section \<open>The dynamic endpoint table\<close>

text \<open>
  What the Matter library documents of its dynamic endpoints: a successful set registers the
  endpoint at the index and keeps the endpoints at other indices, a failing set changes nothing,
  and a clear frees the slot and returns the endpoint that was there.
\<close>

locale ember_table =
  fixes ops :: "'em ember_ops"
  assumes set_ok: "ei_set_dynamic ops i e ep n t s = (CHIP_NO_ERROR, s') \<Longrightarrow>
      ei_dynamic_index ops e s' = i \<and>
      (e' \<noteq> e \<longrightarrow> ei_dynamic_index ops e' s \<noteq> i \<longrightarrow> ei_dynamic_index ops e' s' = ei_dynamic_index ops e' s)"
    and set_failed: "ei_set_dynamic ops i e ep n t s = (err, s') \<Longrightarrow> err \<noteq> CHIP_NO_ERROR \<Longrightarrow> s' = s"
    and clear_used: "ei_dynamic_index ops e s = i \<Longrightarrow> i \<noteq> kEmberInvalidEndpointIndex \<Longrightarrow>
      ei_clear_dynamic ops i s = (e', s') \<Longrightarrow> e' = e \<and>
      (\<forall>x. ei_dynamic_index ops x s' = (if x = e then kEmberInvalidEndpointIndex else ei_dynamic_index ops x s))"
begin

lemma free_after_clear:
  "ei_dynamic_index ops e s = i \<Longrightarrow> i \<noteq> kEmberInvalidEndpointIndex \<Longrightarrow>
   ei_clear_dynamic ops i s = (e', s') \<Longrightarrow> is_free ops s' e"
  using clear_used [of e s i e' s'] by (simp add: is_free_def)

lemma taken_after_set:
  "ei_set_dynamic ops i e ep n t s = (CHIP_NO_ERROR, s') \<Longrightarrow> i \<noteq> kEmberInvalidEndpointIndex \<Longrightarrow>
   \<not> is_free ops s' e"
  using set_ok [of i e ep n t s s' e] unfolding is_free_def by simp

end

text \<open>
  A set at an index in range succeeds for an endpoint that is not registered, when there is a data
  version for every cluster; clearing an index no endpoint has changes nothing.
\<close>

locale ember_registry = ember_table +
  assumes set_succeeds: "i < ei_max_count ops - ei_fixed_count ops \<Longrightarrow> is_free ops s e \<Longrightarrow>
      unat (ee_cluster_count ep) \<le> n \<Longrightarrow> fst (ei_set_dynamic ops i e ep n t s) = CHIP_NO_ERROR"
    and clear_unused: "\<forall>x. ei_dynamic_index ops x s \<noteq> i \<Longrightarrow> ei_clear_dynamic ops i s = (e', s') \<Longrightarrow>
      ei_dynamic_index ops x s' = ei_dynamic_index ops x s"
begin

lemma set_free:
  assumes "i < ei_max_count ops - ei_fixed_count ops" and "is_free ops s e" and "unat (ee_cluster_count ep) \<le> n"
  shows "ei_dynamic_index ops e (snd (ei_set_dynamic ops i e ep n t s)) = i"
  using set_succeeds [OF assms] set_ok by (metis prod.collapse)

lemma set_other:
  assumes "e' \<noteq> e" and "ei_dynamic_index ops e' s \<noteq> i"
  shows "ei_dynamic_index ops e' (snd (ei_set_dynamic ops i e ep n t s)) = ei_dynamic_index ops e' s"
proof (cases "ei_set_dynamic ops i e ep n t s")
  case (Pair err s')
  then show ?thesis
    using set_ok [of i e ep n t s s' e'] set_failed [of i e ep n t s err s'] assms by (cases "err = CHIP_NO_ERROR") auto
qed

lemma clear_other:
  assumes "i \<noteq> kEmberInvalidEndpointIndex" and "ei_dynamic_index ops x s \<noteq> i"
  shows "ei_dynamic_index ops x (snd (ei_clear_dynamic ops i s)) = ei_dynamic_index ops x s"
proof (cases "\<forall>y. ei_dynamic_index ops y s \<noteq> i")
  case True
  then show ?thesis using clear_unused by (metis prod.collapse)
next
  case False
  then obtain y where y: "ei_dynamic_index ops y s = i" by blast
  then show ?thesis
    using clear_used [OF y assms(1)] assms(2) by (metis prod.collapse)
qed

end

section \<open>Properties\<close>

text \<open>The search gives a dynamic endpoint that is free, past the fixed endpoints and below the
  maximum, or the invalid endpoint when and only when no such endpoint is free; the remembered
  endpoint stays in the same bounds.\<close>

theorem get_next_endpoint_free:
  assumes "0 < ei_fixed_count ops" and "ei_fixed_count ops \<le> l + 1" and "l < ei_max_count ops"
    and "get_next_endpoint ops em l = (e, l')"
  shows "(if e = kInvalidEndpointId
          then \<forall>x. ei_fixed_count ops \<le> x \<and> x < ei_max_count ops \<longrightarrow> \<not> is_free ops em x
          else ei_fixed_count ops \<le> e \<and> e < ei_max_count ops \<and> is_free ops em e) \<and>
    ei_fixed_count ops \<le> l' + 1 \<and> l' < ei_max_count ops"
proof -
  have max: "x \<noteq> kInvalidEndpointId" if "x < ei_max_count ops" for x
  proof
    assume "x = kInvalidEndpointId"
    then have "unat x = 65535" by simp
    then show False using that unat16_less [of "ei_max_count ops"] by (simp add: word_less_nat_alt)
  qed
  show ?thesis
  proof (cases "free_from ops em (l + 1)")
    case (Some x)
    note found = free_from_Some [OF Some, THEN conjunct2]
    have r: "e = x" "l' = x" using assms(4) Some by (auto simp: get_next_endpoint_def)
    have lo: "ei_fixed_count ops \<le> x"
      using assms(2) free_from_Some [OF Some, THEN conjunct1] by (rule order_trans)
    moreover have "x \<le> x + 1" using word_less_succ16 [of x "ei_max_count ops"] found
      by (simp add: word_le_nat_alt)
    ultimately have "ei_fixed_count ops \<le> x + 1" by (rule order_trans)
    then show ?thesis unfolding r using max [OF found [THEN conjunct1]] found lo
      by (simp only: if_False simp_thms)
  next
    case None
    have l': "l' = l" using assms(4) None
      by (simp add: get_next_endpoint_def split: option.splits)
    show ?thesis
    proof (cases "free_from ops em (ei_fixed_count ops)")
      case (Some x)
      note found = free_from_Some [OF Some]
      have "e = x" using assms(4) None Some by (simp add: get_next_endpoint_def)
      then show ?thesis
        using l' assms(2,3) found max [OF found [THEN conjunct2, THEN conjunct1]]
        by (simp only: if_False simp_thms)
    next
      case none: None
      have "e = kInvalidEndpointId" using assms(4) None none by (simp add: get_next_endpoint_def)
      then show ?thesis
        using l' assms(2,3) free_from_None [OF none] by (simp only: if_True simp_thms) blast
    qed
  qed
qed

section \<open>A table in memory\<close>

text \<open>An instance of the library functions: a map from indices to endpoints.\<close>

definition slot_of :: "(u16 \<rightharpoonup> endpoint_id) \<Rightarrow> endpoint_id \<Rightarrow> u16" where
  "slot_of s e = (case find (\<lambda>n. s (word_of_nat n) = Some e) [0 ..< 255] of
     Some n \<Rightarrow> word_of_nat n | None \<Rightarrow> kEmberInvalidEndpointIndex)"

definition map_ember :: "(u16 \<rightharpoonup> endpoint_id) ember_ops" where
  "map_ember = \<lparr>ei_fixed_count = 2, ei_max_count = 257, ei_dynamic_index = (\<lambda>e s. slot_of s e),
     ei_set_dynamic = (\<lambda>i e ep n t s. if i < 255 \<and> slot_of s e = kEmberInvalidEndpointIndex
       then (CHIP_NO_ERROR, s(i \<mapsto> e)) else (CHIP_ERROR_NO_MEMORY, s)),
     ei_clear_dynamic = (\<lambda>i s. case s i of
         Some e \<Rightarrow> if slot_of s e = i then (e, \<lambda>j. if s j = Some e then None else s j)
                    else (kInvalidEndpointId, s)
       | None \<Rightarrow> (kInvalidEndpointId, s))\<rparr>"

lemma slot_of_invalid: "slot_of s e = kEmberInvalidEndpointIndex \<longleftrightarrow> (\<forall>n < 255. s (word_of_nat n) \<noteq> Some e)"
proof -
  have "word_of_nat n \<noteq> kEmberInvalidEndpointIndex" if "n < 255" for n
  proof
    assume "word_of_nat n = kEmberInvalidEndpointIndex"
    then have "unat (word_of_nat n :: u16) = 65535" by simp
    then show False using that by (simp add: unat_of_nat)
  qed
  then show ?thesis
    by (auto simp: slot_of_def find_None_iff find_Some_iff split: option.split)
qed

lemma slot_of_first:
  "n < 255 \<Longrightarrow> s (word_of_nat n) = Some e \<Longrightarrow> (\<forall>m < n. s (word_of_nat m) \<noteq> Some e) \<Longrightarrow>
   slot_of s e = word_of_nat n"
  by (auto simp: slot_of_def find_None_iff find_Some_iff split: option.split)
    (metis linorder_neqE_nat)+

lemma slot_of_used:
  assumes "slot_of s e \<noteq> kEmberInvalidEndpointIndex"
  obtains n where "n < 255" "slot_of s e = word_of_nat n" "s (word_of_nat n) = Some e"
    "\<forall>m < n. s (word_of_nat m) \<noteq> Some e"
  using assms that
  by (auto simp: slot_of_def find_Some_iff split: option.splits)

lemma slot_of_cong: "(\<And>n. n < 255 \<Longrightarrow> s (word_of_nat n) = Some e \<longleftrightarrow> s' (word_of_nat n) = Some e) \<Longrightarrow>
   slot_of s e = slot_of s' e"
proof -
  assume "\<And>n. n < 255 \<Longrightarrow> s (word_of_nat n) = Some e \<longleftrightarrow> s' (word_of_nat n) = Some e"
  then have "find (\<lambda>n. s (word_of_nat n) = Some e) [0 ..< 255] =
      find (\<lambda>n. s' (word_of_nat n) = Some e) [0 ..< 255]"
    by (intro find_cong) auto
  then show ?thesis by (simp add: slot_of_def)
qed

interpretation memory_ember: ember_table map_ember
proof
  fix i e e' ep n t and s s' :: "u16 \<rightharpoonup> endpoint_id"
  assume set: "ei_set_dynamic map_ember i e ep n t s = (CHIP_NO_ERROR, s')"
  then have i: "i < 255" "slot_of s e = kEmberInvalidEndpointIndex" "s' = s(i \<mapsto> e)"
    by (auto simp: map_ember_def split: if_splits)
  then have ui: "unat i < 255" by (simp add: word_less_nat_alt)
  have "slot_of s' e = word_of_nat (unat i)"
    using i ui slot_of_invalid [of s e]
    by (intro slot_of_first) (auto simp: word_unat_eq_iff unat_of_nat)
  moreover have "slot_of s' e' = slot_of s e'" if "e' \<noteq> e" "slot_of s e' \<noteq> i"
  proof (cases "slot_of s e' = kEmberInvalidEndpointIndex")
    case True
    then have "\<forall>n < 255. s (word_of_nat n) \<noteq> Some e'" by (simp only: slot_of_invalid)
    then show ?thesis using that(1) i(3) by (intro slot_of_cong) auto
  next
    case False
    then obtain n where "n < 255" "slot_of s e' = word_of_nat n" "s (word_of_nat n) = Some e'"
        "\<forall>m < n. s (word_of_nat m) \<noteq> Some e'"
      by (rule slot_of_used)
    note n = this
    have "slot_of s' e' = word_of_nat n"
      using n(1) by (rule slot_of_first) (use n that i(3) in auto)
    then show ?thesis using n(2) by simp
  qed
  ultimately show "ei_dynamic_index map_ember e s' = i \<and>
      (e' \<noteq> e \<longrightarrow> ei_dynamic_index map_ember e' s \<noteq> i \<longrightarrow>
        ei_dynamic_index map_ember e' s' = ei_dynamic_index map_ember e' s)"
    by (simp add: map_ember_def)
next
  fix i e ep n t err and s s' :: "u16 \<rightharpoonup> endpoint_id"
  assume "ei_set_dynamic map_ember i e ep n t s = (err, s')" and "err \<noteq> CHIP_NO_ERROR"
  then show "s' = s" by (auto simp: map_ember_def split: if_splits)
next
  fix e i e' and s s' :: "u16 \<rightharpoonup> endpoint_id"
  assume used: "ei_dynamic_index map_ember e s = i" "i \<noteq> kEmberInvalidEndpointIndex"
    and clear: "ei_clear_dynamic map_ember i s = (e', s')"
  from used have slot: "slot_of s e = i" by (simp add: map_ember_def)
  with used(2) have si: "s i = Some e" by (metis slot_of_used)
  then have s': "e' = e" "s' = (\<lambda>j. if s j = Some e then None else s j)"
    using clear slot by (auto simp: map_ember_def)
  have "slot_of s' x = (if x = e then kEmberInvalidEndpointIndex else slot_of s x)" for x
  proof (cases "x = e")
    case True
    then show ?thesis using s'(2) by (simp add: slot_of_invalid)
  next
    case False
    then have "slot_of s' x = slot_of s x" using s'(2) by (intro slot_of_cong) auto
    then show ?thesis using False by simp
  qed
  then show "e' = e \<and> (\<forall>x. ei_dynamic_index map_ember x s' =
      (if x = e then kEmberInvalidEndpointIndex else ei_dynamic_index map_ember x s))"
    using s'(1) by (simp add: map_ember_def)
qed

interpretation memory_registry: ember_registry map_ember
proof
  fix i e ep n t and s :: "u16 \<rightharpoonup> endpoint_id"
  assume "i < ei_max_count map_ember - ei_fixed_count map_ember" and "is_free map_ember s e"
  then show "fst (ei_set_dynamic map_ember i e ep n t s) = CHIP_NO_ERROR"
    by (simp add: map_ember_def is_free_def)
next
  fix s s' :: "u16 \<rightharpoonup> endpoint_id" and i e' x
  assume "\<forall>x. ei_dynamic_index map_ember x s \<noteq> i" and "ei_clear_dynamic map_ember i s = (e', s')"
  then have "s' = s" by (auto simp: map_ember_def split: option.splits if_splits)
  then show "ei_dynamic_index map_ember x s' = ei_dynamic_index map_ember x s" by simp
qed

lemma map_ember_empty_free: "is_free map_ember Map.empty e"
proof -
  have "find (\<lambda>n. False) xs = None" for xs :: "nat list" by (induction xs) auto
  then show ?thesis by (simp add: is_free_def map_ember_def slot_of_def)
qed

lemma map_ember_bounds [simp]: "ei_fixed_count map_ember = 2" "ei_max_count map_ember = 257"
  by (simp_all add: map_ember_def)

lemma map_ember_first_endpoint: "get_next_endpoint map_ember Map.empty 1 = (2, 2)"
  by (simp add: get_next_endpoint_def free_from.simps [of map_ember] map_ember_empty_free)

lemma get_next_endpoint_free_witness:
  "get_next_endpoint map_ember Map.empty 1 = (2, 2) \<and> is_free map_ember Map.empty 2"
  using get_next_endpoint_free [OF _ _ _ map_ember_first_endpoint] map_ember_first_endpoint by simp

end
