(* ===== verification/Topics.thy ===== *)
theory Topics
  imports Chip_Types
begin

text \<open>
  The MQTT topics of the bridge: how they are composed, and the \<open>std::regex_search\<close> calls that
  take them apart in linux/src/cluster_translator/attribute_translator_interface.hpp,
  command_translator_interface.hpp and group_translator.cpp. Every capture group of those regular
  expressions is \<open>([^/]*)\<close> followed by a slash or by the end of the expression, so a greedy run
  up to the next slash is the only match at a given position; \<open>regex_search\<close> tries the positions
  from the left and does not anchor the end.
\<close>

section \<open>Matching\<close>

fun strip :: "string \<Rightarrow> string \<Rightarrow> string option" where
  "strip [] s = Some s"
| "strip (c # cs) [] = None"
| "strip (c # cs) (d # ds) = (if c = d then strip cs ds else None)"

definition segment :: "string \<Rightarrow> string" where
  "segment s = takeWhile (\<lambda>c. c \<noteq> CHR ''/'') s"

definition after_segment :: "string \<Rightarrow> string" where
  "after_segment s = dropWhile (\<lambda>c. c \<noteq> CHR ''/'') s"

fun regex_search :: "(string \<Rightarrow> 'a option) \<Rightarrow> string \<Rightarrow> 'a option" where
  "regex_search m [] = m []"
| "regex_search m (c # cs) =
     (case m (c # cs) of Some x \<Rightarrow> Some x | None \<Rightarrow> regex_search m cs)"

text \<open>\<open>ucl/by-unid/([^/]*)/ep([^/]*)/([^/]*)\<close> and what follows it.\<close>

definition match_node :: "string \<Rightarrow> (string \<times> string \<times> string \<times> string) option" where
  "match_node s =
     Option.bind (strip ''ucl/by-unid/'' s) (\<lambda>r0.
     Option.bind (strip ''/ep'' (after_segment r0)) (\<lambda>r1.
     Option.bind (strip ''/'' (after_segment r1)) (\<lambda>r2.
     Some (segment r0, segment r1, segment r2, after_segment r2))))"

definition match_attribute_topic :: "string \<Rightarrow> (string \<times> string \<times> string \<times> string) option" where
  "match_attribute_topic s =
     Option.bind (match_node s) (\<lambda>(unid, ep, cluster, r).
     Option.bind (strip ''/Attributes/'' r) (\<lambda>r3.
     Option.bind (strip ''/Reported'' (after_segment r3)) (\<lambda>_.
     Some (unid, ep, cluster, segment r3))))"

definition match_command_topic :: "string \<Rightarrow> (string \<times> string \<times> string \<times> string) option" where
  "match_command_topic s =
     Option.bind (match_node s) (\<lambda>(unid, ep, cluster, r).
     Option.bind (strip ''/GeneratedCommands/'' r) (\<lambda>r3.
     Some (unid, ep, cluster, segment r3)))"

definition match_group_topic :: "string \<Rightarrow> (string \<times> string) option" where
  "match_group_topic s =
     Option.bind (strip ''ucl/by-group/'' s) (\<lambda>r0.
     Option.bind (strip ''/NodeList/'' (after_segment r0)) (\<lambda>r1.
     Some (segment r0, segment r1)))"

section \<open>Composing\<close>

definition attribute_topic :: "unid \<Rightarrow> u8 \<Rightarrow> string \<Rightarrow> string \<Rightarrow> string" where
  "attribute_topic u ep cluster attribute =
     by_unid_topic u ep @ ''/'' @ cluster @ ''/Attributes/'' @ attribute @ ''/Reported''"

definition command_response_topic :: "unid \<Rightarrow> u8 \<Rightarrow> string \<Rightarrow> string \<Rightarrow> string" where
  "command_response_topic u ep cluster response =
     by_unid_topic u ep @ ''/'' @ cluster @ ''/GeneratedCommands/'' @ response"

section \<open>Lemmas\<close>

definition no_slash :: "string \<Rightarrow> bool" where
  "no_slash s \<longleftrightarrow> CHR ''/'' \<notin> set s"

lemma strip_append [simp]: "strip p (p @ s) = Some s"
  by (induction p) auto

lemma strip_Some_iff: "strip p s = Some r \<longleftrightarrow> s = p @ r"
  by (induction p s rule: strip.induct) auto

lemma no_slash_digits: "list_all is_digit s \<Longrightarrow> no_slash s"
  using digit_not_special(4) by (auto simp: no_slash_def list_all_iff)

lemma no_slash_word [simp]: "no_slash (word_to_string w)"
  by (rule no_slash_digits [OF word_to_string_digits])

lemma segment_append: "no_slash s \<Longrightarrow> segment (s @ CHR ''/'' # r) = s"
  by (induction s) (auto simp: segment_def no_slash_def)

lemma after_segment_append: "no_slash s \<Longrightarrow> after_segment (s @ CHR ''/'' # r) = CHR ''/'' # r"
  by (induction s) (auto simp: after_segment_def no_slash_def)

lemma segment_end: "no_slash s \<Longrightarrow> segment s = s"
  by (induction s) (auto simp: segment_def no_slash_def)

lemma regex_search_here: "m s = Some x \<Longrightarrow> regex_search m s = Some x"
  by (cases s) auto

lemma regex_search_Some:
  "regex_search m s = Some x \<Longrightarrow> \<exists>pre suf. s = pre @ suf \<and> m suf = Some x"
proof (induction s)
  case Nil
  then show ?case by auto
next
  case (Cons c cs)
  show ?case
  proof (cases "m (c # cs)")
    case None
    with Cons.prems have "regex_search m cs = Some x" by simp
    then obtain pre suf where "cs = pre @ suf" and "m suf = Some x" using Cons.IH by blast
    then have "c # cs = (c # pre) @ suf \<and> m suf = Some x" by simp
    then show ?thesis by blast
  next
    case (Some y)
    with Cons.prems have "c # cs = [] @ (c # cs) \<and> m (c # cs) = Some x" by simp
    then show ?thesis by blast
  qed
qed

lemma match_node_by_unid:
  assumes "no_slash u" and "no_slash cl"
  shows "match_node (by_unid_topic u ep @ CHR ''/'' # cl @ CHR ''/'' # r) =
    Some (u, word_to_string ep, cl, CHR ''/'' # r)"
proof -
  have s: "strip ''ucl/by-unid/'' (by_unid_topic u ep @ CHR ''/'' # cl @ CHR ''/'' # r) =
      Some (u @ CHR ''/'' # ''ep'' @ word_to_string ep @ CHR ''/'' # cl @ CHR ''/'' # r)"
    by (simp add: strip_Some_iff by_unid_topic_def)
  show ?thesis
    unfolding match_node_def s
    by (simp add: segment_append after_segment_append assms)
qed

lemma match_attribute_topic_compose:
  assumes "no_slash u" and "no_slash cl" and "no_slash a"
  shows "match_attribute_topic (attribute_topic u ep cl a) = Some (u, word_to_string ep, cl, a)"
proof -
  have "match_node (attribute_topic u ep cl a) =
      Some (u, word_to_string ep, cl, ''/Attributes/'' @ a @ ''/Reported'')"
    using match_node_by_unid [OF assms(1,2), of ep "''Attributes/'' @ a @ ''/Reported''"]
    by (simp add: attribute_topic_def)
  then show ?thesis
    using segment_append [OF assms(3), of "''Reported''"]
      after_segment_append [OF assms(3), of "''Reported''"]
    by (simp add: match_attribute_topic_def)
qed

lemma match_command_topic_compose:
  assumes "no_slash u" and "no_slash cl" and "no_slash a"
  shows "match_command_topic (command_response_topic u ep cl a) = Some (u, word_to_string ep, cl, a)"
proof -
  have "match_node (command_response_topic u ep cl a) =
      Some (u, word_to_string ep, cl, ''/GeneratedCommands/'' @ a)"
    using match_node_by_unid [OF assms(1,2), of ep "''GeneratedCommands/'' @ a"]
    by (simp add: command_response_topic_def)
  then show ?thesis
    by (simp add: match_command_topic_def segment_end [OF assms(3)])
qed

lemma stoi_word: "stoi (word_to_string (w :: u8)) = Inr (int (unat w))"
proof -
  have "unat w < 2 ^ 8" using unsigned_less [of w, where ?'a = nat] by simp
  then show ?thesis by (simp add: word_to_string_def stoi_nat_to_string)
qed

lemma stoi_word16: "stoi (word_to_string (w :: u16)) = Inr (int (unat w))"
proof -
  have "unat w < 2 ^ 16" using unsigned_less [of w, where ?'a = nat] by simp
  then show ?thesis by (simp add: word_to_string_def stoi_nat_to_string)
qed

end
