(* ===== verification/Data_Storage.thy ===== *)
theory Data_Storage
  imports Topics
begin

text \<open>
  linux/src/matter_data_storage.cpp: the two tables the bridge keeps in the Matter key-value
  store, the Unify endpoint to Matter endpoint mapping and the Matter group to Unify group
  mapping. The key-value store itself (\<open>KeyValueStoreMgr\<close>) is a parameter: a record of its
  three operations on a state \<open>'kv\<close>; its documented behaviour is the locale
  \<open>key_value_store\<close>.
\<close>

section \<open>The store\<close>

record 'kv kvs_ops =
  kv_put :: "string \<Rightarrow> u16 \<Rightarrow> 'kv \<Rightarrow> bool \<times> 'kv"
  kv_get :: "string \<Rightarrow> 'kv \<Rightarrow> u16 option"
  kv_delete :: "string \<Rightarrow> 'kv \<Rightarrow> 'kv"

record endpoint_mapping =
  em_unify_unid :: unid
  em_unify_endpoint :: u8
  em_matter_endpoint :: "endpoint_id option"

record group_mapping =
  gm_matter_group_id :: group_id
  gm_fabric_index :: fabric_index
  gm_unify_group_id :: "u16 option"

section \<open>Keys\<close>

definition endpoint_key :: "unid \<Rightarrow> u8 \<Rightarrow> string" where
  "endpoint_key u ep = u @ ''-'' @ word_to_string ep"

definition group_key :: "fabric_index \<Rightarrow> group_id \<Rightarrow> string" where
  "group_key f g = word_to_string f @ ''-'' @ word_to_string g"

section \<open>Operations\<close>

definition persist_endpoint :: "'kv kvs_ops \<Rightarrow> endpoint_mapping \<Rightarrow> 'kv \<Rightarrow> bool \<times> 'kv" where
  "persist_endpoint ops m kv =
     (case em_matter_endpoint m of
        None \<Rightarrow> (False, kv)
      | Some e \<Rightarrow> kv_put ops (endpoint_key (em_unify_unid m) (em_unify_endpoint m)) e kv)"

definition persist_group :: "'kv kvs_ops \<Rightarrow> group_mapping \<Rightarrow> 'kv \<Rightarrow> bool \<times> 'kv" where
  "persist_group ops m kv =
     (case gm_unify_group_id m of
        None \<Rightarrow> (False, kv)
      | Some e \<Rightarrow> kv_put ops (group_key (gm_fabric_index m) (gm_matter_group_id m)) e kv)"

definition get_persisted_endpoint ::
  "'kv kvs_ops \<Rightarrow> endpoint_mapping \<Rightarrow> 'kv \<Rightarrow> bool \<times> endpoint_mapping" where
  "get_persisted_endpoint ops m kv =
     (case kv_get ops (endpoint_key (em_unify_unid m) (em_unify_endpoint m)) kv of
        Some e \<Rightarrow> (True, m\<lparr>em_matter_endpoint := Some e\<rparr>)
      | None \<Rightarrow> (False, m))"

definition get_persisted_group ::
  "'kv kvs_ops \<Rightarrow> group_mapping \<Rightarrow> 'kv \<Rightarrow> bool \<times> group_mapping" where
  "get_persisted_group ops m kv =
     (case kv_get ops (group_key (gm_fabric_index m) (gm_matter_group_id m)) kv of
        Some g \<Rightarrow> (True, m\<lparr>gm_unify_group_id := Some g\<rparr>)
      | None \<Rightarrow> (False, m))"

definition remove_persisted_endpoint :: "'kv kvs_ops \<Rightarrow> endpoint_mapping \<Rightarrow> 'kv \<Rightarrow> 'kv" where
  "remove_persisted_endpoint ops m kv =
     kv_delete ops (endpoint_key (em_unify_unid m) (em_unify_endpoint m)) kv"

definition remove_persisted_group :: "'kv kvs_ops \<Rightarrow> group_mapping \<Rightarrow> 'kv \<Rightarrow> 'kv" where
  "remove_persisted_group ops m kv =
     kv_delete ops (group_key (gm_fabric_index m) (gm_matter_group_id m)) kv"

text \<open>The two tables as lookups.\<close>

definition stored_endpoint :: "'kv kvs_ops \<Rightarrow> 'kv \<Rightarrow> unid \<times> u8 \<Rightarrow> endpoint_id option" where
  "stored_endpoint ops kv k =
     em_matter_endpoint (snd (get_persisted_endpoint ops
       \<lparr>em_unify_unid = fst k, em_unify_endpoint = snd k, em_matter_endpoint = None\<rparr> kv))"

definition stored_group :: "'kv kvs_ops \<Rightarrow> 'kv \<Rightarrow> fabric_index \<times> group_id \<Rightarrow> u16 option" where
  "stored_group ops kv k =
     gm_unify_group_id (snd (get_persisted_group ops
       \<lparr>gm_matter_group_id = snd k, gm_fabric_index = fst k, gm_unify_group_id = None\<rparr> kv))"

definition store_endpoint :: "'kv kvs_ops \<Rightarrow> unid \<times> u8 \<Rightarrow> endpoint_id \<Rightarrow> 'kv \<Rightarrow> bool \<times> 'kv" where
  "store_endpoint ops k e kv = persist_endpoint ops
     \<lparr>em_unify_unid = fst k, em_unify_endpoint = snd k, em_matter_endpoint = Some e\<rparr> kv"

definition store_group :: "'kv kvs_ops \<Rightarrow> fabric_index \<times> group_id \<Rightarrow> u16 \<Rightarrow> 'kv \<Rightarrow> bool \<times> 'kv" where
  "store_group ops k g kv = persist_group ops
     \<lparr>gm_matter_group_id = snd k, gm_fabric_index = fst k, gm_unify_group_id = Some g\<rparr> kv"

definition forget_endpoint :: "'kv kvs_ops \<Rightarrow> unid \<times> u8 \<Rightarrow> 'kv \<Rightarrow> 'kv" where
  "forget_endpoint ops k kv = remove_persisted_endpoint ops
     \<lparr>em_unify_unid = fst k, em_unify_endpoint = snd k, em_matter_endpoint = None\<rparr> kv"

definition forget_group :: "'kv kvs_ops \<Rightarrow> fabric_index \<times> group_id \<Rightarrow> 'kv \<Rightarrow> 'kv" where
  "forget_group ops k kv = remove_persisted_group ops
     \<lparr>gm_matter_group_id = snd k, gm_fabric_index = fst k, gm_unify_group_id = None\<rparr> kv"

lemma stored_endpoint_eq: "stored_endpoint ops kv k = kv_get ops (endpoint_key (fst k) (snd k)) kv"
  by (simp add: stored_endpoint_def get_persisted_endpoint_def split: option.split)

lemma stored_group_eq: "stored_group ops kv k = kv_get ops (group_key (fst k) (snd k)) kv"
  by (simp add: stored_group_def get_persisted_group_def split: option.split)

lemma store_endpoint_eq: "store_endpoint ops k e kv = kv_put ops (endpoint_key (fst k) (snd k)) e kv"
  by (simp add: store_endpoint_def persist_endpoint_def)

lemma store_group_eq: "store_group ops k g kv = kv_put ops (group_key (fst k) (snd k)) g kv"
  by (simp add: store_group_def persist_group_def)

lemma forget_endpoint_eq: "forget_endpoint ops k kv = kv_delete ops (endpoint_key (fst k) (snd k)) kv"
  by (simp add: forget_endpoint_def remove_persisted_endpoint_def)

lemma forget_group_eq: "forget_group ops k kv = kv_delete ops (group_key (fst k) (snd k)) kv"
  by (simp add: forget_group_def remove_persisted_group_def)

lemmas storage_eqs = stored_endpoint_eq stored_group_eq store_endpoint_eq store_group_eq
  forget_endpoint_eq forget_group_eq

section \<open>Keys are injective\<close>

lemma digits_no_dash: "list_all is_digit s \<Longrightarrow> CHR ''-'' \<notin> set s"
  using digit_not_special(2) by (auto simp: list_all_iff)

lemma endpoint_key_inject: "endpoint_key u e = endpoint_key u' e' \<longleftrightarrow> u = u' \<and> e = e'"
proof
  assume "endpoint_key u e = endpoint_key u' e'"
  then have "u = u' \<and> word_to_string e = word_to_string e'"
    unfolding endpoint_key_def append_Cons append_Nil
    by (rule split_at_last_unique) (simp_all add: digits_no_dash word_to_string_digits)
  then show "u = u' \<and> e = e'" by simp
qed simp

lemma group_key_inject: "group_key f g = group_key f' g' \<longleftrightarrow> f = f' \<and> g = g'"
proof
  assume "group_key f g = group_key f' g'"
  then have "word_to_string f = word_to_string f' \<and> word_to_string g = word_to_string g'"
    unfolding group_key_def append_Cons append_Nil
    by (rule split_at_last_unique) (simp_all add: digits_no_dash word_to_string_digits)
  then show "f = f' \<and> g = g'" by simp
qed simp

lemma endpoint_key_group_key:
  "endpoint_key u e = group_key f g \<longleftrightarrow> u = word_to_string f \<and> word_to_string e = word_to_string g"
proof
  assume "endpoint_key u e = group_key f g"
  then show "u = word_to_string f \<and> word_to_string e = word_to_string g"
    unfolding endpoint_key_def group_key_def append_Cons append_Nil
    by (rule split_at_last_unique) (simp_all add: digits_no_dash word_to_string_digits)
qed (simp add: endpoint_key_def group_key_def)

text \<open>A UNID as Unify forms it is not a decimal number.\<close>

definition unid_ok :: "unid \<Rightarrow> bool" where
  "unid_ok u \<longleftrightarrow> \<not> list_all is_digit u"

lemma keys_disjoint: "unid_ok u \<Longrightarrow> endpoint_key u e \<noteq> group_key f g"
  using word_to_string_digits [of f] by (auto simp: endpoint_key_group_key unid_ok_def)

section \<open>The interfaces\<close>

text \<open>A persistent table: what its clients rely on.\<close>

locale persistent_map =
  fixes look :: "'kv \<Rightarrow> 'k \<Rightarrow> u16 option"
    and put :: "'k \<Rightarrow> u16 \<Rightarrow> 'kv \<Rightarrow> bool \<times> 'kv"
    and del :: "'k \<Rightarrow> 'kv \<Rightarrow> 'kv"
  assumes look_put: "put k v s = (True, s') \<Longrightarrow> look s' k' = (if k' = k then Some v else look s k')"
    and look_put_failed: "put k v s = (False, s') \<Longrightarrow> look s' k' = look s k'"
    and look_del: "look (del k s) k' = (if k' = k then None else look s k')"
begin

lemma put_cases:
  "look (snd (put k v s)) k' = (if fst (put k v s) \<and> k' = k then Some v else look s k')"
proof (cases "put k v s")
  case (Pair ok s')
  then show ?thesis by (cases ok) (simp_all add: look_put look_put_failed)
qed

lemma del_idem: "look (del k (del k s)) = look (del k s)"
  by (rule ext) (simp add: look_del)

lemma del_put: "put k v s = (True, s') \<Longrightarrow> look s k = None \<Longrightarrow> look (del k s') k' = look s k'"
  by (simp add: look_del look_put)

end

text \<open>The documented behaviour of the Matter key-value store.\<close>

locale key_value_store =
  fixes ops :: "'kv kvs_ops"
  assumes get_put: "kv_put ops k v s = (True, s') \<Longrightarrow>
      kv_get ops k' s' = (if k' = k then Some v else kv_get ops k' s)"
    and get_put_failed: "kv_put ops k v s = (False, s') \<Longrightarrow> kv_get ops k' s' = kv_get ops k' s"
    and get_delete: "kv_get ops k' (kv_delete ops k s) = (if k' = k then None else kv_get ops k' s)"
begin

lemma group_put_keeps_endpoints:
  assumes "unid_ok (fst ek)"
  shows "stored_endpoint ops (snd (store_group ops gk g kv)) ek = stored_endpoint ops kv ek"
proof -
  have "endpoint_key (fst ek) (snd ek) \<noteq> group_key (fst gk) (snd gk)"
    using assms by (rule keys_disjoint)
  moreover obtain ok s' where "kv_put ops (group_key (fst gk) (snd gk)) g kv = (ok, s')"
    by fastforce
  ultimately show ?thesis
    by (cases ok) (simp_all add: storage_eqs get_put get_put_failed)
qed

lemma group_delete_keeps_endpoints:
  "unid_ok (fst ek) \<Longrightarrow> stored_endpoint ops (forget_group ops gk kv) ek = stored_endpoint ops kv ek"
  using keys_disjoint [of "fst ek" "snd ek" "fst gk" "snd gk"] by (simp add: storage_eqs get_delete)

end

sublocale key_value_store \<subseteq> groups: persistent_map
    "stored_group ops" "store_group ops" "forget_group ops"
  by unfold_locales
    (auto simp: storage_eqs get_put get_put_failed get_delete group_key_inject prod_eq_iff)

sublocale key_value_store \<subseteq> endpoints: persistent_map
    "stored_endpoint ops" "store_endpoint ops" "forget_endpoint ops"
  by unfold_locales
    (auto simp: storage_eqs get_put get_put_failed get_delete endpoint_key_inject prod_eq_iff)

text \<open>A store that keeps its table in memory and never runs full.\<close>

definition map_kvs :: "(string \<rightharpoonup> u16) kvs_ops" where
  "map_kvs = \<lparr>kv_put = (\<lambda>k v s. (True, s(k \<mapsto> v))), kv_get = (\<lambda>k s. s k),
     kv_delete = (\<lambda>k s. s(k := None))\<rparr>"

interpretation mem_kvs: key_value_store map_kvs
  by unfold_locales (auto simp: map_kvs_def)

end
