(* ===== verification/Node_State_Monitor.thy ===== *)
theory Node_State_Monitor
  imports Cluster_Interactor Ember_Interface Data_Storage
begin

text \<open>
  linux/include/matter_node_state_monitor.hpp and
  linux/src/matter_node_state_monitor/matter_node_state_monitor.cpp, with the spans of
  matter_context.hpp: the table of bridged endpoints, its changes when Unify adds, removes or
  changes a node, and its lookups. The table is a multimap ordered by UNID: a list sorted by key in
  which a new entry goes after the entries with the same key. The calls of the registered listeners
  are an output.
\<close>

section \<open>State\<close>

record bridged_endpoint =
  be_unify_unid :: unid
  be_unify_endpoint :: u8
  be_matter_endpoint :: endpoint_id
  be_index :: u16
  be_matter_type :: u16
  be_ember_endpoint :: ember_endpoint
  be_reachable :: "bool option"

datatype update = NODE_ADDED | NODE_DELETED | NODE_STATE_CHANGED

type_synonym endpoint_table = "(unid \<times> bridged_endpoint) list"

text \<open>
  \<open>nm_listeners\<close> names the registered functions, \<open>nm_last\<close> is the state of the Ember wrapper. The
  field \<open>reachable\<close> of a new entry is not initialised: \<open>None\<close>.
\<close>

record ('kv, 'em) node_monitor =
  nm_endpoints :: endpoint_table
  nm_listeners :: "nat list"
  nm_last :: endpoint_id
  nm_kv :: 'kv
  nm_ember :: 'em

record ('kv, 'em) environment =
  env_kvs :: "'kv kvs_ops"
  env_ember :: "'em ember_ops"
  env_translator :: device_translator
  env_type_size :: "cluster_id \<Rightarrow> attribute_id \<Rightarrow> u16 \<times> ember_type"

type_synonym notification = "nat \<times> bridged_endpoint \<times> update"

definition invoke_listeners :: "nat list \<Rightarrow> bridged_endpoint \<Rightarrow> update \<Rightarrow> notification list" where
  "invoke_listeners ls ep u = map (\<lambda>l. (l, ep, u)) ls"

definition register_event_listener ::
  "nat \<Rightarrow> ('kv, 'em) node_monitor \<Rightarrow> ('kv, 'em) node_monitor" where
  "register_event_listener l nm = nm\<lparr>nm_listeners := nm_listeners nm @ [l]\<rparr>"

section \<open>The multimap\<close>

fun table_insert :: "unid \<Rightarrow> bridged_endpoint \<Rightarrow> endpoint_table \<Rightarrow> endpoint_table" where
  "table_insert u ep [] = [(u, ep)]"
| "table_insert u ep ((u', ep') # t) =
     (if u < u' then (u, ep) # (u', ep') # t else (u', ep') # table_insert u ep t)"

text \<open>\<open>equal_range\<close> of a sorted table: the entries with the key.\<close>

definition equal_range :: "unid \<Rightarrow> endpoint_table \<Rightarrow> bridged_endpoint list" where
  "equal_range u t = map snd (filter (\<lambda>e. fst e = u) t)"

fun erase_mapper_endpoint :: "unid \<Rightarrow> endpoint_id \<Rightarrow> endpoint_table \<Rightarrow> endpoint_table" where
  "erase_mapper_endpoint u e [] = []"
| "erase_mapper_endpoint u e ((u', ep') # t) =
     (if u' = u \<and> be_matter_endpoint ep' = e then t else (u', ep') # erase_mapper_endpoint u e t)"

section \<open>Lookups\<close>

definition bridged_endpoint_by_unify :: "endpoint_table \<Rightarrow> unid \<Rightarrow> int \<Rightarrow> bridged_endpoint option" where
  "bridged_endpoint_by_unify t u epid =
     find (\<lambda>ep. uint (be_unify_endpoint ep) = epid) (equal_range u t)"

definition bridged_endpoint_by_matter :: "endpoint_table \<Rightarrow> endpoint_id \<Rightarrow> bridged_endpoint option" where
  "bridged_endpoint_by_matter t e = find (\<lambda>ep. be_matter_endpoint ep = e) (map snd t)"

text \<open>
  \<open>get_supported_cluster\<close>: the clusters of the first endpoint with the UNID of the requested one.
\<close>

definition get_supported_cluster :: "endpoint_table \<Rightarrow> endpoint_id \<Rightarrow> cluster_id set res" where
  "get_supported_cluster t e =
     (case bridged_endpoint_by_matter t e of
        None \<Rightarrow> Inl Null_Dereference
      | Some ep \<Rightarrow>
          (case equal_range (be_unify_unid ep) t of
             [] \<Rightarrow> Inr {}
           | first # _ \<Rightarrow>
               Inr (ec_cluster_id ` set (take (unat (ee_cluster_count (be_ember_endpoint first)))
                 (ee_clusters (be_ember_endpoint first))))))"

section \<open>Registering with Ember\<close>

text \<open>
  \<open>data_version_span\<close>: the buffer holds one version per cluster, but the span is given the size in
  bytes as its length (\<open>DataVersion\<close> has four bytes).
\<close>

definition data_version_count :: "ember_endpoint \<Rightarrow> nat" where
  "data_version_count ep = unat (ee_cluster_count ep)"

definition data_version_span_length :: "ember_endpoint \<Rightarrow> nat" where
  "data_version_span_length ep = data_version_count ep * 4"

definition register_dynamic_endpoint ::
  "('em, 'x) ember_ops_scheme \<Rightarrow> bridged_endpoint \<Rightarrow> 'em \<Rightarrow> chip_error \<times> 'em" where
  "register_dynamic_endpoint ops ep em =
     (let i = ei_dynamic_index ops (be_matter_endpoint ep) em;
          em = (if i \<noteq> kEmberInvalidEndpointIndex then snd (ei_clear_dynamic ops i em) else em)
      in ei_set_dynamic ops (be_index ep) (be_matter_endpoint ep) (be_ember_endpoint ep)
           (data_version_span_length (be_ember_endpoint ep)) (be_matter_type ep) em)"

section \<open>Adding a node\<close>

text \<open>
  The Matter endpoint of a Unify endpoint: the persisted one, or the next free one, which is then
  persisted (a failing write is ignored).
\<close>

definition assign_matter_endpoint ::
  "('kv, 'em) environment \<Rightarrow> unid \<Rightarrow> u8 \<Rightarrow> ('kv, 'em) node_monitor \<Rightarrow>
     endpoint_id \<times> ('kv, 'em) node_monitor" where
  "assign_matter_endpoint env u ep nm =
     (let (found, info) = get_persisted_endpoint (env_kvs env)
            \<lparr>em_unify_unid = u, em_unify_endpoint = ep, em_matter_endpoint = None\<rparr> (nm_kv nm)
      in case (if found then em_matter_endpoint info else None) of
           Some e \<Rightarrow> (e, nm)
         | None \<Rightarrow>
             (let (e, l) = get_next_endpoint (env_ember env) (nm_ember nm) (nm_last nm);
                  (_, kv) = persist_endpoint (env_kvs env)
                    \<lparr>em_unify_unid = u, em_unify_endpoint = ep, em_matter_endpoint = Some e\<rparr> (nm_kv nm)
              in (e, nm\<lparr>nm_last := l, nm_kv := kv\<rparr>)))"

text \<open>The number of clusters with a Matter identifier, a \<open>uint8_t\<close>.\<close>

definition matched_clusters :: "device_translator \<Rightarrow> (string \<times> unify_cluster) list \<Rightarrow> u8" where
  "matched_clusters t ucs = foldl (\<lambda>n (name, uc).
     if uc_attributes uc \<noteq> [] \<and> get_cluster_id t name \<noteq> None then n + 1 else n) 0 ucs"

text \<open>\<open>ep.clusters.begin()\<close> is dereferenced also when the endpoint has no clusters.\<close>

definition is_ignored :: "(string \<times> unify_cluster) list \<Rightarrow> bool res" where
  "is_ignored ucs =
     (if length ucs \<le> 2 then
        (case ucs of
           [] \<Rightarrow> Inl Null_Dereference
         | (name, _) # _ \<Rightarrow> Inr (name = ''Groups'' \<or> name = ''NameAndLocation''))
      else Inr False)"

definition new_bridge :: "unid \<Rightarrow> u8 \<Rightarrow> endpoint_id \<Rightarrow> u16 \<Rightarrow> u16 \<Rightarrow> ember_cluster list \<Rightarrow> bridged_endpoint" where
  "new_bridge u ep e fixed_count matter_type clusters =
     \<lparr>be_unify_unid = u, be_unify_endpoint = ep, be_matter_endpoint = e, be_index = e - fixed_count,
      be_matter_type = matter_type, be_ember_endpoint = finalize clusters, be_reachable = None\<rparr>"

text \<open>
  The table with the entry just inserted made reachable or not: the entry is the last one with its
  key.
\<close>

definition insert_bridge ::
  "('kv, 'em) environment \<Rightarrow> bool \<Rightarrow> bridged_endpoint \<Rightarrow> ('kv, 'em) node_monitor \<Rightarrow>
     notification list \<times> ('kv, 'em) node_monitor" where
  "insert_bridge env online ep nm =
     (let u = be_unify_unid ep;
          t = erase_mapper_endpoint u (be_matter_endpoint ep) (nm_endpoints nm);
          em = snd (register_dynamic_endpoint (env_ember env) ep (nm_ember nm));
          ep' = ep\<lparr>be_reachable := Some online\<rparr>
      in (invoke_listeners (nm_listeners nm) ep NODE_ADDED @
            invoke_listeners (nm_listeners nm) ep' NODE_STATE_CHANGED,
          nm\<lparr>nm_endpoints := table_insert u ep' t, nm_ember := em\<rparr>))"

definition add_endpoint ::
  "('kv, 'em) environment \<Rightarrow> unid \<Rightarrow> bool \<Rightarrow> u8 \<Rightarrow> unify_endpoint \<Rightarrow> ('kv, 'em) node_monitor \<Rightarrow>
     (notification list \<times> ('kv, 'em) node_monitor) res" where
  "add_endpoint env u online ep ue nm =
     rbind (is_ignored (ue_clusters ue)) (\<lambda>ignored.
     if ignored \<or> matched_clusters (env_translator env) (ue_clusters ue) = 0 then Inr ([], nm)
     else
       (let clusters = build_matter_cluster (env_translator env) (env_type_size env) (ue_clusters ue) in
        rbind (get_matter_type (env_translator env) clusters) (\<lambda>matter_type.
        case matter_type of
          None \<Rightarrow> Inr ([], nm)
        | Some ty \<Rightarrow>
            (let (e, nm) = assign_matter_endpoint env u ep nm
             in Inr (insert_bridge env online
                  (new_bridge u ep e (ei_fixed_count (env_ember env)) ty clusters) nm)))))"

fun add_endpoints ::
  "('kv, 'em) environment \<Rightarrow> unid \<Rightarrow> bool \<Rightarrow> (u8 \<times> unify_endpoint) list \<Rightarrow> ('kv, 'em) node_monitor \<Rightarrow>
     (notification list \<times> ('kv, 'em) node_monitor) res" where
  "add_endpoints env u online [] nm = Inr ([], nm)"
| "add_endpoints env u online ((ep, ue) # eps) nm =
     rbind (add_endpoint env u online ep ue nm) (\<lambda>(out, nm).
     rbind (add_endpoints env u online eps nm) (\<lambda>(out', nm).
     Inr (out @ out', nm)))"

definition on_unify_node_added ::
  "('kv, 'em) environment \<Rightarrow> unify_node \<Rightarrow> ('kv, 'em) node_monitor \<Rightarrow>
     (notification list \<times> ('kv, 'em) node_monitor) res" where
  "on_unify_node_added env node nm =
     add_endpoints env (un_unid node) (un_online node) (un_endpoints node) nm"

section \<open>Removing and changing a node\<close>

definition remove_entry ::
  "('kv, 'em) environment \<Rightarrow> bridged_endpoint \<Rightarrow> notification list \<times> ('kv, 'em) node_monitor \<Rightarrow>
     notification list \<times> ('kv, 'em) node_monitor" where
  "remove_entry env ep = (\<lambda>(out, nm).
     (out @ invoke_listeners (nm_listeners nm) ep NODE_DELETED,
      nm\<lparr>nm_ember := snd (ei_clear_dynamic (env_ember env) (be_index ep) (nm_ember nm)),
         nm_kv := remove_persisted_endpoint (env_kvs env)
           \<lparr>em_unify_unid = be_unify_unid ep, em_unify_endpoint = be_unify_endpoint ep,
            em_matter_endpoint = None\<rparr> (nm_kv nm)\<rparr>))"

definition on_unify_node_removed ::
  "('kv, 'em) environment \<Rightarrow> unid \<Rightarrow> ('kv, 'em) node_monitor \<Rightarrow>
     notification list \<times> ('kv, 'em) node_monitor" where
  "on_unify_node_removed env u nm =
     (let (out, nm') = foldl (\<lambda>s ep. remove_entry env ep s) ([], nm) (equal_range u (nm_endpoints nm))
      in (out, nm'\<lparr>nm_endpoints := filter (\<lambda>e. fst e \<noteq> u) (nm_endpoints nm')\<rparr>))"

definition on_unify_node_state_changed ::
  "unid \<Rightarrow> bool \<Rightarrow> ('kv, 'em) node_monitor \<Rightarrow> notification list \<times> ('kv, 'em) node_monitor" where
  "on_unify_node_state_changed u online nm =
     (concat (map (\<lambda>ep. invoke_listeners (nm_listeners nm) (ep\<lparr>be_reachable := Some online\<rparr>)
        NODE_STATE_CHANGED) (equal_range u (nm_endpoints nm))),
      nm\<lparr>nm_endpoints := map (\<lambda>(u', ep). if u' = u then (u', ep\<lparr>be_reachable := Some online\<rparr>)
        else (u', ep)) (nm_endpoints nm)\<rparr>)"

section \<open>Output\<close>

definition setw20 :: "string \<Rightarrow> string" where
  "setw20 s = replicate (20 - length s) CHR '' '' @ s"

definition map_row :: "string \<Rightarrow> string \<Rightarrow> string \<Rightarrow> string" where
  "map_row a b c = setw20 a @ ''|'' @ setw20 b @ ''|'' @ setw20 (c @ ''\<newline>'')"

definition display_map :: "endpoint_table \<Rightarrow> string" where
  "display_map t =
     map_row ''Unify Unid'' ''Unify Endpoint'' ''Matter Endpoint'' @
     map_row ''------------'' ''--------------'' ''--------------'' @
     map_row ''-'' ''-'' ''(Root)  0'' @
     map_row ''-'' ''-'' ''(Aggregator)  1'' @
     concat (map (\<lambda>(u, ep). setw20 (be_unify_unid ep) @ ''|'' @
       setw20 (word_to_string (be_unify_endpoint ep)) @ ''|'' @
       setw20 (word_to_string (be_matter_endpoint ep)) @ ''\<newline>'') t) @
     map_row ''------------'' ''--------------'' ''--------------''"

section \<open>The table invariant\<close>

text \<open>
  Entries are sorted by key, stand under their own UNID, and no node has two entries for one Matter
  endpoint.
\<close>

definition table_ok :: "endpoint_table \<Rightarrow> bool" where
  "table_ok t \<longleftrightarrow> sorted (map fst t) \<and> (\<forall>(u, ep) \<in> set t. be_unify_unid ep = u) \<and>
     distinct (map (\<lambda>(u, ep). (u, be_matter_endpoint ep)) t)"

lemma table_insert_set [simp]: "set (table_insert u ep t) = insert (u, ep) (set t)"
  by (induction u ep t rule: table_insert.induct) auto

lemma table_insert_sorted: "sorted (map fst t) \<Longrightarrow> sorted (map fst (table_insert u ep t))"
  by (induction u ep t rule: table_insert.induct) (auto simp: not_less)

lemma table_insert_mset: "mset (table_insert u ep t) = add_mset (u, ep) (mset t)"
  by (induction u ep t rule: table_insert.induct) auto

lemma table_insert_other:
  "filter (\<lambda>e. fst e \<noteq> u) (table_insert u ep t) = filter (\<lambda>e. fst e \<noteq> u) t"
  by (induction u ep t rule: table_insert.induct) auto

lemma equal_range_insert:
  "sorted (map fst t) \<Longrightarrow> equal_range u (table_insert u ep t) = equal_range u t @ [ep]"
proof (induction u ep t rule: table_insert.induct)
  case (2 u ep u' ep' t)
  show ?case
  proof (cases "u < u'")
    case True
    then have "filter (\<lambda>e. fst e = u) ((u', ep') # t) = []"
      using "2.prems" by (auto simp: filter_empty_conv)
    then show ?thesis using True by (simp add: equal_range_def)
  next
    case False
    then show ?thesis using 2 by (simp add: equal_range_def)
  qed
qed (simp add: equal_range_def)

lemma distinct_table_insert:
  "distinct (map f (table_insert u ep t)) \<longleftrightarrow> f (u, ep) \<notin> f ` set t \<and> distinct (map f t)"
  by (induction u ep t rule: table_insert.induct) auto

lemma erase_subset: "set (erase_mapper_endpoint u e t) \<subseteq> set t"
  by (induction u e t rule: erase_mapper_endpoint.induct) auto

lemma erase_sorted: "sorted (map fst t) \<Longrightarrow> sorted (map fst (erase_mapper_endpoint u e t))"
proof (induction u e t rule: erase_mapper_endpoint.induct)
  case (2 u e u' ep' t)
  then show ?case using erase_subset [of u e t] by (auto dest!: subsetD)
qed simp

lemma erase_other:
  "filter (\<lambda>x. fst x \<noteq> u) (erase_mapper_endpoint u e t) = filter (\<lambda>x. fst x \<noteq> u) t"
  by (induction u e t rule: erase_mapper_endpoint.induct) auto

lemma erase_distinct:
  "distinct (map f t) \<Longrightarrow> distinct (map f (erase_mapper_endpoint u e t))"
proof (induction u e t rule: erase_mapper_endpoint.induct)
  case (2 u e u' ep' t)
  have "f ` set (erase_mapper_endpoint u e t) \<subseteq> f ` set t" using erase_subset by (rule image_mono)
  then show ?case using 2 by auto
qed simp

lemma erase_gone:
  assumes "distinct (map (\<lambda>(u, ep). (u, be_matter_endpoint ep)) t)"
  shows "set (erase_mapper_endpoint u e t) = {x \<in> set t. \<not> (fst x = u \<and> be_matter_endpoint (snd x) = e)}"
  using assms
proof (induction u e t rule: erase_mapper_endpoint.induct)
  case (2 u e u' ep' t)
  show ?case
  proof (cases "u' = u \<and> be_matter_endpoint ep' = e")
    case True
    then have "\<not> (fst x = u \<and> be_matter_endpoint (snd x) = e)" if "x \<in> set t" for x
      using "2.prems" that by (cases x) (auto simp: image_iff)
    then show ?thesis using True by auto
  next
    case False
    have "distinct (map (\<lambda>(u, ep). (u, be_matter_endpoint ep)) t)" using "2.prems" by simp
    note ih = "2.IH" [OF False this]
    have "erase_mapper_endpoint u e ((u', ep') # t) = (u', ep') # erase_mapper_endpoint u e t"
      by (simp only: erase_mapper_endpoint.simps False if_False)
    then have "set (erase_mapper_endpoint u e ((u', ep') # t)) =
        insert (u', ep') {x \<in> set t. \<not> (fst x = u \<and> be_matter_endpoint (snd x) = e)}"
      using ih by simp
    moreover have "\<not> (fst (u', ep') = u \<and> be_matter_endpoint (snd (u', ep')) = e)" using False by simp
    ultimately show ?thesis by (simp only: list.set) blast
  qed
qed simp

lemma table_ok_replace:
  assumes "table_ok t" and "be_unify_unid ep = u"
  shows "table_ok (table_insert u ep (erase_mapper_endpoint u (be_matter_endpoint ep) t))"
proof -
  let ?f = "\<lambda>(u, ep). (u, be_matter_endpoint ep)"
  let ?t = "erase_mapper_endpoint u (be_matter_endpoint ep) t"
  have d: "distinct (map ?f t)" and s: "sorted (map fst t)"
    and k: "\<forall>(u, ep) \<in> set t. be_unify_unid ep = u"
    using assms(1) by (auto simp: table_ok_def)
  have "?f (u, ep) \<notin> ?f ` set ?t" unfolding erase_gone [OF d] by auto
  then have "distinct (map ?f (table_insert u ep ?t))"
    using erase_distinct [OF d] by (simp add: distinct_table_insert)
  moreover have "sorted (map fst (table_insert u ep ?t))"
    using s by (intro table_insert_sorted erase_sorted)
  moreover have "\<forall>(u, ep) \<in> set (table_insert u ep ?t). be_unify_unid ep = u"
    using k erase_subset [of u "be_matter_endpoint ep" t] assms(2) by auto
  ultimately show ?thesis by (simp only: table_ok_def)
qed

lemma table_ok_filter: "table_ok t \<Longrightarrow> table_ok (filter P t)"
  by (auto simp: table_ok_def sorted_filter distinct_map_filter)

section \<open>The persisted table\<close>

lemma assign_matter_endpoint_eq:
  "assign_matter_endpoint env u ep nm =
     (case stored_endpoint (env_kvs env) (nm_kv nm) (u, ep) of
        Some e \<Rightarrow> (e, nm)
      | None \<Rightarrow> (let (e, l) = get_next_endpoint (env_ember env) (nm_ember nm) (nm_last nm)
                  in (e, nm\<lparr>nm_last := l, nm_kv := snd (store_endpoint (env_kvs env) (u, ep) e (nm_kv nm))\<rparr>)))"
  by (simp add: assign_matter_endpoint_def stored_endpoint_def store_endpoint_def
      get_persisted_endpoint_def split: option.split prod.split)

lemma assign_keeps_endpoints [simp]:
  "nm_endpoints (snd (assign_matter_endpoint env u ep nm)) = nm_endpoints nm"
  "nm_listeners (snd (assign_matter_endpoint env u ep nm)) = nm_listeners nm"
  "nm_ember (snd (assign_matter_endpoint env u ep nm)) = nm_ember nm"
  by (simp_all add: assign_matter_endpoint_eq split: option.split prod.split)

text \<open>Writing to the store never fails.\<close>

definition reliable_store :: "'kv kvs_ops \<Rightarrow> bool" where
  "reliable_store ops \<longleftrightarrow> (\<forall>k v s. fst (kv_put ops k v s))"

context key_value_store
begin

lemma store_endpoint_reliable:
  "reliable_store ops \<Longrightarrow> stored_endpoint ops (snd (store_endpoint ops k e kv)) k' =
     (if k' = k then Some e else stored_endpoint ops kv k')"
  by (subst endpoints.put_cases) (simp add: store_endpoint_eq reliable_store_def)

lemma stored_after_assign:
  assumes "env_kvs env = ops" and "reliable_store ops" and "assign_matter_endpoint env u ep nm = (e, nm')"
  shows "stored_endpoint ops (nm_kv nm') k = (if k = (u, ep) then Some e else stored_endpoint ops (nm_kv nm) k)"
  using assms(3) store_endpoint_reliable [OF assms(2), where k = "(u, ep)" and k' = k]
  by (auto simp: assign_matter_endpoint_eq assms(1) split: option.splits prod.splits)

end

section \<open>The invariant of the monitor\<close>

text \<open>
  The table invariant, the persisted table agrees with it, and the index of every entry is the
  position of its Matter endpoint among the dynamic ones.
\<close>

definition entry_ok :: "('kv, 'em) environment \<Rightarrow> 'kv \<Rightarrow> unid \<times> bridged_endpoint \<Rightarrow> bool" where
  "entry_ok env kv = (\<lambda>(u, ep).
     stored_endpoint (env_kvs env) kv (u, be_unify_endpoint ep) = Some (be_matter_endpoint ep) \<and>
     be_index ep = be_matter_endpoint ep - ei_fixed_count (env_ember env) \<and> be_reachable ep \<noteq> None)"

definition monitor_ok :: "('kv, 'em) environment \<Rightarrow> ('kv, 'em) node_monitor \<Rightarrow> bool" where
  "monitor_ok env nm \<longleftrightarrow> table_ok (nm_endpoints nm) \<and>
     (\<forall>x \<in> set (nm_endpoints nm). entry_ok env (nm_kv nm) x)"

lemma insert_bridge_ok:
  assumes ok: "monitor_ok env nm" and e: "be_unify_unid ep = u"
    and kv: "\<forall>x \<in> set (nm_endpoints nm). entry_ok env (nm_kv nm) x \<longrightarrow> entry_ok env (nm_kv nm') x"
    and nm': "nm_endpoints nm' = nm_endpoints nm"
    and new: "entry_ok env (nm_kv nm') (u, ep\<lparr>be_reachable := Some online\<rparr>)"
  shows "monitor_ok env (snd (insert_bridge env online ep nm'))"
proof -
  let ?ep = "ep\<lparr>be_reachable := Some online\<rparr>"
  let ?t = "erase_mapper_endpoint u (be_matter_endpoint ep) (nm_endpoints nm)"
  have t: "table_ok (table_insert u ?ep ?t)"
    using table_ok_replace [of "nm_endpoints nm" ?ep u] ok e by (simp add: monitor_ok_def)
  have "\<forall>x \<in> set (table_insert u ?ep ?t). entry_ok env (nm_kv nm') x"
    using ok kv new erase_subset [of u "be_matter_endpoint ep" "nm_endpoints nm"]
    by (auto simp: monitor_ok_def)
  then show ?thesis using t e nm' by (simp add: monitor_ok_def insert_bridge_def Let_def)
qed

lemma add_endpoint_cases:
  assumes "add_endpoint env u online ep ue nm = Inr (out, nm')"
  obtains "out = []" "nm' = nm"
  | ty e nm1 where "assign_matter_endpoint env u ep nm = (e, nm1)"
      "insert_bridge env online (new_bridge u ep e (ei_fixed_count (env_ember env)) ty
        (build_matter_cluster (env_translator env) (env_type_size env) (ue_clusters ue))) nm1 = (out, nm')"
  using assms that
  by (cases "assign_matter_endpoint env u ep nm")
    (auto simp: add_endpoint_def rbind_eq_Inr Let_def split: if_splits option.splits)

context key_value_store
begin

lemma entry_ok_assign:
  assumes "env_kvs env = ops" and "reliable_store ops" and "assign_matter_endpoint env u ep nm = (e, nm')"
    and "entry_ok env (nm_kv nm) x"
  shows "entry_ok env (nm_kv nm') x"
proof -
  obtain u' be where x: "x = (u', be)" by (cases x)
  have "e = be_matter_endpoint be" if "(u', be_unify_endpoint be) = (u, ep)"
    using assms(1,3,4) that by (auto simp: x entry_ok_def assign_matter_endpoint_eq)
  then show ?thesis
    using assms(4) stored_after_assign [OF assms(1-3)] by (auto simp: x entry_ok_def assms(1))
qed

lemma add_endpoint_ok:
  assumes env: "env_kvs env = ops" "reliable_store ops" and ok: "monitor_ok env nm"
    and add: "add_endpoint env u online ep ue nm = Inr (out, nm')"
  shows "monitor_ok env nm'"
  using add
proof (cases rule: add_endpoint_cases)
  case (2 ty e nm1)
  have nm1: "nm_endpoints nm1 = nm_endpoints nm"
    using assign_keeps_endpoints(1) [of env u ep nm] 2(1) by simp
  have "monitor_ok env (snd (insert_bridge env online (new_bridge u ep e (ei_fixed_count (env_ember env)) ty
      (build_matter_cluster (env_translator env) (env_type_size env) (ue_clusters ue))) nm1))"
  proof (rule insert_bridge_ok [OF ok _ _ nm1])
    show "\<forall>x \<in> set (nm_endpoints nm). entry_ok env (nm_kv nm) x \<longrightarrow> entry_ok env (nm_kv nm1) x"
      using entry_ok_assign [OF env 2(1)] by blast
    show "entry_ok env (nm_kv nm1) (u, new_bridge u ep e (ei_fixed_count (env_ember env)) ty
        (build_matter_cluster (env_translator env) (env_type_size env) (ue_clusters ue))\<lparr>be_reachable := Some online\<rparr>)"
      using stored_after_assign [OF env 2(1), of "(u, ep)"]
      by (simp add: entry_ok_def new_bridge_def env(1))
  qed (simp add: new_bridge_def)
  then show ?thesis by (simp add: 2(2))
qed (use ok in simp)

lemma add_endpoints_ok:
  assumes "env_kvs env = ops" and "reliable_store ops"
  shows "monitor_ok env nm \<Longrightarrow> add_endpoints env u online eps nm = Inr (out, nm') \<Longrightarrow> monitor_ok env nm'"
proof (induction eps arbitrary: nm out)
  case (Cons x eps)
  obtain ep ue where "x = (ep, ue)" by (cases x)
  then obtain out1 nm1 out2 where step: "add_endpoint env u online ep ue nm = Inr (out1, nm1)"
      "add_endpoints env u online eps nm1 = Inr (out2, nm')"
    using Cons.prems(2) by (auto simp: rbind_eq_Inr)
  show ?case
    using add_endpoint_ok [OF assms Cons.prems(1) step(1)] step(2) by (rule Cons.IH)
qed simp

end

section \<open>Removal\<close>

abbreviation unify_key :: "bridged_endpoint \<Rightarrow> unid \<times> u8" where
  "unify_key ep \<equiv> (be_unify_unid ep, be_unify_endpoint ep)"

definition forget_all :: "'kv kvs_ops \<Rightarrow> bridged_endpoint list \<Rightarrow> 'kv \<Rightarrow> 'kv" where
  "forget_all ops eps kv = foldl (\<lambda>kv ep. forget_endpoint ops (unify_key ep) kv) kv eps"

definition clear_all :: "'em ember_ops \<Rightarrow> bridged_endpoint list \<Rightarrow> 'em \<Rightarrow> 'em" where
  "clear_all ops eps em = foldl (\<lambda>em ep. snd (ei_clear_dynamic ops (be_index ep) em)) em eps"

lemma remove_entries_eq:
  "foldl (\<lambda>s ep. remove_entry env ep s) (out, nm) eps =
     (out @ concat (map (\<lambda>ep. invoke_listeners (nm_listeners nm) ep NODE_DELETED) eps),
      nm\<lparr>nm_ember := clear_all (env_ember env) eps (nm_ember nm),
         nm_kv := forget_all (env_kvs env) eps (nm_kv nm)\<rparr>)"
  by (induction eps arbitrary: out nm)
    (simp_all add: remove_entry_def clear_all_def forget_all_def forget_endpoint_def)

lemma on_unify_node_removed_eq:
  "on_unify_node_removed env u nm =
     (let eps = equal_range u (nm_endpoints nm) in
      (concat (map (\<lambda>ep. invoke_listeners (nm_listeners nm) ep NODE_DELETED) eps),
       nm\<lparr>nm_endpoints := filter (\<lambda>e. fst e \<noteq> u) (nm_endpoints nm),
          nm_ember := clear_all (env_ember env) eps (nm_ember nm),
          nm_kv := forget_all (env_kvs env) eps (nm_kv nm)\<rparr>))"
  by (simp add: on_unify_node_removed_def remove_entries_eq Let_def)

lemma equal_range_set: "ep \<in> set (equal_range u t) \<longleftrightarrow> (u, ep) \<in> set t"
  by (force simp: equal_range_def image_iff)

lemma table_ok_unid: "table_ok t \<Longrightarrow> (u, ep) \<in> set t \<Longrightarrow> be_unify_unid ep = u"
  by (auto simp: table_ok_def)

context key_value_store
begin

lemma stored_forget_all:
  "stored_endpoint ops (forget_all ops eps kv) k =
     (if k \<in> unify_key ` set eps then None else stored_endpoint ops kv k)"
proof (induction eps arbitrary: kv)
  case (Cons ep eps)
  have "forget_all ops (ep # eps) kv = forget_all ops eps (forget_endpoint ops (unify_key ep) kv)"
    by (simp add: forget_all_def)
  then show ?case using Cons by (simp only: endpoints.look_del) auto
qed (simp add: forget_all_def)

lemma removed_ok:
  assumes "env_kvs env = ops" and ok: "monitor_ok env nm"
  shows "monitor_ok env (snd (on_unify_node_removed env u nm))"
proof -
  let ?eps = "equal_range u (nm_endpoints nm)"
  have t: "table_ok (nm_endpoints nm)" using ok by (simp add: monitor_ok_def)
  have "entry_ok env (forget_all ops ?eps (nm_kv nm)) (u', ep)"
    if "(u', ep) \<in> set (nm_endpoints nm)" and "u' \<noteq> u" for u' ep
  proof -
    have "(u', be_unify_endpoint ep) \<notin> unify_key ` set ?eps"
      using that(2) table_ok_unid [OF t] by (auto simp: equal_range_set)
    moreover have "entry_ok env (nm_kv nm) (u', ep)" using ok that(1) by (auto simp: monitor_ok_def)
    ultimately show ?thesis by (simp add: entry_ok_def assms(1) stored_forget_all)
  qed
  then show ?thesis
    using table_ok_filter [OF t] by (auto simp: on_unify_node_removed_eq Let_def monitor_ok_def assms(1))
qed

end

lemma changed_ok: "monitor_ok env nm \<Longrightarrow> monitor_ok env (snd (on_unify_node_state_changed u online nm))"
proof -
  let ?f = "\<lambda>(u', ep). if u' = u then (u', ep\<lparr>be_reachable := Some online\<rparr>) else (u', ep)"
  assume ok: "monitor_ok env nm"
  have keys: "map fst (map ?f t) = map fst t"
    and ids: "map (\<lambda>(u, ep). (u, be_matter_endpoint ep)) (map ?f t) =
      map (\<lambda>(u, ep). (u, be_matter_endpoint ep)) t" for t
    by (auto simp: comp_def)
  have "table_ok (map ?f (nm_endpoints nm))"
    using ok unfolding table_ok_def monitor_ok_def keys ids by (auto split: if_splits)
  moreover have "entry_ok env (nm_kv nm) (?f x) = entry_ok env (nm_kv nm) x" if "entry_ok env (nm_kv nm) x" for x
    using that by (cases x) (auto simp: entry_ok_def)
  ultimately show ?thesis
    using ok by (auto simp: monitor_ok_def on_unify_node_state_changed_def)
qed

section \<open>Runs of the monitor\<close>

inductive monitor_reachable ::
  "('kv, 'em) environment \<Rightarrow> ('kv, 'em) node_monitor \<Rightarrow> ('kv, 'em) node_monitor \<Rightarrow> bool"
  for env nm0 where
  start: "monitor_reachable env nm0 nm0"
| added: "monitor_reachable env nm0 nm \<Longrightarrow> on_unify_node_added env node nm = Inr (out, nm') \<Longrightarrow>
    monitor_reachable env nm0 nm'"
| removed: "monitor_reachable env nm0 nm \<Longrightarrow> on_unify_node_removed env u nm = (out, nm') \<Longrightarrow>
    monitor_reachable env nm0 nm'"
| changed: "monitor_reachable env nm0 nm \<Longrightarrow> on_unify_node_state_changed u online nm = (out, nm') \<Longrightarrow>
    monitor_reachable env nm0 nm'"
| listening: "monitor_reachable env nm0 nm \<Longrightarrow> monitor_reachable env nm0 (register_event_listener l nm)"

context key_value_store
begin

lemma reachable_ok:
  assumes "env_kvs env = ops" and "reliable_store ops" and "nm_endpoints nm0 = []"
  shows "monitor_reachable env nm0 nm \<Longrightarrow> monitor_ok env nm"
proof (induction rule: monitor_reachable.induct)
  case start
  show ?case using assms(3) by (simp add: monitor_ok_def table_ok_def)
next
  case (added nm node out nm')
  show ?case
    using added(3) added(2) [unfolded on_unify_node_added_def] by (rule add_endpoints_ok [OF assms(1,2)])
next
  case (removed nm u out nm')
  then show ?case using removed_ok [OF assms(1) removed(3), of u] by simp
next
  case (changed nm u online out nm')
  then show ?case using changed_ok [OF changed(3), of u online] by simp
next
  case (listening nm l)
  then show ?case by (simp add: register_event_listener_def monitor_ok_def)
qed

end

section \<open>A sample environment\<close>

text \<open>
  A bridge that is not spec compliant, knows the door lock and identify clusters, and keeps its
  tables in memory: every endpoint is a door lock.
\<close>

lemma sample_device_type: "get_matter_type (sample_translator False) clusters = Inr (Some 10)"
  by (simp add: get_matter_type_def get_device_types_def select_possible_device_types_on_score_def
      compute_device_type_match_score_def matter_device_type_vs_clusters_map_def requirement_met_def
      sample_defs device_type_def cluster_req_def score_of_def std_sort_def sort_step_def
      select_scored_def Let_def)

definition sample_env :: "(string \<rightharpoonup> u16, u16 \<rightharpoonup> endpoint_id) environment" where
  "sample_env = \<lparr>env_kvs = map_kvs, env_ember = map_ember, env_translator = sample_translator False,
     env_type_size = (\<lambda>_ _. (1, ZCL_ENUM8))\<rparr>"

definition sample_monitor :: "(string \<rightharpoonup> u16) \<Rightarrow> (string \<rightharpoonup> u16, u16 \<rightharpoonup> endpoint_id) node_monitor" where
  "sample_monitor kv = \<lparr>nm_endpoints = [], nm_listeners = [0], nm_last = 1, nm_kv = kv, nm_ember = Map.empty\<rparr>"

definition lock_node :: "unid \<Rightarrow> unify_node" where
  "lock_node u = \<lparr>un_unid = u, un_endpoints = [(0, \<lparr>ue_clusters = [(''DoorLock'',
     \<lparr>uc_cluster_name = ''DoorLock'', uc_attributes = [''LockState''], uc_supported_commands = [],
      uc_generated_commands = []\<rparr>)]\<rparr>)], un_online = True\<rparr>"

lemma sample_env_fields [simp]:
  "env_kvs sample_env = map_kvs" "env_ember sample_env = map_ember"
  "env_translator sample_env = sample_translator False"
  by (simp_all add: sample_env_def)

lemma sample_cluster_id [simp]:
  "get_cluster_id (sample_translator b) ''DoorLock'' = Some 257"
  by (simp add: get_cluster_id_def sample_translator_def)

lemma map_kvs_reliable: "reliable_store map_kvs"
  by (simp add: reliable_store_def map_kvs_def)

lemma lock_node_added:
  "on_unify_node_added sample_env (lock_node u) nm =
     (let ep = snd (hd (un_endpoints (lock_node u)));
          (e, nm') = assign_matter_endpoint sample_env u 0 nm;
          (out, nm'') = insert_bridge sample_env True (new_bridge u 0 e 2 10
            (build_matter_cluster (sample_translator False) (env_type_size sample_env) (ue_clusters ep))) nm'
      in Inr (out, nm''))"
  by (simp add: on_unify_node_added_def lock_node_def add_endpoint_def is_ignored_def
      matched_clusters_def sample_device_type Let_def split: prod.split)

lemma insert_bridge_present:
  "ep\<lparr>be_reachable := Some online\<rparr> \<in> set (equal_range (be_unify_unid ep)
     (nm_endpoints (snd (insert_bridge env online ep nm))))"
  by (simp add: insert_bridge_def Let_def equal_range_set)

lemma lock_node_bridged:
  "\<exists>out nm'. on_unify_node_added sample_env (lock_node u) nm = Inr (out, nm') \<and>
     (\<exists>ep. (u, ep) \<in> set (nm_endpoints nm'))"
proof -
  obtain e nm1 where a: "assign_matter_endpoint sample_env u 0 nm = (e, nm1)" by fastforce
  let ?ep = "new_bridge u 0 e 2 10 (build_matter_cluster (sample_translator False)
    (env_type_size sample_env) (ue_clusters (snd (hd (un_endpoints (lock_node u))))))"
  have "(u, ?ep\<lparr>be_reachable := Some True\<rparr>) \<in> set (nm_endpoints (snd (insert_bridge sample_env True ?ep nm1)))"
    using insert_bridge_present [of True ?ep sample_env nm1]
    by (simp only: equal_range_set) (simp add: new_bridge_def)
  then show ?thesis
    by (cases "insert_bridge sample_env True ?ep nm1") (auto simp: lock_node_added a Let_def)
qed

section \<open>Properties\<close>

text \<open>C10: From an empty table and for every order of nodes added, removed and changed, the table stays
  sorted with each entry under its own UNID and at most one entry for a Matter endpoint of a node; the
  persisted endpoint of every entry is the one it has, its index is the distance of that endpoint from
  the fixed ones, and its reachability is known.\<close>

theorem node_monitor_invariant:
  assumes "key_value_store (env_kvs env)" and "reliable_store (env_kvs env)"
    and "nm_endpoints nm0 = []" and "monitor_reachable env nm0 nm"
  shows "monitor_ok env nm"
  using assms(4) by (rule key_value_store.reachable_ok [OF assms(1) refl assms(2,3)])

lemma node_monitor_invariant_witness:
  "\<exists>nm. monitor_reachable sample_env (sample_monitor Map.empty) nm \<and> nm_endpoints nm \<noteq> [] \<and>
     monitor_ok sample_env nm"
proof -
  obtain out nm where nm: "on_unify_node_added sample_env (lock_node ''zw-1'') (sample_monitor Map.empty) = Inr (out, nm)"
      "nm_endpoints nm \<noteq> []"
    using lock_node_bridged [of "''zw-1''" "sample_monitor Map.empty"] by fastforce
  have r: "monitor_reachable sample_env (sample_monitor Map.empty) nm"
    using monitor_reachable.start nm(1) by (rule monitor_reachable.added)
  show ?thesis
    using node_monitor_invariant [OF _ _ _ r] r nm(2) mem_kvs.key_value_store_axioms map_kvs_reliable
    by (auto simp: sample_monitor_def)
qed

text \<open>While every persisted Matter endpoint is registered with Ember, a Unify endpoint that has none
  gets one that no other Unify endpoint has, and the persisted table gains exactly this entry, so no two
  Unify endpoints share a Matter endpoint.\<close>

theorem new_endpoint_distinct:
  assumes "key_value_store (env_kvs env)" and "reliable_store (env_kvs env)"
    and "stored_endpoint (env_kvs env) (nm_kv nm) (u, ep) = None"
    and "\<forall>k x. stored_endpoint (env_kvs env) (nm_kv nm) k = Some x \<longrightarrow> \<not> is_free (env_ember env) (nm_ember nm) x"
    and "\<forall>k k' x. stored_endpoint (env_kvs env) (nm_kv nm) k = Some x \<longrightarrow>
      stored_endpoint (env_kvs env) (nm_kv nm) k' = Some x \<longrightarrow> k = k'"
    and "assign_matter_endpoint env u ep nm = (e, nm')" and "e \<noteq> kInvalidEndpointId"
  shows "stored_endpoint (env_kvs env) (nm_kv nm') =
      (stored_endpoint (env_kvs env) (nm_kv nm))((u, ep) \<mapsto> e) \<and>
    (\<forall>k k' x. stored_endpoint (env_kvs env) (nm_kv nm') k = Some x \<longrightarrow>
      stored_endpoint (env_kvs env) (nm_kv nm') k' = Some x \<longrightarrow> k = k')"
proof -
  have "is_free (env_ember env) (nm_ember nm) e"
    using assms(3,6) next_endpoint_is_free [OF _ assms(7)]
    by (auto simp: assign_matter_endpoint_eq split: prod.splits)
  then have fresh: "stored_endpoint (env_kvs env) (nm_kv nm) k \<noteq> Some e" for k using assms(4) by blast
  have stored: "stored_endpoint (env_kvs env) (nm_kv nm') =
      (stored_endpoint (env_kvs env) (nm_kv nm))((u, ep) \<mapsto> e)"
    using key_value_store.stored_after_assign [OF assms(1) refl assms(2,6)] by (auto simp: fun_eq_iff)
  show ?thesis unfolding stored using assms(5) fresh by (metis fun_upd_apply option.inject)
qed

lemma new_endpoint_distinct_witness:
  "\<exists>nm'. assign_matter_endpoint sample_env ''zw-1'' 0 (sample_monitor Map.empty) = (2, nm') \<and>
     stored_endpoint map_kvs (nm_kv nm') (''zw-1'', 0) = Some 2"
proof -
  have none: "stored_endpoint map_kvs Map.empty k = None" for k
    by (simp add: stored_endpoint_eq map_kvs_def)
  obtain nm' where a: "assign_matter_endpoint sample_env ''zw-1'' 0 (sample_monitor Map.empty) = (2, nm')"
    by (simp add: assign_matter_endpoint_eq sample_monitor_def none map_ember_first_endpoint)
  have "2 \<noteq> kInvalidEndpointId" by simp
  then show ?thesis
    using new_endpoint_distinct [OF _ _ _ _ _ a] a mem_kvs.key_value_store_axioms map_kvs_reliable none
    by (simp add: sample_monitor_def)
qed

text \<open>C40: The endpoint of a node that does not return at once after a restart is not reserved: with
  the Ember table empty, the first Unify endpoint without a persisted endpoint is given the first dynamic
  endpoint, also when that one is persisted for another Unify endpoint, and both then share it.\<close>

theorem restart_shares_endpoint:
  assumes "key_value_store (env_kvs env)" and "reliable_store (env_kvs env)"
    and "nm_last nm + 1 = ei_fixed_count (env_ember env)"
    and "ei_fixed_count (env_ember env) < ei_max_count (env_ember env)"
    and "\<forall>x. is_free (env_ember env) (nm_ember nm) x"
    and "stored_endpoint (env_kvs env) (nm_kv nm) k = Some (ei_fixed_count (env_ember env))"
    and "stored_endpoint (env_kvs env) (nm_kv nm) (u, ep) = None"
  shows "\<exists>nm'. assign_matter_endpoint env u ep nm = (ei_fixed_count (env_ember env), nm') \<and>
    stored_endpoint (env_kvs env) (nm_kv nm') k = Some (ei_fixed_count (env_ember env)) \<and>
    stored_endpoint (env_kvs env) (nm_kv nm') (u, ep) = Some (ei_fixed_count (env_ember env))"
proof -
  have "free_from (env_ember env) (nm_ember nm) (ei_fixed_count (env_ember env)) =
      Some (ei_fixed_count (env_ember env))"
    using assms(4,5) by (simp add: free_from.simps)
  then obtain nm' where a: "assign_matter_endpoint env u ep nm = (ei_fixed_count (env_ember env), nm')"
    using assms(3,7) by (simp add: assign_matter_endpoint_eq get_next_endpoint_def)
  have "k \<noteq> (u, ep)" using assms(6,7) by auto
  then show ?thesis
    using a key_value_store.stored_after_assign [OF assms(1) refl assms(2) a] assms(6) by auto
qed

lemma restart_shares_endpoint_witness:
  "\<exists>nm'. assign_matter_endpoint sample_env ''zw-2'' 0
       (sample_monitor [endpoint_key ''zw-1'' 0 \<mapsto> 2]) = (2, nm') \<and>
     stored_endpoint map_kvs (nm_kv nm') (''zw-1'', 0) = Some 2 \<and>
     stored_endpoint map_kvs (nm_kv nm') (''zw-2'', 0) = Some 2"
  using restart_shares_endpoint [of sample_env "sample_monitor [endpoint_key ''zw-1'' 0 \<mapsto> 2]" "(''zw-1'', 0)" "''zw-2''" 0]
    mem_kvs.key_value_store_axioms map_kvs_reliable
  by (simp add: sample_monitor_def map_ember_empty_free stored_endpoint_eq map_kvs_def endpoint_key_inject)

text \<open>C19: When Unify removes a node, every listener is told of every endpoint of the node, in table order,
  exactly the entries of the node leave the table, their persisted endpoints, and no others, are forgotten, and
  the dynamic endpoints Ember has at their indices, and no others, are cleared, in table order.\<close>

theorem node_removed_effect:
  assumes "key_value_store (env_kvs env)" and "monitor_ok env nm"
    and "on_unify_node_removed env u nm = (out, nm')"
  shows "out = [(l, ep, NODE_DELETED). ep \<leftarrow> equal_range u (nm_endpoints nm), l \<leftarrow> nm_listeners nm] \<and>
    nm_endpoints nm' = filter (\<lambda>e. fst e \<noteq> u) (nm_endpoints nm) \<and>
    (\<forall>u' ep. stored_endpoint (env_kvs env) (nm_kv nm') (u', ep) =
      (if u' = u \<and> (\<exists>e \<in> set (equal_range u (nm_endpoints nm)). be_unify_endpoint e = ep) then None
       else stored_endpoint (env_kvs env) (nm_kv nm) (u', ep))) \<and>
    nm_ember nm' = fold (\<lambda>i em. snd (ei_clear_dynamic (env_ember env) i em))
      (map be_index (equal_range u (nm_endpoints nm))) (nm_ember nm) \<and>
    nm_listeners nm' = nm_listeners nm \<and> nm_last nm' = nm_last nm"
proof -
  let ?eps = "equal_range u (nm_endpoints nm)"
  have "(u', ep) \<in> unify_key ` set ?eps \<longleftrightarrow> u' = u \<and> (\<exists>e \<in> set ?eps. be_unify_endpoint e = ep)" for u' ep
    using table_ok_unid [of "nm_endpoints nm" u] assms(2)
    by (auto simp: monitor_ok_def equal_range_set image_iff)
  moreover have "nm_kv nm' = forget_all (env_kvs env) ?eps (nm_kv nm)"
    using assms(3) by (auto simp: on_unify_node_removed_eq Let_def)
  ultimately have "stored_endpoint (env_kvs env) (nm_kv nm') (u', ep) =
      (if u' = u \<and> (\<exists>e \<in> set ?eps. be_unify_endpoint e = ep) then None
       else stored_endpoint (env_kvs env) (nm_kv nm) (u', ep))" for u' ep
    by (simp only: key_value_store.stored_forget_all [OF assms(1)])
  moreover have "out = [(l, ep, NODE_DELETED). ep \<leftarrow> ?eps, l \<leftarrow> nm_listeners nm]"
    using assms(3) by (auto simp: on_unify_node_removed_eq Let_def invoke_listeners_def)
  moreover have "nm_endpoints nm' = filter (\<lambda>e. fst e \<noteq> u) (nm_endpoints nm)"
    using assms(3) by (auto simp: on_unify_node_removed_eq Let_def)
  moreover have "nm_ember nm' = fold (\<lambda>i em. snd (ei_clear_dynamic (env_ember env) i em)) (map be_index ?eps) (nm_ember nm)"
      "nm_listeners nm' = nm_listeners nm" "nm_last nm' = nm_last nm"
    using assms(3) by (auto simp: on_unify_node_removed_eq Let_def clear_all_def fold_map comp_def foldl_conv_fold)
  ultimately show ?thesis by blast
qed

definition sample_bridge :: "unid \<Rightarrow> u8 \<Rightarrow> endpoint_id \<Rightarrow> cluster_id list \<Rightarrow> bridged_endpoint" where
  "sample_bridge u ep e cls = (new_bridge u ep e 2 10
     (map (\<lambda>cl. finished_cluster cl new_cluster_builder) cls))\<lparr>be_reachable := Some True\<rparr>"

definition two_nodes :: "(string \<rightharpoonup> u16, u16 \<rightharpoonup> endpoint_id) node_monitor" where
  "two_nodes = (sample_monitor [endpoint_key ''zw-1'' 0 \<mapsto> 2, endpoint_key ''zw-1'' 1 \<mapsto> 3,
       endpoint_key ''zw-2'' 0 \<mapsto> 4])
     \<lparr>nm_endpoints := [(''zw-1'', sample_bridge ''zw-1'' 0 2 [6, 29]),
       (''zw-1'', sample_bridge ''zw-1'' 1 3 [8, 29]), (''zw-2'', sample_bridge ''zw-2'' 0 4 [257])]\<rparr>"

lemma two_nodes_ok: "monitor_ok sample_env two_nodes"
  by (simp add: monitor_ok_def table_ok_def entry_ok_def two_nodes_def sample_monitor_def
      sample_bridge_def new_bridge_def stored_endpoint_eq map_kvs_def endpoint_key_inject
      del: not_None_eq)

lemma node_removed_effect_witness:
  "\<exists>out nm'. on_unify_node_removed sample_env ''zw-1'' two_nodes = (out, nm') \<and> length out = 2 \<and>
     stored_endpoint map_kvs (nm_kv nm') (''zw-1'', 1) = None \<and>
     stored_endpoint map_kvs (nm_kv nm') (''zw-2'', 0) = Some 4 \<and>
     nm_ember nm' = snd (ei_clear_dynamic map_ember 1 (snd (ei_clear_dynamic map_ember 0 Map.empty)))"
proof -
  obtain out nm' where r: "on_unify_node_removed sample_env ''zw-1'' two_nodes = (out, nm')"
    by (cases "on_unify_node_removed sample_env ''zw-1'' two_nodes")
  have "length out = 2 \<and> stored_endpoint map_kvs (nm_kv nm') (''zw-1'', 1) = None \<and>
     stored_endpoint map_kvs (nm_kv nm') (''zw-2'', 0) = Some 4 \<and>
     nm_ember nm' = snd (ei_clear_dynamic map_ember 1 (snd (ei_clear_dynamic map_ember 0 Map.empty)))"
    using node_removed_effect [OF _ two_nodes_ok r] mem_kvs.key_value_store_axioms
    by (simp add: two_nodes_def sample_monitor_def equal_range_def sample_bridge_def new_bridge_def
        stored_endpoint_eq map_kvs_def endpoint_key_inject)
  then show ?thesis using r by blast
qed

lemma lookup_iff:
  assumes "monitor_ok env nm"
  shows "bridged_endpoint_by_unify (nm_endpoints nm) u (uint ep) = Some b \<longleftrightarrow>
    (u, b) \<in> set (nm_endpoints nm) \<and> be_unify_endpoint b = ep"
proof
  assume "bridged_endpoint_by_unify (nm_endpoints nm) u (uint ep) = Some b"
  from find_Some_iff_mem [OF this [unfolded bridged_endpoint_by_unify_def]]
  show "(u, b) \<in> set (nm_endpoints nm) \<and> be_unify_endpoint b = ep"
    by (auto simp: equal_range_set word_uint_eq_iff)
next
  assume b: "(u, b) \<in> set (nm_endpoints nm) \<and> be_unify_endpoint b = ep"
  then have "bridged_endpoint_by_unify (nm_endpoints nm) u (uint ep) \<noteq> None"
    unfolding bridged_endpoint_by_unify_def find_None_iff_all by (auto simp: equal_range_set)
  then obtain x where x: "bridged_endpoint_by_unify (nm_endpoints nm) u (uint ep) = Some x" by blast
  from find_Some_iff_mem [OF this [unfolded bridged_endpoint_by_unify_def]]
  have x': "(u, x) \<in> set (nm_endpoints nm)" "be_unify_endpoint x = ep"
    by (auto simp: equal_range_set word_uint_eq_iff)
  have "entry_ok env (nm_kv nm) (u, x)" "entry_ok env (nm_kv nm) (u, b)"
    using assms b x'(1) by (auto simp only: monitor_ok_def)
  then have "be_matter_endpoint x = be_matter_endpoint b" using x'(2) b by (simp add: entry_ok_def)
  moreover have "distinct (map (\<lambda>(u, ep). (u, be_matter_endpoint ep)) (nm_endpoints nm))"
    using assms by (simp only: monitor_ok_def table_ok_def)
  ultimately have "x = b"
    using distinct_map_eq [OF _ x'(1) conjunct1 [OF b], where f = "\<lambda>(u, ep). (u, be_matter_endpoint ep)"] by simp
  then show "bridged_endpoint_by_unify (nm_endpoints nm) u (uint ep) = Some b" using x by simp
qed

lemma insert_bridge_found:
  assumes "monitor_ok env (snd (insert_bridge env online ep nm))" and "be_unify_unid ep = u"
  shows "bridged_endpoint_by_unify (nm_endpoints (snd (insert_bridge env online ep nm))) u
    (uint (be_unify_endpoint ep)) = Some (ep\<lparr>be_reachable := Some online\<rparr>)"
  using insert_bridge_present [of online ep env nm] assms(2)
  by (simp add: lookup_iff [OF assms(1)] equal_range_set)

lemma endpoint_inserted:
  fixes env :: "('kv, 'em) environment"
  assumes "key_value_store (env_kvs env)" and "reliable_store (env_kvs env)" and "monitor_ok env nm"
    and "add_endpoint env u online ep ue nm = Inr (out, nm')" and "assign_matter_endpoint env u ep nm = (e, nm1)"
    and "insert_bridge env online be nm1 = (out, nm')"
    and be: "be = new_bridge u ep e (ei_fixed_count (env_ember env)) ty clusters"
  shows "bridged_endpoint_by_unify (nm_endpoints nm') u (uint ep) = Some (be\<lparr>be_reachable := Some online\<rparr>)"
    and "stored_endpoint (env_kvs env) (nm_kv nm') (u, ep) = Some (be_matter_endpoint be)"
    and "out = map (\<lambda>l. (l, be, NODE_ADDED)) (nm_listeners nm) @
      map (\<lambda>l. (l, be\<lparr>be_reachable := Some online\<rparr>, NODE_STATE_CHANGED)) (nm_listeners nm)"
proof -
  have nm': "nm' = snd (insert_bridge env online be nm1)" and out: "out = fst (insert_bridge env online be nm1)"
    using assms(6) by simp_all
  have ok: "monitor_ok env (snd (insert_bridge env online be nm1))"
    using key_value_store.add_endpoint_ok [OF assms(1) refl assms(2-4)] nm' by simp
  have f: "be_unify_unid be = u" "be_unify_endpoint be = ep" "be_matter_endpoint be = e"
    by (simp_all add: be new_bridge_def)
  show "bridged_endpoint_by_unify (nm_endpoints nm') u (uint ep) = Some (be\<lparr>be_reachable := Some online\<rparr>)"
    using insert_bridge_found [OF ok f(1)] unfolding nm' f(2) .
  have "nm_kv nm' = nm_kv nm1" unfolding nm' by (simp add: insert_bridge_def Let_def)
  then show "stored_endpoint (env_kvs env) (nm_kv nm') (u, ep) = Some (be_matter_endpoint be)"
    using key_value_store.stored_after_assign [OF assms(1) refl assms(2,5), of "(u, ep)"] f(3) by simp
  have "nm_listeners nm1 = nm_listeners nm" using assign_keeps_endpoints(2) [of env u ep nm] assms(5) by simp
  then show "out = map (\<lambda>l. (l, be, NODE_ADDED)) (nm_listeners nm) @
      map (\<lambda>l. (l, be\<lparr>be_reachable := Some online\<rparr>, NODE_STATE_CHANGED)) (nm_listeners nm)"
    unfolding out by (simp add: insert_bridge_def invoke_listeners_def Let_def)
qed

text \<open>A Unify endpoint that is reported either changes nothing, or is bridged: it is then found
  under its UNID and number with its persisted Matter endpoint, reachable as reported, and every listener
  is first told that it was added, while its reachability is still undefined, and then that its state
  changed.\<close>

theorem add_endpoint_outcome:
  assumes "key_value_store (env_kvs env)" and "reliable_store (env_kvs env)" and "monitor_ok env nm"
    and "add_endpoint env u online ep ue nm = Inr (out, nm')"
  shows "(out, nm') = ([], nm) \<or>
    (\<exists>be. bridged_endpoint_by_unify (nm_endpoints nm') u (uint ep) = Some (be\<lparr>be_reachable := Some online\<rparr>) \<and>
      be_reachable be = None \<and>
      stored_endpoint (env_kvs env) (nm_kv nm') (u, ep) = Some (be_matter_endpoint be) \<and>
      out = map (\<lambda>l. (l, be, NODE_ADDED)) (nm_listeners nm) @
        map (\<lambda>l. (l, be\<lparr>be_reachable := Some online\<rparr>, NODE_STATE_CHANGED)) (nm_listeners nm))"
  using assms(4)
proof (cases rule: add_endpoint_cases)
  case (2 ty e nm1)
  have "be_reachable (new_bridge u ep e fixed ty clusters) = None" for fixed clusters by (simp add: new_bridge_def)
  with endpoint_inserted [OF assms 2 refl] show ?thesis by blast
qed simp

lemma add_endpoint_outcome_witness:
  "\<exists>out nm'. add_endpoint sample_env ''zw-1'' True 0 (snd (hd (un_endpoints (lock_node ''zw-1''))))
       (sample_monitor Map.empty) = Inr (out, nm') \<and>
     bridged_endpoint_by_unify (nm_endpoints nm') ''zw-1'' 0 \<noteq> None"
proof -
  let ?ue = "snd (hd (un_endpoints (lock_node ''zw-1'')))"
  obtain out nm' ep where added: "on_unify_node_added sample_env (lock_node ''zw-1'') (sample_monitor Map.empty) = Inr (out, nm')"
      "(''zw-1'', ep) \<in> set (nm_endpoints nm')"
    using lock_node_bridged by blast
  then have a: "add_endpoint sample_env ''zw-1'' True 0 ?ue (sample_monitor Map.empty) = Inr (out, nm')"
    by (auto simp: on_unify_node_added_def lock_node_def rbind_eq_Inr)
  have "monitor_ok sample_env (sample_monitor Map.empty)"
    by (simp add: monitor_ok_def table_ok_def sample_monitor_def)
  then have "(out, nm') = ([], sample_monitor Map.empty) \<or>
      bridged_endpoint_by_unify (nm_endpoints nm') ''zw-1'' 0 \<noteq> None"
    using add_endpoint_outcome [OF _ _ _ a] mem_kvs.key_value_store_axioms map_kvs_reliable by auto
  then show ?thesis using a added(2) by (auto simp: sample_monitor_def)
qed

text \<open>The supported clusters reported for a Matter endpoint are those of the first endpoint of its
  node, whichever endpoint of the node is asked for; for an unknown Matter endpoint a null pointer is
  dereferenced.\<close>

theorem supported_clusters_of_first_endpoint:
  assumes "table_ok t" and "distinct (map be_matter_endpoint (map snd t))"
    and "equal_range u t = first # rest" and "ep \<in> set (first # rest)"
    and "be_ember_endpoint first = finalize cs" and "length cs < 256"
  shows "get_supported_cluster t (be_matter_endpoint ep) = Inr (ec_cluster_id ` set cs) \<and>
    (e \<notin> be_matter_endpoint ` snd ` set t \<longrightarrow> get_supported_cluster t e = Inl Null_Dereference)"
proof -
  have mem: "(u, ep) \<in> set t" using assms(3,4) equal_range_set by metis
  then have unid: "be_unify_unid ep = u" by (rule table_ok_unid [OF assms(1)])
  have in_t: "ep \<in> set (map snd t)" using mem by force
  then have "bridged_endpoint_by_matter t (be_matter_endpoint ep) \<noteq> None"
    unfolding bridged_endpoint_by_matter_def find_None_iff_all by blast
  then obtain x where x: "bridged_endpoint_by_matter t (be_matter_endpoint ep) = Some x" by blast
  then have "x \<in> set (map snd t)" "be_matter_endpoint x = be_matter_endpoint ep"
    unfolding bridged_endpoint_by_matter_def by (auto dest!: find_Some_iff_mem)
  then have "x = ep" using distinct_map_eq [OF assms(2)] in_t by blast
  then have "get_supported_cluster t (be_matter_endpoint ep) =
      Inr (ec_cluster_id ` set (take (unat (word_of_nat (length cs) :: u8)) cs))"
    using x unid assms(3,5) by (simp add: get_supported_cluster_def finalize_def)
  moreover have "unat (word_of_nat (length cs) :: u8) = length cs" using assms(6) by (simp add: unat_of_nat)
  moreover have "get_supported_cluster t e = Inl Null_Dereference" if "e \<notin> be_matter_endpoint ` snd ` set t"
  proof -
    have "bridged_endpoint_by_matter t e = None"
      using that by (auto simp: bridged_endpoint_by_matter_def find_None_iff_all)
    then show ?thesis by (simp add: get_supported_cluster_def)
  qed
  ultimately show ?thesis by simp
qed

lemma supported_clusters_of_first_endpoint_witness:
  "get_supported_cluster (nm_endpoints two_nodes) 3 = Inr {6, 29} \<and>
   get_supported_cluster (nm_endpoints two_nodes) 9 = Inl Null_Dereference"
proof -
  have "table_ok (nm_endpoints two_nodes)" using two_nodes_ok by (simp add: monitor_ok_def)
  then show ?thesis
    using supported_clusters_of_first_endpoint [of "nm_endpoints two_nodes" "''zw-1''" "sample_bridge ''zw-1'' 0 2 [6, 29]"
        "[sample_bridge ''zw-1'' 1 3 [8, 29]]" "sample_bridge ''zw-1'' 1 3 [8, 29]"
        "map (\<lambda>cl. finished_cluster cl new_cluster_builder) [6, 29]" 9]
    by (simp add: two_nodes_def equal_range_def sample_bridge_def new_bridge_def)
qed

end
