(* ===== verification/Group_Translator.thy ===== *)
theory Group_Translator
  imports Data_Storage
begin

text \<open>
  linux/src/cluster_translator/group_translator.hpp and group_translator.cpp: the translation of
  Matter groups into Unify groups. Its state is the last Unify group tried and the set of Unify
  groups seen on the MQTT side; the mapping itself lives in the persistent storage. The lemmas
  give the allocation loop as a search for the least free number, and the conditions under which
  the mapping stays injective.
\<close>

section \<open>State and operations\<close>

record matter_group =
  mg_group :: group_id
  mg_fabric_index :: fabric_index

text \<open>
  \<open>operator<\<close> of \<open>matter_group\<close> compares the group number only. It is irreflexive and transitive,
  so it orders groups as far as an ordered container asks, but the groups of different fabrics
  with one number are equivalent under it.
\<close>

definition matter_group_less :: "'a matter_group_scheme \<Rightarrow> 'a matter_group_scheme \<Rightarrow> bool" where
  "matter_group_less a b \<longleftrightarrow> mg_group a < mg_group b"

instantiation matter_group_ext :: (type) preorder
begin

definition less_matter_group_ext :: "'a matter_group_scheme \<Rightarrow> 'a matter_group_scheme \<Rightarrow> bool" where
  "less_matter_group_ext = matter_group_less"

definition less_eq_matter_group_ext :: "'a matter_group_scheme \<Rightarrow> 'a matter_group_scheme \<Rightarrow> bool" where
  "less_eq_matter_group_ext a b \<longleftrightarrow> \<not> matter_group_less b a"

instance
  by standard
    (auto simp: less_matter_group_ext_def less_eq_matter_group_ext_def matter_group_less_def)

end

lemma matter_group_equivalent:
  "\<not> a < b \<and> \<not> b < (a :: 'a matter_group_scheme) \<longleftrightarrow> mg_group a = mg_group b"
  by (auto simp: less_matter_group_ext_def matter_group_less_def)

record group_translator =
  last_allocated_group :: u16
  allocated_unify_groups :: "u16 set"

definition init_group_translator :: group_translator where
  "init_group_translator = \<lparr>last_allocated_group = 1, allocated_unify_groups = {}\<rparr>"

definition get_unify_group :: "'kv kvs_ops \<Rightarrow> 'kv \<Rightarrow> matter_group \<Rightarrow> u16 option" where
  "get_unify_group ops kv g =
     (let (found, info) = get_persisted_group ops
            \<lparr>gm_matter_group_id = mg_group g, gm_fabric_index = mg_fabric_index g,
              gm_unify_group_id = None\<rparr> kv
      in if found then gm_unify_group_id info else None)"

text \<open>
  The loop of \<open>add_matter_group\<close>. The counter is a \<open>uint16_t\<close>: it wraps to 0 after 65535, but
  the loop gives up as soon as an increment reaches 65535, so it stops within 65536 rounds.
\<close>

function alloc_loop :: "u16 set \<Rightarrow> u16 \<Rightarrow> bool \<times> u16" where
  "alloc_loop used l =
     (if l \<in> used
      then (let next = l + 1 in
            if next = 65535 then (False, next) else alloc_loop used next)
      else (True, l))"
  by pat_completeness auto

definition rounds_left :: "u16 \<Rightarrow> nat" where
  "rounds_left l = (if l = 65535 then 65536 else 65535 - unat l)"

lemma rounds_left_decreases: "l + 1 \<noteq> (65535 :: u16) \<Longrightarrow> rounds_left (l + 1) < rounds_left l"
proof (cases "l = 65535")
  case False
  moreover assume "l + 1 \<noteq> 65535"
  moreover have "unat l \<noteq> 65535" using False by (simp add: word_unat_eq_iff)
  ultimately show ?thesis
    using unat_succ16 [of l] unat16_less [of l] by (simp add: rounds_left_def)
qed (simp add: rounds_left_def)

termination alloc_loop
  by (relation "measure (\<lambda>(used, l). rounds_left l)") (auto simp: rounds_left_decreases)

declare alloc_loop.simps [simp del]

definition add_matter_group ::
  "'kv kvs_ops \<Rightarrow> matter_group \<Rightarrow> group_translator \<Rightarrow> 'kv \<Rightarrow> bool \<times> group_translator \<times> 'kv" where
  "add_matter_group ops g gt kv =
     (let (found, u) = alloc_loop (allocated_unify_groups gt) (last_allocated_group gt);
          gt' = gt\<lparr>last_allocated_group := u\<rparr>
      in if \<not> found then (False, gt', kv)
         else (let (ok, kv') = persist_group ops
                 \<lparr>gm_matter_group_id = mg_group g, gm_fabric_index = mg_fabric_index g,
                   gm_unify_group_id = Some u\<rparr> kv
               in (ok, gt', kv')))"

definition remove_matter_group :: "'kv kvs_ops \<Rightarrow> matter_group \<Rightarrow> 'kv \<Rightarrow> 'kv" where
  "remove_matter_group ops g kv =
     (case get_unify_group ops kv g of
        Some _ \<Rightarrow> remove_persisted_group ops
          \<lparr>gm_matter_group_id = mg_group g, gm_fabric_index = mg_fabric_index g,
            gm_unify_group_id = None\<rparr> kv
      | None \<Rightarrow> kv)"

definition register_unify_group :: "u16 \<Rightarrow> group_translator \<Rightarrow> group_translator" where
  "register_unify_group g gt =
     gt\<lparr>allocated_unify_groups := insert g (allocated_unify_groups gt)\<rparr>"

text \<open>\<open>std::stoi\<close> is not guarded here, and its result is narrowed to 16 bits.\<close>

definition group_on_mqtt_message :: "string \<Rightarrow> group_translator \<Rightarrow> group_translator res" where
  "group_on_mqtt_message topic gt =
     (case regex_search match_group_topic topic of
        None \<Rightarrow> Inr gt
      | Some (group_id, _) \<Rightarrow>
          rbind (stoi group_id) (\<lambda>n. Inr (register_unify_group (word_of_int n) gt)))"

text \<open>
  \<open>display_group_mapping\<close>, the output as a string. The fabric table and the group data provider
  of the Matter library are the parameters \<open>fabrics\<close> and \<open>groups\<close> (\<open>None\<close>: no iterator). The
  fabric index is a \<open>uint8_t\<close>, which a stream prints as the character of that code.
\<close>

definition setw10 :: "string \<Rightarrow> string" where
  "setw10 s = replicate (10 - length s) CHR '' '' @ s"

definition mapping_row :: "'kv kvs_ops \<Rightarrow> 'kv \<Rightarrow> fabric_index \<Rightarrow> group_id \<Rightarrow> string" where
  "mapping_row ops kv f g =
     (case get_unify_group ops kv \<lparr>mg_group = g, mg_fabric_index = f\<rparr> of
        Some u \<Rightarrow> setw10 (word_to_string g) @ ''|'' @ setw10 [char_of (unat f)] @ ''|'' @
                  setw10 (word_to_string u) @ ''\<newline>''
      | None \<Rightarrow> [])"

definition display_group_mapping ::
  "'kv kvs_ops \<Rightarrow> 'kv \<Rightarrow> fabric_index list \<Rightarrow> (fabric_index \<Rightarrow> group_id list option) \<Rightarrow> string" where
  "display_group_mapping ops kv fabrics groups =
     ''Display which Matter Groups correspond to which Unify Groups\<newline>'' @
     setw10 ''Matter Group |'' @ setw10 ''Matter Fabric index |'' @ setw10 ''Unify Group\<newline>'' @
     concat (map (\<lambda>f. case groups f of
                        None \<Rightarrow> []
                      | Some gs \<Rightarrow> concat (map (mapping_row ops kv f) gs)) fabrics)"

section \<open>The allocation loop\<close>

text \<open>The reference: the first free number from the counter on, below 65535.\<close>

definition first_free :: "u16 set \<Rightarrow> u16 \<Rightarrow> u16 option" where
  "first_free used l = find (\<lambda>x. x \<notin> used) (map word_of_nat [unat l ..< 65535])"

lemma unat16_ne_max: "(l :: u16) \<noteq> 65535 \<Longrightarrow> unat l < 65535"
  using unat16_less [of l] by (auto simp: word_unat_eq_iff)

lemma first_free_step:
  "l \<noteq> 65535 \<Longrightarrow> first_free used l = (if l \<notin> used then Some l else first_free used (l + 1))"
  using unat16_ne_max [of l] by (simp add: first_free_def upt_conv_Cons unat_succ16)

lemma first_free_max [simp]: "first_free used 65535 = None"
  by (simp add: first_free_def)

lemma first_free_SomeD:
  assumes "first_free used l = Some x"
  shows "x \<notin> used \<and> unat l \<le> unat x \<and> unat x < 65535"
proof -
  from assms have x: "x \<in> set (map word_of_nat [unat l ..< 65535])" "x \<notin> used"
    unfolding first_free_def by (auto dest: find_Some_iff_mem)
  then obtain n where "x = word_of_nat n" "unat l \<le> n" "n < 65535" by auto
  moreover from this have "unat x = n" by (simp add: unat_of_nat)
  ultimately show ?thesis using x(2) by simp
qed

lemma first_free_NoneD:
  assumes "first_free used l = None" and "unat l \<le> unat x" and "x \<noteq> 65535"
  shows "x \<in> used"
proof -
  have "x = word_of_nat (unat x)" by simp
  moreover have "unat x \<in> set [unat l ..< 65535]"
    using assms(2) unat16_ne_max [OF assms(3)] by simp
  ultimately have "x \<in> set (map word_of_nat [unat l ..< 65535])" by (metis image_eqI list.set_map)
  then show ?thesis using assms(1) unfolding first_free_def find_None_iff_all by blast
qed

lemma first_free_below:
  assumes "first_free used l = Some u" and "unat l \<le> unat v" and "unat v < unat u"
  shows "v \<in> used"
proof -
  obtain i where i: "i < 65535 - unat l" "u = word_of_nat (unat l + i)"
      "\<forall>j<i. word_of_nat (unat l + j) \<in> used"
    using assms(1) by (auto simp: first_free_def find_Some_iff)
  have "unat (word_of_nat (unat l + i) :: u16) = unat l + i"
    using i(1) by (simp add: unat_of_nat del: of_nat_add)
  then have "unat u = unat l + i" using i(2) by (simp only:)
  then have "unat v - unat l < i" using assms(2,3) by simp
  with i(3) have "word_of_nat (unat l + (unat v - unat l)) \<in> used" by blast
  then show ?thesis using assms(2) by simp
qed

lemma alloc_loop_first_free:
  "l \<noteq> 65535 \<Longrightarrow> alloc_loop used l =
     (case first_free used l of Some x \<Rightarrow> (True, x) | None \<Rightarrow> (False, 65535))"
proof (induction used l rule: alloc_loop.induct)
  case (1 used l)
  note step = alloc_loop.simps [of used l] first_free_step [OF "1.prems", of used]
  show ?case
  proof (cases "l \<in> used \<and> l + 1 \<noteq> 65535")
    case True
    then have "alloc_loop used l = alloc_loop used (l + 1)" by (simp only: step Let_def) simp
    moreover have "first_free used l = first_free used (l + 1)" using True by (simp only: step) simp
    ultimately show ?thesis using "1.IH" [OF _ refl] True by simp
  next
    case False
    then show ?thesis
      by (cases "l \<in> used") (simp_all only: step Let_def if_True if_False
          not_True_eq_False not_False_eq_True de_Morgan_conj simp_thms first_free_max option.case)
  qed
qed

lemma alloc_loop_wrapped:
  "alloc_loop used 65535 = (if 65535 \<in> used then alloc_loop used 0 else (True, 65535))"
proof -
  have "(65535 :: u16) + 1 = 0" by simp
  then show ?thesis by (simp only: alloc_loop.simps [of used 65535] Let_def) simp
qed

lemma alloc_loop_fresh: "alloc_loop used l = (True, x) \<Longrightarrow> x \<notin> used"
proof (induction used l rule: alloc_loop.induct)
  case (1 used l)
  then show ?case by (auto simp: alloc_loop.simps [of used l] Let_def split: if_splits)
qed

lemma alloc_loop_here: "l \<notin> used \<Longrightarrow> alloc_loop used l = (True, l)"
  by (simp add: alloc_loop.simps)

lemma alloc_loop_failed: "alloc_loop used l = (False, x) \<Longrightarrow> x = 65535"
proof (induction used l rule: alloc_loop.induct)
  case (1 used l)
  then show ?case by (auto simp: alloc_loop.simps [of used l] Let_def split: if_splits)
qed

section \<open>The operations on the mapping\<close>

abbreviation group_key_of :: "matter_group \<Rightarrow> fabric_index \<times> group_id" where
  "group_key_of g \<equiv> (mg_fabric_index g, mg_group g)"

lemma get_unify_group_stored: "get_unify_group ops kv g = stored_group ops kv (group_key_of g)"
  by (simp add: get_unify_group_def stored_group_def get_persisted_group_def split: option.split)

lemma add_matter_group_eq:
  "add_matter_group ops g gt kv =
     (let (found, u) = alloc_loop (allocated_unify_groups gt) (last_allocated_group gt);
          (ok, kv') = (if found then store_group ops (group_key_of g) u kv else (False, kv))
      in (ok, gt\<lparr>last_allocated_group := u\<rparr>, kv'))"
  by (simp add: add_matter_group_def store_group_def split: prod.split)

lemma add_matter_group_result:
  assumes "add_matter_group ops g gt kv = (ok, gt', kv')"
  obtains found where
    "alloc_loop (allocated_unify_groups gt) (last_allocated_group gt) = (found, last_allocated_group gt')"
    "ok \<longleftrightarrow> found \<and> fst (store_group ops (group_key_of g) (last_allocated_group gt') kv)"
    "kv' = (if found then snd (store_group ops (group_key_of g) (last_allocated_group gt') kv) else kv)"
    "allocated_unify_groups gt' = allocated_unify_groups gt"
proof -
  obtain found u where al: "alloc_loop (allocated_unify_groups gt) (last_allocated_group gt) = (found, u)"
    by fastforce
  with assms have r: "gt' = gt\<lparr>last_allocated_group := u\<rparr>"
      "ok \<longleftrightarrow> found \<and> fst (store_group ops (group_key_of g) u kv)"
      "kv' = (if found then snd (store_group ops (group_key_of g) u kv) else kv)"
    by (simp_all add: add_matter_group_eq split: if_splits prod.splits)
  from r(1) have "last_allocated_group gt' = u" "allocated_unify_groups gt' = allocated_unify_groups gt"
    by simp_all
  with al r(2,3) that show thesis by blast
qed

lemma remove_matter_group_eq:
  "remove_matter_group ops g kv =
     (if stored_group ops kv (group_key_of g) = None then kv
      else forget_group ops (group_key_of g) kv)"
  by (auto simp: remove_matter_group_def get_unify_group_stored forget_group_def split: option.split)

context key_value_store begin

lemma add_matter_group_stored:
  assumes "add_matter_group ops g gt kv = (ok, gt', kv')"
  shows "stored_group ops kv' =
    (if ok then (stored_group ops kv)(group_key_of g \<mapsto> last_allocated_group gt')
     else stored_group ops kv)"
proof (rule ext)
  fix k
  show "stored_group ops kv' k = (if ok
      then (stored_group ops kv)(group_key_of g \<mapsto> last_allocated_group gt')
      else stored_group ops kv) k"
    by (rule add_matter_group_result [OF assms])
      (use groups.put_cases [of "group_key_of g" "last_allocated_group gt'" kv k] in
        \<open>auto split: if_splits\<close>)
qed

lemma remove_matter_group_stored:
  "stored_group ops (remove_matter_group ops g kv) = (stored_group ops kv)(group_key_of g := None)"
  by (rule ext) (simp add: remove_matter_group_eq groups.look_del)

end

lemma add_matter_group_fresh:
  assumes "add_matter_group ops g gt kv = (True, gt', kv')"
  shows "last_allocated_group gt' \<notin> allocated_unify_groups gt"
  by (rule add_matter_group_result [OF assms]) (auto dest: alloc_loop_fresh)

lemma add_matter_group_allocated [simp]:
  "add_matter_group ops g gt kv = (ok, gt', kv') \<Longrightarrow>
   allocated_unify_groups gt' = allocated_unify_groups gt"
  by (erule add_matter_group_result)

section \<open>Runs\<close>

text \<open>
  A run of the translator over one store: Matter groups are added and removed, and Unify announces
  groups on \<open>ucl/by-group\<close>. \<open>add\<close> is taken only when every mapped Unify group has been
  announced, which is the order the code counts on.
\<close>

inductive group_run :: "'kv kvs_ops \<Rightarrow> 'kv \<Rightarrow> group_translator \<Rightarrow> 'kv \<Rightarrow> bool" for ops kv0 where
  start: "group_run ops kv0 init_group_translator kv0"
| add: "group_run ops kv0 gt kv \<Longrightarrow> ran (stored_group ops kv) \<subseteq> allocated_unify_groups gt \<Longrightarrow>
    add_matter_group ops g gt kv = (ok, gt', kv') \<Longrightarrow> group_run ops kv0 gt' kv'"
| remove: "group_run ops kv0 gt kv \<Longrightarrow> group_run ops kv0 gt (remove_matter_group ops g kv)"
| node_list: "group_run ops kv0 gt kv \<Longrightarrow> group_on_mqtt_message topic gt = Inr gt' \<Longrightarrow>
    group_run ops kv0 gt' kv"

definition group_map_inj :: "'kv kvs_ops \<Rightarrow> 'kv \<Rightarrow> bool" where
  "group_map_inj ops kv \<longleftrightarrow>
     (\<forall>k k' u. stored_group ops kv k = Some u \<longrightarrow> stored_group ops kv k' = Some u \<longrightarrow> k = k')"

lemma group_map_injD:
  "group_map_inj ops kv \<Longrightarrow> stored_group ops kv k = Some u \<Longrightarrow> stored_group ops kv k' = Some u \<Longrightarrow> k = k'"
  unfolding group_map_inj_def by blast

context key_value_store begin

lemma add_keeps_inj:
  assumes inj: "group_map_inj ops kv" and announced: "ran (stored_group ops kv) \<subseteq> allocated_unify_groups gt"
    and add: "add_matter_group ops g gt kv = (ok, gt', kv')"
  shows "group_map_inj ops kv'"
proof (cases ok)
  case False
  then show ?thesis using inj add_matter_group_stored [OF add] by (simp add: group_map_inj_def)
next
  case True
  then have fresh: "stored_group ops kv k \<noteq> Some (last_allocated_group gt')" for k
    using add_matter_group_fresh [of ops g gt kv gt' kv'] add announced ranI [of "stored_group ops kv" k]
    by auto
  show ?thesis
    unfolding group_map_inj_def add_matter_group_stored [OF add]
    using True fresh inj by (auto simp: group_map_inj_def)
qed

lemma remove_keeps_inj: "group_map_inj ops kv \<Longrightarrow> group_map_inj ops (remove_matter_group ops g kv)"
  by (simp add: group_map_inj_def remove_matter_group_stored)

lemma run_inj:
  assumes "group_run ops kv0 gt kv" and "stored_group ops kv0 = Map.empty"
  shows "group_map_inj ops kv"
  using assms
proof (induction rule: group_run.induct)
  case start
  then show ?case by (simp add: group_map_inj_def)
qed (auto intro: add_keeps_inj remove_keeps_inj)

end

section \<open>A concrete run\<close>

abbreviation "g7 \<equiv> \<lparr>mg_group = 7, mg_fabric_index = 1\<rparr>"
abbreviation "g9 \<equiv> \<lparr>mg_group = 9, mg_fabric_index = 1\<rparr>"
abbreviation "kv_g7 \<equiv> [group_key 1 7 \<mapsto> (1 :: u16)]"

lemma add_g7_first:
  "add_matter_group map_kvs g7 init_group_translator Map.empty = (True, init_group_translator, kv_g7)"
  by (simp add: add_matter_group_eq init_group_translator_def alloc_loop_here storage_eqs map_kvs_def)

lemma add_g9_unannounced:
  "add_matter_group map_kvs g9 init_group_translator kv_g7 =
     (True, init_group_translator, kv_g7(group_key 1 9 \<mapsto> 1))"
  by (simp add: add_matter_group_eq init_group_translator_def alloc_loop_here storage_eqs map_kvs_def)

section \<open>Properties\<close>

text \<open>C28: Adding a Matter group gives it the least Unify group from the counter on that has not
  been announced, and changes no other entry of the mapping; it fails, leaving the mapping as it
  was, exactly when every number up to 65534 is taken or the store refuses the write.\<close>

theorem add_matter_group_least_free:
  assumes "key_value_store ops" and "last_allocated_group gt \<noteq> 65535"
    and "add_matter_group ops g gt kv = (ok, gt', kv')"
  shows "case first_free (allocated_unify_groups gt) (last_allocated_group gt) of
      None \<Rightarrow> \<not> ok \<and> last_allocated_group gt' = 65535 \<and> kv' = kv
    | Some u \<Rightarrow> last_allocated_group gt' = u \<and> u \<notin> allocated_unify_groups gt \<and>
        (\<forall>v. last_allocated_group gt \<le> v \<and> v < u \<longrightarrow> v \<in> allocated_unify_groups gt) \<and>
        ok = fst (store_group ops (group_key_of g) u kv) \<and>
        stored_group ops kv' =
          (if ok then (stored_group ops kv)(group_key_of g \<mapsto> u) else stored_group ops kv)"
proof -
  let ?used = "allocated_unify_groups gt" and ?l = "last_allocated_group gt"
  have loop: "alloc_loop ?used ?l =
      (case first_free ?used ?l of Some x \<Rightarrow> (True, x) | None \<Rightarrow> (False, 65535))"
    using assms(2) by (rule alloc_loop_first_free)
  have below: "v \<in> ?used" if "first_free ?used ?l = Some u" "?l \<le> v" "v < u" for u v
    using first_free_below [OF that(1)] that(2,3) by (simp add: word_le_nat_alt word_less_nat_alt)
  show ?thesis
  proof (rule add_matter_group_result [OF assms(3)])
    fix found
    assume r: "alloc_loop ?used ?l = (found, last_allocated_group gt')"
      "ok \<longleftrightarrow> found \<and> fst (store_group ops (group_key_of g) (last_allocated_group gt') kv)"
      "kv' = (if found then snd (store_group ops (group_key_of g) (last_allocated_group gt') kv) else kv)"
    show ?thesis
    proof (cases "first_free ?used ?l")
      case None
      then show ?thesis using r loop by simp
    next
      case (Some u)
      then have "found" "last_allocated_group gt' = u" using r(1) loop by simp_all
      then show ?thesis
        using Some r(2) first_free_SomeD [OF Some] below [OF Some]
          key_value_store.add_matter_group_stored [OF assms(1,3)] by simp
    qed
  qed
qed

lemma add_matter_group_least_free_witness:
  "let gt = \<lparr>last_allocated_group = 1, allocated_unify_groups = {1, 2}\<rparr>;
       gt' = \<lparr>last_allocated_group = 3, allocated_unify_groups = {1, 2 :: u16}\<rparr>
   in add_matter_group map_kvs \<lparr>mg_group = 7, mg_fabric_index = 1\<rparr> gt Map.empty =
        (True, gt', [group_key 1 7 \<mapsto> 3]) \<and>
      stored_group map_kvs [group_key 1 7 \<mapsto> 3] = (stored_group map_kvs Map.empty)((1, 7) \<mapsto> 3)"
proof -
  let ?gt = "\<lparr>last_allocated_group = 1, allocated_unify_groups = {1, 2}\<rparr>"
  let ?gt' = "\<lparr>last_allocated_group = 3, allocated_unify_groups = {1, 2 :: u16}\<rparr>"
  have loop: "alloc_loop {1, 2} 1 = (True, 3)"
    by (simp add: alloc_loop.simps)
  then have add: "add_matter_group map_kvs \<lparr>mg_group = 7, mg_fabric_index = 1\<rparr> ?gt Map.empty =
      (True, ?gt', [group_key 1 7 \<mapsto> 3])"
    by (simp add: add_matter_group_eq storage_eqs map_kvs_def)
  have "first_free {1, 2} 1 = Some 3"
    using alloc_loop_first_free [of 1 "{1, 2}"] loop by (simp split: option.splits)
  then show ?thesis
    using add add_matter_group_least_free [OF mem_kvs.key_value_store_axioms _ add] by simp
qed

text \<open>C15: From an empty mapping, as long as a group is added only after every mapped Unify group
  has been announced over MQTT, no two Matter groups ever share a Unify group, whatever removals
  and announcements happen in between.\<close>

theorem group_run_injective:
  assumes "key_value_store ops" and "stored_group ops kv0 = Map.empty" and "group_run ops kv0 gt kv"
    and "get_unify_group ops kv g = Some u" and "get_unify_group ops kv g' = Some u"
  shows "g = g'"
proof -
  have "group_key_of g = group_key_of g'"
    using assms(4,5) unfolding get_unify_group_stored
    by (rule group_map_injD [OF key_value_store.run_inj [OF assms(1,3,2)]])
  then show ?thesis by simp
qed

lemma group_run_injective_witness:
  "group_run map_kvs Map.empty init_group_translator kv_g7 \<and>
   get_unify_group map_kvs kv_g7 g7 = Some 1 \<and> get_unify_group map_kvs kv_g7 g9 \<noteq> Some 1"
proof -
  have empty: "stored_group map_kvs Map.empty = Map.empty"
    by (rule ext) (simp add: storage_eqs map_kvs_def)
  then have run: "group_run map_kvs Map.empty init_group_translator kv_g7"
    by (intro group_run.add [OF group_run.start _ add_g7_first]) simp
  have g7: "get_unify_group map_kvs kv_g7 g7 = Some 1"
    by (simp add: get_unify_group_stored storage_eqs map_kvs_def)
  moreover have "get_unify_group map_kvs kv_g7 g9 \<noteq> Some 1"
    using group_run_injective [OF mem_kvs.key_value_store_axioms empty run g7, of g9] by auto
  ultimately show ?thesis using run by blast
qed

text \<open>Nothing in \<open>add_matter_group\<close> reserves the number it chose: two different groups added
  before Unify announces the first one get the same Unify group.\<close>

theorem add_twice_shares_group:
  assumes "key_value_store ops" and "g \<noteq> g'"
    and "add_matter_group ops g gt kv = (True, gt1, kv1)"
    and "add_matter_group ops g' gt1 kv1 = (True, gt2, kv2)"
  shows "get_unify_group ops kv2 g = get_unify_group ops kv2 g' \<and> get_unify_group ops kv2 g \<noteq> None"
proof -
  have "alloc_loop (allocated_unify_groups gt1) (last_allocated_group gt1) =
      (True, last_allocated_group gt1)"
    using add_matter_group_fresh [OF assms(3)] add_matter_group_allocated [OF assms(3)]
    by (simp add: alloc_loop_here)
  with assms(4) have "last_allocated_group gt2 = last_allocated_group gt1"
    by (elim add_matter_group_result) simp
  then show ?thesis
    using key_value_store.add_matter_group_stored [OF assms(1,3)]
      key_value_store.add_matter_group_stored [OF assms(1,4)] assms(2)
    by (simp add: get_unify_group_stored)
qed

lemma add_twice_shares_group_witness:
  "get_unify_group map_kvs (kv_g7(group_key 1 9 \<mapsto> 1)) g7 =
     get_unify_group map_kvs (kv_g7(group_key 1 9 \<mapsto> 1)) g9 \<and>
   get_unify_group map_kvs (kv_g7(group_key 1 9 \<mapsto> 1)) g7 \<noteq> None"
  by (rule add_twice_shares_group [OF mem_kvs.key_value_store_axioms _ add_g7_first
        add_g9_unannounced]) simp

text \<open>C29: Removing a Matter group forgets its own entry and keeps the entries of all other groups
  and every endpoint of the node table whose UNID is not a plain number.\<close>

theorem remove_matter_group_local:
  assumes "key_value_store ops" and "unid_ok u"
  shows "get_unify_group ops (remove_matter_group ops g kv) g' =
      (if g' = g then None else get_unify_group ops kv g') \<and>
    stored_endpoint ops (remove_matter_group ops g kv) (u, e) = stored_endpoint ops kv (u, e)"
proof -
  have "get_unify_group ops (remove_matter_group ops g kv) g' =
      (if g' = g then None else get_unify_group ops kv g')"
    by (cases g; cases g')
      (simp add: get_unify_group_stored key_value_store.remove_matter_group_stored [OF assms(1)])
  moreover have "stored_endpoint ops (remove_matter_group ops g kv) (u, e) =
      stored_endpoint ops kv (u, e)"
    using assms(2)
    by (simp add: remove_matter_group_eq key_value_store.group_delete_keeps_endpoints [OF assms(1)])
  ultimately show ?thesis by blast
qed

lemma remove_matter_group_local_witness:
  "get_unify_group map_kvs (remove_matter_group map_kvs g7 (kv_g7(group_key 1 9 \<mapsto> 2))) g9 = Some 2 \<and>
   stored_endpoint map_kvs (remove_matter_group map_kvs g7 kv_g7) (''zw-0001'', 0) = None"
proof -
  have "unid_ok ''zw-0001''" by (simp add: unid_ok_def is_digit_def)
  note local = remove_matter_group_local [OF mem_kvs.key_value_store_axioms this]
  have "get_unify_group map_kvs (kv_g7(group_key 1 9 \<mapsto> 2)) g9 = Some 2"
    by (simp add: get_unify_group_stored storage_eqs map_kvs_def)
  moreover have "stored_endpoint map_kvs kv_g7 (''zw-0001'', 0) = None"
    using keys_disjoint [OF \<open>unid_ok ''zw-0001''\<close>, of 0 1 7] by (simp add: storage_eqs map_kvs_def)
  ultimately show ?thesis using local by simp
qed

text \<open>The message Unify retains for a group marks exactly that group as taken, and a topic
  whose group segment is not a number makes the callback throw.\<close>

theorem group_announcement:
  "group_on_mqtt_message (''ucl/by-group/'' @ word_to_string g @ ''/NodeList/'' @ p) gt =
      Inr (gt\<lparr>allocated_unify_groups := insert g (allocated_unify_groups gt)\<rparr>) \<and>
   group_on_mqtt_message (''ucl/by-group/x/NodeList/'' @ p) gt = Inl Invalid_Argument"
proof -
  have r: "regex_search match_group_topic (''ucl/by-group/'' @ s @ ''/NodeList/'' @ p) =
      Some (s, segment p)" if "no_slash s" for s
    using segment_append [OF that] after_segment_append [OF that]
    by (intro regex_search_here) (simp add: match_group_topic_def)
  have "stoi ''x'' = Inl Invalid_Argument"
    by (simp add: stoi_def stoi_sign_def is_digit_def is_space_char_def)
  then show ?thesis
    using r [OF no_slash_word, of g] r [of "''x''"]
    by (simp add: group_on_mqtt_message_def stoi_word16 register_unify_group_def no_slash_def)
qed

end
