(* ===== verification/Command_Translator.thy ===== *)
theory Command_Translator
  imports Node_State_Monitor Group_Translator
begin

text \<open>
  The translation of Matter commands into Unify commands:
  linux/src/cluster_translator/command_translator_interface.hpp (sending, responses, subscriptions)
  and the generated handlers of linux/zap-generated/data_model_translator/command_translator.cpp.
  The handlers differ in their switch over the command identifiers alone, which is a table here; the
  code before and after the switch is \<open>invoke_command\<close>. Only the door lock handler gives response
  names, so the tail with a response is its tail. Writing JSON text, reading the clock, and parsing a
  message belong to libraries and are parameters; the clock counts nanoseconds and is read once per
  call.
\<close>

section \<open>State and surroundings\<close>

text \<open>
  \<open>commandInfo\<close>: the handle of the command handler that waits for the response (\<open>None\<close> once it is
  released), and the time it was stored.
\<close>

record pending =
  pd_request :: "nat option"
  pd_since :: int

type_synonym pending_map = "string \<rightharpoonup> pending"

text \<open>
  What a translator reaches: the table of the node state monitor, the group translator, the JSON
  printer, the clock, and the command handler of the request.
\<close>

record translator_env =
  te_table :: endpoint_table
  te_unify_group :: "matter_group \<Rightarrow> u16 option"
  te_dump :: "json \<Rightarrow> string res"
  te_now :: int
  te_request :: nat

type_synonym status_reply = "nat \<times> command_path \<times> im_status"

section \<open>Sending\<close>

text \<open>\<open>duration_cast\<close> to seconds, and \<open>HANDLER_TIMEOUT\<close> of 10 seconds.\<close>

definition ishandler_timedout :: "int \<Rightarrow> int \<Rightarrow> bool" where
  "ishandler_timedout now since \<longleftrightarrow> 10 < (now - since) div 1000000000"

definition clear_timedout :: "int \<Rightarrow> pending_map \<Rightarrow> pending_map" where
  "clear_timedout now p = (\<lambda>k. case p k of
     Some pd \<Rightarrow> if ishandler_timedout now (pd_since pd) then None else Some pd
   | None \<Rightarrow> None)"

definition node_topic :: "bridged_endpoint \<Rightarrow> string" where
  "node_topic node = by_unid_topic (be_unify_unid node) (be_unify_endpoint node)"

definition target_topic :: "translator_env \<Rightarrow> bridged_endpoint \<Rightarrow> session \<Rightarrow> string option" where
  "target_topic env node s =
     (case s of
        Group_Session g f \<Rightarrow>
          map_option (\<lambda>u. ''ucl/by-group/'' @ word_to_string u)
            (te_unify_group env \<lparr>mg_group = g, mg_fabric_index = f\<rparr>)
      | Unicast_Session \<Rightarrow> Some (node_topic node)
      | No_Exchange \<Rightarrow> Some (node_topic node))"

definition payload_text :: "translator_env \<Rightarrow> json \<Rightarrow> string res" where
  "payload_text env payload = (if jempty payload then Inr ''{}'' else te_dump env payload)"

definition response_key :: "bridged_endpoint \<Rightarrow> string \<Rightarrow> string \<Rightarrow> string" where
  "response_key node cluster response =
     command_response_topic (be_unify_unid node) (be_unify_endpoint node) cluster response"

definition publish_command ::
  "translator_env \<Rightarrow> string \<Rightarrow> string \<Rightarrow> string \<Rightarrow> json \<Rightarrow> mqtt_action list res" where
  "publish_command env topic cluster cmd payload =
     rbind (payload_text env payload)
       (\<lambda>msg. Inr [Publish (topic @ ''/'' @ cluster @ ''/Commands/'' @ cmd) msg True])"

definition send_unify_mqtt_cmd ::
  "translator_env \<Rightarrow> string \<Rightarrow> handler_ctx \<Rightarrow> string \<Rightarrow> json \<Rightarrow> string \<Rightarrow> pending_map \<Rightarrow>
     (mqtt_action list \<times> handler_ctx \<times> pending_map) res" where
  "send_unify_mqtt_cmd env cluster ctx cmd payload response p =
     (case bridged_endpoint_by_matter (te_table env) (cp_endpoint (hc_path ctx)) of
        None \<Rightarrow> Inr ([], ctx, p)
      | Some node \<Rightarrow>
          (let p = (if response = [] then p else clear_timedout (te_now env) p);
               key = response_key node cluster response
           in if response \<noteq> [] \<and> p key \<noteq> None then Inr ([], add_status Busy ctx, p)
              else case target_topic env node (hc_session ctx) of
                None \<Rightarrow> Inr ([], ctx, p)
              | Some topic \<Rightarrow>
                  rbind (publish_command env topic cluster cmd payload) (\<lambda>out.
                  Inr (out, ctx,
                    if response = [] then p
                    else p(key \<mapsto> \<lparr>pd_request = Some (te_request env), pd_since = te_now env\<rparr>)))))"

text \<open>
  \<open>send_unify_mqtt_command_with_callbacks\<close>: the calls of the two callbacks. The exchange context is
  not checked, the group lookup leaves the fabric index at 0, and the unicast callback follows the
  group one.
\<close>

datatype callback = Send_Command unid u8 | Send_Group_Command u16

definition send_unify_mqtt_command_with_callbacks ::
  "translator_env \<Rightarrow> handler_ctx \<Rightarrow> callback list res" where
  "send_unify_mqtt_command_with_callbacks env ctx =
     (case bridged_endpoint_by_matter (te_table env) (cp_endpoint (hc_path ctx)) of
        None \<Rightarrow> Inr []
      | Some node \<Rightarrow>
          (let send = Send_Command (be_unify_unid node) (be_unify_endpoint node) in
           case hc_session ctx of
             No_Exchange \<Rightarrow> Inl Null_Dereference
           | Unicast_Session \<Rightarrow> Inr [send]
           | Group_Session g f \<Rightarrow>
               (case te_unify_group env \<lparr>mg_group = g, mg_fabric_index = 0\<rparr> of
                  Some u \<Rightarrow> Inr [Send_Group_Command u, send]
                | None \<Rightarrow> Inr [])))"

section \<open>Responses\<close>

definition is_caught :: "exn \<Rightarrow> bool" where
  "is_caught e \<longleftrightarrow> e \<in> {Out_Of_Range, Json_Parse_Error, Json_Type_Error}"

type_synonym response_handler =
  "bridged_endpoint \<Rightarrow> string \<Rightarrow> string \<Rightarrow> json \<Rightarrow> pending \<Rightarrow> (status_reply list \<times> pending) res"

text \<open>The body of the \<open>try\<close> block; the conversion of the endpoint is outside of it.\<close>

definition deliver_response ::
  "translator_env \<Rightarrow> (string \<Rightarrow> json res) \<Rightarrow> (json \<Rightarrow> pending \<Rightarrow> (status_reply list \<times> pending) res) \<Rightarrow>
     string \<Rightarrow> string \<Rightarrow> pending_map \<Rightarrow> (status_reply list \<times> pending_map) res" where
  "deliver_response env parse handle topic msg p =
     (case p topic of
        None \<Rightarrow> Inr ([], p)
      | Some pd \<Rightarrow>
          if ishandler_timedout (te_now env) (pd_since pd) then Inr ([], p(topic := None))
          else case rbind (parse msg) (\<lambda>j. handle j pd) of
            Inr (out, pd') \<Rightarrow> Inr (out, p(topic \<mapsto> pd'))
          | Inl e \<Rightarrow> if is_caught e then Inr ([], p) else Inl e)"

definition command_on_mqtt_message ::
  "translator_env \<Rightarrow> (string \<Rightarrow> json res) \<Rightarrow> response_handler \<Rightarrow> string \<Rightarrow> string \<Rightarrow> pending_map \<Rightarrow>
     (status_reply list \<times> pending_map) res" where
  "command_on_mqtt_message env parse handle topic msg p =
     (case regex_search match_command_topic topic of
        None \<Rightarrow> Inr ([], p)
      | Some (u, ep, cluster, response) \<Rightarrow>
          rbind (stoi ep) (\<lambda>n.
          case bridged_endpoint_by_unify (te_table env) u n of
            None \<Rightarrow> Inr ([], p)
          | Some node \<Rightarrow>
              if response = [] \<or> cluster = [] \<or> msg = [] then Inr ([], p)
              else deliver_response env parse (handle node cluster response) topic msg p))"

definition commands_response_subscription ::
  "string list \<Rightarrow> bridged_endpoint \<Rightarrow> update \<Rightarrow> mqtt_action list" where
  "commands_response_subscription clusters ep u = concat (map (\<lambda>cluster.
     let topic = response_key ep cluster ''+'' in
     case u of
       NODE_ADDED \<Rightarrow> [SubscribeEx topic]
     | NODE_DELETED \<Rightarrow> [UnsubscribeEx topic]
     | NODE_STATE_CHANGED \<Rightarrow> []) clusters)"

section \<open>The door lock responses\<close>

text \<open>
  \<open>unify_value["Status"]\<close> as a string: for a constant value a missing member is an assertion of the
  JSON library, and anything but an object, or a status that is not a string, is a type error.
\<close>

definition response_status :: "json \<Rightarrow> string res" where
  "response_status j =
     (case j of
        JObject ms \<Rightarrow> (case map_of ms ''Status'' of
            Some (JString s) \<Rightarrow> Inr s
          | Some _ \<Rightarrow> Inl Json_Type_Error
          | None \<Rightarrow> Inl Fatal_Assertion)
      | _ \<Rightarrow> Inl Json_Type_Error)"

definition doorlock_response_commands :: "command_id list" where
  "doorlock_response_commands =
     [0, 1, 3, 11, 12, 13, 14, 15, 16, 17, 18, 19, 26, 27, 29, 34, 36, 38, 39]"

definition doorlock_command_response :: "device_translator \<Rightarrow> response_handler" where
  "doorlock_command_response t node cluster response j pd =
     (if get_cluster_id t cluster \<noteq> Some DoorLock_Id then Inr ([], pd)
      else case get_command_id t cluster response of
        None \<Rightarrow> Inr ([], pd)
      | Some cmd \<Rightarrow>
          rbind (if cmd \<in> set doorlock_response_commands then response_status j else Inr ''0'') (\<lambda>status.
          case pd_request pd of
            None \<Rightarrow> Inr ([], pd)
          | Some request \<Rightarrow>
              rbind (stoi status) (\<lambda>n.
              Inr ([(request, \<lparr>cp_endpoint = be_matter_endpoint node, cp_cluster = DoorLock_Id,
                       cp_command = cmd\<rparr>, if n = 1 then Success else Failure)],
                   pd\<lparr>pd_request := None\<rparr>))))"

section \<open>The switch of a handler\<close>

text \<open>
  A case with a Unify command: its name, the members of the payload (the JSON key, the field of the
  command, and whether the field is optional), and the name of the response, empty when there is none.
  A \<open>Manual\<close> case calls a method that adds a status of its own.
\<close>

datatype command_case =
    Mapped string "(string \<times> string \<times> bool) list" string
  | Manual

type_synonym command_cases = "(command_id \<times> command_case) list"

abbreviation arg_of :: "string \<Rightarrow> string \<Rightarrow> string \<times> string \<times> bool" where
  "arg_of k f \<equiv> (k, f, False)"

abbreviation opt :: "string \<Rightarrow> string \<Rightarrow> string \<times> string \<times> bool" where
  "opt k f \<equiv> (k, f, True)"

text \<open>Each member is set in a \<open>try\<close> block of its own.\<close>

fun put_each :: "args \<Rightarrow> (string \<times> string \<times> bool) list \<Rightarrow> json \<Rightarrow> json" where
  "put_each as [] j = j"
| "put_each as ((k, f, optional) # kfs) j =
     (if optional \<and> map_of as f = None then put_each as kfs j
      else case jset k (to_json (field as f)) j of
        Inr j' \<Rightarrow> put_each as kfs j'
      | Inl _ \<Rightarrow> put_each as kfs j)"

definition run_case ::
  "command_case option \<Rightarrow> handler_ctx \<Rightarrow> string \<Rightarrow> json \<Rightarrow> handler_ctx \<times> string \<times> json \<times> string" where
  "run_case cs ctx cmd payload =
     (case cs of
        None \<Rightarrow> (ctx, cmd, payload, [])
      | Some (Mapped name kfs response) \<Rightarrow>
          (let (decoded, ctx) = decode ctx in
           (ctx, name, (case decoded of Some as \<Rightarrow> put_each as kfs payload | None \<Rightarrow> payload), response))
      | Some Manual \<Rightarrow>
          (let (decoded, ctx) = decode ctx in
           ((case decoded of
               Some _ \<Rightarrow> set_command_handled (add_status UnsupportedCommand ctx)
             | None \<Rightarrow> ctx), cmd, payload, [])))"

section \<open>The tables\<close>

definition identify_cases :: command_cases where
  "identify_cases =
     [(0, Mapped ''Identify'' [arg_of ''IdentifyTime'' ''identifyTime''] ''''),
      (64, Mapped ''TriggerEffect'' [arg_of ''EffectIdentifier'' ''effectIdentifier'',
          arg_of ''EffectVariant'' ''effectVariant''] '''')]"

definition groups_cases :: command_cases where
  "groups_cases =
     [(0, Mapped ''AddGroup'' [arg_of ''GroupId'' ''groupID'',
          arg_of ''GroupName'' ''groupName''] ''''),
      (1, Mapped ''ViewGroup'' [arg_of ''GroupId'' ''groupID''] ''''),
      (2, Mapped ''GetGroupMembership'' [arg_of ''GroupList'' ''groupList''] ''''),
      (3, Mapped ''RemoveGroup'' [arg_of ''GroupId'' ''groupID''] ''''),
      (4, Mapped ''RemoveAllGroups'' [] ''''),
      (5, Mapped ''AddGroupIfIdentifying'' [arg_of ''GroupId'' ''groupID'',
          arg_of ''GroupName'' ''groupName''] '''')]"

definition onoff_cases :: command_cases where
  "onoff_cases =
     [(0, Mapped ''Off'' [] ''''),
      (1, Mapped ''On'' [] ''''),
      (2, Mapped ''Toggle'' [] ''''),
      (64, Mapped ''OffWithEffect'' [arg_of ''EffectIdentifier'' ''effectIdentifier'',
          arg_of ''EffectVariant'' ''effectVariant''] ''''),
      (65, Mapped ''OnWithRecallGlobalScene'' [] ''''),
      (66, Mapped ''OnWithTimedOff'' [arg_of ''OnOffControl'' ''onOffControl'',
          arg_of ''OnTime'' ''onTime'', arg_of ''OffWaitTime'' ''offWaitTime''] '''')]"

definition level_plain_cases :: command_cases where
  "level_plain_cases =
     [(0, Mapped ''MoveToLevel'' [arg_of ''Level'' ''level'',
          arg_of ''TransitionTime'' ''transitionTime'', arg_of ''OptionsMask'' ''optionsMask'',
          arg_of ''OptionsOverride'' ''optionsOverride''] ''''),
      (1, Mapped ''Move'' [arg_of ''MoveMode'' ''moveMode'', arg_of ''Rate'' ''rate'',
          arg_of ''OptionsMask'' ''optionsMask'', arg_of ''OptionsOverride'' ''optionsOverride'']
          ''''),
      (2, Mapped ''Step'' [arg_of ''StepMode'' ''stepMode'', arg_of ''StepSize'' ''stepSize'',
          arg_of ''TransitionTime'' ''transitionTime'', arg_of ''OptionsMask'' ''optionsMask'',
          arg_of ''OptionsOverride'' ''optionsOverride''] ''''),
      (3, Mapped ''Stop'' [arg_of ''OptionsMask'' ''optionsMask'',
          arg_of ''OptionsOverride'' ''optionsOverride''] '''')]"

definition level_onoff_cases :: command_cases where
  "level_onoff_cases =
     [(4, Mapped ''MoveToLevelWithOnOff'' [arg_of ''Level'' ''level'',
          arg_of ''TransitionTime'' ''transitionTime'', arg_of ''OptionsMask'' ''optionsMask'',
          arg_of ''OptionsOverride'' ''optionsOverride''] ''''),
      (5, Mapped ''MoveWithOnOff'' [arg_of ''MoveMode'' ''moveMode'', arg_of ''Rate'' ''rate'',
          arg_of ''OptionsMask'' ''optionsMask'', arg_of ''OptionsOverride'' ''optionsOverride'']
          ''''),
      (6, Mapped ''StepWithOnOff'' [arg_of ''StepMode'' ''stepMode'',
          arg_of ''StepSize'' ''stepSize'', arg_of ''TransitionTime'' ''transitionTime'',
          arg_of ''OptionsMask'' ''optionsMask'', arg_of ''OptionsOverride'' ''optionsOverride'']
          ''''),
      (7, Mapped ''StopWithOnOff'' [arg_of ''OptionsMask'' ''optionsMask'',
          arg_of ''OptionsOverride'' ''optionsOverride''] ''''),
      (8, Mapped ''MoveToClosestFrequency'' [arg_of ''Frequency'' ''frequency''] '''')]"

definition doorlock_lock_cases :: command_cases where
  "doorlock_lock_cases =
     [(0, Mapped ''LockDoor'' [opt ''PINOrRFIDCode'' ''PINCode''] ''LockDoorResponse''),
      (1, Mapped ''UnlockDoor'' [opt ''PINOrRFIDCode'' ''PINCode''] ''UnlockDoorResponse''),
      (3, Mapped ''UnlockWithTimeout'' [arg_of ''TimeoutInSeconds'' ''timeout'',
          opt ''PINOrRFIDCode'' ''PINCode''] ''UnlockWithTimeoutResponse'')]"

definition doorlock_week_cases :: command_cases where
  "doorlock_week_cases =
     [(11, Mapped ''SetWeekdaySchedule'' [arg_of ''ScheduleID'' ''weekDayIndex'',
          arg_of ''UserID'' ''userIndex'', arg_of ''DaysMask'' ''daysMask'',
          arg_of ''StartHour'' ''startHour'', arg_of ''StartMinute'' ''startMinute'',
          arg_of ''EndHour'' ''endHour'', arg_of ''EndMinute'' ''endMinute'']
          ''SetWeekdayScheduleResponse''),
      (12, Mapped ''GetWeekdaySchedule'' [arg_of ''ScheduleID'' ''weekDayIndex'',
          arg_of ''UserID'' ''userIndex''] ''GetWeekdayScheduleResponse''),
      (13, Mapped ''ClearWeekdaySchedule'' [arg_of ''ScheduleID'' ''weekDayIndex'',
          arg_of ''UserID'' ''userIndex''] ''ClearWeekdayScheduleResponse'')]"

definition doorlock_year_cases :: command_cases where
  "doorlock_year_cases =
     [(14, Mapped ''SetYearDaySchedule'' [arg_of ''ScheduleID'' ''yearDayIndex'',
          arg_of ''UserID'' ''userIndex'', arg_of ''LocalStartTime'' ''localStartTime'',
          arg_of ''LocalEndTime'' ''localEndTime''] ''SetYearDayScheduleResponse''),
      (15, Mapped ''GetYearDaySchedule'' [arg_of ''ScheduleID'' ''yearDayIndex'',
          arg_of ''UserID'' ''userIndex''] ''GetYearDayScheduleResponse''),
      (16, Mapped ''ClearYearDaySchedule'' [arg_of ''ScheduleID'' ''yearDayIndex'',
          arg_of ''UserID'' ''userIndex''] ''ClearYearDayScheduleResponse'')]"

definition doorlock_holiday_cases :: command_cases where
  "doorlock_holiday_cases =
     [(17, Mapped ''SetHolidaySchedule'' [arg_of ''HolidayScheduleID'' ''holidayIndex'',
          arg_of ''LocalStartTime'' ''localStartTime'', arg_of ''LocalEndTime'' ''localEndTime'',
          arg_of ''OperatingModeDuringHoliday'' ''operatingMode'']
          ''SetHolidayScheduleResponse''),
      (18, Mapped ''GetHolidaySchedule'' [arg_of ''HolidayScheduleID'' ''holidayIndex'']
          ''GetHolidayScheduleResponse''),
      (19, Mapped ''ClearHolidaySchedule'' [arg_of ''HolidayScheduleID'' ''holidayIndex'']
          ''ClearHolidayScheduleResponse'')]"

definition doorlock_user_cases :: command_cases where
  "doorlock_user_cases =
     [(26, Mapped ''SetUser'' [arg_of ''OperationType'' ''operationType'',
          arg_of ''UserIndex'' ''userIndex'', arg_of ''UserName'' ''userName'',
          arg_of ''UserUniqueID'' ''userUniqueID'', arg_of ''UserStatus'' ''userStatus'',
          arg_of ''UserType'' ''userType'', arg_of ''CredentialRule'' ''credentialRule''] ''''),
      (27, Mapped ''GetUser'' [arg_of ''UserIndex'' ''userIndex''] ''''),
      (29, Mapped ''ClearUser'' [arg_of ''UserIndex'' ''userIndex''] '''')]"

definition doorlock_credential_cases :: command_cases where
  "doorlock_credential_cases =
     [(34, Mapped ''SetCredential'' [arg_of ''OperationType'' ''operationType'',
          arg_of ''Credential'' ''credential'', arg_of ''CredentialData'' ''credentialData'',
          arg_of ''UserIndex'' ''userIndex'', arg_of ''UserStatus'' ''userStatus'',
          arg_of ''UserType'' ''userType''] ''''),
      (36, Mapped ''GetCredentialStatus'' [arg_of ''Credential'' ''credential''] ''''),
      (38, Mapped ''ClearCredential'' [arg_of ''Credential'' ''credential''] ''''),
      (39, Mapped ''UnboltDoor'' [opt ''PINCode'' ''PINCode''] ''''),
      (40, Manual),
      (41, Manual)]"

definition window_covering_cases :: command_cases where
  "window_covering_cases =
     [(0, Mapped ''UpOrOpen'' [] ''''),
      (1, Mapped ''DownOrClose'' [] ''''),
      (2, Mapped ''Stop'' [] ''''),
      (4, Mapped ''GoToLiftValue'' [arg_of ''LiftValue'' ''liftValue''] ''''),
      (5, Mapped ''GoToLiftPercentage''
          [arg_of ''PercentageLiftValue'' ''liftPercent100thsValue''] ''''),
      (7, Mapped ''GoToTiltValue'' [arg_of ''TiltValue'' ''tiltValue''] ''''),
      (8, Mapped ''GoToTiltPercentage''
          [arg_of ''PercentageTiltValue'' ''tiltPercent100thsValue''] '''')]"

definition thermostat_cases :: command_cases where
  "thermostat_cases =
     [(0, Mapped ''SetpointRaiseOrLower'' [arg_of ''Mode'' ''mode'',
          arg_of ''Amount'' ''amount''] ''''),
      (1, Mapped ''SetWeeklySchedule''
          [arg_of ''NumberOfTransitions'' ''numberOfTransitionsForSequence'',
          arg_of ''DayOfWeek'' ''dayOfWeekForSequence'', arg_of ''Mode'' ''modeForSequence'',
          arg_of ''Transitions'' ''transitions''] ''''),
      (2, Mapped ''GetWeeklySchedule'' [arg_of ''DaysToReturn'' ''daysToReturn'',
          arg_of ''ModeToReturn'' ''modeToReturn''] ''''),
      (3, Mapped ''ClearWeeklySchedule'' [] ''''),
      (5, Manual),
      (6, Manual),
      (254, Manual)]"

definition color_hue_cases :: command_cases where
  "color_hue_cases =
     [(0, Mapped ''MoveToHue'' [arg_of ''Hue'' ''hue'', arg_of ''Direction'' ''direction'',
          arg_of ''TransitionTime'' ''transitionTime'', arg_of ''OptionsMask'' ''optionsMask'',
          arg_of ''OptionsOverride'' ''optionsOverride''] ''''),
      (1, Mapped ''MoveHue'' [arg_of ''MoveMode'' ''moveMode'', arg_of ''Rate'' ''rate'',
          arg_of ''OptionsMask'' ''optionsMask'', arg_of ''OptionsOverride'' ''optionsOverride'']
          ''''),
      (2, Mapped ''StepHue'' [arg_of ''StepMode'' ''stepMode'', arg_of ''StepSize'' ''stepSize'',
          arg_of ''TransitionTime'' ''transitionTime'', arg_of ''OptionsMask'' ''optionsMask'',
          arg_of ''OptionsOverride'' ''optionsOverride''] '''')]"

definition color_saturation_cases :: command_cases where
  "color_saturation_cases =
     [(3, Mapped ''MoveToSaturation'' [arg_of ''Saturation'' ''saturation'',
          arg_of ''TransitionTime'' ''transitionTime'', arg_of ''OptionsMask'' ''optionsMask'',
          arg_of ''OptionsOverride'' ''optionsOverride''] ''''),
      (4, Mapped ''MoveSaturation'' [arg_of ''MoveMode'' ''moveMode'', arg_of ''Rate'' ''rate'',
          arg_of ''OptionsMask'' ''optionsMask'', arg_of ''OptionsOverride'' ''optionsOverride'']
          ''''),
      (5, Mapped ''StepSaturation'' [arg_of ''StepMode'' ''stepMode'',
          arg_of ''StepSize'' ''stepSize'', arg_of ''TransitionTime'' ''transitionTime'',
          arg_of ''OptionsMask'' ''optionsMask'', arg_of ''OptionsOverride'' ''optionsOverride'']
          ''''),
      (6, Mapped ''MoveToHueAndSaturation'' [arg_of ''Hue'' ''hue'',
          arg_of ''Saturation'' ''saturation'', arg_of ''TransitionTime'' ''transitionTime'',
          arg_of ''OptionsMask'' ''optionsMask'', arg_of ''OptionsOverride'' ''optionsOverride'']
          '''')]"

definition color_xy_cases :: command_cases where
  "color_xy_cases =
     [(7, Mapped ''MoveToColor'' [arg_of ''ColorX'' ''colorX'', arg_of ''ColorY'' ''colorY'',
          arg_of ''TransitionTime'' ''transitionTime'', arg_of ''OptionsMask'' ''optionsMask'',
          arg_of ''OptionsOverride'' ''optionsOverride''] ''''),
      (8, Mapped ''MoveColor'' [arg_of ''RateX'' ''rateX'', arg_of ''RateY'' ''rateY'',
          arg_of ''OptionsMask'' ''optionsMask'', arg_of ''OptionsOverride'' ''optionsOverride'']
          ''''),
      (9, Mapped ''StepColor'' [arg_of ''StepX'' ''stepX'', arg_of ''StepY'' ''stepY'',
          arg_of ''TransitionTime'' ''transitionTime'', arg_of ''OptionsMask'' ''optionsMask'',
          arg_of ''OptionsOverride'' ''optionsOverride''] ''''),
      (10, Mapped ''MoveToColorTemperature''
          [arg_of ''ColorTemperatureMireds'' ''colorTemperatureMireds'',
          arg_of ''TransitionTime'' ''transitionTime'', arg_of ''OptionsMask'' ''optionsMask'',
          arg_of ''OptionsOverride'' ''optionsOverride''] '''')]"

definition color_enhanced_cases :: command_cases where
  "color_enhanced_cases =
     [(64, Mapped ''EnhancedMoveToHue'' [arg_of ''EnhancedHue'' ''enhancedHue'',
          arg_of ''Direction'' ''direction'', arg_of ''TransitionTime'' ''transitionTime'',
          arg_of ''OptionsMask'' ''optionsMask'', arg_of ''OptionsOverride'' ''optionsOverride'']
          ''''),
      (65, Mapped ''EnhancedMoveHue'' [arg_of ''MoveMode'' ''moveMode'',
          arg_of ''Rate'' ''rate'', arg_of ''OptionsMask'' ''optionsMask'',
          arg_of ''OptionsOverride'' ''optionsOverride''] ''''),
      (66, Mapped ''EnhancedStepHue'' [arg_of ''StepMode'' ''stepMode'',
          arg_of ''StepSize'' ''stepSize'', arg_of ''TransitionTime'' ''transitionTime'',
          arg_of ''OptionsMask'' ''optionsMask'', arg_of ''OptionsOverride'' ''optionsOverride'']
          ''''),
      (67, Mapped ''EnhancedMoveToHueAndSaturation'' [arg_of ''EnhancedHue'' ''enhancedHue'',
          arg_of ''Saturation'' ''saturation'', arg_of ''TransitionTime'' ''transitionTime'',
          arg_of ''OptionsMask'' ''optionsMask'', arg_of ''OptionsOverride'' ''optionsOverride'']
          '''')]"

definition color_rest_cases :: command_cases where
  "color_rest_cases =
     [(68, Mapped ''ColorLoopSet'' [arg_of ''UpdateFlags'' ''updateFlags'',
          arg_of ''Action'' ''action'', arg_of ''Direction'' ''direction'',
          arg_of ''Time'' ''time'', arg_of ''StartHue'' ''startHue'',
          arg_of ''OptionsMask'' ''optionsMask'', arg_of ''OptionsOverride'' ''optionsOverride'']
          ''''),
      (71, Mapped ''StopMoveStep'' [arg_of ''OptionsMask'' ''optionsMask'',
          arg_of ''OptionsOverride'' ''optionsOverride''] ''''),
      (75, Mapped ''MoveColorTemperature'' [arg_of ''MoveMode'' ''moveMode'',
          arg_of ''Rate'' ''rate'',
          arg_of ''ColorTemperatureMinimumMireds'' ''colorTemperatureMinimumMireds'',
          arg_of ''ColorTemperatureMaximumMireds'' ''colorTemperatureMaximumMireds'',
          arg_of ''OptionsMask'' ''optionsMask'', arg_of ''OptionsOverride'' ''optionsOverride'']
          ''''),
      (76, Mapped ''StepColorTemperature'' [arg_of ''StepMode'' ''stepMode'',
          arg_of ''StepSize'' ''stepSize'', arg_of ''TransitionTime'' ''transitionTime'',
          arg_of ''ColorTemperatureMinimumMireds'' ''colorTemperatureMinimumMireds'',
          arg_of ''ColorTemperatureMaximumMireds'' ''colorTemperatureMaximumMireds'',
          arg_of ''OptionsMask'' ''optionsMask'', arg_of ''OptionsOverride'' ''optionsOverride'']
          '''')]"

definition level_cases :: command_cases where
  "level_cases = level_plain_cases @ level_onoff_cases"

definition doorlock_cases :: command_cases where
  "doorlock_cases = doorlock_lock_cases @ doorlock_week_cases @ doorlock_year_cases @
     doorlock_holiday_cases @ doorlock_user_cases @ doorlock_credential_cases"

definition color_cases :: command_cases where
  "color_cases = color_hue_cases @ color_saturation_cases @ color_xy_cases @ color_enhanced_cases
     @ color_rest_cases"

section \<open>The handler\<close>

text \<open>\<open>None\<close>: the emulator has completed the command.\<close>

definition emulate_first ::
  "cache \<Rightarrow> handler_ctx \<Rightarrow> (cache \<times> handler_ctx \<times> (string \<times> json) option) res" where
  "emulate_first c ctx =
     (if is_command_emulated (hc_path ctx) then
        rbind (emulator_invoke_command c ctx new_cmd_payload) (\<lambda>(_, c, ctx, d).
        Inr (c, ctx, if ecp_completed d then None else Some (ecp_cmd d, ecp_payload d)))
      else Inr (c, ctx, Some ([], JNull)))"

definition finish_command ::
  "translator_env \<Rightarrow> string \<Rightarrow> handler_ctx \<Rightarrow> string \<Rightarrow> json \<Rightarrow> string \<Rightarrow> pending_map \<Rightarrow>
     (mqtt_action list \<times> handler_ctx \<times> pending_map) res" where
  "finish_command env cluster ctx cmd payload response p =
     rbind (if response \<noteq> [] \<and> cmd \<noteq> [] then
              send_unify_mqtt_cmd env cluster ctx cmd payload response p
            else if cmd \<noteq> [] then
              send_unify_mqtt_cmd env cluster (add_status Success ctx) cmd payload [] p
            else Inr ([], add_status UnsupportedCommand ctx, p))
       (\<lambda>(out, ctx, p). Inr (out, set_command_handled ctx, p))"

definition invoke_command ::
  "translator_env \<Rightarrow> string \<Rightarrow> command_cases \<Rightarrow> cache \<Rightarrow> handler_ctx \<Rightarrow> pending_map \<Rightarrow>
     (mqtt_action list \<times> cache \<times> handler_ctx \<times> pending_map) res" where
  "invoke_command env cluster cases c ctx p =
     (case bridged_endpoint_by_matter (te_table env) (cp_endpoint (hc_path ctx)) of
        None \<Rightarrow> Inr ([], c, ctx, p)
      | Some _ \<Rightarrow>
          rbind (emulate_first c ctx) (\<lambda>(c, ctx, todo).
          case todo of
            None \<Rightarrow> Inr ([], c, ctx, p)
          | Some (cmd, payload) \<Rightarrow>
              (let (ctx, cmd, payload, response) =
                     run_case (map_of cases (cp_command (hc_path ctx))) ctx cmd payload
               in rbind (finish_command env cluster ctx cmd payload response p)
                    (\<lambda>(out, ctx, p). Inr (out, c, ctx, p)))))"

text \<open>The generated handlers: the name a handler uses in topics, and its cases. The sensor clusters have none. The one of
  the groups cluster is generated like the others, but \<open>main\<close> creates another handler in its place.\<close>

definition generated_handler :: "cluster_id \<Rightarrow> (string \<times> command_cases) option" where
  "generated_handler cl = map_of
     [(Identify_Id, ''Identify'', identify_cases), (Groups_Id, ''Groups'', groups_cases),
      (OnOff_Id, ''OnOff'', onoff_cases), (LevelControl_Id, ''Level'', level_cases),
      (DoorLock_Id, ''DoorLock'', doorlock_cases),
      (WindowCovering_Id, ''WindowCovering'', window_covering_cases),
      (Thermostat_Id, ''Thermostat'', thermostat_cases),
      (ColorControl_Id, ''ColorControl'', color_cases),
      (1024, ''IlluminanceMeasurement'', []), (TemperatureMeasurement_Id, ''TemperatureMeasurement'', []),
      (PressureMeasurement_Id, ''PressureMeasurement'', []), (1028, ''FlowMeasurement'', []),
      (1029, ''RelativityHumidity'', []), (1030, ''OccupancySensing'', [])] cl"

text \<open>\<open>EnumerateAcceptedCommands\<close> of the generated handlers (command_translator.hpp).\<close>

definition identify_commands :: "command_id list" where
  "identify_commands = [0, 64]"

definition groups_commands :: "command_id list" where
  "groups_commands = [0, 1, 2, 3, 4, 5]"

definition onoff_commands :: "command_id list" where
  "onoff_commands = [0, 1, 2, 64, 65, 66]"

definition level_commands :: "command_id list" where
  "level_commands = [0, 1, 2, 3, 4, 5, 6, 7, 8]"

definition doorlock_commands :: "command_id list" where
  "doorlock_commands = [0, 1, 3, 11, 12, 13, 14, 15, 16, 17, 18, 19, 26, 27, 29, 34, 36, 38, 39, 40, 41]"

definition window_covering_commands :: "command_id list" where
  "window_covering_commands = [0, 1, 2, 4, 5, 7, 8]"

definition thermostat_commands :: "command_id list" where
  "thermostat_commands = [0, 1, 2, 3, 5, 6, 254]"

definition color_commands :: "command_id list" where
  "color_commands = [0, 1, 2, 3, 4, 5, 6, 7, 8, 9, 10, 64, 65, 66, 67, 68, 71, 75, 76]"

definition accepted_commands :: "cluster_id \<Rightarrow> command_id list" where
  "accepted_commands cl =
     (if cl = Identify_Id then identify_commands
      else if cl = Groups_Id then groups_commands
      else if cl = OnOff_Id then onoff_commands
      else if cl = LevelControl_Id then level_commands
      else if cl = DoorLock_Id then doorlock_commands
      else if cl = WindowCovering_Id then window_covering_commands
      else if cl = Thermostat_Id then thermostat_commands
      else if cl = ColorControl_Id then color_commands
      else [])"

lemmas accepted_commands_defs = accepted_commands_def identify_commands_def groups_commands_def onoff_commands_def level_commands_def
  doorlock_commands_def window_covering_commands_def thermostat_commands_def color_commands_def

fun enumerate_commands :: "(command_id \<Rightarrow> 's \<Rightarrow> bool \<times> 's) \<Rightarrow> command_id list \<Rightarrow> 's \<Rightarrow> 's" where
  "enumerate_commands callback [] s = s"
| "enumerate_commands callback (cmd # cmds) s =
     (case callback cmd s of (continue, s) \<Rightarrow> if continue then enumerate_commands callback cmds s else s)"

section \<open>Payloads\<close>

lemma put_each_object:
  assumes "distinct (map fst ms @ map fst kfs)"
  shows "put_each as kfs (JObject ms) = JObject (ms @ map (\<lambda>(k, f, _). (k, to_json (field as f)))
    (filter (\<lambda>(_, f, optional). optional \<longrightarrow> map_of as f \<noteq> None) kfs))"
  using assms
proof (induction kfs arbitrary: ms)
  case (Cons x kfs)
  obtain k f optional where x: "x = (k, f, optional)" by (cases x)
  show ?case
  proof (cases "optional \<and> map_of as f = None")
    case True
    then show ?thesis using Cons.IH [of ms] Cons.prems by (simp add: x)
  next
    case False
    then show ?thesis
      using Cons.IH [of "ms @ [(k, to_json (field as f))]"] Cons.prems by (auto simp: x)
  qed
qed simp

text \<open>The payload of a command: an object with the present fields in order, null when there is none.\<close>

definition members :: "args \<Rightarrow> (string \<times> string \<times> bool) list \<Rightarrow> (string \<times> json) list" where
  "members as kfs = map (\<lambda>(k, f, _). (k, to_json (field as f)))
     (filter (\<lambda>(_, f, optional). optional \<longrightarrow> map_of as f \<noteq> None) kfs)"

lemma put_each_null:
  assumes "distinct (map fst kfs)"
  shows "put_each as kfs JNull = (if members as kfs = [] then JNull else JObject (members as kfs))"
  using assms
proof (induction kfs)
  case (Cons x kfs)
  obtain k f optional where x: "x = (k, f, optional)" by (cases x)
  show ?case
  proof (cases "optional \<and> map_of as f = None")
    case True
    then show ?thesis using Cons by (simp add: x members_def)
  next
    case False
    then show ?thesis
      using put_each_object [of "[(k, to_json (field as f))]" kfs as] Cons.prems
      by (auto simp: x members_def)
  qed
qed (simp add: members_def)

section \<open>Sending\<close>

lemma send_without_response:
  assumes "bridged_endpoint_by_matter (te_table env) (cp_endpoint (hc_path ctx)) = Some node"
  shows "send_unify_mqtt_cmd env cluster ctx cmd payload [] p =
    (case target_topic env node (hc_session ctx) of
       None \<Rightarrow> Inr ([], ctx, p)
     | Some topic \<Rightarrow> rbind (publish_command env topic cluster cmd payload) (\<lambda>out. Inr (out, ctx, p)))"
  using assms by (simp add: send_unify_mqtt_cmd_def)

lemma invoke_plain:
  assumes "bridged_endpoint_by_matter (te_table env) (cp_endpoint (hc_path ctx)) = Some node"
    and "\<not> is_command_emulated (hc_path ctx)"
    and "map_of cases (cp_command (hc_path ctx)) = Some (Mapped name kfs [])" and "name \<noteq> []"
    and "fst (decode ctx) = Some as" and "distinct (map fst kfs)"
  shows "\<exists>ctx'. invoke_command env cluster cases c ctx p =
      (case target_topic env node (hc_session ctx) of
         None \<Rightarrow> Inr ([], c, ctx', p)
       | Some topic \<Rightarrow> rbind (publish_command env topic cluster name
             (if members as kfs = [] then JNull else JObject (members as kfs)))
           (\<lambda>out. Inr (out, c, ctx', p))) \<and>
    hc_statuses ctx' = hc_statuses ctx @ [(hc_path ctx, Success)] \<and> hc_handled ctx'"
proof -
  obtain ctx1 where d: "decode ctx = (Some as, ctx1)" using assms(5) by (cases "decode ctx") auto
  then have f: "hc_path ctx1 = hc_path ctx" "hc_session ctx1 = hc_session ctx"
    "hc_statuses ctx1 = hc_statuses ctx" using decode_frame [of ctx] by simp_all
  show ?thesis
    using assms(1-4) f
    by (intro exI [of _ "set_command_handled (add_status Success ctx1)"])
      (simp add: invoke_command_def emulate_first_def run_case_def d finish_command_def
        send_without_response put_each_null [OF assms(6)] rbind_assoc split: option.split)
qed

section \<open>Responses\<close>

lemma clear_timedout_Some:
  "clear_timedout now p k = Some pd \<longleftrightarrow> p k = Some pd \<and> \<not> ishandler_timedout now (pd_since pd)"
  by (auto simp: clear_timedout_def split: option.splits)

lemma doorlock_response_since:
  "doorlock_command_response t node cluster response j pd = Inr (out, pd') \<Longrightarrow> pd_since pd' = pd_since pd"
  by (auto simp: doorlock_command_response_def rbind_eq_Inr split: if_splits option.splits)

lemma response_delivered:
  assumes "no_slash (be_unify_unid node)" and "no_slash response" and "no_slash cluster \<and> cluster \<noteq> []"
    and "response \<noteq> []" and "msg \<noteq> []"
    and "bridged_endpoint_by_unify (te_table env) (be_unify_unid node) (uint (be_unify_endpoint node)) = Some node"
    and "p (response_key node cluster response) = Some pd"
    and "\<not> ishandler_timedout (te_now env) (pd_since pd)"
  shows "command_on_mqtt_message env parse handle (response_key node cluster response) msg p =
    (case rbind (parse msg) (\<lambda>j. handle node cluster response j pd) of
      Inr (out, pd') \<Rightarrow> Inr (out, p(response_key node cluster response \<mapsto> pd'))
    | Inl e \<Rightarrow> if is_caught e then Inr ([], p) else Inl e)"
proof -
  have topic: "regex_search match_command_topic (response_key node cluster response) =
      Some (be_unify_unid node, word_to_string (be_unify_endpoint node), cluster, response)"
    using assms(1-3)
    by (intro regex_search_here) (simp add: response_key_def match_command_topic_compose no_slash_def)
  have n: "stoi (word_to_string (be_unify_endpoint node)) = Inr (uint (be_unify_endpoint node))"
    by (simp add: stoi_word)
  show ?thesis
    using assms(3-8) topic n by (simp add: command_on_mqtt_message_def deliver_response_def)
qed

lemma deliver_keeps_pending:
  assumes "deliver_response env parse handle topic msg p = Inr (out, p')"
    and "\<And>j pd out pd'. handle j pd = Inr (out, pd') \<Longrightarrow> pd_since pd' = pd_since pd"
    and "p key = Some pd" and "\<not> ishandler_timedout (te_now env) (pd_since pd)"
  shows "\<exists>pd'. p' key = Some pd' \<and> pd_since pd' = pd_since pd"
proof (cases "p topic")
  case None
  then show ?thesis using assms(1,3) by (auto simp: deliver_response_def)
next
  case (Some q)
  show ?thesis
  proof (cases "topic = key")
    case True
    then have q: "q = pd" using Some assms(3) by simp
    show ?thesis
    proof (cases "rbind (parse msg) (\<lambda>j. handle j pd)")
      case (Inl e)
      then show ?thesis using assms(1,3,4) Some q by (auto simp: deliver_response_def split: if_splits)
    next
      case (Inr r)
      obtain j where "handle j pd = Inr r" using Inr by (auto simp: rbind_eq_Inr)
      then have "pd_since (snd r) = pd_since pd" using assms(2) [of j pd "fst r" "snd r"] by simp
      moreover have "p' = p(key \<mapsto> snd r)"
        using assms(1,4) Some q Inr True by (cases r) (auto simp: deliver_response_def)
      ultimately show ?thesis by simp
    qed
  next
    case False
    then have "p' key = p key" using assms(1) Some
      by (auto simp: deliver_response_def split: if_splits sum.splits)
    then show ?thesis using assms(3) by simp
  qed
qed

lemma response_keeps_pending:
  assumes "command_on_mqtt_message env parse (doorlock_command_response t) topic msg p = Inr (out, p')"
    and "p key = Some pd" and "\<not> ishandler_timedout (te_now env) (pd_since pd)"
  shows "\<exists>pd'. p' key = Some pd' \<and> pd_since pd' = pd_since pd"
proof (cases "regex_search match_command_topic topic")
  case None
  then show ?thesis using assms by (simp add: command_on_mqtt_message_def)
next
  case (Some m)
  obtain u ep cluster response where m: "m = (u, ep, cluster, response)" by (cases m)
  show ?thesis
  proof (cases "stoi ep")
    case (Inl e)
    then show ?thesis using assms(1) Some m by (simp add: command_on_mqtt_message_def)
  next
    case (Inr n)
    show ?thesis
    proof (cases "bridged_endpoint_by_unify (te_table env) u n = None \<or> response = [] \<or> cluster = [] \<or> msg = []")
      case True
      then have "p' = p" using assms(1) Some m Inr
        by (auto simp: command_on_mqtt_message_def split: option.splits)
      then show ?thesis using assms(2) by simp
    next
      case False
      then obtain node where
          "deliver_response env parse (doorlock_command_response t node cluster response) topic msg p = Inr (out, p')"
        using assms(1) Some m Inr by (auto simp: command_on_mqtt_message_def)
      then show ?thesis
        by (rule deliver_keeps_pending) (rule doorlock_response_since, assumption, rule assms(2), rule assms(3))
    qed
  qed
qed

lemma send_registers_pending:
  assumes "send_unify_mqtt_cmd env cluster ctx cmd payload response p = Inr (out, ctx', p')"
    and "bridged_endpoint_by_matter (te_table env) (cp_endpoint (hc_path ctx)) = Some node"
    and "response \<noteq> []" and "out \<noteq> []"
  shows "p' (response_key node cluster response) =
    Some \<lparr>pd_request = Some (te_request env), pd_since = te_now env\<rparr> \<and> ctx' = ctx"
  using assms
  by (auto simp: send_unify_mqtt_cmd_def publish_command_def rbind_eq_Inr Let_def
      split: option.splits if_splits)

lemma send_busy:
  assumes "bridged_endpoint_by_matter (te_table env) (cp_endpoint (hc_path ctx)) = Some node"
    and "response \<noteq> []" and "p (response_key node cluster response) = Some pd"
    and "\<not> ishandler_timedout (te_now env) (pd_since pd)"
  shows "send_unify_mqtt_cmd env cluster ctx cmd payload response p =
    Inr ([], add_status Busy ctx, clear_timedout (te_now env) p)"
proof -
  have "clear_timedout (te_now env) p (response_key node cluster response) = Some pd"
    using assms(3,4) by (simp add: clear_timedout_Some)
  then show ?thesis using assms(1,2) by (simp add: send_unify_mqtt_cmd_def Let_def)
qed

section \<open>A sample bridge\<close>

definition sample_te :: "int \<Rightarrow> nat \<Rightarrow> translator_env" where
  "sample_te now request = \<lparr>te_table = nm_endpoints two_nodes, te_unify_group = (\<lambda>_. None),
     te_dump = (\<lambda>_. Inr ''{...}''), te_now = now, te_request = request\<rparr>"

definition sample_ctx :: "session \<Rightarrow> endpoint_id \<Rightarrow> cluster_id \<Rightarrow> command_id \<Rightarrow> args option \<Rightarrow> handler_ctx" where
  "sample_ctx s e cl cmd as = \<lparr>hc_path = \<lparr>cp_endpoint = e, cp_cluster = cl, cp_command = cmd\<rparr>,
     hc_session = s, hc_decode = (\<lambda>_. as), hc_decodes = 0, hc_statuses = [], hc_handled = False\<rparr>"

definition lock_translator :: device_translator where
  "lock_translator = (sample_translator True)\<lparr>unify_to_matter_command_id_map :=
     [''DoorLock'' \<mapsto> [''LockDoorResponse'' \<mapsto> LockDoor_Id]]\<rparr>"

definition status_one :: json where
  "status_one = JObject [(''Status'', JString ''1'')]"

abbreviation lock_bridge :: bridged_endpoint where
  "lock_bridge \<equiv> sample_bridge ''zw-2'' 0 4 [257]"

lemma sample_te_fields [simp]:
  "te_table (sample_te now r) = nm_endpoints two_nodes" "te_unify_group (sample_te now r) g = None"
  "te_dump (sample_te now r) j = Inr ''{...}''" "te_now (sample_te now r) = now"
  "te_request (sample_te now r) = r"
  by (simp_all add: sample_te_def)

lemma sample_ctx_fields [simp]:
  "hc_path (sample_ctx s e cl cmd as) = \<lparr>cp_endpoint = e, cp_cluster = cl, cp_command = cmd\<rparr>"
  "hc_session (sample_ctx s e cl cmd as) = s" "hc_statuses (sample_ctx s e cl cmd as) = []"
  "fst (decode (sample_ctx s e cl cmd as)) = as"
  by (simp_all add: sample_ctx_def decode_def)

lemma lock_bridge_fields [simp]:
  "be_unify_unid lock_bridge = ''zw-2''" "be_unify_endpoint lock_bridge = 0" "be_matter_endpoint lock_bridge = 4"
  by (simp_all add: sample_bridge_def new_bridge_def)

lemma two_nodes_lookup:
  "bridged_endpoint_by_matter (nm_endpoints two_nodes) 4 = Some lock_bridge"
  "bridged_endpoint_by_unify (nm_endpoints two_nodes) ''zw-2'' 0 = Some lock_bridge"
  by (simp_all add: bridged_endpoint_by_matter_def bridged_endpoint_by_unify_def two_nodes_def
      sample_bridge_def new_bridge_def equal_range_def)

lemma lock_translator_ids:
  "get_cluster_id lock_translator ''DoorLock'' = Some DoorLock_Id"
  "get_command_id lock_translator ''DoorLock'' ''LockDoorResponse'' = Some LockDoor_Id"
  by (simp_all add: lock_translator_def sample_translator_def get_cluster_id_def get_command_id_def)

lemma word_to_string_zero: "word_to_string (0 :: u8) = ''0''"
  by code_simp

lemma stoi_zero: "stoi ''0'' = Inr 0"
  by code_simp

lemma stoi_one: "stoi ''1'' = Inr 1"
  by code_simp

section \<open>Properties\<close>

text \<open>C1: A command that is not emulated, is mapped without a response and was sent by unicast is
  published once, retained, under the topic of its Unify endpoint, the name of the Unify cluster and
  the Unify name of the command; the payload holds exactly the fields present, in order; the client is
  answered \<open>Success\<close> once and nothing is left waiting.\<close>

theorem unicast_command_forwarded:
  assumes "bridged_endpoint_by_matter (te_table env) (cp_endpoint (hc_path ctx)) = Some node"
    and "\<not> is_command_emulated (hc_path ctx)"
    and "map_of cases (cp_command (hc_path ctx)) = Some (Mapped name kfs [])" and "name \<noteq> []"
    and "fst (decode ctx) = Some as" and "distinct (map fst kfs)"
    and "hc_session ctx = Unicast_Session"
    and "members as kfs \<noteq> [] \<longrightarrow> te_dump env (JObject (members as kfs)) = Inr dumped"
  shows "\<exists>ctx'. invoke_command env cluster cases c ctx p =
      Inr ([Publish (by_unid_topic (be_unify_unid node) (be_unify_endpoint node) @ ''/'' @ cluster @
              ''/Commands/'' @ name) (if members as kfs = [] then ''{}'' else dumped) True], c, ctx', p) \<and>
    hc_statuses ctx' = hc_statuses ctx @ [(hc_path ctx, Success)] \<and> hc_handled ctx'"
  using invoke_plain [OF assms(1-6), of cluster c p] assms(7,8)
  by (auto simp: target_topic_def node_topic_def publish_command_def payload_text_def)

lemma unicast_command_forwarded_witness:
  "\<exists>ctx'. invoke_command (sample_te 0 1) ''Level'' level_cases Map.empty
       (sample_ctx Unicast_Session 4 LevelControl_Id 8 (Some [(''frequency'', A_Int 50)])) Map.empty =
     Inr ([Publish ''ucl/by-unid/zw-2/ep0/Level/Commands/MoveToClosestFrequency'' ''{...}'' True], Map.empty, ctx', Map.empty) \<and>
     hc_statuses ctx' = [(\<lparr>cp_endpoint = 4, cp_cluster = LevelControl_Id, cp_command = 8\<rparr>, Success)]"
proof -
  have m: "map_of level_cases 8 = Some (Mapped ''MoveToClosestFrequency'' [arg_of ''Frequency'' ''frequency''] [])"
    by (simp add: level_cases_def level_plain_cases_def level_onoff_cases_def)
  have e: "\<not> is_command_emulated \<lparr>cp_endpoint = 4, cp_cluster = LevelControl_Id, cp_command = 8\<rparr>"
    by (simp add: is_command_emulated_def command_emulator_map_def cluster_emulators_def emulator_defs)
  show ?thesis
    using unicast_command_forwarded [where env = "sample_te 0 1" and cluster = "''Level''" and cases = level_cases
        and ctx = "sample_ctx Unicast_Session 4 LevelControl_Id 8 (Some [(''frequency'', A_Int 50)])"
        and node = lock_bridge and as = "[(''frequency'', A_Int 50)]" and dumped = "''{...}''" and c = Map.empty and p = Map.empty
        and name = "''MoveToClosestFrequency''" and kfs = "[arg_of ''Frequency'' ''frequency'']"] m e
    by (auto simp: two_nodes_lookup members_def by_unid_topic_def word_to_string_zero)
qed

text \<open>C25: The same command sent to a group goes to the Unify group of the Matter group; without a mapping
  for the group nothing is published, and the answer is \<open>Success\<close> all the same.\<close>

theorem group_command_delivery:
  assumes "bridged_endpoint_by_matter (te_table env) (cp_endpoint (hc_path ctx)) = Some node"
    and "\<not> is_command_emulated (hc_path ctx)"
    and "map_of cases (cp_command (hc_path ctx)) = Some (Mapped name kfs [])" and "name \<noteq> []"
    and "fst (decode ctx) = Some as" and "distinct (map fst kfs)"
    and "hc_session ctx = Group_Session g f"
    and "members as kfs \<noteq> [] \<longrightarrow> te_dump env (JObject (members as kfs)) = Inr dumped"
  shows "\<exists>out ctx'. invoke_command env cluster cases c ctx p = Inr (out, c, ctx', p) \<and>
    out = (case te_unify_group env \<lparr>mg_group = g, mg_fabric_index = f\<rparr> of
       None \<Rightarrow> []
     | Some u \<Rightarrow> [Publish (''ucl/by-group/'' @ word_to_string u @ ''/'' @ cluster @ ''/Commands/'' @ name)
         (if members as kfs = [] then ''{}'' else dumped) True]) \<and>
    hc_statuses ctx' = hc_statuses ctx @ [(hc_path ctx, Success)]"
  using invoke_plain [OF assms(1-6), of cluster c p] assms(7,8)
  by (auto simp: target_topic_def publish_command_def payload_text_def split: option.splits)

lemma group_command_delivery_witness:
  "\<exists>out ctx'. invoke_command (sample_te 0 1) ''OnOff'' onoff_cases Map.empty
       (sample_ctx (Group_Session 7 1) 4 OnOff_Id 1 (Some [])) Map.empty = Inr (out, Map.empty, ctx', Map.empty) \<and> out = [] \<and>
     hc_statuses ctx' = [(\<lparr>cp_endpoint = 4, cp_cluster = OnOff_Id, cp_command = 1\<rparr>, Success)]"
proof -
  have m: "map_of onoff_cases 1 = Some (Mapped ''On'' [] [])" by (simp add: onoff_cases_def)
  have e: "\<not> is_command_emulated \<lparr>cp_endpoint = 4, cp_cluster = OnOff_Id, cp_command = 1\<rparr>"
    by (simp add: is_command_emulated_def command_emulator_map_eqs)
  show ?thesis
    using group_command_delivery [where env = "sample_te 0 1" and cluster = "''OnOff''" and cases = onoff_cases
        and ctx = "sample_ctx (Group_Session 7 1) 4 OnOff_Id 1 (Some [])" and node = lock_bridge
        and as = "[]" and dumped = "[]" and c = Map.empty and p = Map.empty and name = "''On''" and kfs = "[]"
        and g = 7 and f = 1] m e
    by (simp add: two_nodes_lookup members_def)
qed

text \<open>A response published for a waiting door lock command is taken apart again to the node, cluster
  and response it was composed of; while the wait has not timed out, the waiting client is answered once,
  with \<open>Success\<close> exactly for status 1, on the Matter endpoint of the node, and the same response again
  answers nobody.\<close>

theorem response_answers_request:
  assumes "no_slash (be_unify_unid node)" and "no_slash response" and "response \<noteq> []" and "msg \<noteq> []"
    and "bridged_endpoint_by_unify (te_table env) (be_unify_unid node) (uint (be_unify_endpoint node)) = Some node"
    and "p (response_key node ''DoorLock'' response) = Some pd"
    and "\<not> ishandler_timedout (te_now env) (pd_since pd)"
    and "parse msg = Inr (JObject ms)" and "map_of ms ''Status'' = Some (JString status)"
    and "stoi status = Inr n" and "get_cluster_id t ''DoorLock'' = Some DoorLock_Id"
    and "get_command_id t ''DoorLock'' response = Some cmd" and "cmd \<in> set doorlock_response_commands"
  shows "command_on_mqtt_message env parse (doorlock_command_response t)
      (response_key node ''DoorLock'' response) msg p =
    Inr (case pd_request pd of
        None \<Rightarrow> []
      | Some request \<Rightarrow> [(request, \<lparr>cp_endpoint = be_matter_endpoint node, cp_cluster = DoorLock_Id,
          cp_command = cmd\<rparr>, if n = 1 then Success else Failure)],
      p(response_key node ''DoorLock'' response \<mapsto> pd\<lparr>pd_request := None\<rparr>))"
proof -
  have "rbind (parse msg) (\<lambda>j. doorlock_command_response t node ''DoorLock'' response j pd) =
      Inr (case pd_request pd of
        None \<Rightarrow> []
      | Some request \<Rightarrow> [(request, \<lparr>cp_endpoint = be_matter_endpoint node, cp_cluster = DoorLock_Id,
          cp_command = cmd\<rparr>, if n = 1 then Success else Failure)], pd\<lparr>pd_request := None\<rparr>)"
    using assms(8-13)
    by (cases pd) (simp add: doorlock_command_response_def response_status_def split: option.split)
  then show ?thesis
    using response_delivered [where cluster = "''DoorLock''" and handle = "doorlock_command_response t"
        and parse = parse and p = p and pd = pd and node = node, OF assms(1,2) _ assms(3-7)]
    by (simp add: no_slash_def)
qed

abbreviation lock_pending :: pending_map where
  "lock_pending \<equiv> [response_key lock_bridge ''DoorLock'' ''LockDoorResponse'' \<mapsto>
     \<lparr>pd_request = Some 1, pd_since = 0\<rparr>]"

lemma response_answers_request_witness:
  "fst (projr (command_on_mqtt_message (sample_te 1000000000 2) (\<lambda>_. Inr status_one)
      (doorlock_command_response lock_translator)
      (response_key lock_bridge ''DoorLock'' ''LockDoorResponse'') ''...'' lock_pending)) =
   [(1, \<lparr>cp_endpoint = 4, cp_cluster = DoorLock_Id, cp_command = LockDoor_Id\<rparr>, Success)]"
  using response_answers_request [where node = lock_bridge and response = "''LockDoorResponse''" and msg = "''...''"
      and env = "sample_te 1000000000 2" and p = lock_pending and pd = "\<lparr>pd_request = Some 1, pd_since = 0\<rparr>"
      and parse = "\<lambda>_. Inr status_one" and ms = "[(''Status'', JString ''1'')]" and status = "''1''" and n = 1
      and t = lock_translator and cmd = LockDoor_Id]
  by (simp add: no_slash_def two_nodes_lookup ishandler_timedout_def status_one_def lock_translator_ids
      stoi_one doorlock_response_commands_def)

text \<open>C39: A door lock command keeps its response name occupied after the response: whatever response
  arrives within the timeout, a second command with the same response for the same node is refused as
  busy, without being published, until more than ten full seconds have passed since the first one.\<close>

theorem busy_after_answer:
  assumes "bridged_endpoint_by_matter (te_table env) (cp_endpoint (hc_path ctx)) = Some node"
    and "response \<noteq> []" and "out \<noteq> []"
    and "send_unify_mqtt_cmd env cluster ctx cmd payload response p = Inr (out, ctx', p1)"
    and "command_on_mqtt_message env' parse (doorlock_command_response t) topic msg p1 = Inr (replies, p2)"
    and "bridged_endpoint_by_matter (te_table env'') (cp_endpoint (hc_path ctx'')) = Some node"
    and "te_now env' < te_now env + 11000000000" and "te_now env'' < te_now env + 11000000000"
  shows "\<exists>p3. send_unify_mqtt_cmd env'' cluster ctx'' cmd' payload' response p2 =
    Inr ([], add_status Busy ctx'', p3)"
proof -
  let ?key = "response_key node cluster response"
  have early: "\<not> ishandler_timedout now (te_now env)" if "now < te_now env + 11000000000" for now
    using that by (simp add: ishandler_timedout_def not_less) 
  have "p1 ?key = Some \<lparr>pd_request = Some (te_request env), pd_since = te_now env\<rparr>"
    using send_registers_pending [OF assms(4,1,2,3)] by simp
  then obtain pd' where "p2 ?key = Some pd'" "pd_since pd' = te_now env"
    using response_keeps_pending [OF assms(5)] early [OF assms(7)] by fastforce
  then show ?thesis
    using send_busy [where env = env'' and ctx = ctx'', OF assms(6,2)] early [OF assms(8)] by simp
qed

lemma first_lock_sent:
  "send_unify_mqtt_cmd (sample_te 0 1) ''DoorLock'' (sample_ctx Unicast_Session 4 DoorLock_Id LockDoor_Id None)
     ''LockDoor'' JNull ''LockDoorResponse'' Map.empty =
   Inr ([Publish (node_topic lock_bridge @ ''/DoorLock/Commands/LockDoor'') ''{}'' True],
     sample_ctx Unicast_Session 4 DoorLock_Id LockDoor_Id None, lock_pending)"
  by (simp add: send_unify_mqtt_cmd_def two_nodes_lookup clear_timedout_def target_topic_def
      publish_command_def payload_text_def)

lemma busy_after_answer_witness:
  "\<exists>replies p2 p3. command_on_mqtt_message (sample_te 1000000000 2) (\<lambda>_. Inr status_one)
       (doorlock_command_response lock_translator)
       (response_key lock_bridge ''DoorLock'' ''LockDoorResponse'') ''...'' lock_pending = Inr (replies, p2) \<and>
     send_unify_mqtt_cmd (sample_te 5000000000 2) ''DoorLock'' (sample_ctx Unicast_Session 4 DoorLock_Id LockDoor_Id None)
       ''LockDoor'' JNull ''LockDoorResponse'' p2 =
     Inr ([], add_status Busy (sample_ctx Unicast_Session 4 DoorLock_Id LockDoor_Id None), p3)"
proof -
  let ?topic = "response_key lock_bridge ''DoorLock'' ''LockDoorResponse''"
  let ?r = "command_on_mqtt_message (sample_te 1000000000 2) (\<lambda>_. Inr status_one)
       (doorlock_command_response lock_translator) ?topic ''...'' lock_pending"
  have "regex_search match_command_topic ?topic = Some (''zw-2'', ''0'', ''DoorLock'', ''LockDoorResponse'')"
    by (intro regex_search_here)
      (simp add: response_key_def match_command_topic_compose no_slash_def word_to_string_zero)
  then obtain replies p2 where r: "?r = Inr (replies, p2)"
    by (simp add: command_on_mqtt_message_def deliver_response_def two_nodes_lookup ishandler_timedout_def
        status_one_def doorlock_command_response_def response_status_def lock_translator_ids stoi_one
        stoi_zero doorlock_response_commands_def)
  show ?thesis
    using busy_after_answer [OF _ _ _ first_lock_sent r, where env'' = "sample_te 5000000000 2"
        and ctx'' = "sample_ctx Unicast_Session 4 DoorLock_Id LockDoor_Id None" and node = lock_bridge] r
    by (auto simp: two_nodes_lookup)
qed

text \<open>A command that the data model of Unify does not have is answered twice: the method for manual
  handling and the end of the handler both add \<open>UnsupportedCommand\<close> for the same path.\<close>

theorem manual_command_answered_twice:
  assumes "bridged_endpoint_by_matter (te_table env) (cp_endpoint (hc_path ctx)) = Some node"
    and "\<not> is_command_emulated (hc_path ctx)"
    and "map_of cases (cp_command (hc_path ctx)) = Some Manual" and "fst (decode ctx) = Some as"
  shows "\<exists>ctx'. invoke_command env cluster cases c ctx p = Inr ([], c, ctx', p) \<and>
    hc_statuses ctx' = hc_statuses ctx @ [(hc_path ctx, UnsupportedCommand), (hc_path ctx, UnsupportedCommand)]"
proof -
  obtain ctx1 where d: "decode ctx = (Some as, ctx1)" using assms(4) by (cases "decode ctx") auto
  then have f: "hc_path ctx1 = hc_path ctx" "hc_statuses ctx1 = hc_statuses ctx"
    using decode_frame [of ctx] by simp_all
  show ?thesis
    using assms(1-3) f by (simp add: invoke_command_def emulate_first_def run_case_def d finish_command_def)
qed

lemma manual_command_answered_twice_witness:
  "\<exists>ctx'. invoke_command (sample_te 0 1) ''DoorLock'' doorlock_cases Map.empty
       (sample_ctx Unicast_Session 4 DoorLock_Id 41 (Some [])) Map.empty = Inr ([], Map.empty, ctx', Map.empty) \<and>
     length (hc_statuses ctx') = 2"
proof -
  have m: "map_of doorlock_cases 41 = Some Manual"
    by (simp add: doorlock_cases_def doorlock_lock_cases_def doorlock_week_cases_def
        doorlock_year_cases_def doorlock_holiday_cases_def doorlock_user_cases_def
        doorlock_credential_cases_def)
  have e: "\<not> is_command_emulated \<lparr>cp_endpoint = 4, cp_cluster = DoorLock_Id, cp_command = 41\<rparr>"
    by (simp add: is_command_emulated_def command_emulator_map_def cluster_emulators_def emulator_defs)
  show ?thesis
    using manual_command_answered_twice [where env = "sample_te 0 1" and cases = doorlock_cases
        and ctx = "sample_ctx Unicast_Session 4 DoorLock_Id 41 (Some [])" and node = lock_bridge
        and as = "[]" and cluster = "''DoorLock''" and c = Map.empty and p = Map.empty] m e
    by (auto simp: two_nodes_lookup)
qed

text \<open>Every generated handler has a case for exactly the commands it announces, in the order announced.\<close>

theorem handlers_cover_accepted_commands:
  "(case generated_handler cl of
      None \<Rightarrow> accepted_commands cl = []
    | Some (name, cases) \<Rightarrow> map fst cases = accepted_commands cl)"
  by (simp add: generated_handler_def accepted_commands_defs identify_cases_def groups_cases_def
      onoff_cases_def level_cases_def level_plain_cases_def level_onoff_cases_def doorlock_cases_def
      doorlock_lock_cases_def doorlock_week_cases_def doorlock_year_cases_def doorlock_holiday_cases_def
      doorlock_user_cases_def doorlock_credential_cases_def window_covering_cases_def
      thermostat_cases_def color_cases_def color_hue_cases_def color_saturation_cases_def
      color_xy_cases_def color_enhanced_cases_def color_rest_cases_def)

end
