(* ===== verification/Group_Command_Translator.thy ===== *)
theory Group_Command_Translator
  imports Command_Translator
begin

text \<open>
  linux/src/cluster_translator/group_command_translator.cpp: the handler of the groups cluster. It
  only listens in: it keeps the mapping between Matter and Unify groups, publishes the Unify command,
  and leaves the request itself to the handler of the Matter library. The group table of that library
  (\<open>GroupDataProvider\<close>) is a record of parameters. The reader is copied before decoding, so the
  request can still be decoded by others.
\<close>

section \<open>Surroundings\<close>

text \<open>
  \<open>gp_groups\<close> lists the groups \<open>IterateGroupInfo\<close> gives, \<open>None\<close> when there is no iterator;
  \<open>gp_fabric\<close> is the fabric of a session that is not a group session.
\<close>

record group_provider =
  gp_has_endpoint :: "fabric_index \<Rightarrow> group_id \<Rightarrow> endpoint_id \<Rightarrow> bool"
  gp_has_group :: "fabric_index \<Rightarrow> group_id \<Rightarrow> bool"
  gp_groups :: "fabric_index \<Rightarrow> group_id list option"
  gp_fabric :: fabric_index

abbreviation AddGroup_Id :: command_id where "AddGroup_Id \<equiv> 0"
abbreviation RemoveGroup_Id :: command_id where "RemoveGroup_Id \<equiv> 3"
abbreviation RemoveAllGroups_Id :: command_id where "RemoveAllGroups_Id \<equiv> 4"
abbreviation AddGroupIfIdentifying_Id :: command_id where "AddGroupIfIdentifying_Id \<equiv> 5"
abbreviation IdentifyTime_Id :: attribute_id where "IdentifyTime_Id \<equiv> 0"

definition session_fabric :: "group_provider \<Rightarrow> session \<Rightarrow> fabric_index res" where
  "session_fabric gp s =
     (case s of
        No_Exchange \<Rightarrow> Inl Null_Dereference
      | Unicast_Session \<Rightarrow> Inr (gp_fabric gp)
      | Group_Session g f \<Rightarrow> Inr f)"

definition group_field :: "args \<Rightarrow> group_id" where
  "group_field as = (case field as ''groupID'' of A_Int n \<Rightarrow> word_of_int n | _ \<Rightarrow> 0)"

definition name_field :: "args \<Rightarrow> string" where
  "name_field as = (case field as ''groupName'' of A_Span s \<Rightarrow> s | _ \<Rightarrow> [])"

section \<open>The commands\<close>

text \<open>A command to publish, if any, with the new group state.\<close>

type_synonym 'kv group_outcome = "(string \<times> json) option \<times> group_translator \<times> 'kv"

definition remove_all_groups ::
  "'kv kvs_ops \<Rightarrow> group_provider \<Rightarrow> fabric_index \<Rightarrow> 'kv \<Rightarrow> 'kv" where
  "remove_all_groups ops gp f kv =
     (case gp_groups gp f of
        None \<Rightarrow> kv
      | Some gs \<Rightarrow> foldl (\<lambda>kv g. remove_matter_group ops \<lparr>mg_group = g, mg_fabric_index = f\<rparr> kv) kv gs)"

definition join_group ::
  "'kv kvs_ops \<Rightarrow> group_provider \<Rightarrow> fabric_index \<Rightarrow> endpoint_id \<Rightarrow> string \<Rightarrow> args \<Rightarrow>
     group_translator \<Rightarrow> 'kv \<Rightarrow> 'kv group_outcome" where
  "join_group ops gp f e cmd as gt kv =
     (let g = group_field as; group = \<lparr>mg_group = g, mg_fabric_index = f\<rparr> in
      if gp_has_endpoint gp f g e then (None, gt, kv)
      else
        (let (added, gt, kv) =
               (if gp_has_group gp f g then (True, gt, kv) else add_matter_group ops group gt kv)
         in if \<not> added then (None, gt, kv)
            else case get_unify_group ops kv group of
              None \<Rightarrow> (None, gt, kv)
            | Some u \<Rightarrow>
                (Some (cmd, JObject [(''GroupName'', JString (name_field as)), (''GroupId'', JInt (uint u))]),
                 gt, kv)))"

definition leave_group ::
  "'kv kvs_ops \<Rightarrow> fabric_index \<Rightarrow> args \<Rightarrow> group_translator \<Rightarrow> 'kv \<Rightarrow> 'kv group_outcome" where
  "leave_group ops f as gt kv =
     (let group = \<lparr>mg_group = group_field as, mg_fabric_index = f\<rparr> in
      case get_unify_group ops kv group of
        None \<Rightarrow> (None, gt, kv)
      | Some u \<Rightarrow> (Some (''RemoveGroup'', JObject [(''GroupId'', JInt (uint u))]), gt,
                   remove_matter_group ops group kv))"

definition group_switch ::
  "'kv kvs_ops \<Rightarrow> group_provider \<Rightarrow> cache \<Rightarrow> fabric_index \<Rightarrow> handler_ctx \<Rightarrow> group_translator \<Rightarrow> 'kv \<Rightarrow>
     'kv group_outcome res" where
  "group_switch ops gp c f ctx gt kv =
     (let e = cp_endpoint (hc_path ctx); cmd = cp_command (hc_path ctx) in
      case fst (decode ctx) of
        None \<Rightarrow> Inr (None, gt, kv)
      | Some as \<Rightarrow>
          if cmd = AddGroup_Id then Inr (join_group ops gp f e ''AddGroup'' as gt kv)
          else if cmd = RemoveGroup_Id then Inr (leave_group ops f as gt kv)
          else if cmd = RemoveAllGroups_Id then
            Inr (Some (''RemoveAllGroups'', JNull), gt, remove_all_groups ops gp f kv)
          else if cmd = AddGroupIfIdentifying_Id then
            rbind (get_u16 (Plain TUInt16) c (e, Identify_Id, IdentifyTime_Id)) (\<lambda>time.
            Inr (case time of
                None \<Rightarrow> (None, gt, kv)
              | Some t \<Rightarrow>
                  if t \<noteq> 0 then join_group ops gp f e ''AddGroupIfIdentifying'' as gt kv
                  else (None, gt, kv)))
          else Inr (None, gt, kv))"

text \<open>The command is sent with the group mapping as the switch has left it.\<close>

definition invoke_group_command ::
  "translator_env \<Rightarrow> 'kv kvs_ops \<Rightarrow> group_provider \<Rightarrow> cache \<Rightarrow> handler_ctx \<Rightarrow> group_translator \<Rightarrow> 'kv \<Rightarrow>
     pending_map \<Rightarrow> (mqtt_action list \<times> handler_ctx \<times> group_translator \<times> 'kv \<times> pending_map) res" where
  "invoke_group_command env ops gp c ctx gt kv p =
     rbind (session_fabric gp (hc_session ctx)) (\<lambda>f.
     rbind (group_switch ops gp c f ctx gt kv) (\<lambda>(todo, gt, kv).
     let ctx = ctx\<lparr>hc_handled := False\<rparr> in
     case todo of
       None \<Rightarrow> Inr ([], ctx, gt, kv, p)
     | Some (cmd, payload) \<Rightarrow>
         rbind (send_unify_mqtt_cmd (env\<lparr>te_unify_group := get_unify_group ops kv\<rparr>) ''Groups'' ctx cmd payload [] p)
           (\<lambda>(out, ctx, p). Inr (out, ctx, gt, kv, p))))"

section \<open>Lemmas\<close>

lemma send_plain_frame:
  "send_unify_mqtt_cmd env cluster ctx cmd payload [] p = Inr (out, ctx', p') \<Longrightarrow> ctx' = ctx \<and> p' = p"
  by (auto simp: send_unify_mqtt_cmd_def rbind_eq_Inr Let_def split: option.splits)

lemma invoke_group_frame:
  assumes "invoke_group_command env ops gp c ctx gt kv p = Inr (out, ctx', gt', kv', p')"
  shows "ctx' = ctx\<lparr>hc_handled := False\<rparr> \<and> p' = p"
  using assms
  by (auto simp: invoke_group_command_def rbind_eq_Inr Let_def dest: send_plain_frame split: option.splits)

lemma send_unicast:
  assumes "bridged_endpoint_by_matter (te_table env) (cp_endpoint (hc_path ctx)) = Some node"
    and "hc_session ctx = Unicast_Session" and "payload_text env payload = Inr dumped"
  shows "send_unify_mqtt_cmd env cluster ctx cmd payload [] p =
    Inr ([Publish (node_topic node @ ''/'' @ cluster @ ''/Commands/'' @ cmd) dumped True], ctx, p)"
  using assms by (simp add: send_unify_mqtt_cmd_def target_topic_def publish_command_def)

lemma send_unmapped_group:
  assumes "hc_session ctx = Group_Session g f" and "te_unify_group env \<lparr>mg_group = g, mg_fabric_index = f\<rparr> = None"
  shows "send_unify_mqtt_cmd env cluster ctx cmd payload [] p = Inr ([], ctx, p)"
  using assms by (simp add: send_unify_mqtt_cmd_def target_topic_def split: option.split)

section \<open>Properties\<close>

text \<open>C30: When one endpoint leaves a group, the mapping of the group is forgotten for the whole fabric,
  whichever other endpoints are members: the command is published for that endpoint, the other groups keep
  their mapping, and every later command to the group, for any endpoint, is dropped.\<close>

theorem leaving_unmaps_whole_group:
  assumes "key_value_store ops" and "hc_session ctx = Unicast_Session"
    and "cp_command (hc_path ctx) = RemoveGroup_Id" and "fst (decode ctx) = Some as"
    and "bridged_endpoint_by_matter (te_table env) (cp_endpoint (hc_path ctx)) = Some node"
    and "get_unify_group ops kv \<lparr>mg_group = group_field as, mg_fabric_index = gp_fabric gp\<rparr> = Some u"
    and "te_dump env (JObject [(''GroupId'', JInt (uint u))]) = Inr dumped"
  shows "\<exists>ctx' kv'. invoke_group_command env ops gp c ctx gt kv p =
      Inr ([Publish (node_topic node @ ''/Groups/Commands/RemoveGroup'') dumped True], ctx', gt, kv', p) \<and>
    (\<forall>g. get_unify_group ops kv' g = (if g = \<lparr>mg_group = group_field as, mg_fabric_index = gp_fabric gp\<rparr>
       then None else get_unify_group ops kv g)) \<and>
    (\<forall>ctx2 cluster cmd payload p2. hc_session ctx2 = Group_Session (group_field as) (gp_fabric gp) \<longrightarrow>
       send_unify_mqtt_cmd (env\<lparr>te_unify_group := get_unify_group ops kv'\<rparr>) cluster ctx2 cmd payload [] p2 =
         Inr ([], ctx2, p2))"
proof -
  let ?g = "\<lparr>mg_group = group_field as, mg_fabric_index = gp_fabric gp\<rparr>"
  let ?kv = "remove_matter_group ops ?g kv"
  let ?env = "env\<lparr>te_unify_group := get_unify_group ops ?kv\<rparr>"
  have gone: "get_unify_group ops ?kv g = (if g = ?g then None else get_unify_group ops kv g)" for g
    by (cases g) (simp add: get_unify_group_stored key_value_store.remove_matter_group_stored [OF assms(1)])
  have sw: "group_switch ops gp c (gp_fabric gp) ctx gt kv =
      Inr (Some (''RemoveGroup'', JObject [(''GroupId'', JInt (uint u))]), gt, ?kv)"
    using assms(3,4,6) by (simp add: group_switch_def leave_group_def)
  have "send_unify_mqtt_cmd ?env ''Groups'' (ctx\<lparr>hc_handled := False\<rparr>) ''RemoveGroup''
      (JObject [(''GroupId'', JInt (uint u))]) [] p =
      Inr ([Publish (node_topic node @ ''/'' @ ''Groups'' @ ''/Commands/'' @ ''RemoveGroup'') dumped True],
        ctx\<lparr>hc_handled := False\<rparr>, p)"
    using assms(2,5,7) by (intro send_unicast) (simp_all add: payload_text_def)
  then have run: "invoke_group_command env ops gp c ctx gt kv p =
      Inr ([Publish (node_topic node @ ''/Groups/Commands/RemoveGroup'') dumped True],
        ctx\<lparr>hc_handled := False\<rparr>, gt, ?kv, p)"
    using assms(2) sw by (simp add: invoke_group_command_def session_fabric_def Let_def)
  moreover have "send_unify_mqtt_cmd ?env cluster ctx2 cmd payload [] p2 = Inr ([], ctx2, p2)"
    if "hc_session ctx2 = Group_Session (group_field as) (gp_fabric gp)" for ctx2 cluster cmd payload p2
    using that by (rule send_unmapped_group) (simp add: gone)
  ultimately show ?thesis using gone by blast
qed

definition sample_provider :: group_provider where
  "sample_provider = \<lparr>gp_has_endpoint = (\<lambda>f g e. f = 1 \<and> g = 7 \<and> (e = 3 \<or> e = 4)),
     gp_has_group = (\<lambda>f g. f = 1 \<and> g = 7), gp_groups = (\<lambda>f. Some [7]), gp_fabric = 1\<rparr>"

lemma kv_g7_mapped: "get_unify_group map_kvs kv_g7 g7 = Some 1"
  by (simp add: get_unify_group_stored storage_eqs map_kvs_def)

lemma sample_group_field: "group_field [(''groupID'', A_Int 7)] = 7"
  by (simp add: group_field_def field_def)

lemma sample_provider_fabric: "gp_fabric sample_provider = 1"
  by (simp add: sample_provider_def)

lemma leaving_unmaps_whole_group_witness:
  "\<exists>ctx' kv'. invoke_group_command (sample_te 0 1) map_kvs sample_provider Map.empty
      (sample_ctx Unicast_Session 4 Groups_Id RemoveGroup_Id (Some [(''groupID'', A_Int 7)]))
      init_group_translator kv_g7 Map.empty =
      Inr ([Publish (node_topic lock_bridge @ ''/Groups/Commands/RemoveGroup'') ''{...}'' True], ctx',
        init_group_translator, kv', Map.empty) \<and> get_unify_group map_kvs kv' g7 = None"
  using leaving_unmaps_whole_group [where ops = map_kvs and gp = sample_provider and env = "sample_te 0 1"
      and ctx = "sample_ctx Unicast_Session 4 Groups_Id RemoveGroup_Id (Some [(''groupID'', A_Int 7)])"
      and as = "[(''groupID'', A_Int 7)]" and kv = kv_g7 and u = 1 and dumped = "''{...}''" and node = lock_bridge
      and gt = init_group_translator and c = Map.empty and p = Map.empty]
    mem_kvs.key_value_store_axioms
  by (auto simp: two_nodes_lookup sample_group_field sample_provider_fabric kv_g7_mapped)

text \<open>C31: A request to add an endpoint to a group is only listened to: no status is added, and the request is left to
  the library. For an endpoint that is not a member, a group the library does not know yet is given a Unify group;
  when this succeeds, the command is published with exactly the Unify group that was given, and when it fails nothing is
  published. For a group the library knows nothing is given, and the command is published with the Unify group of its
  mapping, or not at all when the mapping is gone.\<close>

theorem add_group_listens:
  assumes "key_value_store ops" and "hc_session ctx = Unicast_Session" and "cp_command (hc_path ctx) = AddGroup_Id"
    and "fst (decode ctx) = Some as" and "\<not> gp_has_endpoint gp (gp_fabric gp) (group_field as) (cp_endpoint (hc_path ctx))"
    and "bridged_endpoint_by_matter (te_table env) (cp_endpoint (hc_path ctx)) = Some node"
    and "\<forall>j. te_dump env j = Inr (dumped j)"
    and "g = \<lparr>mg_group = group_field as, mg_fabric_index = gp_fabric gp\<rparr>"
    and "(if gp_has_group gp (gp_fabric gp) (group_field as) then (True, gt, kv) else add_matter_group ops g gt kv) =
      (ok, gt', kv')"
  shows "invoke_group_command env ops gp c ctx gt kv p =
      Inr ((case if ok then get_unify_group ops kv' g else None of
              None \<Rightarrow> []
            | Some u \<Rightarrow> [Publish (node_topic node @ ''/Groups/Commands/AddGroup'')
                (dumped (JObject [(''GroupName'', JString (name_field as)), (''GroupId'', JInt (uint u))])) True]),
          ctx\<lparr>hc_handled := False\<rparr>, gt', kv', p) \<and>
    (\<not> gp_has_group gp (gp_fabric gp) (group_field as) \<and> ok \<longrightarrow>
      get_unify_group ops kv' g = Some (last_allocated_group gt'))"
proof -
  let ?todo = "case if ok then get_unify_group ops kv' g else None of None \<Rightarrow> None
    | Some u \<Rightarrow> Some (''AddGroup'', JObject [(''GroupName'', JString (name_field as)), (''GroupId'', JInt (uint u))])"
  have sw: "group_switch ops gp c (gp_fabric gp) ctx gt kv = Inr (?todo, gt', kv')"
    using assms(3-5,8,9) by (auto simp: group_switch_def join_group_def Let_def split: if_splits option.split)
  have send: "send_unify_mqtt_cmd (env\<lparr>te_unify_group := get_unify_group ops kv'\<rparr>) ''Groups''
      (ctx\<lparr>hc_handled := False\<rparr>) cmd (JObject (m # ms)) [] p =
      Inr ([Publish (node_topic node @ ''/'' @ ''Groups'' @ ''/Commands/'' @ cmd) (dumped (JObject (m # ms))) True],
        ctx\<lparr>hc_handled := False\<rparr>, p)" for cmd m ms
    using assms(2,6,7) by (intro send_unicast) (simp_all add: payload_text_def)
  have "invoke_group_command env ops gp c ctx gt kv p =
      Inr ((case if ok then get_unify_group ops kv' g else None of
              None \<Rightarrow> []
            | Some u \<Rightarrow> [Publish (node_topic node @ ''/Groups/Commands/AddGroup'')
                (dumped (JObject [(''GroupName'', JString (name_field as)), (''GroupId'', JInt (uint u))])) True]),
          ctx\<lparr>hc_handled := False\<rparr>, gt', kv', p)"
    using assms(2) by (simp add: invoke_group_command_def session_fabric_def sw send Let_def split: option.split)
  moreover have "get_unify_group ops kv' g = Some (last_allocated_group gt')"
    if "\<not> gp_has_group gp (gp_fabric gp) (group_field as)" and ok
    using key_value_store.add_matter_group_stored [OF assms(1), of g gt kv ok gt' kv'] assms(9) that
    by (simp add: get_unify_group_stored)
  ultimately show ?thesis by blast
qed

text \<open>Endpoint 2 is added to group 7, which the library knows, and to group 9, which it does not.\<close>

lemma add_group_listens_witness:
  "invoke_group_command (sample_te 0 1) map_kvs sample_provider Map.empty
      (sample_ctx Unicast_Session 2 Groups_Id AddGroup_Id (Some [(''groupID'', A_Int 7)]))
      init_group_translator kv_g7 Map.empty =
    Inr ([Publish (node_topic (sample_bridge ''zw-1'' 0 2 [6, 29]) @ ''/Groups/Commands/AddGroup'') ''{...}'' True],
      (sample_ctx Unicast_Session 2 Groups_Id AddGroup_Id (Some [(''groupID'', A_Int 7)]))\<lparr>hc_handled := False\<rparr>,
      init_group_translator, kv_g7, Map.empty) \<and>
   invoke_group_command (sample_te 0 1) map_kvs sample_provider Map.empty
      (sample_ctx Unicast_Session 2 Groups_Id AddGroup_Id (Some [(''groupID'', A_Int 9)]))
      init_group_translator kv_g7 Map.empty =
    Inr ([Publish (node_topic (sample_bridge ''zw-1'' 0 2 [6, 29]) @ ''/Groups/Commands/AddGroup'') ''{...}'' True],
      (sample_ctx Unicast_Session 2 Groups_Id AddGroup_Id (Some [(''groupID'', A_Int 9)]))\<lparr>hc_handled := False\<rparr>,
      init_group_translator, kv_g7(group_key 1 9 \<mapsto> 1), Map.empty)"
proof -
  let ?node = "sample_bridge ''zw-1'' 0 2 [6, 29]"
  have node: "bridged_endpoint_by_matter (nm_endpoints two_nodes) 2 = Some ?node"
    by (simp add: bridged_endpoint_by_matter_def two_nodes_def sample_bridge_def new_bridge_def)
  have nine: "group_field [(''groupID'', A_Int 9)] = 9" by (simp add: group_field_def field_def)
  have "invoke_group_command (sample_te 0 1) map_kvs sample_provider Map.empty
      (sample_ctx Unicast_Session 2 Groups_Id AddGroup_Id (Some [(''groupID'', A_Int 7)]))
      init_group_translator kv_g7 Map.empty =
    Inr ([Publish (node_topic ?node @ ''/Groups/Commands/AddGroup'') ''{...}'' True],
      (sample_ctx Unicast_Session 2 Groups_Id AddGroup_Id (Some [(''groupID'', A_Int 7)]))\<lparr>hc_handled := False\<rparr>,
      init_group_translator, kv_g7, Map.empty)"
    using add_group_listens [where ops = map_kvs and env = "sample_te 0 1" and gp = sample_provider
        and ctx = "sample_ctx Unicast_Session 2 Groups_Id AddGroup_Id (Some [(''groupID'', A_Int 7)])"
        and as = "[(''groupID'', A_Int 7)]" and node = ?node and dumped = "\<lambda>_. ''{...}''" and g = g7 and ok = True
        and gt = init_group_translator and gt' = init_group_translator and kv = kv_g7 and kv' = kv_g7
        and c = Map.empty and p = Map.empty] mem_kvs.key_value_store_axioms node
    by (simp add: sample_group_field kv_g7_mapped sample_provider_def)
  moreover have "invoke_group_command (sample_te 0 1) map_kvs sample_provider Map.empty
      (sample_ctx Unicast_Session 2 Groups_Id AddGroup_Id (Some [(''groupID'', A_Int 9)]))
      init_group_translator kv_g7 Map.empty =
    Inr ([Publish (node_topic ?node @ ''/Groups/Commands/AddGroup'') ''{...}'' True],
      (sample_ctx Unicast_Session 2 Groups_Id AddGroup_Id (Some [(''groupID'', A_Int 9)]))\<lparr>hc_handled := False\<rparr>,
      init_group_translator, kv_g7(group_key 1 9 \<mapsto> 1), Map.empty)"
    using add_group_listens [where ops = map_kvs and env = "sample_te 0 1" and gp = sample_provider
        and ctx = "sample_ctx Unicast_Session 2 Groups_Id AddGroup_Id (Some [(''groupID'', A_Int 9)])"
        and as = "[(''groupID'', A_Int 9)]" and node = ?node and dumped = "\<lambda>_. ''{...}''" and g = g9 and ok = True
        and gt = init_group_translator and gt' = init_group_translator and kv = kv_g7
        and kv' = "kv_g7(group_key 1 9 \<mapsto> 1)" and c = Map.empty and p = Map.empty]
      mem_kvs.key_value_store_axioms node add_g9_unannounced
    by (simp add: nine sample_provider_def)
  ultimately show ?thesis by blast
qed

end
