(* ===== verification/Attribute_Interface.thy ===== *)
theory Attribute_Interface
  imports Cluster_Emulator Node_State_Monitor
begin

text \<open>
  linux/src/cluster_translator/attribute_translator_interface.hpp: the base class of all attribute
  translators. It subscribes to the reports of the bridged endpoints and takes a report apart (topic,
  node, JSON text); what a value means is the virtual function \<open>reported_updated\<close> of the derived class,
  here the parameter \<open>update\<close>. The locale \<open>attribute_handler\<close> is the contract the base class relies on:
  a handler stores and announces attributes of its own cluster, at the endpoint of the node, and nothing
  else. Its interpretations are the generated classes and the basic information class.
\<close>

section \<open>What a report causes\<close>

datatype logged_event = Lock_Jammed | Lock_Operation_Lock | Lock_Operation_Unlock | Reachable_Changed bool

datatype report = Attribute_Changed attr_path | Logged endpoint_id logged_event

fun report_endpoint :: "report \<Rightarrow> endpoint_id" where
  "report_endpoint (Attribute_Changed p) = fst p"
| "report_endpoint (Logged e _) = e"

type_synonym report_handler =
  "bridged_endpoint \<Rightarrow> string \<Rightarrow> string \<Rightarrow> json \<Rightarrow> cache \<Rightarrow> (report list \<times> cache) res"

section \<open>Reports\<close>

text \<open>\<open>jsn["value"]\<close> of a message that is not constant: a missing member becomes null.\<close>

definition message_value :: "json \<Rightarrow> json res" where
  "message_value j =
     (case j of
        JObject ms \<Rightarrow> Inr (case map_of ms ''value'' of Some v \<Rightarrow> v | None \<Rightarrow> JNull)
      | JNull \<Rightarrow> Inr JNull
      | _ \<Rightarrow> Inl Json_Type_Error)"

definition is_caught_here :: "exn \<Rightarrow> bool" where
  "is_caught_here e \<longleftrightarrow> e \<in> {Json_Parse_Error, Json_Type_Error}"

text \<open>The callback first, then the update; a caught exception keeps what was done before it.\<close>

definition attribute_report ::
  "report_handler \<Rightarrow> callback_registry \<Rightarrow> bridged_endpoint \<Rightarrow> string \<Rightarrow> string \<Rightarrow>
     json res \<Rightarrow> cache \<Rightarrow> (report list \<times> cache) res" where
  "attribute_report update reg node cluster attribute parsed c =
     (let caught = (\<lambda>c e. if is_caught_here e then Inr ([], c) else Inl e) in
      case rbind parsed message_value of
        Inl e \<Rightarrow> caught c e
      | Inr v \<Rightarrow>
          (case (case get_registered_callback reg (cluster @ ''::'' @ attribute) of
                   None \<Rightarrow> Inr c
                 | Some callback \<Rightarrow> callback v (be_matter_endpoint node) c) of
             Inl e \<Rightarrow> caught c e
           | Inr c' \<Rightarrow>
               (case update node cluster attribute v c' of
                  Inl e \<Rightarrow> caught c' e
                | Inr r \<Rightarrow> Inr r)))"

definition on_mqtt_message_cb ::
  "endpoint_table \<Rightarrow> report_handler \<Rightarrow> callback_registry \<Rightarrow> (string \<Rightarrow> json res) \<Rightarrow> string \<Rightarrow> string \<Rightarrow>
     cache \<Rightarrow> (report list \<times> cache) res" where
  "on_mqtt_message_cb table update reg parse topic msg c =
     (case regex_search match_attribute_topic topic of
        None \<Rightarrow> Inr ([], c)
      | Some (u, ep, cluster, attribute) \<Rightarrow>
          rbind (stoi ep) (\<lambda>n.
          case bridged_endpoint_by_unify table u n of
            None \<Rightarrow> Inr ([], c)
          | Some node \<Rightarrow>
              if attribute = [] \<or> cluster = [] \<or> msg = [] then Inr ([], c)
              else attribute_report update reg node cluster attribute (parse msg) c))"

definition attributes_update_subscription :: "string list \<Rightarrow> bridged_endpoint \<Rightarrow> update \<Rightarrow> mqtt_action list" where
  "attributes_update_subscription clusters ep u = concat (map (\<lambda>cluster.
     let topic = attribute_topic (be_unify_unid ep) (be_unify_endpoint ep) cluster ''+'' in
     case u of
       NODE_ADDED \<Rightarrow> [SubscribeEx topic]
     | NODE_DELETED \<Rightarrow> [UnsubscribeEx topic]
     | NODE_STATE_CHANGED \<Rightarrow> []) clusters)"

text \<open>A report with a value and no callback, on the topic of an endpoint the bridge knows.\<close>

lemma report_handled:
  assumes "no_slash (be_unify_unid node)" and "no_slash cluster" and "no_slash attribute"
    and "cluster \<noteq> []" and "attribute \<noteq> []" and "msg \<noteq> []"
    and "bridged_endpoint_by_unify table (be_unify_unid node) (uint (be_unify_endpoint node)) = Some node"
    and "get_registered_callback reg (cluster @ ''::'' @ attribute) = None"
    and "parse msg = Inr (JObject ms)" and "map_of ms ''value'' = Some j"
  shows "on_mqtt_message_cb table update reg parse
      (attribute_topic (be_unify_unid node) (be_unify_endpoint node) cluster attribute) msg c =
    (case update node cluster attribute j c of
       Inl e \<Rightarrow> if is_caught_here e then Inr ([], c) else Inl e
     | Inr r \<Rightarrow> Inr r)"
proof -
  have "regex_search match_attribute_topic
      (attribute_topic (be_unify_unid node) (be_unify_endpoint node) cluster attribute) =
      Some (be_unify_unid node, word_to_string (be_unify_endpoint node), cluster, attribute)"
    using assms(1-3) by (intro regex_search_here match_attribute_topic_compose)
  then show ?thesis
    using assms(4-10)
    by (simp add: on_mqtt_message_cb_def attribute_report_def message_value_def stoi_word)
qed

section \<open>The contract\<close>

definition same_elsewhere :: "endpoint_id \<Rightarrow> cache \<Rightarrow> cache \<Rightarrow> bool" where
  "same_elsewhere e c c' \<longleftrightarrow> (\<forall>q. fst q \<noteq> e \<longrightarrow> c' q = c q)"

lemma same_elsewhere_refl [simp]: "same_elsewhere e c c"
  by (simp add: same_elsewhere_def)

lemma same_elsewhere_upd [simp]: "same_elsewhere e c (c((e, k, a) \<mapsto> v))"
  by (simp add: same_elsewhere_def)

lemma same_elsewhere_trans: "same_elsewhere e c c' \<Longrightarrow> same_elsewhere e c' c'' \<Longrightarrow> same_elsewhere e c c''"
  by (simp add: same_elsewhere_def)

definition callbacks_local :: "callback_registry \<Rightarrow> bool" where
  "callbacks_local reg \<longleftrightarrow>
     (\<forall>name f v e c c'. reg name = Some f \<longrightarrow> f v e c = Inr c' \<longrightarrow> same_elsewhere e c c')"

lemma callbacks_localD:
  "callbacks_local reg \<Longrightarrow> get_registered_callback reg name = Some f \<Longrightarrow> f v e c = Inr c' \<Longrightarrow>
   same_elsewhere e c c'"
  unfolding callbacks_local_def get_registered_callback_def by blast

lemma on_lift_local: "on_lift v e c = Inr c' \<Longrightarrow> same_elsewhere e c c'"
  unfolding on_lift_def rbind_def mask8_store_def
  by (auto split: if_splits option.splits sum.splits)

lemma on_lift_percentage_local: "on_lift_percentage v e c = Inr c' \<Longrightarrow> same_elsewhere e c c'"
  unfolding on_lift_percentage_def rbind_def mask8_store_def
  by (auto split: if_splits sum.splits)

lemma window_covering_callbacks_local:
  "callbacks_local reg \<Longrightarrow> callbacks_local (register_window_covering_callbacks reg)"
  unfolding callbacks_local_def register_window_covering_callbacks_def register_callback_def
  using on_lift_local on_lift_percentage_local by (auto split: if_splits)

locale attribute_handler =
  fixes update :: report_handler and cl :: cluster_id
  assumes update_frame: "update node cluster attribute j c = Inr (rs, c') \<Longrightarrow>
      cache_frame (be_matter_endpoint node) cl c c'"
    and update_reports: "update node cluster attribute j c = Inr (rs, c') \<Longrightarrow> r \<in> set rs \<Longrightarrow>
      report_endpoint r = be_matter_endpoint node"
begin

lemma update_elsewhere:
  "update node cluster attribute j c = Inr (rs, c') \<Longrightarrow> same_elsewhere (be_matter_endpoint node) c c'"
  using update_frame unfolding cache_frame_def same_elsewhere_def by fastforce

lemma report_local:
  assumes "callbacks_local reg"
    and "attribute_report update reg node cluster attribute parsed c = Inr (rs, c')"
  shows "same_elsewhere (be_matter_endpoint node) c c' \<and>
    (\<forall>r\<in>set rs. report_endpoint r = be_matter_endpoint node)"
proof -
  let ?e = "be_matter_endpoint node"
  have stored: "same_elsewhere ?e c c1"
    if "(case get_registered_callback reg name of None \<Rightarrow> Inr c | Some f \<Rightarrow> f v ?e c) = Inr c1" for name v c1
    using that callbacks_localD [OF assms(1)] by (auto split: option.splits)
  show ?thesis
    using assms(2) unfolding attribute_report_def Let_def
    by (auto split: sum.splits if_splits dest!: stored
        dest: update_reports same_elsewhere_trans [OF _ update_elsewhere])
qed

lemma message_local:
  assumes "callbacks_local reg"
    and "regex_search match_attribute_topic topic = Some (u, ep, cluster, attribute)"
    and "stoi ep = Inr n" and "bridged_endpoint_by_unify table u n = Some node"
    and "on_mqtt_message_cb table update reg parse topic msg c = Inr (rs, c')"
  shows "same_elsewhere (be_matter_endpoint node) c c' \<and>
    (\<forall>r\<in>set rs. report_endpoint r = be_matter_endpoint node)"
  using assms report_local [OF assms(1)]
  by (auto simp: on_mqtt_message_cb_def split: if_splits)

end

end
