(* ===== verification/Attribute_Translator.thy ===== *)
theory Attribute_Translator
  imports Attribute_Interface
begin

text \<open>
  The translation of attributes: the generated classes of linux/zap-generated/data_model_translator/attribute_translator.cpp (\<open>Read\<close>, \<open>Write\<close>,
  \<open>reported_updated\<close>), which differ in their tables alone, with the parts of
  chip_types_from_json.hpp that are not tables of names.

  The identifiers and the C++ types of the attributes are those of the Matter library: the functions
  that give the name and the type of an attribute are parameters, as are the conversions of enumerations
  and bit masks (Json_Conversions), the JSON parser and printer, and the range of a nullable value.
\<close>

section \<open>Surroundings\<close>

record attribute_env =
  ae_table :: endpoint_table
  ae_translator :: device_translator
  ae_name :: "cluster_id \<Rightarrow> attribute_id \<Rightarrow> string option"
  ae_type :: "cluster_id \<Rightarrow> string \<Rightarrow> cpp_type"
  ae_table_from_json :: "cluster_id \<Rightarrow> string \<Rightarrow> json \<Rightarrow> cdata option res"
  ae_encodable :: "cdata \<Rightarrow> bool"
  ae_dump :: "json \<Rightarrow> string res"
  ae_find_server :: "endpoint_id \<Rightarrow> cluster_id \<Rightarrow> bool"

section \<open>From JSON\<close>

text \<open>\<open>std::optional<T>(value)\<close> for the integer types, \<open>bool\<close> and \<open>std::string\<close>.\<close>

fun plain_from_json :: "vtype \<Rightarrow> json \<Rightarrow> value_t res" where
  "plain_from_json TBool (JBool b) = Inr (VBool b)"
| "plain_from_json TString (JString s) = Inr (VString s)"
| "plain_from_json TInt8 j = rbind (json_number j) (\<lambda>n. Inr (VInt8 (word_of_int n)))"
| "plain_from_json TUInt8 j = rbind (json_number j) (\<lambda>n. Inr (VUInt8 (word_of_int n)))"
| "plain_from_json TInt16 j = rbind (json_number j) (\<lambda>n. Inr (VInt16 (word_of_int n)))"
| "plain_from_json TUInt16 j = rbind (json_number j) (\<lambda>n. Inr (VUInt16 (word_of_int n)))"
| "plain_from_json TUInt32 j = rbind (json_number j) (\<lambda>n. Inr (VUInt32 (word_of_int n)))"
| "plain_from_json TUInt64 j = rbind (json_number j) (\<lambda>n. Inr (VUInt64 (word_of_int n)))"
| "plain_from_json TInt j = rbind (json_number j) (\<lambda>n. Inr (VInt (word_of_int n)))"
| "plain_from_json _ _ = Inl Json_Type_Error"

fun from_json :: "(json \<Rightarrow> cdata option res) \<Rightarrow> cpp_type \<Rightarrow> json \<Rightarrow> cdata option res" where
  "from_json table (Nullable T) j = rbind (from_json table T j) (\<lambda>d. Inr (map_option Non_Null d))"
| "from_json table (Plain t) j = rbind (plain_from_json t j) (\<lambda>v. Inr (Some (Scalar v)))"
| "from_json table _ j = table j"

section \<open>The cases of an update\<close>

text \<open>The events of the door lock, for \<open>trigger_event\<close>; the others never become valid.\<close>

datatype lock_event = DoorLockAlarm | DoorStateChange | LockOperation | LockOperationError | LockUserChange

definition trigger_event :: "lock_event \<Rightarrow> json \<Rightarrow> logged_event option" where
  "trigger_event event j =
     (case event of
        DoorLockAlarm \<Rightarrow> if j = JString ''ErrorJammed'' then Some Lock_Jammed else None
      | LockOperation \<Rightarrow>
          if j = JString ''Locked'' then Some Lock_Operation_Lock
          else if j = JString ''Unlocked'' then Some Lock_Operation_Unlock else None
      | _ \<Rightarrow> None)"

datatype update_case =
    Store
  | Store_Below_Max
  | Store_Named "(string \<times> int) list"
  | Store_Event lock_event

fun below_max :: "value_t \<Rightarrow> value_t" where
  "below_max (VUInt8 w) = VUInt8 (if w = 255 then 254 else w)"
| "below_max (VUInt16 w) = VUInt16 (if w = 65535 then 65534 else w)"
| "below_max v = v"

fun data_below_max :: "cdata \<Rightarrow> cdata" where
  "data_below_max (Scalar v) = Scalar (below_max v)"
| "data_below_max (Non_Null d) = Non_Null (data_below_max d)"
| "data_below_max d = d"

definition named_value :: "(string \<times> int) list \<Rightarrow> json \<Rightarrow> json" where
  "named_value ns j = (case j of
     JString s \<Rightarrow> (case map_of ns s of Some n \<Rightarrow> JInt n | None \<Rightarrow> j)
   | _ \<Rightarrow> j)"

definition updated_value ::
  "update_case \<Rightarrow> (json \<Rightarrow> cdata option res) \<Rightarrow> json \<Rightarrow> cdata option res" where
  "updated_value u convert j =
     (case u of
        Store_Below_Max \<Rightarrow> rbind (convert j) (\<lambda>d. Inr (map_option data_below_max d))
      | Store_Named ns \<Rightarrow> convert (named_value ns j)
      | _ \<Rightarrow> convert j)"

section \<open>The tables\<close>

record attribute_access =
  aa_cluster :: cluster_id
  aa_unify_cluster :: string
  aa_reads :: "string list"
  aa_writes :: "(string \<times> string) list"
  aa_updates :: "(string \<times> update_case) list"

definition identify_reads :: "string list" where
  "identify_reads =
     [''IdentifyTime'', ''IdentifyType'', ''FeatureMap'', ''ClusterRevision'']"

definition identify_writes :: "(string \<times> string) list" where
  "identify_writes =
     [(''IdentifyTime'', ''IdentifyTime'')]"

definition identify_updates :: "(string \<times> update_case) list" where
  "identify_updates =
     [(''IdentifyTime'', Store)]"

definition groups_reads :: "string list" where
  "groups_reads =
     [''NameSupport'', ''FeatureMap'', ''ClusterRevision'']"

definition groups_updates :: "(string \<times> update_case) list" where
  "groups_updates =
     [(''NameSupport'', Store)]"

definition onoff_reads :: "string list" where
  "onoff_reads =
     [''OnOff'', ''GlobalSceneControl'', ''OnTime'', ''OffWaitTime'', ''StartUpOnOff'',
      ''FeatureMap'', ''ClusterRevision'']"

definition onoff_writes :: "(string \<times> string) list" where
  "onoff_writes =
     [(''OnTime'', ''OnTime''), (''OffWaitTime'', ''OffWaitTime''),
      (''StartUpOnOff'', ''StartUpOnOff'')]"

definition onoff_updates :: "(string \<times> update_case) list" where
  "onoff_updates =
     [(''OnOff'', Store), (''GlobalSceneControl'', Store), (''OnTime'', Store),
      (''OffWaitTime'', Store), (''StartUpOnOff'', Store)]"

definition level_reads :: "string list" where
  "level_reads =
     [''CurrentLevel'', ''RemainingTime'', ''MinLevel'', ''MaxLevel'', ''CurrentFrequency'',
      ''MinFrequency'', ''MaxFrequency'', ''Options'', ''OnOffTransitionTime'', ''OnLevel'',
      ''OnTransitionTime'', ''OffTransitionTime'', ''DefaultMoveRate'', ''StartUpCurrentLevel'',
      ''FeatureMap'', ''ClusterRevision'']"

definition level_writes :: "(string \<times> string) list" where
  "level_writes =
     [(''Options'', ''Options''), (''OnOffTransitionTime'', ''OnOffTransitionTime''),
      (''OnLevel'', ''OnLevel''), (''OnTransitionTime'', ''OnTransitionTime''),
      (''OffTransitionTime'', ''OffTransitionTime''), (''DefaultMoveRate'', ''DefaultMoveRate''),
      (''StartUpCurrentLevel'', ''StartUpCurrentLevel'')]"

definition level_updates_1 :: "(string \<times> update_case) list" where
  "level_updates_1 =
     [(''CurrentLevel'', Store_Below_Max), (''RemainingTime'', Store), (''MinLevel'', Store),
      (''MaxLevel'', Store), (''CurrentFrequency'', Store), (''MinFrequency'', Store),
      (''MaxFrequency'', Store), (''Options'', Store), (''OnOffTransitionTime'', Store)]"

definition level_updates_2 :: "(string \<times> update_case) list" where
  "level_updates_2 =
     [(''OnLevel'', Store), (''OnTransitionTime'', Store), (''OffTransitionTime'', Store),
      (''DefaultMoveRate'', Store),
      (''StartUpCurrentLevel'', Store_Named [(''MinimumDeviceValuePermitted'', 0), (''SetToPreviousValue'', 255)])]"

definition level_updates :: "(string \<times> update_case) list" where
  "level_updates = level_updates_1 @ level_updates_2"

definition doorlock_reads_1 :: "string list" where
  "doorlock_reads_1 =
     [''LockState'', ''LockType'', ''ActuatorEnabled'', ''DoorState'', ''DoorOpenEvents'',
      ''DoorClosedEvents'', ''OpenPeriod'', ''NumberOfTotalUsersSupported'',
      ''NumberOfPINUsersSupported'', ''NumberOfRFIDUsersSupported'',
      ''NumberOfWeekDaySchedulesSupportedPerUser'', ''NumberOfYearDaySchedulesSupportedPerUser'',
      ''NumberOfHolidaySchedulesSupported'', ''MaxPINCodeLength'', ''MinPINCodeLength'',
      ''MaxRFIDCodeLength'', ''MinRFIDCodeLength'', ''CredentialRulesSupport'']"

definition doorlock_reads_2 :: "string list" where
  "doorlock_reads_2 =
     [''NumberOfCredentialsSupportedPerUser'', ''Language'', ''LEDSettings'', ''AutoRelockTime'',
      ''SoundVolume'', ''OperatingMode'', ''SupportedOperatingModes'',
      ''DefaultConfigurationRegister'', ''EnableLocalProgramming'', ''EnableOneTouchLocking'',
      ''EnableInsideStatusLED'', ''EnablePrivacyModeButton'', ''LocalProgrammingFeatures'',
      ''WrongCodeEntryLimit'', ''UserCodeTemporaryDisableTime'', ''SendPINOverTheAir'',
      ''RequirePINforRemoteOperation'', ''ExpiringUserTimeout'', ''AliroReaderVerificationKey'',
      ''AliroReaderGroupIdentifier'', ''AliroReaderGroupSubIdentifier'']"

definition doorlock_reads_3 :: "string list" where
  "doorlock_reads_3 =
     [''AliroGroupResolvingKey'', ''AliroBLEAdvertisingVersion'',
      ''NumberOfAliroCredentialIssuerKeysSupported'', ''NumberOfAliroEndpointKeysSupported'',
      ''FeatureMap'', ''ClusterRevision'']"

definition doorlock_reads :: "string list" where
  "doorlock_reads = doorlock_reads_1 @ doorlock_reads_2 @ doorlock_reads_3"

definition doorlock_writes_1 :: "(string \<times> string) list" where
  "doorlock_writes_1 =
     [(''DoorOpenEvents'', ''DoorOpenEvents''), (''DoorClosedEvents'', ''DoorClosedEvents''),
      (''OpenPeriod'', ''OpenPeriod''), (''Language'', ''Language''),
      (''LEDSettings'', ''LEDSettings''), (''AutoRelockTime'', ''AutoRelockTime''),
      (''SoundVolume'', ''SoundVolume''), (''OperatingMode'', ''OperatingMode''),
      (''EnableLocalProgramming'', ''EnableLocalProgramming''),
      (''EnableOneTouchLocking'', ''EnableOneTouchLocking''),
      (''EnableInsideStatusLED'', ''EnableInsideStatusLED''),
      (''EnablePrivacyModeButton'', ''EnablePrivacyModeButton''),
      (''LocalProgrammingFeatures'', ''LocalProgrammingFeatures''),
      (''WrongCodeEntryLimit'', ''WrongCodeEntryLimit''),
      (''UserCodeTemporaryDisableTime'', ''UserCodeTemporaryDisableTime'')]"

definition doorlock_writes_2 :: "(string \<times> string) list" where
  "doorlock_writes_2 =
     [(''SendPINOverTheAir'', ''SendPINOverTheAir''),
      (''RequirePINforRemoteOperation'', ''RequirePINforRFOperation''),
      (''ExpiringUserTimeout'', ''ExpiringUserTimeout'')]"

definition doorlock_writes :: "(string \<times> string) list" where
  "doorlock_writes = doorlock_writes_1 @ doorlock_writes_2"

definition doorlock_updates_1 :: "(string \<times> update_case) list" where
  "doorlock_updates_1 =
     [(''LockState'', Store_Event LockOperation), (''LockType'', Store),
      (''ActuatorEnabled'', Store), (''DoorState'', Store_Event DoorLockAlarm),
      (''DoorOpenEvents'', Store), (''DoorClosedEvents'', Store), (''OpenPeriod'', Store),
      (''NumberOfTotalUsersSupported'', Store), (''NumberOfPINUsersSupported'', Store),
      (''NumberOfRFIDUsersSupported'', Store)]"

definition doorlock_updates_2 :: "(string \<times> update_case) list" where
  "doorlock_updates_2 =
     [(''NumberOfWeekDaySchedulesSupportedPerUser'', Store),
      (''NumberOfYearDaySchedulesSupportedPerUser'', Store),
      (''NumberOfHolidaySchedulesSupported'', Store), (''MaxPINCodeLength'', Store),
      (''MinPINCodeLength'', Store), (''MaxRFIDCodeLength'', Store),
      (''MinRFIDCodeLength'', Store), (''CredentialRulesSupport'', Store),
      (''NumberOfCredentialsSupportedPerUser'', Store), (''Language'', Store),
      (''LEDSettings'', Store), (''AutoRelockTime'', Store)]"

definition doorlock_updates_3 :: "(string \<times> update_case) list" where
  "doorlock_updates_3 =
     [(''SoundVolume'', Store), (''OperatingMode'', Store), (''SupportedOperatingModes'', Store),
      (''DefaultConfigurationRegister'', Store), (''EnableLocalProgramming'', Store),
      (''EnableOneTouchLocking'', Store), (''EnableInsideStatusLED'', Store),
      (''EnablePrivacyModeButton'', Store), (''LocalProgrammingFeatures'', Store),
      (''WrongCodeEntryLimit'', Store), (''UserCodeTemporaryDisableTime'', Store),
      (''SendPINOverTheAir'', Store)]"

definition doorlock_updates_4 :: "(string \<times> update_case) list" where
  "doorlock_updates_4 =
     [(''RequirePINforRemoteOperation'', Store), (''ExpiringUserTimeout'', Store),
      (''FeatureMap'', Store)]"

definition doorlock_updates :: "(string \<times> update_case) list" where
  "doorlock_updates = doorlock_updates_1 @ doorlock_updates_2 @ doorlock_updates_3 @ doorlock_updates_4"

definition window_covering_reads_1 :: "string list" where
  "window_covering_reads_1 =
     [''Type'', ''PhysicalClosedLimitLift'', ''PhysicalClosedLimitTilt'',
      ''CurrentPositionLift'', ''CurrentPositionTilt'', ''NumberOfActuationsLift'',
      ''NumberOfActuationsTilt'', ''ConfigStatus'', ''CurrentPositionLiftPercentage'',
      ''CurrentPositionTiltPercentage'', ''OperationalStatus'',
      ''TargetPositionLiftPercent100ths'', ''TargetPositionTiltPercent100ths'',
      ''EndProductType'', ''CurrentPositionLiftPercent100ths'',
      ''CurrentPositionTiltPercent100ths'', ''InstalledOpenLimitLift'',
      ''InstalledClosedLimitLift'']"

definition window_covering_reads_2 :: "string list" where
  "window_covering_reads_2 =
     [''InstalledOpenLimitTilt'', ''InstalledClosedLimitTilt'', ''Mode'', ''SafetyStatus'',
      ''FeatureMap'', ''ClusterRevision'']"

definition window_covering_reads :: "string list" where
  "window_covering_reads = window_covering_reads_1 @ window_covering_reads_2"

definition window_covering_writes :: "(string \<times> string) list" where
  "window_covering_writes =
     [(''Mode'', ''Mode'')]"

definition window_covering_updates_1 :: "(string \<times> update_case) list" where
  "window_covering_updates_1 =
     [(''Type'', Store), (''PhysicalClosedLimitLift'', Store),
      (''PhysicalClosedLimitTilt'', Store), (''CurrentPositionLift'', Store_Below_Max),
      (''CurrentPositionTilt'', Store), (''NumberOfActuationsLift'', Store),
      (''NumberOfActuationsTilt'', Store), (''ConfigStatus'', Store),
      (''CurrentPositionLiftPercentage'', Store)]"

definition window_covering_updates_2 :: "(string \<times> update_case) list" where
  "window_covering_updates_2 =
     [(''CurrentPositionTiltPercentage'', Store), (''InstalledOpenLimitLift'', Store_Below_Max),
      (''InstalledClosedLimitLift'', Store_Below_Max), (''Mode'', Store)]"

definition window_covering_updates :: "(string \<times> update_case) list" where
  "window_covering_updates = window_covering_updates_1 @ window_covering_updates_2"

definition thermostat_reads_1 :: "string list" where
  "thermostat_reads_1 =
     [''LocalTemperature'', ''OutdoorTemperature'', ''Occupancy'', ''AbsMinHeatSetpointLimit'',
      ''AbsMaxHeatSetpointLimit'', ''AbsMinCoolSetpointLimit'', ''AbsMaxCoolSetpointLimit'',
      ''PICoolingDemand'', ''PIHeatingDemand'', ''HVACSystemTypeConfiguration'',
      ''LocalTemperatureCalibration'', ''OccupiedCoolingSetpoint'', ''OccupiedHeatingSetpoint'',
      ''UnoccupiedCoolingSetpoint'', ''UnoccupiedHeatingSetpoint'', ''MinHeatSetpointLimit'',
      ''MaxHeatSetpointLimit'', ''MinCoolSetpointLimit'']"

definition thermostat_reads_2 :: "string list" where
  "thermostat_reads_2 =
     [''MaxCoolSetpointLimit'', ''MinSetpointDeadBand'', ''RemoteSensing'',
      ''ControlSequenceOfOperation'', ''SystemMode'', ''ThermostatRunningMode'', ''StartOfWeek'',
      ''NumberOfWeeklyTransitions'', ''NumberOfDailyTransitions'', ''TemperatureSetpointHold'',
      ''TemperatureSetpointHoldDuration'', ''ThermostatProgrammingOperationMode'',
      ''ThermostatRunningState'', ''SetpointChangeSource'', ''SetpointChangeAmount'',
      ''SetpointChangeSourceTimestamp'', ''OccupiedSetback'', ''OccupiedSetbackMin'',
      ''OccupiedSetbackMax'', ''UnoccupiedSetback'', ''UnoccupiedSetbackMin'']"

definition thermostat_reads_3 :: "string list" where
  "thermostat_reads_3 =
     [''UnoccupiedSetbackMax'', ''EmergencyHeatDelta'', ''ACType'', ''ACCapacity'',
      ''ACRefrigerantType'', ''ACCompressorType'', ''ACErrorCode'', ''ACLouverPosition'',
      ''ACCoilTemperature'', ''ACCapacityformat'', ''NumberOfPresets'', ''NumberOfSchedules'',
      ''NumberOfScheduleTransitions'', ''NumberOfScheduleTransitionPerDay'',
      ''ActivePresetHandle'', ''ActiveScheduleHandle'', ''SetpointHoldExpiryTimestamp'',
      ''FeatureMap'', ''ClusterRevision'']"

definition thermostat_reads :: "string list" where
  "thermostat_reads = thermostat_reads_1 @ thermostat_reads_2 @ thermostat_reads_3"

definition thermostat_writes_1 :: "(string \<times> string) list" where
  "thermostat_writes_1 =
     [(''HVACSystemTypeConfiguration'', ''HVACSystemTypeConfiguration''),
      (''LocalTemperatureCalibration'', ''LocalTemperatureCalibration''),
      (''OccupiedCoolingSetpoint'', ''OccupiedCoolingSetpoint''),
      (''OccupiedHeatingSetpoint'', ''OccupiedHeatingSetpoint''),
      (''UnoccupiedCoolingSetpoint'', ''UnoccupiedCoolingSetpoint''),
      (''UnoccupiedHeatingSetpoint'', ''UnoccupiedHeatingSetpoint''),
      (''MinHeatSetpointLimit'', ''MinHeatSetpointLimit''),
      (''MaxHeatSetpointLimit'', ''MaxHeatSetpointLimit''),
      (''MinCoolSetpointLimit'', ''MinCoolSetpointLimit''),
      (''MaxCoolSetpointLimit'', ''MaxCoolSetpointLimit''),
      (''MinSetpointDeadBand'', ''MinSetpointDeadBand''), (''RemoteSensing'', ''RemoteSensing''),
      (''ControlSequenceOfOperation'', ''ControlSequenceOfOperation''),
      (''SystemMode'', ''SystemMode''),
      (''TemperatureSetpointHold'', ''TemperatureSetpointHold''),
      (''TemperatureSetpointHoldDuration'', ''TemperatureSetpointHoldDuration'')]"

definition thermostat_writes_2 :: "(string \<times> string) list" where
  "thermostat_writes_2 =
     [(''ThermostatProgrammingOperationMode'', ''ThermostatProgrammingOperationMode''),
      (''OccupiedSetback'', ''OccupiedSetback''), (''UnoccupiedSetback'', ''UnoccupiedSetback''),
      (''EmergencyHeatDelta'', ''EmergencyHeatDelta''), (''ACType'', ''ACType''),
      (''ACCapacity'', ''ACCapacity''), (''ACRefrigerantType'', ''ACRefrigerantType''),
      (''ACCompressorType'', ''ACCompressorType''), (''ACErrorCode'', ''ACErrorCode''),
      (''ACLouverPosition'', ''ACLouverPosition''), (''ACCapacityformat'', ''ACCapacityFormat'')]"

definition thermostat_writes :: "(string \<times> string) list" where
  "thermostat_writes = thermostat_writes_1 @ thermostat_writes_2"

definition thermostat_updates_1 :: "(string \<times> update_case) list" where
  "thermostat_updates_1 =
     [(''LocalTemperature'', Store), (''OutdoorTemperature'', Store), (''Occupancy'', Store),
      (''AbsMinHeatSetpointLimit'', Store), (''AbsMaxHeatSetpointLimit'', Store),
      (''AbsMinCoolSetpointLimit'', Store), (''AbsMaxCoolSetpointLimit'', Store),
      (''PICoolingDemand'', Store), (''PIHeatingDemand'', Store),
      (''HVACSystemTypeConfiguration'', Store)]"

definition thermostat_updates_2 :: "(string \<times> update_case) list" where
  "thermostat_updates_2 =
     [(''LocalTemperatureCalibration'', Store), (''OccupiedCoolingSetpoint'', Store),
      (''OccupiedHeatingSetpoint'', Store), (''UnoccupiedCoolingSetpoint'', Store),
      (''UnoccupiedHeatingSetpoint'', Store), (''MinHeatSetpointLimit'', Store),
      (''MaxHeatSetpointLimit'', Store), (''MinCoolSetpointLimit'', Store),
      (''MaxCoolSetpointLimit'', Store), (''MinSetpointDeadBand'', Store),
      (''RemoteSensing'', Store), (''ControlSequenceOfOperation'', Store)]"

definition thermostat_updates_3 :: "(string \<times> update_case) list" where
  "thermostat_updates_3 =
     [(''SystemMode'', Store), (''ThermostatRunningMode'', Store), (''StartOfWeek'', Store),
      (''NumberOfWeeklyTransitions'', Store), (''NumberOfDailyTransitions'', Store),
      (''TemperatureSetpointHold'', Store), (''TemperatureSetpointHoldDuration'', Store),
      (''ThermostatProgrammingOperationMode'', Store), (''ThermostatRunningState'', Store),
      (''SetpointChangeSource'', Store), (''SetpointChangeAmount'', Store),
      (''SetpointChangeSourceTimestamp'', Store)]"

definition thermostat_updates_4 :: "(string \<times> update_case) list" where
  "thermostat_updates_4 =
     [(''OccupiedSetback'', Store), (''OccupiedSetbackMin'', Store),
      (''OccupiedSetbackMax'', Store), (''UnoccupiedSetback'', Store),
      (''UnoccupiedSetbackMin'', Store), (''UnoccupiedSetbackMax'', Store),
      (''EmergencyHeatDelta'', Store), (''ACType'', Store), (''ACCapacity'', Store),
      (''ACRefrigerantType'', Store), (''ACCompressorType'', Store), (''ACErrorCode'', Store)]"

definition thermostat_updates_5 :: "(string \<times> update_case) list" where
  "thermostat_updates_5 =
     [(''ACLouverPosition'', Store), (''ACCoilTemperature'', Store),
      (''ACCapacityformat'', Store)]"

definition thermostat_updates :: "(string \<times> update_case) list" where
  "thermostat_updates = thermostat_updates_1 @ thermostat_updates_2 @ thermostat_updates_3 @ thermostat_updates_4 @ thermostat_updates_5"

definition color_reads_1 :: "string list" where
  "color_reads_1 =
     [''CurrentHue'', ''CurrentSaturation'', ''RemainingTime'', ''CurrentX'', ''CurrentY'',
      ''DriftCompensation'', ''CompensationText'', ''ColorTemperatureMireds'', ''ColorMode'',
      ''Options'', ''NumberOfPrimaries'', ''Primary1X'', ''Primary1Y'', ''Primary1Intensity'',
      ''Primary2X'', ''Primary2Y'', ''Primary2Intensity'', ''Primary3X'']"

definition color_reads_2 :: "string list" where
  "color_reads_2 =
     [''Primary3Y'', ''Primary3Intensity'', ''Primary4X'', ''Primary4Y'', ''Primary4Intensity'',
      ''Primary5X'', ''Primary5Y'', ''Primary5Intensity'', ''Primary6X'', ''Primary6Y'',
      ''Primary6Intensity'', ''WhitePointX'', ''WhitePointY'', ''ColorPointRX'',
      ''ColorPointRY'', ''ColorPointRIntensity'', ''ColorPointGX'', ''ColorPointGY'',
      ''ColorPointGIntensity'', ''ColorPointBX'', ''ColorPointBY'']"

definition color_reads_3 :: "string list" where
  "color_reads_3 =
     [''ColorPointBIntensity'', ''EnhancedCurrentHue'', ''EnhancedColorMode'',
      ''ColorLoopActive'', ''ColorLoopDirection'', ''ColorLoopTime'',
      ''ColorLoopStartEnhancedHue'', ''ColorLoopStoredEnhancedHue'', ''ColorCapabilities'',
      ''ColorTempPhysicalMinMireds'', ''ColorTempPhysicalMaxMireds'',
      ''CoupleColorTempToLevelMinMireds'', ''StartUpColorTemperatureMireds'', ''FeatureMap'',
      ''ClusterRevision'']"

definition color_reads :: "string list" where
  "color_reads = color_reads_1 @ color_reads_2 @ color_reads_3"

definition color_writes_1 :: "(string \<times> string) list" where
  "color_writes_1 =
     [(''Options'', ''Options''), (''WhitePointX'', ''WhitePointX''),
      (''WhitePointY'', ''WhitePointY''), (''ColorPointRX'', ''ColorPointRX''),
      (''ColorPointRY'', ''ColorPointRY''), (''ColorPointRIntensity'', ''ColorPointRIntensity''),
      (''ColorPointGX'', ''ColorPointGX''), (''ColorPointGY'', ''ColorPointGY''),
      (''ColorPointGIntensity'', ''ColorPointGIntensity''), (''ColorPointBX'', ''ColorPointBX''),
      (''ColorPointBY'', ''ColorPointBY''), (''ColorPointBIntensity'', ''ColorPointBIntensity'')]"

definition color_writes_2 :: "(string \<times> string) list" where
  "color_writes_2 =
     [(''StartUpColorTemperatureMireds'', ''StartUpColorTemperatureMireds'')]"

definition color_writes :: "(string \<times> string) list" where
  "color_writes = color_writes_1 @ color_writes_2"

definition color_updates_1 :: "(string \<times> update_case) list" where
  "color_updates_1 =
     [(''CurrentHue'', Store), (''CurrentSaturation'', Store), (''RemainingTime'', Store),
      (''CurrentX'', Store), (''CurrentY'', Store), (''DriftCompensation'', Store),
      (''CompensationText'', Store),
      (''ColorTemperatureMireds'', Store_Named [(''Undefined'', 0)]), (''ColorMode'', Store),
      (''Options'', Store)]"

definition color_updates_2 :: "(string \<times> update_case) list" where
  "color_updates_2 =
     [(''NumberOfPrimaries'', Store), (''Primary1X'', Store), (''Primary1Y'', Store),
      (''Primary1Intensity'', Store), (''Primary2X'', Store), (''Primary2Y'', Store),
      (''Primary2Intensity'', Store), (''Primary3X'', Store), (''Primary3Y'', Store),
      (''Primary3Intensity'', Store), (''Primary4X'', Store), (''Primary4Y'', Store)]"

definition color_updates_3 :: "(string \<times> update_case) list" where
  "color_updates_3 =
     [(''Primary4Intensity'', Store), (''Primary5X'', Store), (''Primary5Y'', Store),
      (''Primary5Intensity'', Store), (''Primary6X'', Store), (''Primary6Y'', Store),
      (''Primary6Intensity'', Store), (''WhitePointX'', Store), (''WhitePointY'', Store),
      (''ColorPointRX'', Store), (''ColorPointRY'', Store), (''ColorPointRIntensity'', Store)]"

definition color_updates_4 :: "(string \<times> update_case) list" where
  "color_updates_4 =
     [(''ColorPointGX'', Store), (''ColorPointGY'', Store), (''ColorPointGIntensity'', Store),
      (''ColorPointBX'', Store), (''ColorPointBY'', Store), (''ColorPointBIntensity'', Store),
      (''EnhancedCurrentHue'', Store), (''EnhancedColorMode'', Store),
      (''ColorLoopActive'', Store), (''ColorLoopDirection'', Store), (''ColorLoopTime'', Store),
      (''ColorLoopStartEnhancedHue'', Store)]"

definition color_updates_5 :: "(string \<times> update_case) list" where
  "color_updates_5 =
     [(''ColorLoopStoredEnhancedHue'', Store), (''ColorCapabilities'', Store),
      (''ColorTempPhysicalMinMireds'', Store), (''ColorTempPhysicalMaxMireds'', Store),
      (''CoupleColorTempToLevelMinMireds'', Store), (''StartUpColorTemperatureMireds'', Store)]"

definition color_updates :: "(string \<times> update_case) list" where
  "color_updates = color_updates_1 @ color_updates_2 @ color_updates_3 @ color_updates_4 @ color_updates_5"

definition illuminance_reads :: "string list" where
  "illuminance_reads =
     [''MeasuredValue'', ''MinMeasuredValue'', ''MaxMeasuredValue'', ''Tolerance'',
      ''LightSensorType'', ''FeatureMap'', ''ClusterRevision'']"

definition illuminance_updates :: "(string \<times> update_case) list" where
  "illuminance_updates =
     [(''MeasuredValue'', Store), (''MinMeasuredValue'', Store), (''MaxMeasuredValue'', Store),
      (''Tolerance'', Store), (''LightSensorType'', Store)]"

definition temperature_reads :: "string list" where
  "temperature_reads =
     [''MeasuredValue'', ''MinMeasuredValue'', ''MaxMeasuredValue'', ''Tolerance'',
      ''FeatureMap'', ''ClusterRevision'']"

definition temperature_updates :: "(string \<times> update_case) list" where
  "temperature_updates =
     [(''MeasuredValue'', Store), (''MinMeasuredValue'', Store), (''MaxMeasuredValue'', Store),
      (''Tolerance'', Store)]"

definition pressure_reads :: "string list" where
  "pressure_reads =
     [''MeasuredValue'', ''MinMeasuredValue'', ''MaxMeasuredValue'', ''Tolerance'',
      ''ScaledValue'', ''MinScaledValue'', ''MaxScaledValue'', ''ScaledTolerance'', ''Scale'',
      ''FeatureMap'', ''ClusterRevision'']"

definition pressure_updates :: "(string \<times> update_case) list" where
  "pressure_updates =
     [(''MeasuredValue'', Store), (''MinMeasuredValue'', Store), (''MaxMeasuredValue'', Store),
      (''Tolerance'', Store), (''ScaledValue'', Store), (''MinScaledValue'', Store),
      (''MaxScaledValue'', Store), (''ScaledTolerance'', Store), (''Scale'', Store)]"

definition flow_reads :: "string list" where
  "flow_reads =
     [''MeasuredValue'', ''MinMeasuredValue'', ''MaxMeasuredValue'', ''Tolerance'',
      ''FeatureMap'', ''ClusterRevision'']"

definition flow_updates :: "(string \<times> update_case) list" where
  "flow_updates =
     [(''MeasuredValue'', Store), (''MinMeasuredValue'', Store), (''MaxMeasuredValue'', Store),
      (''Tolerance'', Store)]"

definition humidity_reads :: "string list" where
  "humidity_reads =
     [''MeasuredValue'', ''MinMeasuredValue'', ''MaxMeasuredValue'', ''Tolerance'',
      ''FeatureMap'', ''ClusterRevision'']"

definition humidity_updates :: "(string \<times> update_case) list" where
  "humidity_updates =
     [(''MeasuredValue'', Store), (''MinMeasuredValue'', Store), (''MaxMeasuredValue'', Store),
      (''Tolerance'', Store)]"

definition occupancy_reads :: "string list" where
  "occupancy_reads =
     [''Occupancy'', ''OccupancySensorType'', ''OccupancySensorTypeBitmap'', ''HoldTime'',
      ''PIROccupiedToUnoccupiedDelay'', ''PIRUnoccupiedToOccupiedDelay'',
      ''PIRUnoccupiedToOccupiedThreshold'', ''UltrasonicOccupiedToUnoccupiedDelay'',
      ''UltrasonicUnoccupiedToOccupiedDelay'', ''UltrasonicUnoccupiedToOccupiedThreshold'',
      ''PhysicalContactOccupiedToUnoccupiedDelay'', ''PhysicalContactUnoccupiedToOccupiedDelay'',
      ''PhysicalContactUnoccupiedToOccupiedThreshold'', ''FeatureMap'', ''ClusterRevision'']"

definition occupancy_writes :: "(string \<times> string) list" where
  "occupancy_writes =
     [(''PIROccupiedToUnoccupiedDelay'', ''PIROccupiedToUnoccupiedDelay''),
      (''PIRUnoccupiedToOccupiedDelay'', ''PIRUnoccupiedToOccupiedDelay''),
      (''PIRUnoccupiedToOccupiedThreshold'', ''PIRUnoccupiedToOccupiedThreshold''),
      (''UltrasonicOccupiedToUnoccupiedDelay'', ''UltrasonicOccupiedToUnoccupiedDelay''),
      (''UltrasonicUnoccupiedToOccupiedDelay'', ''UltrasonicUnoccupiedToOccupiedDelay''),
      (''UltrasonicUnoccupiedToOccupiedThreshold'', ''UltrasonicUnoccupiedToOccupiedThreshold''),
      (''PhysicalContactOccupiedToUnoccupiedDelay'', ''PhysicalContactOccupiedToUnoccupiedDelay''),
      (''PhysicalContactUnoccupiedToOccupiedDelay'', ''PhysicalContactUnoccupiedToOccupiedDelay''),
      (''PhysicalContactUnoccupiedToOccupiedThreshold'', ''PhysicalContactUnoccupiedToOccupiedThreshold'')]"

definition occupancy_updates_1 :: "(string \<times> update_case) list" where
  "occupancy_updates_1 =
     [(''Occupancy'', Store), (''OccupancySensorType'', Store),
      (''OccupancySensorTypeBitmap'', Store), (''PIROccupiedToUnoccupiedDelay'', Store),
      (''PIRUnoccupiedToOccupiedDelay'', Store), (''PIRUnoccupiedToOccupiedThreshold'', Store),
      (''UltrasonicOccupiedToUnoccupiedDelay'', Store),
      (''UltrasonicUnoccupiedToOccupiedDelay'', Store),
      (''UltrasonicUnoccupiedToOccupiedThreshold'', Store)]"

definition occupancy_updates_2 :: "(string \<times> update_case) list" where
  "occupancy_updates_2 =
     [(''PhysicalContactOccupiedToUnoccupiedDelay'', Store),
      (''PhysicalContactUnoccupiedToOccupiedDelay'', Store),
      (''PhysicalContactUnoccupiedToOccupiedThreshold'', Store)]"

definition occupancy_updates :: "(string \<times> update_case) list" where
  "occupancy_updates = occupancy_updates_1 @ occupancy_updates_2"

lemmas level_parts =
  level_updates_1_def level_updates_2_def

lemmas doorlock_parts =
  doorlock_reads_1_def doorlock_reads_2_def doorlock_reads_3_def doorlock_writes_1_def
  doorlock_writes_2_def doorlock_updates_1_def doorlock_updates_2_def doorlock_updates_3_def
  doorlock_updates_4_def

lemmas window_covering_parts =
  window_covering_reads_1_def window_covering_reads_2_def window_covering_updates_1_def
  window_covering_updates_2_def

lemmas thermostat_parts =
  thermostat_reads_1_def thermostat_reads_2_def thermostat_reads_3_def thermostat_writes_1_def
  thermostat_writes_2_def thermostat_updates_1_def thermostat_updates_2_def
  thermostat_updates_3_def thermostat_updates_4_def thermostat_updates_5_def

lemmas color_parts =
  color_reads_1_def color_reads_2_def color_reads_3_def color_writes_1_def color_writes_2_def
  color_updates_1_def color_updates_2_def color_updates_3_def color_updates_4_def
  color_updates_5_def

lemmas occupancy_parts =
  occupancy_updates_1_def occupancy_updates_2_def

definition identify_access :: attribute_access where
  "identify_access = \<lparr>aa_cluster = 3, aa_unify_cluster = ''Identify'', aa_reads = identify_reads,
     aa_writes = identify_writes, aa_updates = identify_updates\<rparr>"

definition groups_writes :: "(string \<times> string) list" where
  "groups_writes = []"

definition groups_access :: attribute_access where
  "groups_access = \<lparr>aa_cluster = 4, aa_unify_cluster = ''Groups'', aa_reads = groups_reads,
     aa_writes = groups_writes, aa_updates = groups_updates\<rparr>"

definition onoff_access :: attribute_access where
  "onoff_access = \<lparr>aa_cluster = 6, aa_unify_cluster = ''OnOff'', aa_reads = onoff_reads,
     aa_writes = onoff_writes, aa_updates = onoff_updates\<rparr>"

definition level_access :: attribute_access where
  "level_access = \<lparr>aa_cluster = 8, aa_unify_cluster = ''Level'', aa_reads = level_reads,
     aa_writes = level_writes, aa_updates = level_updates\<rparr>"

definition doorlock_access :: attribute_access where
  "doorlock_access = \<lparr>aa_cluster = 257, aa_unify_cluster = ''DoorLock'', aa_reads = doorlock_reads,
     aa_writes = doorlock_writes, aa_updates = doorlock_updates\<rparr>"

definition window_covering_access :: attribute_access where
  "window_covering_access = \<lparr>aa_cluster = 258, aa_unify_cluster = ''WindowCovering'', aa_reads = window_covering_reads,
     aa_writes = window_covering_writes, aa_updates = window_covering_updates\<rparr>"

definition thermostat_access :: attribute_access where
  "thermostat_access = \<lparr>aa_cluster = 513, aa_unify_cluster = ''Thermostat'', aa_reads = thermostat_reads,
     aa_writes = thermostat_writes, aa_updates = thermostat_updates\<rparr>"

definition color_access :: attribute_access where
  "color_access = \<lparr>aa_cluster = 768, aa_unify_cluster = ''ColorControl'', aa_reads = color_reads,
     aa_writes = color_writes, aa_updates = color_updates\<rparr>"

definition illuminance_writes :: "(string \<times> string) list" where
  "illuminance_writes = []"

definition illuminance_access :: attribute_access where
  "illuminance_access = \<lparr>aa_cluster = 1024, aa_unify_cluster = ''IlluminanceMeasurement'', aa_reads = illuminance_reads,
     aa_writes = illuminance_writes, aa_updates = illuminance_updates\<rparr>"

definition temperature_writes :: "(string \<times> string) list" where
  "temperature_writes = []"

definition temperature_access :: attribute_access where
  "temperature_access = \<lparr>aa_cluster = 1026, aa_unify_cluster = ''TemperatureMeasurement'', aa_reads = temperature_reads,
     aa_writes = temperature_writes, aa_updates = temperature_updates\<rparr>"

definition pressure_writes :: "(string \<times> string) list" where
  "pressure_writes = []"

definition pressure_access :: attribute_access where
  "pressure_access = \<lparr>aa_cluster = 1027, aa_unify_cluster = ''PressureMeasurement'', aa_reads = pressure_reads,
     aa_writes = pressure_writes, aa_updates = pressure_updates\<rparr>"

definition flow_writes :: "(string \<times> string) list" where
  "flow_writes = []"

definition flow_access :: attribute_access where
  "flow_access = \<lparr>aa_cluster = 1028, aa_unify_cluster = ''FlowMeasurement'', aa_reads = flow_reads,
     aa_writes = flow_writes, aa_updates = flow_updates\<rparr>"

definition humidity_writes :: "(string \<times> string) list" where
  "humidity_writes = []"

definition humidity_access :: attribute_access where
  "humidity_access = \<lparr>aa_cluster = 1029, aa_unify_cluster = ''RelativityHumidity'', aa_reads = humidity_reads,
     aa_writes = humidity_writes, aa_updates = humidity_updates\<rparr>"

definition occupancy_access :: attribute_access where
  "occupancy_access = \<lparr>aa_cluster = 1030, aa_unify_cluster = ''OccupancySensing'', aa_reads = occupancy_reads,
     aa_writes = occupancy_writes, aa_updates = occupancy_updates\<rparr>"

definition attribute_accesses :: "attribute_access list" where
  "attribute_accesses =
    [identify_access, groups_access, onoff_access, level_access, doorlock_access,
     window_covering_access, thermostat_access, color_access, illuminance_access,
     temperature_access, pressure_access, flow_access, humidity_access, occupancy_access]"

section \<open>Reading\<close>

text \<open>
  A read that finds no value ends with \<open>CHIP_NO_ERROR\<close> and encodes nothing; only
  \<open>std::out_of_range\<close> is caught.
\<close>

definition attribute_read ::
  "attribute_env \<Rightarrow> attribute_access \<Rightarrow> cache \<Rightarrow> attr_path \<Rightarrow> read_reply res" where
  "attribute_read env aa c p =
     (case p of (e, cl, a) \<Rightarrow>
        if cl \<noteq> aa_cluster aa then Inr (Read_Error CHIP_ERROR_INVALID_ARGUMENT)
        else if bridged_endpoint_by_matter (ae_table env) e = None then Inr (Read_Error CHIP_NO_ERROR)
        else if is_attribute_emulated p then
          emulator_read_attribute (ae_find_server env)
            (\<lambda>a. case ae_name env PressureMeasurement_Id a of
               Some n \<Rightarrow> ae_type env PressureMeasurement_Id n | None \<Rightarrow> Plain TBool) c p
        else case ae_name env cl a of
          None \<Rightarrow> Inr (Read_Error CHIP_NO_ERROR)
        | Some n \<Rightarrow>
            if n \<notin> set (aa_reads aa) then Inr (Read_Error CHIP_NO_ERROR)
            else (case cache_get (ae_type env cl n) c p Null of
                Inr (found, d) \<Rightarrow> Inr (if found then Encode d else Read_Error CHIP_NO_ERROR)
              | Inl Out_Of_Range \<Rightarrow> Inr (Read_Error CHIP_ERROR_NO_MESSAGE_HANDLER)
              | Inl e \<Rightarrow> Inl e))"

section \<open>Writing\<close>

text \<open>
  \<open>emulated\<close> is what the decoder gives to an emulator, \<open>decoded\<close> what it gives to the switch (the
  default value when decoding fails: the result is not checked).
\<close>

definition attribute_write ::
  "attribute_env \<Rightarrow> attribute_access \<Rightarrow> cache \<Rightarrow> attr_path \<Rightarrow> (cdata, chip_error) sum \<Rightarrow> arg \<Rightarrow>
     (mqtt_action list \<times> chip_error) res" where
  "attribute_write env aa c p emulated decoded =
     (case p of (e, cl, a) \<Rightarrow>
        if cl \<noteq> aa_cluster aa then Inr ([], CHIP_ERROR_INVALID_ARGUMENT)
        else case bridged_endpoint_by_matter (ae_table env) e of
          None \<Rightarrow> Inr ([], CHIP_NO_ERROR)
        | Some node \<Rightarrow>
            rbind (if is_attribute_emulated p then emulator_write_attribute c p emulated
                   else Inr CHIP_ERROR_IN_PROGRESS) (\<lambda>err.
            if err \<noteq> CHIP_ERROR_IN_PROGRESS then Inr ([], err)
            else case Option.bind (ae_name env cl a) (map_of (aa_writes aa)) of
              None \<Rightarrow> Inr ([], CHIP_ERROR_NO_MESSAGE_HANDLER)
            | Some key \<Rightarrow>
                rbind (ae_dump env (JObject [(key, to_json decoded)])) (\<lambda>msg.
                Inr ([Publish (by_unid_topic (be_unify_unid node) (be_unify_endpoint node) @ ''/'' @
                        aa_unify_cluster aa @ ''/Commands/WriteAttributes'') msg True],
                     CHIP_NO_ERROR))))"

section \<open>Reports\<close>

text \<open>
  \<open>reported_updated\<close>. The value was parsed from text, so printing it for the log cannot fail.
\<close>

definition reported_updated ::
  "attribute_env \<Rightarrow> attribute_access \<Rightarrow> bridged_endpoint \<Rightarrow> string \<Rightarrow> string \<Rightarrow> json \<Rightarrow> cache \<Rightarrow>
     (report list \<times> cache) res" where
  "reported_updated env aa node cluster attribute j c =
     (if get_cluster_id (ae_translator env) cluster \<noteq> Some (aa_cluster aa) then Inr ([], c)
      else case get_attribute_id (ae_translator env) cluster attribute of
        None \<Rightarrow> Inr ([], c)
      | Some a \<Rightarrow>
          (let p = (be_matter_endpoint node, aa_cluster aa, a) in
           case Option.bind (ae_name env (aa_cluster aa) a)
                  (\<lambda>n. map_option (Pair n) (map_of (aa_updates aa) n)) of
             None \<Rightarrow> Inr ([], c)
           | Some (n, u) \<Rightarrow>
               (let T = ae_type env (aa_cluster aa) n in
                rbind (updated_value u (from_json (ae_table_from_json env (aa_cluster aa) n) T) j) (\<lambda>d.
                case d of
                  None \<Rightarrow> Inr ([], c)
                | Some d \<Rightarrow>
                    rbind (cache_set (ae_encodable env) T p d c) (\<lambda>c.
                    Inr (Attribute_Changed p #
                           (case u of
                              Store_Event ev \<Rightarrow> (case trigger_event ev j of
                                  Some le \<Rightarrow> [Logged (be_matter_endpoint node) le] | None \<Rightarrow> [])
                            | _ \<Rightarrow> []), c))))))"

text \<open>The message callback of the base class, with this handler.\<close>

definition attribute_on_mqtt_message ::
  "attribute_env \<Rightarrow> attribute_access \<Rightarrow> callback_registry \<Rightarrow> (string \<Rightarrow> json res) \<Rightarrow> string \<Rightarrow> string \<Rightarrow>
     cache \<Rightarrow> (report list \<times> cache) res" where
  "attribute_on_mqtt_message env aa = on_mqtt_message_cb (ae_table env) (reported_updated env aa)"

lemma cache_set_cache_frame: "cache_set enc T (e, k, a) d c = Inr c' \<Longrightarrow> cache_frame e k c c'"
  unfolding cache_frame_def using cache_set_frame by (metis fst_conv snd_conv)

lemma reported_updated_result:
  assumes "reported_updated env aa node cluster attribute j c = Inr (rs, c')"
  shows "cache_frame (be_matter_endpoint node) (aa_cluster aa) c c' \<and>
    (\<forall>r\<in>set rs. report_endpoint r = be_matter_endpoint node)"
proof (cases "rs = [] \<and> c' = c")
  case False
  then obtain a n u d where
    set: "cache_set (ae_encodable env) (ae_type env (aa_cluster aa) n)
        (be_matter_endpoint node, aa_cluster aa, a) d c = Inr c'"
    and rs: "rs = Attribute_Changed (be_matter_endpoint node, aa_cluster aa, a) #
        (case u of Store_Event ev \<Rightarrow> (case trigger_event ev j of
            Some le \<Rightarrow> [Logged (be_matter_endpoint node) le] | None \<Rightarrow> []) | _ \<Rightarrow> [])"
    using assms unfolding reported_updated_def Let_def
    by (auto simp: rbind_eq_Inr split: if_splits option.splits)
  have "\<forall>r\<in>set rs. report_endpoint r = be_matter_endpoint node"
    using rs by (auto split: update_case.splits option.splits)
  then show ?thesis using cache_set_cache_frame [OF set] by blast
qed simp

interpretation generated: attribute_handler "reported_updated env aa" "aa_cluster aa" for env aa
  by unfold_locales (use reported_updated_result in blast)+

section \<open>Storing and reading back\<close>

lemma plain_from_json_type: "plain_from_json t j = Inr w \<Longrightarrow> value_type w = t"
  by (induction t j rule: plain_from_json.induct) (auto simp: rbind_eq_Inr)

text \<open>The data a reading of type \<open>T\<close> gives back after it was stored.\<close>

fun readable :: "(cdata \<Rightarrow> bool) \<Rightarrow> cpp_type \<Rightarrow> cdata \<Rightarrow> bool" where
  "readable enc (Nullable T) (Non_Null d) = (enc (Non_Null d) \<and> readable enc T d)"
| "readable enc (Plain t) (Scalar v) = (value_type v = t)"
| "readable enc (Enum t) (Scalar v) = (value_type v = t)"
| "readable enc (Bitmask t) (Scalar v) = (value_type v = t)"
| "readable enc _ _ = False"

lemma set_then_get:
  assumes "readable enc T d"
  shows "\<exists>c' v. cache_set enc T p d c = Inr c' \<and> c' = c(p \<mapsto> v) \<and> (\<forall>old. cache_get T c' p old = Inr (True, d))"
  using assms
proof (induction enc T d rule: readable.induct)
  case (1 enc T d)
  then have e: "enc (Non_Null d)" "readable enc T d" by simp_all
  obtain c' v where ih: "cache_set enc T p d c = Inr c'" "c' = c(p \<mapsto> v)"
      "\<forall>old. cache_get T c' p old = Inr (True, d)" using "1.IH" [OF e(2)] by blast
  then have "cache_get (Nullable T) c' p old = Inr (True, Non_Null d)" for old by simp
  moreover have "cache_set enc (Nullable T) p (Non_Null d) c = Inr c'" using e(1) ih(1) by simp
  ultimately show ?case using ih(2) by blast
qed (auto simp: std_get_def)

lemma plain_readable:
  assumes "plain_from_json t j = Inr w" and "T = Plain t \<and> d = Scalar w \<or>
    T = Nullable (Plain t) \<and> d = Non_Null (Scalar w) \<and> enc (Non_Null (Scalar w))"
  shows "from_json table T j = Inr (Some d) \<and> readable enc T d"
  using assms plain_from_json_type [OF assms(1)] by auto

lemma reported_updated_stores:
  assumes "get_cluster_id (ae_translator env) cluster = Some (aa_cluster aa)"
    and "get_attribute_id (ae_translator env) cluster attribute = Some a"
    and "ae_name env (aa_cluster aa) a = Some n" and "map_of (aa_updates aa) n = Some u"
    and "\<forall>ev. u \<noteq> Store_Event ev"
    and "updated_value u (from_json (ae_table_from_json env (aa_cluster aa) n) (ae_type env (aa_cluster aa) n)) j =
      Inr (Some d)"
    and "readable (ae_encodable env) (ae_type env (aa_cluster aa) n) d"
  shows "\<exists>c' v. reported_updated env aa node cluster attribute j c =
      Inr ([Attribute_Changed (be_matter_endpoint node, aa_cluster aa, a)], c') \<and>
    c' = c((be_matter_endpoint node, aa_cluster aa, a) \<mapsto> v) \<and>
    (\<forall>old. cache_get (ae_type env (aa_cluster aa) n) c' (be_matter_endpoint node, aa_cluster aa, a) old =
      Inr (True, d))"
proof -
  obtain c' v where "cache_set (ae_encodable env) (ae_type env (aa_cluster aa) n)
        (be_matter_endpoint node, aa_cluster aa, a) d c = Inr c'"
      "c' = c((be_matter_endpoint node, aa_cluster aa, a) \<mapsto> v)"
      "\<forall>old. cache_get (ae_type env (aa_cluster aa) n) c' (be_matter_endpoint node, aa_cluster aa, a) old = Inr (True, d)"
    using set_then_get [OF assms(7)] by metis
  then show ?thesis
    using assms(1-6) by (cases u) (auto simp: reported_updated_def Let_def)
qed

lemma attribute_read_cached:
  assumes "bridged_endpoint_by_matter (ae_table env) e = Some node"
    and "\<not> is_attribute_emulated (e, aa_cluster aa, a)"
    and "ae_name env (aa_cluster aa) a = Some n" and "n \<in> set (aa_reads aa)"
    and "cache_get (ae_type env (aa_cluster aa) n) c (e, aa_cluster aa, a) Null = Inr (True, d)"
  shows "attribute_read env aa c (e, aa_cluster aa, a) = Inr (Encode d)"
  using assms by (simp add: attribute_read_def)

lemma reported_data_is_read:
  assumes "no_slash (be_unify_unid node)" and "no_slash cluster" and "no_slash attribute"
    and "cluster \<noteq> []" and "attribute \<noteq> []" and "msg \<noteq> []"
    and "bridged_endpoint_by_unify (ae_table env) (be_unify_unid node) (uint (be_unify_endpoint node)) = Some node"
    and "bridged_endpoint_by_matter (ae_table env) (be_matter_endpoint node) = Some node"
    and "get_cluster_id (ae_translator env) cluster = Some (aa_cluster aa)"
    and "get_attribute_id (ae_translator env) cluster attribute = Some a"
    and "ae_name env (aa_cluster aa) a = Some n" and "map_of (aa_updates aa) n = Some Store" and "n \<in> set (aa_reads aa)"
    and "\<not> is_attribute_emulated (be_matter_endpoint node, aa_cluster aa, a)"
    and "get_registered_callback reg (cluster @ ''::'' @ attribute) = None"
    and "parse msg = Inr (JObject ms)" and "map_of ms ''value'' = Some j"
    and "from_json (ae_table_from_json env (aa_cluster aa) n) (ae_type env (aa_cluster aa) n) j = Inr (Some d)"
    and "readable (ae_encodable env) (ae_type env (aa_cluster aa) n) d"
  shows "\<exists>c'. attribute_on_mqtt_message env aa reg parse
      (attribute_topic (be_unify_unid node) (be_unify_endpoint node) cluster attribute) msg c =
      Inr ([Attribute_Changed (be_matter_endpoint node, aa_cluster aa, a)], c') \<and>
    attribute_read env aa c' (be_matter_endpoint node, aa_cluster aa, a) = Inr (Encode d) \<and>
    (\<forall>q. q \<noteq> (be_matter_endpoint node, aa_cluster aa, a) \<longrightarrow> c' q = c q)"
proof -
  obtain c' v where up: "reported_updated env aa node cluster attribute j c =
      Inr ([Attribute_Changed (be_matter_endpoint node, aa_cluster aa, a)], c')"
      "c' = c((be_matter_endpoint node, aa_cluster aa, a) \<mapsto> v)"
      "\<forall>old. cache_get (ae_type env (aa_cluster aa) n) c' (be_matter_endpoint node, aa_cluster aa, a) old = Inr (True, d)"
    using reported_updated_stores [OF assms(9-12) _ _ assms(19), of j node c] assms(18)
    unfolding updated_value_def by fastforce
  have "attribute_on_mqtt_message env aa reg parse
      (attribute_topic (be_unify_unid node) (be_unify_endpoint node) cluster attribute) msg c =
      Inr ([Attribute_Changed (be_matter_endpoint node, aa_cluster aa, a)], c')"
    using report_handled [where update = "reported_updated env aa" and parse = parse and msg = msg,
        OF assms(1-7,15-17)] up(1)
    by (simp add: attribute_on_mqtt_message_def)
  moreover have "attribute_read env aa c' (be_matter_endpoint node, aa_cluster aa, a) = Inr (Encode d)"
    using attribute_read_cached [OF assms(8,14,11,13)] up(3) by blast
  ultimately show ?thesis using up(2) by (auto intro!: exI [of _ c'])
qed

text \<open>The same for every kind of update; only the events of the door lock are announced besides.\<close>

lemma reported_case_is_read:
  assumes "no_slash (be_unify_unid node)" and "no_slash cluster" and "no_slash attribute"
    and "cluster \<noteq> []" and "attribute \<noteq> []" and "msg \<noteq> []"
    and "bridged_endpoint_by_unify (ae_table env) (be_unify_unid node) (uint (be_unify_endpoint node)) = Some node"
    and "bridged_endpoint_by_matter (ae_table env) (be_matter_endpoint node) = Some node"
    and "get_cluster_id (ae_translator env) cluster = Some (aa_cluster aa)"
    and "get_attribute_id (ae_translator env) cluster attribute = Some a"
    and "ae_name env (aa_cluster aa) a = Some n" and "map_of (aa_updates aa) n = Some u" and "n \<in> set (aa_reads aa)"
    and "\<not> is_attribute_emulated (be_matter_endpoint node, aa_cluster aa, a)"
    and "get_registered_callback reg (cluster @ ''::'' @ attribute) = None"
    and "parse msg = Inr (JObject ms)" and "map_of ms ''value'' = Some j"
    and "updated_value u (from_json (ae_table_from_json env (aa_cluster aa) n) (ae_type env (aa_cluster aa) n)) j =
      Inr (Some d)"
    and "readable (ae_encodable env) (ae_type env (aa_cluster aa) n) d"
  shows "\<exists>rs c'. attribute_on_mqtt_message env aa reg parse
      (attribute_topic (be_unify_unid node) (be_unify_endpoint node) cluster attribute) msg c =
      Inr (Attribute_Changed (be_matter_endpoint node, aa_cluster aa, a) # rs, c') \<and>
    set rs \<subseteq> range (Logged (be_matter_endpoint node)) \<and>
    attribute_read env aa c' (be_matter_endpoint node, aa_cluster aa, a) = Inr (Encode d) \<and>
    (\<forall>q. q \<noteq> (be_matter_endpoint node, aa_cluster aa, a) \<longrightarrow> c' q = c q)"
proof -
  let ?p = "(be_matter_endpoint node, aa_cluster aa, a)"
  obtain c' v where c': "cache_set (ae_encodable env) (ae_type env (aa_cluster aa) n) ?p d c = Inr c'" "c' = c(?p \<mapsto> v)"
      "\<forall>old. cache_get (ae_type env (aa_cluster aa) n) c' ?p old = Inr (True, d)"
    using set_then_get [OF assms(19)] by metis
  define rs where "rs = (case u of Store_Event ev \<Rightarrow>
    (case trigger_event ev j of Some le \<Rightarrow> [Logged (be_matter_endpoint node) le] | None \<Rightarrow> []) | _ \<Rightarrow> [])"
  have "reported_updated env aa node cluster attribute j c = Inr (Attribute_Changed ?p # rs, c')"
    using assms(9-12,18) c'(1) by (simp add: reported_updated_def Let_def rs_def)
  then have "attribute_on_mqtt_message env aa reg parse
      (attribute_topic (be_unify_unid node) (be_unify_endpoint node) cluster attribute) msg c =
      Inr (Attribute_Changed ?p # rs, c')"
    using report_handled [where update = "reported_updated env aa" and parse = parse and msg = msg,
        OF assms(1-7,15-17)]
    by (simp add: attribute_on_mqtt_message_def)
  moreover have "set rs \<subseteq> range (Logged (be_matter_endpoint node))"
    by (auto simp: rs_def split: update_case.splits option.splits)
  moreover have "attribute_read env aa c' ?p = Inr (Encode d)"
    using attribute_read_cached [OF assms(8,14,11,13)] c'(3) by blast
  ultimately show ?thesis using c'(2) by (intro exI [of _ rs] exI [of _ c']) simp
qed

section \<open>Properties\<close>

text \<open>C2: Take an attribute whose value is stored without conversion (the plain \<open>Store\<close> cases of a type that is plain or
  nullable, not an enumeration or a bit mask), that no emulator takes and no callback is registered for. A value Unify
  reports for it on a bridged endpoint, which the type can hold and which, for a nullable type, can be encoded, is what
  Matter reads of that attribute afterwards; the report changes no other attribute and announces exactly this one as
  changed. Topic, node, identifiers, JSON value and cache agree. (Clamped and emulated attributes read differently.)\<close>

theorem reported_value_is_read:
  assumes "no_slash (be_unify_unid node)" and "no_slash cluster" and "no_slash attribute"
    and "cluster \<noteq> []" and "attribute \<noteq> []" and "msg \<noteq> []"
    and "bridged_endpoint_by_unify (ae_table env) (be_unify_unid node) (uint (be_unify_endpoint node)) = Some node"
    and "bridged_endpoint_by_matter (ae_table env) (be_matter_endpoint node) = Some node"
    and "get_cluster_id (ae_translator env) cluster = Some (aa_cluster aa)"
    and "get_attribute_id (ae_translator env) cluster attribute = Some a"
    and "ae_name env (aa_cluster aa) a = Some n" and "map_of (aa_updates aa) n = Some Store" and "n \<in> set (aa_reads aa)"
    and "\<not> is_attribute_emulated (be_matter_endpoint node, aa_cluster aa, a)"
    and "get_registered_callback reg (cluster @ ''::'' @ attribute) = None"
    and "parse msg = Inr (JObject ms)" and "map_of ms ''value'' = Some j" and "plain_from_json t j = Inr w"
    and "ae_type env (aa_cluster aa) n = Plain t \<and> d = Scalar w \<or>
      ae_type env (aa_cluster aa) n = Nullable (Plain t) \<and> d = Non_Null (Scalar w) \<and> ae_encodable env (Non_Null (Scalar w))"
  shows "\<exists>c'. attribute_on_mqtt_message env aa reg parse
      (attribute_topic (be_unify_unid node) (be_unify_endpoint node) cluster attribute) msg c =
      Inr ([Attribute_Changed (be_matter_endpoint node, aa_cluster aa, a)], c') \<and>
    attribute_read env aa c' (be_matter_endpoint node, aa_cluster aa, a) = Inr (Encode d) \<and>
    (\<forall>q. q \<noteq> (be_matter_endpoint node, aa_cluster aa, a) \<longrightarrow> c' q = c q)"
proof -
  have "from_json (ae_table_from_json env (aa_cluster aa) n) (ae_type env (aa_cluster aa) n) j = Inr (Some d)"
    "readable (ae_encodable env) (ae_type env (aa_cluster aa) n) d"
    using plain_readable [OF assms(18), where enc = "ae_encodable env"] assms(19) by blast+
  with assms(1-17) show ?thesis by (rule reported_data_is_read)
qed

definition sample_ae :: attribute_env where
  "sample_ae = \<lparr>ae_table = nm_endpoints two_nodes,
     ae_translator = (sample_translator True)\<lparr>unify_cluster_id_map := [''OnOff'' \<mapsto> OnOff_Id, ''Level'' \<mapsto> LevelControl_Id],
       unify_to_matter_attribute_id_map := [''OnOff'' \<mapsto> [''OnOff'' \<mapsto> 0], ''Level'' \<mapsto> [''CurrentLevel'' \<mapsto> 0]]\<rparr>,
     ae_name = (\<lambda>cl a. if a \<noteq> 0 then None else if cl = OnOff_Id then Some ''OnOff''
       else if cl = LevelControl_Id then Some ''CurrentLevel'' else None),
     ae_type = (\<lambda>cl n. if cl = OnOff_Id then Plain TBool else Nullable (Plain TUInt8)),
     ae_table_from_json = (\<lambda>_ _ _. Inr None), ae_encodable = (\<lambda>d. d \<noteq> Non_Null (Scalar (VUInt8 255))),
     ae_dump = (\<lambda>_. Inr ''{...}''), ae_find_server = (\<lambda>_ _. True)\<rparr>"

definition lamp :: bridged_endpoint where
  "lamp = sample_bridge ''zw-1'' 0 2 [6, 29]"

lemma lamp_fields: "be_unify_unid lamp = ''zw-1''" "be_unify_endpoint lamp = 0" "be_matter_endpoint lamp = 2"
  by (simp_all add: lamp_def sample_bridge_def new_bridge_def)

lemma lamp_lookup:
  "bridged_endpoint_by_matter (nm_endpoints two_nodes) 2 = Some lamp"
  "bridged_endpoint_by_unify (nm_endpoints two_nodes) ''zw-1'' 0 = Some lamp"
  by (simp_all add: bridged_endpoint_by_matter_def bridged_endpoint_by_unify_def two_nodes_def
      sample_bridge_def new_bridge_def equal_range_def lamp_def)

lemma onoff_not_emulated: "\<not> is_attribute_emulated (e, OnOff_Id, 0)"
  by (simp add: is_attribute_emulated_def attribute_emulator_map_def cluster_emulators_def emulator_defs)

lemma reported_value_is_read_witness:
  "\<exists>c'. attribute_on_mqtt_message sample_ae onoff_access Map.empty (\<lambda>_. Inr (JObject [(''value'', JBool True)]))
      (attribute_topic ''zw-1'' 0 ''OnOff'' ''OnOff'') ''...'' Map.empty =
      Inr ([Attribute_Changed (2, OnOff_Id, 0)], c') \<and>
    attribute_read sample_ae onoff_access c' (2, OnOff_Id, 0) = Inr (Encode (Scalar (VBool True)))"
proof -
  have slash: "no_slash ''zw-1''" "no_slash ''OnOff''" by (simp_all add: no_slash_def)
  show ?thesis
    using reported_value_is_read [where node = lamp and cluster = "''OnOff''" and attribute = "''OnOff''"
        and msg = "''...''" and env = sample_ae and aa = onoff_access and a = 0 and n = "''OnOff''"
        and reg = Map.empty and parse = "\<lambda>_. Inr (JObject [(''value'', JBool True)])"
        and ms = "[(''value'', JBool True)]" and j = "JBool True" and t = TBool and w = "VBool True"
        and d = "Scalar (VBool True)" and c = Map.empty] slash
    by (simp add: lamp_fields sample_ae_def lamp_lookup onoff_access_def onoff_updates_def onoff_reads_def
        get_cluster_id_def get_attribute_id_def onoff_not_emulated get_registered_callback_def) blast
qed

section \<open>The tables\<close>

text \<open>
  No attribute appears twice in a table, what is stored or written can be read, and of the global
  attributes only the feature map of the door lock is stored.
\<close>

definition tables_ok :: "attribute_access \<Rightarrow> bool" where
  "tables_ok aa \<longleftrightarrow> distinct (aa_reads aa) \<and> distinct (map fst (aa_writes aa)) \<and>
     distinct (map fst (aa_updates aa)) \<and> set (map fst (aa_writes aa)) \<subseteq> set (aa_reads aa) \<and>
     set (map fst (aa_updates aa)) \<subseteq> set (aa_reads aa) \<and> ''FeatureMap'' \<in> set (aa_reads aa) \<and>
     (''FeatureMap'' \<in> set (map fst (aa_updates aa))) = (aa_cluster aa = DoorLock_Id)"

lemma identify_tables: "tables_ok identify_access"
  by (simp add: tables_ok_def identify_access_def identify_reads_def identify_updates_def
      identify_writes_def)

lemma groups_tables: "tables_ok groups_access"
  by (simp add: tables_ok_def groups_access_def groups_reads_def groups_updates_def groups_writes_def)

lemma onoff_tables: "tables_ok onoff_access"
  by (simp add: tables_ok_def onoff_access_def onoff_reads_def onoff_updates_def onoff_writes_def)

lemma level_tables: "tables_ok level_access"
  by (simp add: level_parts tables_ok_def level_access_def level_reads_def level_updates_def level_writes_def)

lemma doorlock_tables: "tables_ok doorlock_access"
  by (simp add: doorlock_parts tables_ok_def doorlock_access_def doorlock_reads_def doorlock_updates_def
      doorlock_writes_def)

lemma window_covering_tables: "tables_ok window_covering_access"
  by (simp add: window_covering_parts tables_ok_def window_covering_access_def window_covering_reads_def window_covering_updates_def
      window_covering_writes_def)

lemma thermostat_tables: "tables_ok thermostat_access"
  by (simp add: thermostat_parts tables_ok_def thermostat_access_def thermostat_reads_def thermostat_updates_def
      thermostat_writes_def)

lemma color_tables: "tables_ok color_access"
  by (simp add: color_parts tables_ok_def color_access_def color_reads_def color_updates_def color_writes_def)

lemma illuminance_tables: "tables_ok illuminance_access"
  by (simp add: tables_ok_def illuminance_access_def illuminance_reads_def illuminance_updates_def illuminance_writes_def)

lemma temperature_tables: "tables_ok temperature_access"
  by (simp add: tables_ok_def temperature_access_def temperature_reads_def temperature_updates_def temperature_writes_def)

lemma pressure_tables: "tables_ok pressure_access"
  by (simp add: tables_ok_def pressure_access_def pressure_reads_def pressure_updates_def pressure_writes_def)

lemma flow_tables: "tables_ok flow_access"
  by (simp add: tables_ok_def flow_access_def flow_reads_def flow_updates_def flow_writes_def)

lemma humidity_tables: "tables_ok humidity_access"
  by (simp add: tables_ok_def humidity_access_def humidity_reads_def humidity_updates_def humidity_writes_def)

lemma occupancy_tables: "tables_ok occupancy_access"
  by (simp add: occupancy_parts tables_ok_def occupancy_access_def occupancy_reads_def occupancy_updates_def
      occupancy_writes_def)

section \<open>The level\<close>

lemma attribute_emulator_map_level: "attribute_emulator_map (LevelControl_Id, CurrentLevel_Id) = Some emulate_level"
  by (simp add: attribute_emulator_map_def cluster_emulators_def emulator_defs)

lemma u8_below_max: "(w :: u8) \<noteq> 255 \<Longrightarrow> w < 255"
  using unat8_less [of w] by (simp add: word_less_nat_alt word_unat_eq_iff)

lemma level_read_stored:
  assumes "bridged_endpoint_by_matter (ae_table env) e = Some node"
    and "c (e, LevelControl_Id, CurrentLevel_Id) = Some (VUInt8 w)" and "w < 255"
  shows "attribute_read env level_access c (e, LevelControl_Id, CurrentLevel_Id) =
    Inr (Encode (Non_Null (Scalar (VUInt8 (if w < 1 then 1 else w)))))"
proof -
  have emulated: "is_attribute_emulated (e, LevelControl_Id, CurrentLevel_Id)"
    by (simp add: is_attribute_emulated_def attribute_emulator_map_level)
  have "emulator_read_attribute fs pt c (e, LevelControl_Id, CurrentLevel_Id) =
      level_read c (e, LevelControl_Id, CurrentLevel_Id)" for fs pt
    by (simp add: emulator_read_attribute_def attribute_emulator_map_level emulate_level_def)
  then show ?thesis
    using assms emulated
    by (simp add: attribute_read_def level_access_def level_read_def get_u8_plain nullable_u8_def)
qed

text \<open>C34: Whatever number Unify reports as the current level, what Matter reads is never null and between
  1 and 254: the report moves the top value down when it is stored, the emulation moves 0 up when it is
  read.\<close>

theorem reported_level_in_range:
  assumes "bridged_endpoint_by_matter (ae_table env) (be_matter_endpoint node) = Some node"
    and "get_cluster_id (ae_translator env) ''Level'' = Some LevelControl_Id"
    and "get_attribute_id (ae_translator env) ''Level'' ''CurrentLevel'' = Some CurrentLevel_Id"
    and "ae_name env LevelControl_Id CurrentLevel_Id = Some ''CurrentLevel''"
    and "ae_type env LevelControl_Id ''CurrentLevel'' = Nullable (Plain TUInt8)"
    and "\<forall>w. ae_encodable env (Non_Null (Scalar (VUInt8 w))) \<longleftrightarrow> w < 255"
    and "json_number j = Inr n"
  shows "\<exists>reports c'. reported_updated env level_access node ''Level'' ''CurrentLevel'' j c = Inr (reports, c') \<and>
    (\<exists>w. attribute_read env level_access c' (be_matter_endpoint node, LevelControl_Id, CurrentLevel_Id) =
        Inr (Encode (Non_Null (Scalar (VUInt8 w)))) \<and> 1 \<le> w \<and> w \<le> 254 \<and>
      w = (let v = word_of_int n in if v = 0 then 1 else if v = 255 then 254 else v))"
proof -
  define v :: u8 where "v = word_of_int n"
  define w where "w = (if v = 255 then 254 else v)"
  have w: "w < 255" using u8_below_max [of v] by (simp add: w_def)
  have u: "updated_value Store_Below_Max (from_json table (Nullable (Plain TUInt8))) j =
      Inr (Some (Non_Null (Scalar (VUInt8 w))))" for table
    using assms(7) by (simp add: updated_value_def w_def v_def)
  have "cache_set (ae_encodable env) (Nullable (Plain TUInt8)) p (Non_Null (Scalar (VUInt8 w))) c =
      Inr (c(p \<mapsto> VUInt8 w))" for p
    using assms(6) w by simp
  then have "reported_updated env level_access node ''Level'' ''CurrentLevel'' j c =
      Inr ([Attribute_Changed (be_matter_endpoint node, LevelControl_Id, CurrentLevel_Id)],
        c((be_matter_endpoint node, LevelControl_Id, CurrentLevel_Id) \<mapsto> VUInt8 w))"
    using assms(2-5) u by (simp add: reported_updated_def level_access_def level_updates_def level_parts Let_def)
  moreover have "attribute_read env level_access
      (c((be_matter_endpoint node, LevelControl_Id, CurrentLevel_Id) \<mapsto> VUInt8 w))
      (be_matter_endpoint node, LevelControl_Id, CurrentLevel_Id) =
      Inr (Encode (Non_Null (Scalar (VUInt8 (if w < 1 then 1 else w)))))"
    using assms(1) w by (intro level_read_stored) simp_all
  moreover have "(if w < 1 then 1 else w) = (let v = word_of_int n in if v = 0 then 1 else if v = 255 then 254 else v)"
    by (simp add: Let_def w_def flip: v_def)
  moreover have "1 \<le> (if w < 1 then 1 else w) \<and> (if w < 1 then 1 else w) \<le> 254"
    using w by (simp add: not_less word_le_nat_alt word_less_nat_alt)
  ultimately show ?thesis by blast
qed

lemma reported_level_in_range_witness:
  "\<exists>reports c'. reported_updated sample_ae level_access lamp ''Level'' ''CurrentLevel'' (JInt 255) Map.empty =
      Inr (reports, c') \<and> attribute_read sample_ae level_access c' (2, LevelControl_Id, CurrentLevel_Id) =
      Inr (Encode (Non_Null (Scalar (VUInt8 254))))"
proof -
  have enc: "(w :: u8) \<noteq> 255 \<longleftrightarrow> w < 255" for w using u8_below_max [of w] by auto
  show ?thesis
    using reported_level_in_range [where env = sample_ae and node = lamp and j = "JInt 255" and n = 255
        and c = Map.empty] lamp_lookup enc
    by (simp add: sample_ae_def lamp_fields get_cluster_id_def get_attribute_id_def)
qed

section \<open>Locality\<close>

text \<open>C16: A report about one bridged endpoint, whatever its text, value and cluster, changes no cached
  attribute of any other endpoint, announces no change and logs no event elsewhere. This includes the
  callbacks the window covering emulator registers, and reports that end in a caught exception.\<close>

theorem report_is_local:
  assumes "callbacks_local reg"
    and "regex_search match_attribute_topic topic = Some (u, ep, cluster, attribute)"
    and "stoi ep = Inr n" and "bridged_endpoint_by_unify (ae_table env) u n = Some node"
    and "attribute_on_mqtt_message env aa (register_window_covering_callbacks reg) parse topic msg c = Inr (rs, c')"
  shows "(\<forall>e k a. e \<noteq> be_matter_endpoint node \<longrightarrow> c' (e, k, a) = c (e, k, a)) \<and>
    (\<forall>r\<in>set rs. report_endpoint r = be_matter_endpoint node)"
proof -
  have "same_elsewhere (be_matter_endpoint node) c c' \<and>
      (\<forall>r\<in>set rs. report_endpoint r = be_matter_endpoint node)"
    by (rule generated.message_local [OF window_covering_callbacks_local [OF assms(1)] assms(2-4)
          assms(5) [unfolded attribute_on_mqtt_message_def]])
  then show ?thesis unfolding same_elsewhere_def by simp
qed

lemma lamp_message:
  "attribute_on_mqtt_message sample_ae onoff_access (register_window_covering_callbacks Map.empty)
     (\<lambda>_. Inr (JObject [(''value'', JBool True)])) (attribute_topic ''zw-1'' 0 ''OnOff'' ''OnOff'') ''...'' Map.empty =
   Inr ([Attribute_Changed (2, OnOff_Id, 0)], [(2, OnOff_Id, 0) \<mapsto> VBool True])"
proof -
  have topic: "regex_search match_attribute_topic (attribute_topic ''zw-1'' 0 ''OnOff'' ''OnOff'') =
      Some (''zw-1'', word_to_string (0 :: u8), ''OnOff'', ''OnOff'')"
    by (intro regex_search_here match_attribute_topic_compose) (simp_all add: no_slash_def)
  have "stoi (word_to_string (0 :: u8)) = Inr 0" using stoi_word [of "0 :: u8"] by simp
  then show ?thesis
    using topic
    by (simp add: attribute_on_mqtt_message_def on_mqtt_message_cb_def attribute_report_def message_value_def
        register_window_covering_callbacks_def register_callback_def get_registered_callback_def
        sample_ae_def lamp_lookup lamp_fields reported_updated_def updated_value_def onoff_access_def
        onoff_updates_def get_cluster_id_def get_attribute_id_def Let_def)
qed

lemma report_is_local_witness:
  "\<forall>k a. [(2, OnOff_Id, 0) \<mapsto> VBool True] (3 :: endpoint_id, k, a) = (Map.empty :: cache) (3, k, a)"
proof -
  have topic: "regex_search match_attribute_topic (attribute_topic ''zw-1'' 0 ''OnOff'' ''OnOff'') =
      Some (''zw-1'', word_to_string (0 :: u8), ''OnOff'', ''OnOff'')"
    by (intro regex_search_here match_attribute_topic_compose) (simp_all add: no_slash_def)
  have table: "bridged_endpoint_by_unify (ae_table sample_ae) ''zw-1'' 0 = Some lamp"
    by (simp add: sample_ae_def lamp_lookup)
  have "stoi (word_to_string (0 :: u8)) = Inr 0" using stoi_word [of "0 :: u8"] by simp
  moreover have "callbacks_local Map.empty" by (simp add: callbacks_local_def)
  ultimately show ?thesis
    using report_is_local [OF _ topic _ table lamp_message] by (simp add: lamp_fields)
qed

section \<open>Properties of the tables\<close>

text \<open>In every handler no attribute appears twice in a table, everything a handler stores or lets be
  written can be read, and the global attributes are readable but, with the exception of the feature map
  of the door lock, never stored.\<close>

theorem attribute_tables_consistent: "list_all tables_ok attribute_accesses"
  by (simp add: attribute_accesses_def identify_tables groups_tables
      onoff_tables level_tables doorlock_tables window_covering_tables
      thermostat_tables color_tables illuminance_tables temperature_tables pressure_tables
      flow_tables humidity_tables occupancy_tables)

end
