(* ===== verification/Bridged_Basic_Info.thy ===== *)
theory Bridged_Basic_Info
  imports Attribute_Interface
begin

text \<open>
  linux/src/cluster_translator/bridged_device_basic_info_attribute_translator.cpp: the bridged device
  basic information cluster, which is not generated. It is fed from the Unify clusters \<open>Basic\<close> and
  \<open>NameAndLocation\<close>, and its attribute \<open>Reachable\<close> from the node state monitor. It keeps no state
  of its own besides the attribute state cache, which it reads with the getter that throws.
\<close>

section \<open>Identifiers\<close>

abbreviation VendorName_Id :: attribute_id where "VendorName_Id \<equiv> 1"
abbreviation VendorID_Id :: attribute_id where "VendorID_Id \<equiv> 2"
abbreviation ProductName_Id :: attribute_id where "ProductName_Id \<equiv> 3"
abbreviation HardwareVersion_Id :: attribute_id where "HardwareVersion_Id \<equiv> 7"
abbreviation HardwareVersionString_Id :: attribute_id where "HardwareVersionString_Id \<equiv> 8"
abbreviation SoftwareVersion_Id :: attribute_id where "SoftwareVersion_Id \<equiv> 9"
abbreviation SoftwareVersionString_Id :: attribute_id where "SoftwareVersionString_Id \<equiv> 10"
abbreviation ManufacturingDate_Id :: attribute_id where "ManufacturingDate_Id \<equiv> 11"
abbreviation ProductURL_Id :: attribute_id where "ProductURL_Id \<equiv> 13"
abbreviation ProductLabel_Id :: attribute_id where "ProductLabel_Id \<equiv> 14"
abbreviation SerialNumber_Id :: attribute_id where "SerialNumber_Id \<equiv> 15"
abbreviation UniqueID_Id :: attribute_id where "UniqueID_Id \<equiv> 18"

abbreviation ATTRIBUTE_ID_INVALID :: attribute_id where "ATTRIBUTE_ID_INVALID \<equiv> 4294967295"

abbreviation basic_path :: "endpoint_id \<Rightarrow> attribute_id \<Rightarrow> attr_path" where
  "basic_path e a \<equiv> (e, BridgedDeviceBasicInformation_Id, a)"

section \<open>The names\<close>

text \<open>
  The initialiser of the map, with its repeated keys. A \<open>std::unordered_map\<close> keeps one element for
  each key, in the libraries the bridge is built with the first: \<open>map_of\<close>.
\<close>

definition basic_information_map :: "(string \<times> attribute_id) list" where
  "basic_information_map =
     [(''ManufacturerName'', VendorName_Id), (''ManufacturerName'', VendorID_Id),
      (''ModelIdentifier'', ProductName_Id), (''HWVersion'', HardwareVersion_Id),
      (''ModelIdentifier'', HardwareVersionString_Id), (''ApplicationVersion'', SoftwareVersion_Id),
      (''SWBuildID'', SoftwareVersionString_Id), (''DateCode'', ManufacturingDate_Id),
      (''ProductURL'', ProductURL_Id), (''ProductLabel'', ProductLabel_Id),
      (''SerialNumber'', SerialNumber_Id), (''ApplicationVersion'', UniqueID_Id)]"

definition map_basic_cluster_attributes :: "string \<Rightarrow> attribute_id" where
  "map_basic_cluster_attributes attribute =
     (case map_of basic_information_map attribute of Some a \<Rightarrow> a | None \<Rightarrow> ATTRIBUTE_ID_INVALID)"

section \<open>Reading\<close>

text \<open>\<open>CharSpan::fromCharString(s.c_str())\<close>: the string up to the first null character.\<close>

definition c_string :: "string \<Rightarrow> string" where
  "c_string s = takeWhile (\<lambda>ch. ch \<noteq> CHR 0x00) s"

definition reported_strings :: "attribute_id list" where
  "reported_strings = [VendorName_Id, ProductName_Id, HardwareVersionString_Id, SoftwareVersionString_Id,
     ManufacturingDate_Id, ProductURL_Id, ProductLabel_Id, SerialNumber_Id]"

definition read_string :: "cache \<Rightarrow> attr_path \<Rightarrow> read_reply res" where
  "read_string c p = rbind (cache_get_ref TString c p)
     (\<lambda>v. Inr (Encode (Scalar (case v of VString s \<Rightarrow> VString (c_string s) | _ \<Rightarrow> v))))"

definition read_plain :: "vtype \<Rightarrow> cache \<Rightarrow> attr_path \<Rightarrow> read_reply res" where
  "read_plain t c p = rbind (cache_get_ref t c p) (\<lambda>v. Inr (Encode (Scalar v)))"

text \<open>The switch inside the \<open>try\<close> block, and the block: only \<open>std::out_of_range\<close> is caught.\<close>

definition basic_switch :: "cache \<Rightarrow> attr_path \<Rightarrow> read_reply res" where
  "basic_switch c p =
     (let a = snd (snd p) in
      if a \<in> set reported_strings \<or> a = NodeLabel_Id then read_string c p
      else if a = VendorID_Id \<or> a = HardwareVersion_Id then read_plain TUInt16 c p
      else if a = SoftwareVersion_Id then read_plain TUInt32 c p
      else if a = Reachable_Id then read_plain TBool c p
      else if a = FeatureMap_Id then Inr (Encode (Scalar (VUInt32 0)))
      else if a = ClusterRevision_Id then Inr (Encode (Scalar (VUInt16 3)))
      else if a = EventList_Id then Inr Encode_Empty_List
      else Inr (Read_Error CHIP_NO_ERROR))"

definition basic_read :: "cache \<Rightarrow> attr_path \<Rightarrow> read_reply res" where
  "basic_read c p =
     (if fst (snd p) \<noteq> BridgedDeviceBasicInformation_Id then Inr (Read_Error CHIP_ERROR_INVALID_ARGUMENT)
      else case basic_switch c p of
        Inl Out_Of_Range \<Rightarrow> Inr (Read_Error CHIP_ERROR_NO_MESSAGE_HANDLER)
      | r \<Rightarrow> r)"

section \<open>Writing\<close>

text \<open>The node of the endpoint is dereferenced without a test; the JSON printer is a parameter.\<close>

definition basic_write ::
  "(json \<Rightarrow> string res) \<Rightarrow> endpoint_table \<Rightarrow> attr_path \<Rightarrow> (string, chip_error) sum \<Rightarrow>
     (mqtt_action list \<times> chip_error) res" where
  "basic_write dump table p decoded =
     (case p of (e, cl, a) \<Rightarrow>
        if cl \<noteq> BridgedDeviceBasicInformation_Id then Inr ([], CHIP_ERROR_INVALID_ARGUMENT)
        else if a \<noteq> NodeLabel_Id then Inr ([], CHIP_ERROR_NO_MESSAGE_HANDLER)
        else case decoded of
          Inr err \<Rightarrow> Inr ([], err)
        | Inl label \<Rightarrow>
            (case bridged_endpoint_by_matter table e of
               None \<Rightarrow> Inl Null_Dereference
             | Some node \<Rightarrow>
                 rbind (dump (JObject [(''value'', JString label)])) (\<lambda>payload.
                 Inr ([Publish (by_unid_topic (be_unify_unid node) (be_unify_endpoint node) @
                         ''/NameAndLocation/Attributes/Name/Desired'') payload True], CHIP_NO_ERROR))))"

section \<open>Reports\<close>

definition store_and_report :: "attr_path \<Rightarrow> value_t \<Rightarrow> cache \<Rightarrow> (report list \<times> cache) res" where
  "store_and_report p v c =
     rbind (cache_set (\<lambda>_. True) (Plain (value_type v)) p (Scalar v) c) (\<lambda>c.
     Inr ([Attribute_Changed p], c))"

text \<open>
  \<open>SoftwareVersion\<close> is read from JSON as a \<open>uint32_t\<close> and stored as a \<open>uint16_t\<close>. The number for an
  unspecified vendor is a constant of the Matter library, the parameter \<open>unspecified_vendor\<close>.
\<close>

definition basic_update ::
  "u16 \<Rightarrow> endpoint_id \<Rightarrow> attribute_id \<Rightarrow> json \<Rightarrow> cache \<Rightarrow> (report list \<times> cache) res" where
  "basic_update unspecified_vendor e a j c =
     (if a \<in> set reported_strings then
        rbind (json_get_string j) (\<lambda>s. store_and_report (basic_path e a) (VString s) c)
      else if a = VendorID_Id then store_and_report (basic_path e a) (VUInt16 unspecified_vendor) c
      else if a = HardwareVersion_Id then
        rbind (json_get_u16 j) (\<lambda>w. store_and_report (basic_path e a) (VUInt16 w) c)
      else if a = SoftwareVersion_Id then
        rbind (json_number j) (\<lambda>n.
          store_and_report (basic_path e a) (VUInt16 (ucast (word_of_int n :: u32))) c)
      else Inr ([], c))"

definition basic_reported_updated :: "u16 \<Rightarrow> report_handler" where
  "basic_reported_updated unspecified_vendor node cluster attribute j c =
     (let e = be_matter_endpoint node in
      if cluster = ''Basic'' then
        (let a = map_basic_cluster_attributes (c_string attribute) in
         if a = ATTRIBUTE_ID_INVALID then Inr ([], c) else basic_update unspecified_vendor e a j c)
      else if cluster = ''NameAndLocation'' \<and> attribute = ''Name'' then
        rbind (json_get_string j) (\<lambda>s. store_and_report (basic_path e NodeLabel_Id) (VString s) c)
      else Inr ([], c))"

definition basic_cluster_names :: "string list" where
  "basic_cluster_names = [''Basic'', ''NameAndLocation'']"

section \<open>The state of a node\<close>

text \<open>The listener this class registers with the node state monitor, and its run over notifications.\<close>

definition unify_node_reachable_state_update ::
  "bridged_endpoint \<Rightarrow> update \<Rightarrow> cache \<Rightarrow> (report list \<times> cache) res" where
  "unify_node_reachable_state_update ep u c =
     (if u \<noteq> NODE_STATE_CHANGED then Inr ([], c)
      else case be_reachable ep of
        None \<Rightarrow> Inl Uninitialised_Read
      | Some reachable \<Rightarrow>
          rbind (store_and_report (basic_path (be_matter_endpoint ep) Reachable_Id) (VBool reachable) c)
            (\<lambda>(out, c). Inr (out @ [Logged (be_matter_endpoint ep) (Reachable_Changed reachable)], c)))"

fun run_reachable_listener :: "nat \<Rightarrow> notification list \<Rightarrow> cache \<Rightarrow> (report list \<times> cache) res" where
  "run_reachable_listener l [] c = Inr ([], c)"
| "run_reachable_listener l ((l', ep, u) # ns) c =
     rbind (if l' = l then unify_node_reachable_state_update ep u c else Inr ([], c)) (\<lambda>(out, c).
     rbind (run_reachable_listener l ns c) (\<lambda>(out', c). Inr (out @ out', c)))"

section \<open>Lemmas\<close>

lemma store_and_report_eq: "store_and_report p v c = Inr ([Attribute_Changed p], c(p \<mapsto> v))"
  by (simp add: store_and_report_def)

lemma basic_update_result:
  assumes "basic_update uv e a j c = Inr (rs, c')"
  shows "rs = [] \<and> c' = c \<or> rs = [Attribute_Changed (basic_path e a)] \<and>
    (\<exists>v. c' = c(basic_path e a \<mapsto> v)) \<and> a \<in> set reported_strings \<union> {VendorID_Id, HardwareVersion_Id, SoftwareVersion_Id}"
  using assms unfolding basic_update_def
  by (auto simp: rbind_eq_Inr store_and_report_eq split: if_splits)

lemma basic_reported_result:
  assumes "basic_reported_updated uv node cluster attribute j c = Inr (rs, c')"
  obtains "rs = []" "c' = c"
  | a v where "rs = [Attribute_Changed (basic_path (be_matter_endpoint node) a)]"
      "c' = c(basic_path (be_matter_endpoint node) a \<mapsto> v)"
      "a = NodeLabel_Id \<or> (\<exists>n. a = map_basic_cluster_attributes n)"
  using assms unfolding basic_reported_updated_def Let_def
  by (auto simp: rbind_eq_Inr store_and_report_eq split: if_splits dest!: basic_update_result)

interpretation basic_info: attribute_handler "basic_reported_updated uv" BridgedDeviceBasicInformation_Id for uv
proof unfold_locales
  fix node cluster attribute j c rs c'
  assume "basic_reported_updated uv node cluster attribute j c = Inr (rs, c')"
  then show "cache_frame (be_matter_endpoint node) BridgedDeviceBasicInformation_Id c c'"
    by (rule basic_reported_result) (simp_all add: cache_frame_def)
next
  fix node cluster attribute j c rs c' r
  assume "basic_reported_updated uv node cluster attribute j c = Inr (rs, c')" and "r \<in> set rs"
  then show "report_endpoint r = be_matter_endpoint node"
    by (elim basic_reported_result) simp_all
qed

lemma map_basic_range:
  "map_basic_cluster_attributes n \<in> {VendorName_Id, ProductName_Id, HardwareVersion_Id, SoftwareVersion_Id,
     SoftwareVersionString_Id, ManufacturingDate_Id, ProductURL_Id, ProductLabel_Id, SerialNumber_Id,
     ATTRIBUTE_ID_INVALID}"
  by (simp add: map_basic_cluster_attributes_def basic_information_map_def)

lemma read_unset: "c (basic_path e a) = None \<Longrightarrow>
    a \<in> {VendorID_Id, HardwareVersion_Id, SoftwareVersion_Id, Reachable_Id, NodeLabel_Id} \<union> set reported_strings \<Longrightarrow>
    basic_read c (basic_path e a) = Inr (Read_Error CHIP_ERROR_NO_MESSAGE_HANDLER)"
  by (auto simp: basic_read_def basic_switch_def read_string_def read_plain_def cache_get_ref_def Let_def
      reported_strings_def)

lemma read_stored_string: "a \<in> set (NodeLabel_Id # reported_strings) \<Longrightarrow> c (basic_path e a) = Some (VString s) \<Longrightarrow>
    basic_read c (basic_path e a) = Inr (Encode (Scalar (VString (c_string s))))"
  by (auto simp: basic_read_def basic_switch_def read_string_def cache_get_ref_def std_get_def Let_def)

text \<open>A known name has no null character, so passing it as a C string does not change it.\<close>

lemma known_names_plain: "list_all (\<lambda>(n, _). c_string n = n) basic_information_map"
  by (simp add: basic_information_map_def c_string_def)

lemma known_name_c_string:
  assumes "map_basic_cluster_attributes attribute \<noteq> ATTRIBUTE_ID_INVALID"
  shows "c_string attribute = attribute"
proof -
  obtain a where "map_of basic_information_map attribute = Some a"
    using assms by (auto simp: map_basic_cluster_attributes_def split: option.splits)
  from bspec [OF known_names_plain [unfolded list_all_iff] map_of_SomeD [OF this]] show ?thesis by simp
qed

lemma run_reachable_append:
  "run_reachable_listener l (ns @ ms) c =
     rbind (run_reachable_listener l ns c) (\<lambda>(out, c1).
     rbind (run_reachable_listener l ms c1) (\<lambda>(out', c2). Inr (out @ out', c2)))"
proof (induction l ns c rule: run_reachable_listener.induct)
  case (1 l c)
  then show ?case by (cases "run_reachable_listener l ms c") auto
next
  case (2 l l' ep u ns c)
  let ?first = "if l' = l then unify_node_reachable_state_update ep u c else Inr ([], c)"
  show ?case
  proof (cases ?first)
    case (Inr r)
    obtain o1 c1 where r: "r = (o1, c1)" by (cases r)
    have "run_reachable_listener l (ns @ ms) c1 =
        rbind (run_reachable_listener l ns c1) (\<lambda>(out, c1).
        rbind (run_reachable_listener l ms c1) (\<lambda>(out', c2). Inr (out @ out', c2)))"
      using 2 Inr r by (metis (no_types, lifting))
    then show ?thesis
      using Inr r by (auto simp: rbind_assoc case_prod_unfold intro!: rbind_cong simp del: run_reachable_listener.simps(1))
  qed simp
qed

definition reachable_reports :: "endpoint_id \<Rightarrow> bool \<Rightarrow> report list" where
  "reachable_reports e online = [Attribute_Changed (basic_path e Reachable_Id), Logged e (Reachable_Changed online)]"

lemma run_reachable_endpoint:
  "run_reachable_listener l (invoke_listeners ls (ep\<lparr>be_reachable := Some b\<rparr>) NODE_STATE_CHANGED) c =
     Inr (concat (replicate (count_list ls l) (reachable_reports (be_matter_endpoint ep) b)),
       if l \<in> set ls then c(basic_path (be_matter_endpoint ep) Reachable_Id \<mapsto> VBool b) else c)"
  by (induction ls arbitrary: c)
    (auto simp: invoke_listeners_def unify_node_reachable_state_update_def store_and_report_eq
      reachable_reports_def)

lemma run_reachable_endpoints:
  assumes "count_list ls l = 1"
  shows "\<exists>c'. run_reachable_listener l (concat (map (\<lambda>ep. invoke_listeners ls (ep\<lparr>be_reachable := Some b\<rparr>)
        NODE_STATE_CHANGED) eps)) c =
      Inr (concat (map (\<lambda>ep. reachable_reports (be_matter_endpoint ep) b) eps), c') \<and>
    (\<forall>q. c' q = (if \<exists>ep\<in>set eps. q = basic_path (be_matter_endpoint ep) Reachable_Id
       then Some (VBool b) else c q))"
proof (induction eps arbitrary: c)
  case (Cons ep eps)
  have mem: "l \<in> set ls" using assms count_notin by fastforce
  obtain c' where "run_reachable_listener l (concat (map (\<lambda>ep. invoke_listeners ls (ep\<lparr>be_reachable := Some b\<rparr>)
        NODE_STATE_CHANGED) eps)) (c(basic_path (be_matter_endpoint ep) Reachable_Id \<mapsto> VBool b)) =
      Inr (concat (map (\<lambda>ep. reachable_reports (be_matter_endpoint ep) b) eps), c')"
    "\<forall>q. c' q = (if \<exists>ep\<in>set eps. q = basic_path (be_matter_endpoint ep) Reachable_Id then Some (VBool b)
       else (c(basic_path (be_matter_endpoint ep) Reachable_Id \<mapsto> VBool b)) q)"
    using Cons.IH by blast
  then show ?case
    using mem assms by (intro exI [of _ c']) (auto simp: run_reachable_append run_reachable_endpoint)
qed simp

section \<open>Runs of the cluster\<close>

text \<open>
  Any number of reports of any node, on its own clusters or not, and of changes of reachability. A report
  that fails leaves the cache as it was, whether its exception is caught or ends the bridge.
\<close>

inductive basic_run :: "u16 \<Rightarrow> cache \<Rightarrow> cache \<Rightarrow> bool" for uv c0 where
  basic_start: "basic_run uv c0 c0"
| basic_reported: "basic_run uv c0 c \<Longrightarrow>
    basic_reported_updated uv node cluster attribute j c = Inr (rs, c') \<Longrightarrow> basic_run uv c0 c'"
| basic_state: "basic_run uv c0 c \<Longrightarrow> unify_node_reachable_state_update ep u c = Inr (rs, c') \<Longrightarrow>
    basic_run uv c0 c'"

lemma reachable_update_result:
  "unify_node_reachable_state_update ep u c = Inr (rs, c') \<Longrightarrow>
   c' = c \<or> (\<exists>v. c' = c(basic_path (be_matter_endpoint ep) Reachable_Id \<mapsto> v))"
  by (auto simp: unify_node_reachable_state_update_def store_and_report_eq split: if_splits option.splits)

lemma basic_run_never_set:
  assumes "basic_run uv c0 c" and "a \<noteq> NodeLabel_Id" and "a \<noteq> Reachable_Id"
    and "\<forall>n. a \<noteq> map_basic_cluster_attributes n"
  shows "c (e, BridgedDeviceBasicInformation_Id, a) = c0 (e, BridgedDeviceBasicInformation_Id, a)"
  using assms(1)
proof induction
  case (basic_reported c node cluster attribute j rs c')
  show ?case using basic_reported(2) by (rule basic_reported_result) (use basic_reported(3) assms in auto)
next
  case (basic_state c ep u rs c')
  then show ?case using reachable_update_result [OF basic_state(2)] assms by auto
qed simp

section \<open>Properties\<close>

text \<open>C13: A string the bridge receives for a mapped attribute of the Basic cluster is stored for the
  endpoint of the node, announced, and read back by Matter up to its first null character; no other
  attribute changes.\<close>

theorem basic_string_is_read:
  assumes "no_slash (be_unify_unid node)" and "no_slash attribute" and "attribute \<noteq> []" and "msg \<noteq> []"
    and "bridged_endpoint_by_unify table (be_unify_unid node) (uint (be_unify_endpoint node)) = Some node"
    and "get_registered_callback reg (''Basic::'' @ attribute) = None"
    and "map_basic_cluster_attributes attribute \<in> set reported_strings"
    and "parse msg = Inr (JObject ms)" and "map_of ms ''value'' = Some (JString s)"
  shows "\<exists>c'. on_mqtt_message_cb table (basic_reported_updated uv) reg parse
      (attribute_topic (be_unify_unid node) (be_unify_endpoint node) ''Basic'' attribute) msg c =
      Inr ([Attribute_Changed (basic_path (be_matter_endpoint node) (map_basic_cluster_attributes attribute))], c') \<and>
    basic_read c' (basic_path (be_matter_endpoint node) (map_basic_cluster_attributes attribute)) =
      Inr (Encode (Scalar (VString (c_string s)))) \<and>
    (\<forall>q. q \<noteq> basic_path (be_matter_endpoint node) (map_basic_cluster_attributes attribute) \<longrightarrow> c' q = c q)"
proof -
  let ?p = "basic_path (be_matter_endpoint node) (map_basic_cluster_attributes attribute)"
  let ?c = "c(?p \<mapsto> VString s)"
  have "map_basic_cluster_attributes attribute \<noteq> ATTRIBUTE_ID_INVALID"
    using assms(7) by (auto simp: reported_strings_def)
  then have "c_string attribute = attribute" "map_basic_cluster_attributes attribute \<noteq> ATTRIBUTE_ID_INVALID"
    using known_name_c_string by blast+
  then have "basic_reported_updated uv node ''Basic'' attribute (JString s) c = Inr ([Attribute_Changed ?p], ?c)"
    using assms(7) by (simp add: basic_reported_updated_def basic_update_def store_and_report_eq Let_def)
  then have "on_mqtt_message_cb table (basic_reported_updated uv) reg parse
      (attribute_topic (be_unify_unid node) (be_unify_endpoint node) ''Basic'' attribute) msg c =
      Inr ([Attribute_Changed ?p], ?c)"
    using assms(1-6,8,9) report_handled [where update = "basic_reported_updated uv" and cluster = "''Basic''"]
    by (simp add: no_slash_def)
  moreover have "basic_read ?c ?p = Inr (Encode (Scalar (VString (c_string s))))"
    using assms(7) by (intro read_stored_string) simp_all
  ultimately show ?thesis by (intro exI [of _ ?c]) simp
qed

definition porch :: bridged_endpoint where
  "porch = sample_bridge ''zw-1'' 0 2 [6, 29]"

lemma porch_fields: "be_unify_unid porch = ''zw-1''" "be_unify_endpoint porch = 0" "be_matter_endpoint porch = 2"
  by (simp_all add: porch_def sample_bridge_def new_bridge_def)

lemma porch_lookup: "bridged_endpoint_by_unify (nm_endpoints two_nodes) ''zw-1'' 0 = Some porch"
  by (simp add: bridged_endpoint_by_unify_def two_nodes_def sample_bridge_def new_bridge_def equal_range_def porch_def)

lemma basic_string_is_read_witness:
  "\<exists>c'. on_mqtt_message_cb (nm_endpoints two_nodes) (basic_reported_updated 0) Map.empty
      (\<lambda>_. Inr (JObject [(''value'', JString [CHR ''A'', CHR 0x00, CHR ''B''])]))
      (attribute_topic ''zw-1'' 0 ''Basic'' ''SerialNumber'') ''...'' Map.empty =
      Inr ([Attribute_Changed (2, BridgedDeviceBasicInformation_Id, SerialNumber_Id)], c') \<and>
    basic_read c' (2, BridgedDeviceBasicInformation_Id, SerialNumber_Id) = Inr (Encode (Scalar (VString ''A'')))"
proof -
  have "map_basic_cluster_attributes ''SerialNumber'' = SerialNumber_Id"
    by (simp add: map_basic_cluster_attributes_def basic_information_map_def)
  then show ?thesis
    using basic_string_is_read [where node = porch and attribute = "''SerialNumber''" and msg = "''...''"
        and table = "nm_endpoints two_nodes" and reg = Map.empty and uv = 0 and c = Map.empty
        and parse = "\<lambda>_. Inr (JObject [(''value'', JString [CHR ''A'', CHR 0x00, CHR ''B''])])"
        and ms = "[(''value'', JString [CHR ''A'', CHR 0x00, CHR ''B''])]" and s = "[CHR ''A'', CHR 0x00, CHR ''B'']"]
    by (simp add: porch_fields porch_lookup no_slash_def get_registered_callback_def reported_strings_def c_string_def) blast
qed

text \<open>The software version can be reported but not read: it is stored with 16 bits and read as a
  variant of 32 bits, and the exception this throws is none of those the read catches.\<close>

theorem software_version_unreadable:
  "\<exists>c'. basic_reported_updated uv node ''Basic'' ''ApplicationVersion'' (JInt n) c =
      Inr ([Attribute_Changed (basic_path (be_matter_endpoint node) SoftwareVersion_Id)], c') \<and>
    c' (basic_path (be_matter_endpoint node) SoftwareVersion_Id) = Some (VUInt16 (word_of_int n)) \<and>
    basic_read c' (basic_path (be_matter_endpoint node) SoftwareVersion_Id) = Inl Bad_Variant_Access"
proof -
  have "map_basic_cluster_attributes ''ApplicationVersion'' = SoftwareVersion_Id"
    by (simp add: map_basic_cluster_attributes_def basic_information_map_def)
  moreover have "ucast (word_of_int n :: u32) = (word_of_int n :: u16)"
    by (rule bit_word_eqI) (simp add: bit_simps)
  ultimately show ?thesis
    by (simp add: basic_reported_updated_def c_string_def basic_update_def reported_strings_def store_and_report_eq
        basic_read_def basic_switch_def read_plain_def cache_get_ref_def std_get_def Let_def)
qed

text \<open>Whatever is reported and however the nodes come and go, the vendor id and the hardware version
  string of a bridged device are never known: their keys are repeated in the map of names, and the reads
  end with an error.\<close>

theorem vendor_id_never_known:
  assumes "basic_run uv Map.empty c"
  shows "basic_read c (basic_path e VendorID_Id) = Inr (Read_Error CHIP_ERROR_NO_MESSAGE_HANDLER) \<and>
    basic_read c (basic_path e HardwareVersionString_Id) = Inr (Read_Error CHIP_ERROR_NO_MESSAGE_HANDLER)"
proof -
  have "a \<noteq> map_basic_cluster_attributes n" if "a = VendorID_Id \<or> a = HardwareVersionString_Id" for a n
    using that map_basic_range [of n] by auto
  then have "c (basic_path e a) = None" if "a = VendorID_Id \<or> a = HardwareVersionString_Id" for a
    using that basic_run_never_set [OF assms, of a e] by auto
  then show ?thesis by (intro conjI read_unset) (simp_all add: reported_strings_def)
qed

lemma vendor_id_never_known_witness:
  "\<exists>c. basic_run 0 Map.empty c \<and> c (2, BridgedDeviceBasicInformation_Id, VendorName_Id) = Some (VString ''ACME'') \<and>
     basic_read c (2, BridgedDeviceBasicInformation_Id, VendorID_Id) = Inr (Read_Error CHIP_ERROR_NO_MESSAGE_HANDLER)"
proof -
  have m: "map_basic_cluster_attributes ''ManufacturerName'' = VendorName_Id"
    by (simp add: map_basic_cluster_attributes_def basic_information_map_def)
  have r: "basic_run 0 Map.empty (Map.empty((2, BridgedDeviceBasicInformation_Id, VendorName_Id) \<mapsto> VString ''ACME''))"
    by (rule basic_reported [OF basic_start, where node = porch and cluster = "''Basic''" and
        attribute = "''ManufacturerName''" and j = "JString ''ACME''" and
        rs = "[Attribute_Changed (2, BridgedDeviceBasicInformation_Id, VendorName_Id)]"])
      (simp add: basic_reported_updated_def c_string_def m basic_update_def reported_strings_def store_and_report_eq porch_fields)
  show ?thesis using vendor_id_never_known [OF r, of 2] r by (intro exI conjI) (assumption | simp)+
qed

text \<open>C12: When a node goes off line or comes back, every one of its endpoints reads the new state as
  Reachable, with one change and one event for each, in the order of the table, and nothing else of the
  cache changes: the node state monitor and this cluster together.\<close>

theorem node_state_is_read:
  assumes "count_list (nm_listeners nm) l = 1"
    and "on_unify_node_state_changed u online nm = (ns, nm')"
  shows "\<exists>c'. run_reachable_listener l ns c =
      Inr (concat (map (\<lambda>ep. reachable_reports (be_matter_endpoint ep) online) (equal_range u (nm_endpoints nm))), c') \<and>
    (\<forall>ep\<in>set (equal_range u (nm_endpoints nm)).
       basic_read c' (basic_path (be_matter_endpoint ep) Reachable_Id) = Inr (Encode (Scalar (VBool online)))) \<and>
    (\<forall>q. (\<forall>ep\<in>set (equal_range u (nm_endpoints nm)). q \<noteq> basic_path (be_matter_endpoint ep) Reachable_Id) \<longrightarrow>
       c' q = c q)"
proof -
  have ns: "ns = concat (map (\<lambda>ep. invoke_listeners (nm_listeners nm) (ep\<lparr>be_reachable := Some online\<rparr>)
      NODE_STATE_CHANGED) (equal_range u (nm_endpoints nm)))"
    using assms(2) by (simp add: on_unify_node_state_changed_def)
  obtain c' where run: "run_reachable_listener l ns c =
      Inr (concat (map (\<lambda>ep. reachable_reports (be_matter_endpoint ep) online) (equal_range u (nm_endpoints nm))), c')"
    and at: "\<forall>q. c' q = (if \<exists>ep\<in>set (equal_range u (nm_endpoints nm)).
        q = basic_path (be_matter_endpoint ep) Reachable_Id then Some (VBool online) else c q)"
    using run_reachable_endpoints [OF assms(1)] unfolding ns by blast
  have "basic_read c' (basic_path e Reachable_Id) = Inr (Encode (Scalar (VBool online)))"
    if "c' (basic_path e Reachable_Id) = Some (VBool online)" for e
    using that by (simp add: basic_read_def basic_switch_def reported_strings_def read_plain_def
        cache_get_ref_def std_get_def)
  then have "\<forall>ep\<in>set (equal_range u (nm_endpoints nm)).
      basic_read c' (basic_path (be_matter_endpoint ep) Reachable_Id) = Inr (Encode (Scalar (VBool online)))"
    using at by (metis (no_types, lifting))
  then show ?thesis using run at by (intro exI [of _ c']) auto
qed

lemma node_state_is_read_witness:
  "\<exists>ns nm' c'. on_unify_node_state_changed ''zw-1'' False (register_event_listener 7 two_nodes) = (ns, nm') \<and>
     run_reachable_listener 7 ns Map.empty =
       Inr (reachable_reports 2 False @ reachable_reports 3 False, c') \<and>
     basic_read c' (3, BridgedDeviceBasicInformation_Id, Reachable_Id) = Inr (Encode (Scalar (VBool False))) \<and>
     c' (4, BridgedDeviceBasicInformation_Id, Reachable_Id) = None"
proof -
  obtain ns nm' where r: "on_unify_node_state_changed ''zw-1'' False (register_event_listener 7 two_nodes) = (ns, nm')"
    by fastforce
  have l: "nm_listeners (register_event_listener 7 two_nodes) = [0, 7]"
    by (simp add: register_event_listener_def two_nodes_def sample_monitor_def)
  have t: "equal_range ''zw-1'' (nm_endpoints (register_event_listener 7 two_nodes)) =
      [sample_bridge ''zw-1'' 0 2 [6, 29], sample_bridge ''zw-1'' 1 3 [8, 29]]"
    by (simp add: register_event_listener_def two_nodes_def equal_range_def)
  have f: "be_matter_endpoint (sample_bridge v ep e cls) = e" for v ep e cls
    by (simp add: sample_bridge_def new_bridge_def)
  show ?thesis
    using node_state_is_read [OF _ r, of 7 Map.empty] r by (simp add: l t f) fastforce
qed

end
