(* ===== verification/Json_Tables.thy ===== *)
theory Json_Tables
  imports Prelude
begin

text \<open>
  The overloads of \<open>from_json\<close> and \<open>to_json\<close> for enumerations and bit masks, generated in
  linux/zap-generated/data_model_translator/chip_types_from_json.hpp and chip_types_to_json.hpp, as tables:
  for each C++ type (its name below \<open>chip::app::Clusters\<close>) the names used in JSON with the enumerators or
  flags they stand for, in the order of the source. How an overload uses its rows is in Json_Conversions.
  The numbers of the enumerators are those of the Matter library.
\<close>

type_synonym json_table = "(string \<times> (string \<times> string) list) list"

section \<open>chip_types_from_json.hpp\<close>

definition identify_enums_from :: json_table where
  "identify_enums_from = [
  (''Identify::EffectIdentifierEnum'',
   [(''Blink'', ''kBlink''), (''Breathe'', ''kBreathe''), (''Okay'', ''kOkay''),
    (''ChannelChange'', ''kChannelChange''), (''FinishEffect'', ''kFinishEffect''),
    (''StopEffect'', ''kStopEffect'')]),
  (''Identify::EffectVariantEnum'',
   [(''Default'', ''kDefault'')]),
  (''Identify::IdentifyTypeEnum'',
   [(''None'', ''kNone''), (''LightOutput'', ''kLightOutput''),
    (''VisibleIndicator'', ''kVisibleIndicator''), (''AudibleBeep'', ''kAudibleBeep''),
    (''Display'', ''kDisplay''), (''Actuator'', ''kActuator'')])]"

definition groups_bitmasks_from :: json_table where
  "groups_bitmasks_from = [
  (''Groups::Feature'',
   [(''GroupNames'', ''kGroupNames'')]),
  (''Groups::NameSupportBitmap'',
   [(''GroupNames'', ''kGroupNames'')])]"

definition on_off_bitmasks_from :: json_table where
  "on_off_bitmasks_from = [
  (''OnOff::Feature'',
   [(''Lighting'', ''kLighting''), (''DeadFrontBehavior'', ''kDeadFrontBehavior''),
    (''OffOnly'', ''kOffOnly'')]),
  (''OnOff::OnOffControlBitmap'',
   [(''AcceptOnlyWhenOn'', ''kAcceptOnlyWhenOn'')])]"

definition on_off_enums_from :: json_table where
  "on_off_enums_from = [
  (''OnOff::DelayedAllOffEffectVariantEnum'',
   [(''DelayedOffFastFade'', ''kDelayedOffFastFade''), (''NoFade'', ''kNoFade''),
    (''DelayedOffSlowFade'', ''kDelayedOffSlowFade'')]),
  (''OnOff::DyingLightEffectVariantEnum'',
   [(''DyingLightFadeOff'', ''kDyingLightFadeOff'')]),
  (''OnOff::EffectIdentifierEnum'',
   [(''DelayedAllOff'', ''kDelayedAllOff''), (''DyingLight'', ''kDyingLight'')]),
  (''OnOff::StartUpOnOffEnum'',
   [(''SetOnOffTo0'', ''kOff''), (''SetOnOffTo1'', ''kOn''), (''TogglePreviousOnOff'', ''kToggle'')])]"

definition level_control_bitmasks_from :: json_table where
  "level_control_bitmasks_from = [
  (''LevelControl::Feature'',
   [(''OnOff'', ''kOnOff''), (''Lighting'', ''kLighting''), (''Frequency'', ''kFrequency'')]),
  (''LevelControl::OptionsBitmap'',
   [(''ExecuteIfOff'', ''kExecuteIfOff''),
    (''CoupleColorTempToLevel'', ''kCoupleColorTempToLevel'')])]"

definition level_control_enums_from :: json_table where
  "level_control_enums_from = [
  (''LevelControl::MoveModeEnum'',
   [(''Up'', ''kUp''), (''Down'', ''kDown'')]),
  (''LevelControl::StepModeEnum'',
   [(''Up'', ''kUp''), (''Down'', ''kDown'')])]"

definition door_lock_bitmasks_from_1 :: json_table where
  "door_lock_bitmasks_from_1 = [
  (''DoorLock::DaysMaskMap'',
   [(''Sun'', ''kSunday''), (''Mon'', ''kMonday''), (''Tue'', ''kTuesday''),
    (''Wed'', ''kWednesday''), (''Thu'', ''kThursday''), (''Fri'', ''kFriday''),
    (''Sat'', ''kSaturday'')]),
  (''DoorLock::DlCredentialRuleMask'',
   [(''Single'', ''kSingle''), (''Dual'', ''kDual''), (''Tri'', ''kTri'')]),
  (''DoorLock::DlCredentialRulesSupport'',
   [(''Single'', ''kSingle''), (''Dual'', ''kDual''), (''Tri'', ''kTri'')]),
  (''DoorLock::DlDefaultConfigurationRegister'',
   [(''DefaultEnableLocalProgrammingAttributeIsEnabled'', ''kEnableLocalProgrammingEnabled''),
    (''DefaultKeypadInterfaceIsEnabled'', ''kKeypadInterfaceDefaultAccessEnabled''),
    (''DefaultRFInterfaceIsEnabled'', ''kRemoteInterfaceDefaultAccessIsEnabled''),
    (''DefaultSoundVolumeIsEnabled'', ''kSoundEnabled''),
    (''DefaultAutoRelockTimeIsEnabled'', ''kAutoRelockTimeSet''),
    (''DefaultLEDSettingsIsEnabled'', ''kLEDSettingsSet'')]),
  (''DoorLock::DlKeypadOperationEventMask'',
   [(''KeypadOpUnknownOrMS'', ''kUnknown''), (''KeypadOpLock'', ''kLock''),
    (''KeypadOpUnlock'', ''kUnlock''), (''KeypadOpLockErrorInvalidPIN'', ''kLockInvalidPIN''),
    (''KeypadOpLockErrorInvalidSchedule'', ''kLockInvalidSchedule''),
    (''KeypadOpUnlockInvalidPIN'', ''kUnlockInvalidCode''),
    (''KeypadOpUnlockInvalidSchedule'', ''kUnlockInvalidSchedule''),
    (''KeypadOpNonAccessUser'', ''kNonAccessUserOpEvent'')]),
  (''DoorLock::DlKeypadProgrammingEventMask'',
   [(''KeypadProgUnknownOrMS'', ''kUnknown''),
    (''KeypadProgMasterCodeChanged'', ''kProgrammingPINChanged''),
    (''KeypadProgPINAdded'', ''kPINAdded''), (''KeypadProgPINDeleted'', ''kPINCleared''),
    (''KeypadProgPINChanged'', ''kPINChanged'')]),
  (''DoorLock::DlLocalProgrammingFeatures'',
   [(''AddUsersCredentialsSchedulesLocally'', ''kAddUsersCredentialsSchedulesLocally''),
    (''ModifyUsersCredentialsSchedulesLocally'', ''kModifyUsersCredentialsSchedulesLocally''),
    (''ClearUsersCredentialsSchedulesLocally'', ''kClearUsersCredentialsSchedulesLocally''),
    (''AdjustLockSettingsLocally'', ''kAdjustLockSettingsLocally'')]),
  (''DoorLock::DlManualOperationEventMask'',
   [(''ManualOpUnknownOrMS'', ''kUnknown''), (''ManualOpThumbturnLock'', ''kThumbturnLock''),
    (''ManualOpThumbturnUnlock'', ''kThumbturnUnlock''),
    (''ManualOpOneTouchLock'', ''kOneTouchLock''), (''ManualOpKeyLock'', ''kKeyLock''),
    (''ManualOpKeyUnlock'', ''kKeyUnlock''), (''ManualOpAutoLock'', ''kAutoLock''),
    (''ManualOpScheduleLock'', ''kScheduleLock''),
    (''ManualOpScheduleUnlock'', ''kScheduleUnlock''), (''ManualOpLock'', ''kManualLock''),
    (''ManualOpUnlock'', ''kManualUnlock'')]),
  (''DoorLock::DlRFIDOperationEventMask'',
   [(''RFIDOpUnknownOrMS'', ''kUnknown''), (''RFIDOpLock'', ''kLock''),
    (''RFIDOpUnlock'', ''kUnlock''), (''RFIDOpLockErrorInvalidRFID'', ''kLockInvalidRFID''),
    (''RFIDOpLockErrorInvalidSchedule'', ''kLockInvalidSchedule''),
    (''RFIDOpUnlockErrorInvalidRFID'', ''kUnlockInvalidRFID''),
    (''RFIDOpUnlockErrorInvalidSchedule'', ''kUnlockInvalidSchedule'')]),
  (''DoorLock::DlRFIDProgrammingEventMask'',
   [(''RFIDProgUnknownOrMS'', ''kUnknown''), (''RFIDProgRFIDAdded'', ''kRFIDCodeAdded''),
    (''RFIDProgRFIDDeleted'', ''kRFIDCodeCleared'')]),
  (''DoorLock::DlRemoteOperationEventMask'',
   [(''RFOpUnknownOrMS'', ''kUnknown''), (''RFOpLock'', ''kLock''), (''RFOpUnlock'', ''kUnlock''),
    (''RFOpLockErrorInvalidCode'', ''kLockInvalidCode''),
    (''RFOpLockErrorInvalidSchedule'', ''kLockInvalidSchedule''),
    (''RFOpUnlockInvalidCode'', ''kUnlockInvalidCode''),
    (''RFOpUnlockInvalidSchedule'', ''kUnlockInvalidSchedule'')]),
  (''DoorLock::DlRemoteProgrammingEventMask'',
   [(''RFProgUnknownOrMS'', ''kUnknown''), ('''', ''kProgrammingPINChanged''),
    (''RFProgPINAdded'', ''kPINAdded''), (''RFProgPINDeleted'', ''kPINCleared''),
    (''RFProgPINChanged'', ''kPINChanged''), (''RFProgRFIDAdded'', ''kRFIDCodeAdded''),
    (''RFProgRFIDDeleted'', ''kRFIDCodeCleared'')])]"

definition door_lock_bitmasks_from_2 :: json_table where
  "door_lock_bitmasks_from_2 = [
  (''DoorLock::DlSupportedOperatingModes'',
   [(''NormalModeSupported'', ''kNormal''), (''VacationModeSupported'', ''kVacation''),
    (''PrivacyModeSupported'', ''kPrivacy''),
    (''NoRFLockOrUnlockModeSupported'', ''kNoRemoteLockUnlock''),
    (''PassageModeSupported'', ''kPassage'')]),
  (''DoorLock::DoorLockDayOfWeek'',
   [(''Sunday'', ''kSunday''), (''Monday'', ''kMonday''), (''Tuesday'', ''kTuesday''),
    (''Wednesday'', ''kWednesday''), (''Thursday'', ''kThursday''), (''Friday'', ''kFriday''),
    (''Saturday'', ''kSaturday'')]),
  (''DoorLock::Feature'',
   [(''PIN Credential'', ''kPinCredential''), (''RFID Credential'', ''kRfidCredential''),
    (''FingerCredentials'', ''kFingerCredentials''), (''Logging'', ''kLogging''),
    (''WeekDayAccessSchedules'', ''kWeekDayAccessSchedules''),
    (''DoorPositionSensor'', ''kDoorPositionSensor''), (''FaceCredentials'', ''kFaceCredentials''),
    (''CredentialsOverTheAirAccess'', ''kCredentialsOverTheAirAccess''), (''User'', ''kUser''),
    (''Notification'', ''kNotification''),
    (''YearDayAccessSchedules'', ''kYearDayAccessSchedules''),
    (''HolidaySchedules'', ''kHolidaySchedules''), (''Unbolt'', ''kUnbolt''),
    (''AliroProvisioning'', ''kAliroProvisioning''), (''AliroBLEUWB'', ''kAliroBLEUWB'')])]"

definition door_lock_enums_from_1 :: json_table where
  "door_lock_enums_from_1 = [
  (''DoorLock::AlarmCodeEnum'',
   [(''LockJammed'', ''kLockJammed''), (''LockFactoryReset'', ''kLockFactoryReset''),
    (''LockRadioPowerCycled'', ''kLockRadioPowerCycled''),
    (''WrongCodeEntryLimit'', ''kWrongCodeEntryLimit''),
    (''FrontEsceutcheonRemoved'', ''kFrontEsceutcheonRemoved''),
    (''DoorForcedOpen'', ''kDoorForcedOpen''), (''DoorAjar'', ''kDoorAjar''),
    (''ForcedUser'', ''kForcedUser'')]),
  (''DoorLock::CredentialRuleEnum'',
   [(''Single'', ''kSingle''), (''Dual'', ''kDual''), (''Tri'', ''kTri'')]),
  (''DoorLock::CredentialTypeEnum'',
   [(''ProgrammingPIN'', ''kProgrammingPIN''), (''PIN'', ''kPin''), (''RFID'', ''kRfid''),
    (''Fingerprint'', ''kFingerprint''), (''FingerVein'', ''kFingerVein''), (''Face'', ''kFace''),
    ('''', ''kAliroCredentialIssuerKey''), ('''', ''kAliroEvictableEndpointKey''),
    ('''', ''kAliroNonEvictableEndpointKey'')]),
  (''DoorLock::DataOperationTypeEnum'',
   [(''Add'', ''kAdd''), (''Clear'', ''kClear''), (''Modify'', ''kModify'')]),
  (''DoorLock::DlLockState'',
   [(''NotFullyLocked'', ''kNotFullyLocked''), (''Locked'', ''kLocked''),
    (''Unlocked'', ''kUnlocked''), (''Unlatched'', ''kUnlatched'')]),
  (''DoorLock::DlLockType'',
   [(''DeadBolt'', ''kDeadBolt''), (''Magnetic'', ''kMagnetic''), (''Other'', ''kOther''),
    (''Mortise'', ''kMortise''), (''Rim'', ''kRim''), (''LatchBolt'', ''kLatchBolt''),
    (''CylindricalLock'', ''kCylindricalLock''), (''TubularLock'', ''kTubularLock''),
    (''InterconnectedLock'', ''kInterconnectedLock''), (''DeadLatch'', ''kDeadLatch''),
    (''DoorFurniture'', ''kDoorFurniture''), (''Eurocylinder'', ''kEurocylinder'')]),
  (''DoorLock::DlStatus'',
   [(''Success'', ''kSuccess''), (''Failure'', ''kFailure''), (''Duplicate'', ''kDuplicate''),
    (''Occupied'', ''kOccupied''), (''InvalidField'', ''kInvalidField''),
    (''ResourceExhausted'', ''kResourceExhausted''), (''NotFound'', ''kNotFound'')])]"

definition door_lock_enums_from_2 :: json_table where
  "door_lock_enums_from_2 = [
  (''DoorLock::DoorLockOperationEventCode'',
   [(''UnknownOrMS'', ''kUnknownOrMfgSpecific''), (''Lock'', ''kLock''), (''Unlock'', ''kUnlock''),
    (''LockFailureInvalidPINOrID'', ''kLockInvalidPinOrId''),
    (''LockFailureInvalidSchedule'', ''kLockInvalidSchedule''),
    (''UnlockFailureInvalidPINOrID'', ''kUnlockInvalidPinOrId''),
    (''UnlockFailureInvalidSchedule'', ''kUnlockInvalidSchedule''),
    (''OneTouchLock'', ''kOneTouchLock''), (''KeyLock'', ''kKeyLock''),
    (''KeyUnlock'', ''kKeyUnlock''), (''AutoLock'', ''kAutoLock''),
    (''ScheduleLock'', ''kScheduleLock''), (''ScheduleUnlock'', ''kScheduleUnlock''),
    (''ManualLock'', ''kManualLock''), (''ManualUnlock'', ''kManualUnlock'')]),
  (''DoorLock::DoorLockProgrammingEventCode'',
   [(''UnknownOrMS'', ''kUnknownOrMfgSpecific''), (''MasterCodeChanged'', ''kMasterCodeChanged''),
    (''PINCodeAdded'', ''kPinAdded''), (''PINCodeDeleted'', ''kPinDeleted''),
    (''PINCodeChanged'', ''kPinChanged''), (''RFIDCodeAdded'', ''kIdAdded''),
    (''RFIDCodeDeleted'', ''kIdDeleted'')]),
  (''DoorLock::DoorLockSetPinOrIdStatus'',
   [(''Success'', ''kSuccess''), (''GeneralFailure'', ''kGeneralFailure''),
    (''MemoryFull'', ''kMemoryFull''), (''DuplicateCode'', ''kDuplicateCodeError'')]),
  (''DoorLock::DoorLockUserStatus'',
   [(''Available'', ''kAvailable''), (''OccupiedEnabled'', ''kOccupiedEnabled''),
    (''OccupiedDisabled'', ''kOccupiedDisabled''), (''NotSupported'', ''kNotSupported'')]),
  (''DoorLock::DoorLockUserType'',
   [(''UnrestrictedUser'', ''kUnrestricted''), (''YearDayScheduleUser'', ''kYearDayScheduleUser''),
    (''WeekDayScheduleUser'', ''kWeekDayScheduleUser''), (''MasterUser'', ''kMasterUser''),
    (''NonAccessUser'', ''kNonAccessUser''), (''ForcedUser'', ''kNotSupported'')]),
  (''DoorLock::DoorStateEnum'',
   [(''Open'', ''kDoorOpen''), (''Closed'', ''kDoorClosed''), (''ErrorJammed'', ''kDoorJammed''),
    (''ErrorForcedOpen'', ''kDoorForcedOpen''), (''ErrorUnspecified'', ''kDoorUnspecifiedError''),
    (''DoorAjar'', ''kDoorAjar'')]),
  (''DoorLock::LockDataTypeEnum'',
   [(''Unspecified'', ''kUnspecified''), (''ProgrammingCode'', ''kProgrammingCode''),
    (''UserIndex'', ''kUserIndex''), (''WeekDaySchedule'', ''kWeekDaySchedule''),
    (''YearDaySchedule'', ''kYearDaySchedule''), (''HolidaySchedule'', ''kHolidaySchedule''),
    (''PIN'', ''kPin''), (''RFID'', ''kRfid''), (''Fingerprint'', ''kFingerprint''),
    (''FingerVein'', ''kFingerVein''), (''Face'', ''kFace''),
    (''AliroCredentialIssuerKey'', ''kAliroCredentialIssuerKey''),
    (''AliroEvictableEndpointKey'', ''kAliroEvictableEndpointKey''),
    (''AliroNonEvictableEndpointKey'', ''kAliroNonEvictableEndpointKey'')])]"

definition door_lock_enums_from_3 :: json_table where
  "door_lock_enums_from_3 = [
  (''DoorLock::LockOperationTypeEnum'',
   [(''Lock'', ''kLock''), (''Unlock'', ''kUnlock''),
    (''NonAccessUserEvent'', ''kNonAccessUserEvent''), (''ForcedUserEvent'', ''kForcedUserEvent''),
    (''Unlatch'', ''kUnlatch'')]),
  (''DoorLock::OperatingModeEnum'',
   [(''Normal'', ''kNormal''), (''Vacation'', ''kVacation''), (''Privacy'', ''kPrivacy''),
    (''NoRemoteLockUnlock'', ''kNoRemoteLockUnlock''), (''Passage'', ''kPassage'')]),
  (''DoorLock::OperationErrorEnum'',
   [(''Unspecified'', ''kUnspecified''), (''InvalidCredential'', ''kInvalidCredential''),
    (''DisabledUserDenied'', ''kDisabledUserDenied''), (''Restricted'', ''kRestricted''),
    (''InsufficientBattery'', ''kInsufficientBattery'')]),
  (''DoorLock::OperationSourceEnum'',
   [(''Unspecified'', ''kUnspecified''), (''Manual'', ''kManual''),
    (''ProprietaryRemote'', ''kProprietaryRemote''), (''Keypad'', ''kKeypad''),
    (''Auto'', ''kAuto''), (''Button'', ''kButton''), (''Schedule'', ''kSchedule''),
    (''Remote'', ''kRemote''), (''RFID'', ''kRfid''), (''Biometric'', ''kBiometric''),
    (''Aliro'', ''kAliro'')]),
  (''DoorLock::UserStatusEnum'',
   [(''Available'', ''kAvailable''), (''OccupiedEnabled'', ''kOccupiedEnabled''),
    (''OccupiedDisabled'', ''kOccupiedDisabled'')]),
  (''DoorLock::UserTypeEnum'',
   [(''UnrestrictedUser'', ''kUnrestrictedUser''),
    (''YearDayScheduleUser'', ''kYearDayScheduleUser''),
    (''WeekDayScheduleUser'', ''kWeekDayScheduleUser''),
    (''ProgrammingUser'', ''kProgrammingUser''), (''NonAccessUser'', ''kNonAccessUser''),
    (''ForcedUser'', ''kForcedUser''), (''DisposableUser'', ''kDisposableUser''),
    (''ExpiringUser'', ''kExpiringUser''),
    (''ScheduleRestrictedUser'', ''kScheduleRestrictedUser''),
    (''RemoteOnlyUser'', ''kRemoteOnlyUser'')])]"

definition window_covering_bitmasks_from :: json_table where
  "window_covering_bitmasks_from = [
  (''WindowCovering::ConfigStatus'',
   [(''Operational'', ''kOperational''), (''Online'', ''kOnlineReserved''),
    (''OpenAndUpCommandsReversed'', ''kLiftMovementReversed''),
    (''LiftClosedLoop'', ''kLiftPositionAware''), (''TiltClosedLoop'', ''kTiltPositionAware''),
    (''LiftEncoderControlled'', ''kLiftEncoderControlled''),
    (''TiltEncoderControlled'', ''kTiltEncoderControlled'')]),
  (''WindowCovering::Feature'',
   [(''Lift'', ''kLift''), (''Tilt'', ''kTilt''), (''PositionAwareLift'', ''kPositionAwareLift''),
    (''AbsolutePosition'', ''kAbsolutePosition''), (''PositionAwareTilt'', ''kPositionAwareTilt'')]),
  (''WindowCovering::Mode'',
   [(''MotorDirectionReversed'', ''kMotorDirectionReversed''),
    (''CalibrationMode'', ''kCalibrationMode''), (''MaintenanceMode'', ''kMaintenanceMode''),
    (''LEDFeedback'', ''kLedFeedback'')]),
  (''WindowCovering::OperationalStatus'',
   [(''Global'', ''kGlobal''), (''Lift'', ''kLift''), (''Tilt'', ''kTilt'')]),
  (''WindowCovering::SafetyStatus'',
   [(''RemoteLockout'', ''kRemoteLockout''), (''TamperDetection'', ''kTamperDetection''),
    (''FailedCommunication'', ''kFailedCommunication''),
    (''PositionFailure'', ''kPositionFailure''), (''ThermalProtection'', ''kThermalProtection''),
    (''ObstacleDetected'', ''kObstacleDetected''), (''Power'', ''kPower''),
    (''StopInput'', ''kStopInput''), (''MotorJammed'', ''kMotorJammed''),
    (''HardwareFailure'', ''kHardwareFailure''), (''ManualOperation'', ''kManualOperation''),
    (''Protection'', ''kProtection'')])]"

definition window_covering_enums_from :: json_table where
  "window_covering_enums_from = [
  (''WindowCovering::EndProductType'',
   [(''RollerShade'', ''kRollerShade''), (''RomanShade'', ''kRomanShade''),
    (''BalloonShade'', ''kBalloonShade''), (''WovenWood'', ''kWovenWood''),
    (''PleatedShade'', ''kPleatedShade''), (''CellularShade'', ''kCellularShade''),
    (''LayeredShade'', ''kLayeredShade''), (''LayeredShade2D'', ''kLayeredShade2D''),
    (''SheerShade'', ''kSheerShade''), (''TiltOnlyInteriorBlind'', ''kTiltOnlyInteriorBlind''),
    (''InteriorBlind'', ''kInteriorBlind''),
    (''VerticalBlindStripCurtain'', ''kVerticalBlindStripCurtain''),
    (''InteriorVenetianBlind'', ''kInteriorVenetianBlind''),
    (''ExteriorVenetianBlind'', ''kExteriorVenetianBlind''),
    (''LateralLeftCurtain'', ''kLateralLeftCurtain''),
    (''LateralRightCurtain'', ''kLateralRightCurtain''), (''CentralCurtain'', ''kCentralCurtain''),
    (''RollerShutter'', ''kRollerShutter''),
    (''ExteriorVerticalScreen'', ''kExteriorVerticalScreen''),
    (''AwningTerracePatio'', ''kAwningTerracePatio''),
    (''AwningVerticalScreen'', ''kAwningVerticalScreen''),
    (''TiltOnlyPergola'', ''kTiltOnlyPergola''), (''SwingingShutter'', ''kSwingingShutter''),
    (''SlidingShutter'', ''kSlidingShutter''), (''Unknown'', ''kUnknown'')]),
  (''WindowCovering::Type'',
   [(''Rollershade'', ''kRollerShade''), (''Rollershade2Motor'', ''kRollerShade2Motor''),
    (''RollershadeExterior'', ''kRollerShadeExterior''),
    (''RollershadeExterior2Motor'', ''kRollerShadeExterior2Motor''), (''Drapery'', ''kDrapery''),
    (''Awning'', ''kAwning''), (''Shutter'', ''kShutter''),
    (''TiltBlindTiltOnly'', ''kTiltBlindTiltOnly''),
    (''TiltBlindLiftAndTilt'', ''kTiltBlindLiftAndTilt''),
    (''ProjectorScreen'', ''kProjectorScreen''), ('''', ''kUnknown'')])]"

definition thermostat_bitmasks_from :: json_table where
  "thermostat_bitmasks_from = [
  (''Thermostat::ACErrorCodeBitmap'',
   [(''CompressorFail'', ''kCompressorFail''), (''RoomSensorFail'', ''kRoomSensorFail''),
    (''OutdoorSensorFail'', ''kOutdoorSensorFail''), (''CoilSensorFail'', ''kCoilSensorFail''),
    (''FanFail'', ''kFanFail'')]),
  (''Thermostat::Feature'',
   [(''Heating'', ''kHeating''), (''Cooling'', ''kCooling''), (''Occupancy'', ''kOccupancy''),
    (''ScheduleConfiguration'', ''kScheduleConfiguration''), (''Setback'', ''kSetback''),
    (''AutoMode'', ''kAutoMode''),
    (''LocalTemperatureNotExposed'', ''kLocalTemperatureNotExposed''),
    (''MatterScheduleConfiguration'', ''kMatterScheduleConfiguration''),
    (''Presets'', ''kPresets'')]),
  (''Thermostat::HVACSystemTypeBitmap'',
   [(''CoolingStage'', ''kCoolingStage''), (''HeatingStage'', ''kHeatingStage''),
    (''HeatingIsHeatPump'', ''kHeatingIsHeatPump''), (''HeatingUsesFuel'', ''kHeatingUsesFuel'')]),
  (''Thermostat::OccupancyBitmap'',
   [(''SensedOccupancy'', ''kOccupied'')]),
  (''Thermostat::PresetTypeFeaturesBitmap'',
   [(''Automatic'', ''kAutomatic''), (''SupportsNames'', ''kSupportsNames'')]),
  (''Thermostat::ProgrammingOperationModeBitmap'',
   [(''ScheduleActive'', ''kScheduleActive''), (''AutoRecovery'', ''kAutoRecovery''),
    (''Economy'', ''kEconomy'')]),
  (''Thermostat::RelayStateBitmap'',
   [(''Heat'', ''kHeat''), (''Cool'', ''kCool''), (''Fan'', ''kFan''),
    (''HeatStage2'', ''kHeatStage2''), (''CoolStage2'', ''kCoolStage2''),
    (''FanStage2'', ''kFanStage2''), (''FanStage3'', ''kFanStage3'')]),
  (''Thermostat::RemoteSensingBitmap'',
   [(''LocalTemperature'', ''kLocalTemperature''),
    (''OutdoorTemperature'', ''kOutdoorTemperature''), (''Occupancy'', ''kOccupancy'')]),
  (''Thermostat::ScheduleDayOfWeekBitmap'',
   [(''Sunday'', ''kSunday''), (''Monday'', ''kMonday''), (''Tuesday'', ''kTuesday''),
    (''Wednesday'', ''kWednesday''), (''Thursday'', ''kThursday''), (''Friday'', ''kFriday''),
    (''Saturday'', ''kSaturday''), (''Away'', ''kAway'')]),
  (''Thermostat::ScheduleModeBitmap'',
   [(''HeatSetpointPresent'', ''kHeatSetpointPresent''),
    (''CoolSetpointPresent'', ''kCoolSetpointPresent'')]),
  (''Thermostat::ScheduleTypeFeaturesBitmap'',
   [(''SupportsPresets'', ''kSupportsPresets''), (''SupportsSetpoints'', ''kSupportsSetpoints''),
    (''SupportsNames'', ''kSupportsNames''), (''SupportsOff'', ''kSupportsOff'')])]"

definition thermostat_enums_from_1 :: json_table where
  "thermostat_enums_from_1 = [
  (''Thermostat::ACCapacityFormatEnum'',
   [(''BTUh'', ''kBTUh'')]),
  (''Thermostat::ACCompressorTypeEnum'',
   [(''Unknown'', ''kUnknown''), (''T1'', ''kT1''), (''T2'', ''kT2''), (''T3'', ''kT3'')]),
  (''Thermostat::ACLouverPositionEnum'',
   [(''Closed'', ''kClosed''), (''Open'', ''kOpen''), (''Quarter'', ''kQuarter''),
    (''Half'', ''kHalf''), (''ThreeQuarters'', ''kThreeQuarters'')]),
  (''Thermostat::ACRefrigerantTypeEnum'',
   [(''Unknown'', ''kUnknown''), (''R22'', ''kR22''), (''R410a'', ''kR410a''),
    (''R407c'', ''kR407c'')]),
  (''Thermostat::ACTypeEnum'',
   [(''Unknown'', ''kUnknown''), (''CoolingFixed'', ''kCoolingFixed''),
    (''HeatPumpFixed'', ''kHeatPumpFixed''), (''CoolingInverter'', ''kCoolingInverter''),
    (''HeatPumpInverter'', ''kHeatPumpInverter'')]),
  (''Thermostat::ControlSequenceOfOperationEnum'',
   [(''CoolingOnly'', ''kCoolingOnly''), (''CoolingWithReheat'', ''kCoolingWithReheat''),
    (''HeatingOnly'', ''kHeatingOnly''), (''HeatingWithReheat'', ''kHeatingWithReheat''),
    (''CoolingAndHeating4Pipes'', ''kCoolingAndHeating''),
    (''CoolingAndHeating4PipesWithReheat'', ''kCoolingAndHeatingWithReheat'')]),
  (''Thermostat::PresetScenarioEnum'',
   [(''Occupied'', ''kOccupied''), (''Unoccupied'', ''kUnoccupied''), (''Sleep'', ''kSleep''),
    (''Wake'', ''kWake''), (''Vacation'', ''kVacation''), (''GoingToSleep'', ''kGoingToSleep''),
    (''UserDefined'', ''kUserDefined'')]),
  (''Thermostat::SetpointChangeSourceEnum'',
   [(''Manual'', ''kManual''), (''Schedule'', ''kSchedule''), (''External'', ''kExternal'')])]"

definition thermostat_enums_from_2 :: json_table where
  "thermostat_enums_from_2 = [
  (''Thermostat::SetpointRaiseLowerModeEnum'',
   [(''Heat'', ''kHeat''), (''Cool'', ''kCool''), (''Both'', ''kBoth'')]),
  (''Thermostat::StartOfWeekEnum'',
   [(''Sunday'', ''kSunday''), (''Monday'', ''kMonday''), (''Tuesday'', ''kTuesday''),
    (''Wednesday'', ''kWednesday''), (''Thursday'', ''kThursday''), (''Friday'', ''kFriday''),
    (''Saturday'', ''kSaturday'')]),
  (''Thermostat::SystemModeEnum'',
   [(''Off'', ''kOff''), (''Auto'', ''kAuto''), (''Cool'', ''kCool''), (''Heat'', ''kHeat''),
    (''EmergencyHeating'', ''kEmergencyHeat''), (''Precooling'', ''kPrecooling''),
    (''FanOnly'', ''kFanOnly''), (''Dry'', ''kDry''), (''Sleep'', ''kSleep'')]),
  (''Thermostat::TemperatureSetpointHoldEnum'',
   [(''SetpointHoldOff'', ''kSetpointHoldOff''), (''SetpointHoldOn'', ''kSetpointHoldOn'')]),
  (''Thermostat::ThermostatRunningModeEnum'',
   [(''Off'', ''kOff''), (''Cool'', ''kCool''), (''Heat'', ''kHeat'')])]"

definition color_control_bitmasks_from :: json_table where
  "color_control_bitmasks_from = [
  (''ColorControl::ColorCapabilitiesBitmap'',
   [(''HueSaturation'', ''kHueSaturation''), (''EnhancedHue'', ''kEnhancedHue''),
    (''ColorLoop'', ''kColorLoop''), (''XY'', ''kXy''),
    (''ColorTemperature'', ''kColorTemperature'')]),
  (''ColorControl::Feature'',
   [(''Hue And Saturation'', ''kHueAndSaturation''), (''Enhanced Hue'', ''kEnhancedHue''),
    (''Color loop'', ''kColorLoop''), (''XY'', ''kXy''),
    (''Color temperature'', ''kColorTemperature'')]),
  (''ColorControl::OptionsBitmap'',
   [(''ExecuteIfOff'', ''kExecuteIfOff'')]),
  (''ColorControl::UpdateFlagsBitmap'',
   [(''UpdateAction'', ''kUpdateAction''), (''UpdateDirection'', ''kUpdateDirection''),
    (''UpdateTime'', ''kUpdateTime''), (''UpdateStartHue'', ''kUpdateStartHue'')])]"

definition color_control_enums_from :: json_table where
  "color_control_enums_from = [
  (''ColorControl::ColorLoopActionEnum'',
   [(''Deactivate'', ''kDeactivate''),
    (''ActivateFromColorLoopStartEnhancedHue'', ''kActivateFromColorLoopStartEnhancedHue''),
    (''ActivateFromEnhancedCurrentHue'', ''kActivateFromEnhancedCurrentHue'')]),
  (''ColorControl::ColorLoopDirectionEnum'',
   [(''Decrement'', ''kDecrement''), (''Increment'', ''kIncrement'')]),
  (''ColorControl::ColorModeEnum'',
   [(''CurrentHueAndCurrentSaturation'', ''kCurrentHueAndCurrentSaturation''),
    (''CurrentXAndCurrentY'', ''kCurrentXAndCurrentY''),
    (''ColorTemperatureMireds'', ''kColorTemperatureMireds'')]),
  (''ColorControl::DirectionEnum'',
   [(''ShortestDistance'', ''kShortest''), (''LongestDistance'', ''kLongest''), (''Up'', ''kUp''),
    (''Down'', ''kDown'')]),
  (''ColorControl::DriftCompensationEnum'',
   [(''None'', ''kNone''), (''OtherOrUnknown'', ''kOtherOrUnknown''),
    (''TemperatureMonitoring'', ''kTemperatureMonitoring''),
    (''OpticalLuminanceMonitoringAndFeedback'', ''kOpticalLuminanceMonitoringAndFeedback''),
    (''OpticalColorMonitoringAndFeedback'', ''kOpticalColorMonitoringAndFeedback'')]),
  (''ColorControl::EnhancedColorModeEnum'',
   [(''CurrentHueAndCurrentSaturation'', ''kCurrentHueAndCurrentSaturation''),
    (''CurrentXAndCurrentY'', ''kCurrentXAndCurrentY''),
    (''ColorTemperatureMireds'', ''kColorTemperatureMireds''),
    (''EnhancedCurrentHueAndCurrentSaturation'', ''kEnhancedCurrentHueAndCurrentSaturation'')]),
  (''ColorControl::MoveModeEnum'',
   [(''Stop'', ''kStop''), (''Up'', ''kUp''), (''Down'', ''kDown'')]),
  (''ColorControl::StepModeEnum'',
   [(''Up'', ''kUp''), (''Down'', ''kDown'')])]"

definition illuminance_measurement_enums_from :: json_table where
  "illuminance_measurement_enums_from = [
  (''IlluminanceMeasurement::LightSensorTypeEnum'',
   [(''Photodiode'', ''kPhotodiode''), (''CMOS'', ''kCmos'')])]"

definition pressure_measurement_bitmasks_from :: json_table where
  "pressure_measurement_bitmasks_from = [
  (''PressureMeasurement::Feature'',
   [(''Extended'', ''kExtended'')])]"

definition occupancy_sensing_bitmasks_from :: json_table where
  "occupancy_sensing_bitmasks_from = [
  (''OccupancySensing::Feature'',
   [(''Other'', ''kOther''), (''PassiveInfrared'', ''kPassiveInfrared''),
    (''Ultrasonic'', ''kUltrasonic''), (''PhysicalContact'', ''kPhysicalContact''),
    (''ActiveInfrared'', ''kActiveInfrared''), (''Radar'', ''kRadar''),
    (''RFSensing'', ''kRFSensing''), (''Vision'', ''kVision'')]),
  (''OccupancySensing::OccupancyBitmap'',
   [(''SensedOccupancy'', ''kOccupied'')]),
  (''OccupancySensing::OccupancySensorTypeBitmap'',
   [(''PIR'', ''kPir''), (''Ultrasonic'', ''kUltrasonic''),
    (''PhysicalContact'', ''kPhysicalContact'')])]"

definition occupancy_sensing_enums_from :: json_table where
  "occupancy_sensing_enums_from = [
  (''OccupancySensing::OccupancySensorTypeEnum'',
   [(''PIR'', ''kPir''), (''Ultrasonic'', ''kUltrasonic''),
    (''PIRAndUltrasonic'', ''kPIRAndUltrasonic''), (''PhysicalContact'', ''kPhysicalContact'')])]"

section \<open>chip_types_to_json.hpp\<close>

definition identify_enums_to :: json_table where
  "identify_enums_to = [
  (''Identify::EffectIdentifierEnum'',
   [(''Blink'', ''kBlink''), (''Breathe'', ''kBreathe''), (''Okay'', ''kOkay''),
    (''ChannelChange'', ''kChannelChange''), (''FinishEffect'', ''kFinishEffect''),
    (''StopEffect'', ''kStopEffect'')]),
  (''Identify::EffectVariantEnum'',
   [(''Default'', ''kDefault'')]),
  (''Identify::IdentifyTypeEnum'',
   [(''None'', ''kNone''), (''LightOutput'', ''kLightOutput''),
    (''VisibleIndicator'', ''kVisibleIndicator''), (''AudibleBeep'', ''kAudibleBeep''),
    (''Display'', ''kDisplay''), (''Actuator'', ''kActuator'')])]"

definition groups_bitmasks_to :: json_table where
  "groups_bitmasks_to = [
  (''Groups::Feature'',
   [(''GroupNames'', ''kGroupNames'')]),
  (''Groups::NameSupportBitmap'',
   [(''GroupNames'', ''kGroupNames'')])]"

definition on_off_bitmasks_to :: json_table where
  "on_off_bitmasks_to = [
  (''OnOff::Feature'',
   [(''Lighting'', ''kLighting''), (''DeadFrontBehavior'', ''kDeadFrontBehavior''),
    (''OffOnly'', ''kOffOnly'')]),
  (''OnOff::OnOffControlBitmap'',
   [(''AcceptOnlyWhenOn'', ''kAcceptOnlyWhenOn'')])]"

definition on_off_enums_to :: json_table where
  "on_off_enums_to = [
  (''OnOff::DelayedAllOffEffectVariantEnum'',
   [(''DelayedOffFastFade'', ''kDelayedOffFastFade''), (''NoFade'', ''kNoFade''),
    (''DelayedOffSlowFade'', ''kDelayedOffSlowFade'')]),
  (''OnOff::DyingLightEffectVariantEnum'',
   [(''DyingLightFadeOff'', ''kDyingLightFadeOff'')]),
  (''OnOff::EffectIdentifierEnum'',
   [(''DelayedAllOff'', ''kDelayedAllOff''), (''DyingLight'', ''kDyingLight'')]),
  (''OnOff::StartUpOnOffEnum'',
   [(''SetOnOffTo0'', ''kOff''), (''SetOnOffTo1'', ''kOn''), (''TogglePreviousOnOff'', ''kToggle'')])]"

definition level_control_bitmasks_to :: json_table where
  "level_control_bitmasks_to = [
  (''LevelControl::Feature'',
   [(''OnOff'', ''kOnOff''), (''Lighting'', ''kLighting''), (''Frequency'', ''kFrequency'')]),
  (''LevelControl::OptionsBitmap'',
   [(''ExecuteIfOff'', ''kExecuteIfOff''),
    (''CoupleColorTempToLevel'', ''kCoupleColorTempToLevel'')])]"

definition level_control_enums_to :: json_table where
  "level_control_enums_to = [
  (''LevelControl::MoveModeEnum'',
   [(''Up'', ''kUp''), (''Down'', ''kDown'')]),
  (''LevelControl::StepModeEnum'',
   [(''Up'', ''kUp''), (''Down'', ''kDown'')])]"

definition door_lock_bitmasks_to_1 :: json_table where
  "door_lock_bitmasks_to_1 = [
  (''DoorLock::DaysMaskMap'',
   [(''Sun'', ''kSunday''), (''Mon'', ''kMonday''), (''Tue'', ''kTuesday''),
    (''Wed'', ''kWednesday''), (''Thu'', ''kThursday''), (''Fri'', ''kFriday''),
    (''Sat'', ''kSaturday'')]),
  (''DoorLock::DlCredentialRuleMask'',
   [(''Single'', ''kSingle''), (''Dual'', ''kDual''), (''Tri'', ''kTri'')]),
  (''DoorLock::DlCredentialRulesSupport'',
   [(''Single'', ''kSingle''), (''Dual'', ''kDual''), (''Tri'', ''kTri'')]),
  (''DoorLock::DlDefaultConfigurationRegister'',
   [(''DefaultEnableLocalProgrammingAttributeIsEnabled'', ''kEnableLocalProgrammingEnabled''),
    (''DefaultKeypadInterfaceIsEnabled'', ''kKeypadInterfaceDefaultAccessEnabled''),
    (''DefaultRFInterfaceIsEnabled'', ''kRemoteInterfaceDefaultAccessIsEnabled''),
    (''DefaultSoundVolumeIsEnabled'', ''kSoundEnabled''),
    (''DefaultAutoRelockTimeIsEnabled'', ''kAutoRelockTimeSet''),
    (''DefaultLEDSettingsIsEnabled'', ''kLEDSettingsSet'')]),
  (''DoorLock::DlKeypadOperationEventMask'',
   [(''KeypadOpUnknownOrMS'', ''kUnknown''), (''KeypadOpLock'', ''kLock''),
    (''KeypadOpUnlock'', ''kUnlock''), (''KeypadOpLockErrorInvalidPIN'', ''kLockInvalidPIN''),
    (''KeypadOpLockErrorInvalidSchedule'', ''kLockInvalidSchedule''),
    (''KeypadOpUnlockInvalidPIN'', ''kUnlockInvalidCode''),
    (''KeypadOpUnlockInvalidSchedule'', ''kUnlockInvalidSchedule''),
    (''KeypadOpNonAccessUser'', ''kNonAccessUserOpEvent'')]),
  (''DoorLock::DlKeypadProgrammingEventMask'',
   [(''KeypadProgUnknownOrMS'', ''kUnknown''),
    (''KeypadProgMasterCodeChanged'', ''kProgrammingPINChanged''),
    (''KeypadProgPINAdded'', ''kPINAdded''), (''KeypadProgPINDeleted'', ''kPINCleared''),
    (''KeypadProgPINChanged'', ''kPINChanged'')]),
  (''DoorLock::DlLocalProgrammingFeatures'',
   [(''AddUsersCredentialsSchedulesLocally'', ''kAddUsersCredentialsSchedulesLocally''),
    (''ModifyUsersCredentialsSchedulesLocally'', ''kModifyUsersCredentialsSchedulesLocally''),
    (''ClearUsersCredentialsSchedulesLocally'', ''kClearUsersCredentialsSchedulesLocally''),
    (''AdjustLockSettingsLocally'', ''kAdjustLockSettingsLocally'')]),
  (''DoorLock::DlManualOperationEventMask'',
   [(''ManualOpUnknownOrMS'', ''kUnknown''), (''ManualOpThumbturnLock'', ''kThumbturnLock''),
    (''ManualOpThumbturnUnlock'', ''kThumbturnUnlock''),
    (''ManualOpOneTouchLock'', ''kOneTouchLock''), (''ManualOpKeyLock'', ''kKeyLock''),
    (''ManualOpKeyUnlock'', ''kKeyUnlock''), (''ManualOpAutoLock'', ''kAutoLock''),
    (''ManualOpScheduleLock'', ''kScheduleLock''),
    (''ManualOpScheduleUnlock'', ''kScheduleUnlock''), (''ManualOpLock'', ''kManualLock''),
    (''ManualOpUnlock'', ''kManualUnlock'')]),
  (''DoorLock::DlRFIDOperationEventMask'',
   [(''RFIDOpUnknownOrMS'', ''kUnknown''), (''RFIDOpLock'', ''kLock''),
    (''RFIDOpUnlock'', ''kUnlock''), (''RFIDOpLockErrorInvalidRFID'', ''kLockInvalidRFID''),
    (''RFIDOpLockErrorInvalidSchedule'', ''kLockInvalidSchedule''),
    (''RFIDOpUnlockErrorInvalidRFID'', ''kUnlockInvalidRFID''),
    (''RFIDOpUnlockErrorInvalidSchedule'', ''kUnlockInvalidSchedule'')]),
  (''DoorLock::DlRFIDProgrammingEventMask'',
   [(''RFIDProgUnknownOrMS'', ''kUnknown''), (''RFIDProgRFIDAdded'', ''kRFIDCodeAdded''),
    (''RFIDProgRFIDDeleted'', ''kRFIDCodeCleared'')]),
  (''DoorLock::DlRemoteOperationEventMask'',
   [(''RFOpUnknownOrMS'', ''kUnknown''), (''RFOpLock'', ''kLock''), (''RFOpUnlock'', ''kUnlock''),
    (''RFOpLockErrorInvalidCode'', ''kLockInvalidCode''),
    (''RFOpLockErrorInvalidSchedule'', ''kLockInvalidSchedule''),
    (''RFOpUnlockInvalidCode'', ''kUnlockInvalidCode''),
    (''RFOpUnlockInvalidSchedule'', ''kUnlockInvalidSchedule'')])]"

definition door_lock_bitmasks_to_2 :: json_table where
  "door_lock_bitmasks_to_2 = [
  (''DoorLock::DlRemoteProgrammingEventMask'',
   [(''RFProgUnknownOrMS'', ''kUnknown''), ('''', ''kProgrammingPINChanged''),
    (''RFProgPINAdded'', ''kPINAdded''), (''RFProgPINDeleted'', ''kPINCleared''),
    (''RFProgPINChanged'', ''kPINChanged''), (''RFProgRFIDAdded'', ''kRFIDCodeAdded''),
    (''RFProgRFIDDeleted'', ''kRFIDCodeCleared'')]),
  (''DoorLock::DlSupportedOperatingModes'',
   [(''NormalModeSupported'', ''kNormal''), (''VacationModeSupported'', ''kVacation''),
    (''PrivacyModeSupported'', ''kPrivacy''),
    (''NoRFLockOrUnlockModeSupported'', ''kNoRemoteLockUnlock''),
    (''PassageModeSupported'', ''kPassage'')]),
  (''DoorLock::DoorLockDayOfWeek'',
   [(''Sunday'', ''kSunday''), (''Monday'', ''kMonday''), (''Tuesday'', ''kTuesday''),
    (''Wednesday'', ''kWednesday''), (''Thursday'', ''kThursday''), (''Friday'', ''kFriday''),
    (''Saturday'', ''kSaturday'')]),
  (''DoorLock::Feature'',
   [(''PIN Credential'', ''kPinCredential''), (''RFID Credential'', ''kRfidCredential''),
    (''FingerCredentials'', ''kFingerCredentials''), (''Logging'', ''kLogging''),
    (''WeekDayAccessSchedules'', ''kWeekDayAccessSchedules''),
    (''DoorPositionSensor'', ''kDoorPositionSensor''), (''FaceCredentials'', ''kFaceCredentials''),
    (''CredentialsOverTheAirAccess'', ''kCredentialsOverTheAirAccess''), (''User'', ''kUser''),
    (''Notification'', ''kNotification''),
    (''YearDayAccessSchedules'', ''kYearDayAccessSchedules''),
    (''HolidaySchedules'', ''kHolidaySchedules''), (''Unbolt'', ''kUnbolt''),
    (''AliroProvisioning'', ''kAliroProvisioning''), (''AliroBLEUWB'', ''kAliroBLEUWB'')])]"

definition door_lock_enums_to_1 :: json_table where
  "door_lock_enums_to_1 = [
  (''DoorLock::AlarmCodeEnum'',
   [(''LockJammed'', ''kLockJammed''), (''LockFactoryReset'', ''kLockFactoryReset''),
    (''LockRadioPowerCycled'', ''kLockRadioPowerCycled''),
    (''WrongCodeEntryLimit'', ''kWrongCodeEntryLimit''),
    (''FrontEsceutcheonRemoved'', ''kFrontEsceutcheonRemoved''),
    (''DoorForcedOpen'', ''kDoorForcedOpen''), (''DoorAjar'', ''kDoorAjar''),
    (''ForcedUser'', ''kForcedUser'')]),
  (''DoorLock::CredentialRuleEnum'',
   [(''Single'', ''kSingle''), (''Dual'', ''kDual''), (''Tri'', ''kTri'')]),
  (''DoorLock::CredentialTypeEnum'',
   [(''ProgrammingPIN'', ''kProgrammingPIN''), (''PIN'', ''kPin''), (''RFID'', ''kRfid''),
    (''Fingerprint'', ''kFingerprint''), (''FingerVein'', ''kFingerVein''), (''Face'', ''kFace''),
    ('''', ''kAliroCredentialIssuerKey''), ('''', ''kAliroEvictableEndpointKey''),
    ('''', ''kAliroNonEvictableEndpointKey'')]),
  (''DoorLock::DataOperationTypeEnum'',
   [(''Add'', ''kAdd''), (''Clear'', ''kClear''), (''Modify'', ''kModify'')]),
  (''DoorLock::DlLockState'',
   [(''NotFullyLocked'', ''kNotFullyLocked''), (''Locked'', ''kLocked''),
    (''Unlocked'', ''kUnlocked''), (''Unlatched'', ''kUnlatched'')]),
  (''DoorLock::DlLockType'',
   [(''DeadBolt'', ''kDeadBolt''), (''Magnetic'', ''kMagnetic''), (''Other'', ''kOther''),
    (''Mortise'', ''kMortise''), (''Rim'', ''kRim''), (''LatchBolt'', ''kLatchBolt''),
    (''CylindricalLock'', ''kCylindricalLock''), (''TubularLock'', ''kTubularLock''),
    (''InterconnectedLock'', ''kInterconnectedLock''), (''DeadLatch'', ''kDeadLatch''),
    (''DoorFurniture'', ''kDoorFurniture''), (''Eurocylinder'', ''kEurocylinder'')])]"

definition door_lock_enums_to_2 :: json_table where
  "door_lock_enums_to_2 = [
  (''DoorLock::DlStatus'',
   [(''Success'', ''kSuccess''), (''Failure'', ''kFailure''), (''Duplicate'', ''kDuplicate''),
    (''Occupied'', ''kOccupied''), (''InvalidField'', ''kInvalidField''),
    (''ResourceExhausted'', ''kResourceExhausted''), (''NotFound'', ''kNotFound'')]),
  (''DoorLock::DoorLockOperationEventCode'',
   [(''UnknownOrMS'', ''kUnknownOrMfgSpecific''), (''Lock'', ''kLock''), (''Unlock'', ''kUnlock''),
    (''LockFailureInvalidPINOrID'', ''kLockInvalidPinOrId''),
    (''LockFailureInvalidSchedule'', ''kLockInvalidSchedule''),
    (''UnlockFailureInvalidPINOrID'', ''kUnlockInvalidPinOrId''),
    (''UnlockFailureInvalidSchedule'', ''kUnlockInvalidSchedule''),
    (''OneTouchLock'', ''kOneTouchLock''), (''KeyLock'', ''kKeyLock''),
    (''KeyUnlock'', ''kKeyUnlock''), (''AutoLock'', ''kAutoLock''),
    (''ScheduleLock'', ''kScheduleLock''), (''ScheduleUnlock'', ''kScheduleUnlock''),
    (''ManualLock'', ''kManualLock''), (''ManualUnlock'', ''kManualUnlock'')]),
  (''DoorLock::DoorLockProgrammingEventCode'',
   [(''UnknownOrMS'', ''kUnknownOrMfgSpecific''), (''MasterCodeChanged'', ''kMasterCodeChanged''),
    (''PINCodeAdded'', ''kPinAdded''), (''PINCodeDeleted'', ''kPinDeleted''),
    (''PINCodeChanged'', ''kPinChanged''), (''RFIDCodeAdded'', ''kIdAdded''),
    (''RFIDCodeDeleted'', ''kIdDeleted'')]),
  (''DoorLock::DoorLockSetPinOrIdStatus'',
   [(''Success'', ''kSuccess''), (''GeneralFailure'', ''kGeneralFailure''),
    (''MemoryFull'', ''kMemoryFull''), (''DuplicateCode'', ''kDuplicateCodeError'')]),
  (''DoorLock::DoorLockUserStatus'',
   [(''Available'', ''kAvailable''), (''OccupiedEnabled'', ''kOccupiedEnabled''),
    (''OccupiedDisabled'', ''kOccupiedDisabled''), (''NotSupported'', ''kNotSupported'')]),
  (''DoorLock::DoorLockUserType'',
   [(''UnrestrictedUser'', ''kUnrestricted''), (''YearDayScheduleUser'', ''kYearDayScheduleUser''),
    (''WeekDayScheduleUser'', ''kWeekDayScheduleUser''), (''MasterUser'', ''kMasterUser''),
    (''NonAccessUser'', ''kNonAccessUser''), (''ForcedUser'', ''kNotSupported'')])]"

definition door_lock_enums_to_3 :: json_table where
  "door_lock_enums_to_3 = [
  (''DoorLock::DoorStateEnum'',
   [(''Open'', ''kDoorOpen''), (''Closed'', ''kDoorClosed''), (''ErrorJammed'', ''kDoorJammed''),
    (''ErrorForcedOpen'', ''kDoorForcedOpen''), (''ErrorUnspecified'', ''kDoorUnspecifiedError''),
    (''DoorAjar'', ''kDoorAjar'')]),
  (''DoorLock::LockDataTypeEnum'',
   [(''Unspecified'', ''kUnspecified''), (''ProgrammingCode'', ''kProgrammingCode''),
    (''UserIndex'', ''kUserIndex''), (''WeekDaySchedule'', ''kWeekDaySchedule''),
    (''YearDaySchedule'', ''kYearDaySchedule''), (''HolidaySchedule'', ''kHolidaySchedule''),
    (''PIN'', ''kPin''), (''RFID'', ''kRfid''), (''Fingerprint'', ''kFingerprint''),
    (''FingerVein'', ''kFingerVein''), (''Face'', ''kFace''),
    (''AliroCredentialIssuerKey'', ''kAliroCredentialIssuerKey''),
    (''AliroEvictableEndpointKey'', ''kAliroEvictableEndpointKey''),
    (''AliroNonEvictableEndpointKey'', ''kAliroNonEvictableEndpointKey'')]),
  (''DoorLock::LockOperationTypeEnum'',
   [(''Lock'', ''kLock''), (''Unlock'', ''kUnlock''),
    (''NonAccessUserEvent'', ''kNonAccessUserEvent''), (''ForcedUserEvent'', ''kForcedUserEvent''),
    (''Unlatch'', ''kUnlatch'')]),
  (''DoorLock::OperatingModeEnum'',
   [(''Normal'', ''kNormal''), (''Vacation'', ''kVacation''), (''Privacy'', ''kPrivacy''),
    (''NoRemoteLockUnlock'', ''kNoRemoteLockUnlock''), (''Passage'', ''kPassage'')]),
  (''DoorLock::OperationErrorEnum'',
   [(''Unspecified'', ''kUnspecified''), (''InvalidCredential'', ''kInvalidCredential''),
    (''DisabledUserDenied'', ''kDisabledUserDenied''), (''Restricted'', ''kRestricted''),
    (''InsufficientBattery'', ''kInsufficientBattery'')]),
  (''DoorLock::OperationSourceEnum'',
   [(''Unspecified'', ''kUnspecified''), (''Manual'', ''kManual''),
    (''ProprietaryRemote'', ''kProprietaryRemote''), (''Keypad'', ''kKeypad''),
    (''Auto'', ''kAuto''), (''Button'', ''kButton''), (''Schedule'', ''kSchedule''),
    (''Remote'', ''kRemote''), (''RFID'', ''kRfid''), (''Biometric'', ''kBiometric''),
    (''Aliro'', ''kAliro'')])]"

definition door_lock_enums_to_4 :: json_table where
  "door_lock_enums_to_4 = [
  (''DoorLock::UserStatusEnum'',
   [(''Available'', ''kAvailable''), (''OccupiedEnabled'', ''kOccupiedEnabled''),
    (''OccupiedDisabled'', ''kOccupiedDisabled'')]),
  (''DoorLock::UserTypeEnum'',
   [(''UnrestrictedUser'', ''kUnrestrictedUser''),
    (''YearDayScheduleUser'', ''kYearDayScheduleUser''),
    (''WeekDayScheduleUser'', ''kWeekDayScheduleUser''),
    (''ProgrammingUser'', ''kProgrammingUser''), (''NonAccessUser'', ''kNonAccessUser''),
    (''ForcedUser'', ''kForcedUser''), (''DisposableUser'', ''kDisposableUser''),
    (''ExpiringUser'', ''kExpiringUser''),
    (''ScheduleRestrictedUser'', ''kScheduleRestrictedUser''),
    (''RemoteOnlyUser'', ''kRemoteOnlyUser'')])]"

definition window_covering_bitmasks_to :: json_table where
  "window_covering_bitmasks_to = [
  (''WindowCovering::ConfigStatus'',
   [(''Operational'', ''kOperational''), (''Online'', ''kOnlineReserved''),
    (''OpenAndUpCommandsReversed'', ''kLiftMovementReversed''),
    (''LiftClosedLoop'', ''kLiftPositionAware''), (''TiltClosedLoop'', ''kTiltPositionAware''),
    (''LiftEncoderControlled'', ''kLiftEncoderControlled''),
    (''TiltEncoderControlled'', ''kTiltEncoderControlled'')]),
  (''WindowCovering::Feature'',
   [(''Lift'', ''kLift''), (''Tilt'', ''kTilt''), (''PositionAwareLift'', ''kPositionAwareLift''),
    (''AbsolutePosition'', ''kAbsolutePosition''), (''PositionAwareTilt'', ''kPositionAwareTilt'')]),
  (''WindowCovering::Mode'',
   [(''MotorDirectionReversed'', ''kMotorDirectionReversed''),
    (''CalibrationMode'', ''kCalibrationMode''), (''MaintenanceMode'', ''kMaintenanceMode''),
    (''LEDFeedback'', ''kLedFeedback'')]),
  (''WindowCovering::OperationalStatus'',
   [(''Global'', ''kGlobal''), (''Lift'', ''kLift''), (''Tilt'', ''kTilt'')]),
  (''WindowCovering::SafetyStatus'',
   [(''RemoteLockout'', ''kRemoteLockout''), (''TamperDetection'', ''kTamperDetection''),
    (''FailedCommunication'', ''kFailedCommunication''),
    (''PositionFailure'', ''kPositionFailure''), (''ThermalProtection'', ''kThermalProtection''),
    (''ObstacleDetected'', ''kObstacleDetected''), (''Power'', ''kPower''),
    (''StopInput'', ''kStopInput''), (''MotorJammed'', ''kMotorJammed''),
    (''HardwareFailure'', ''kHardwareFailure''), (''ManualOperation'', ''kManualOperation''),
    (''Protection'', ''kProtection'')])]"

definition window_covering_enums_to :: json_table where
  "window_covering_enums_to = [
  (''WindowCovering::EndProductType'',
   [(''RollerShade'', ''kRollerShade''), (''RomanShade'', ''kRomanShade''),
    (''BalloonShade'', ''kBalloonShade''), (''WovenWood'', ''kWovenWood''),
    (''PleatedShade'', ''kPleatedShade''), (''CellularShade'', ''kCellularShade''),
    (''LayeredShade'', ''kLayeredShade''), (''LayeredShade2D'', ''kLayeredShade2D''),
    (''SheerShade'', ''kSheerShade''), (''TiltOnlyInteriorBlind'', ''kTiltOnlyInteriorBlind''),
    (''InteriorBlind'', ''kInteriorBlind''),
    (''VerticalBlindStripCurtain'', ''kVerticalBlindStripCurtain''),
    (''InteriorVenetianBlind'', ''kInteriorVenetianBlind''),
    (''ExteriorVenetianBlind'', ''kExteriorVenetianBlind''),
    (''LateralLeftCurtain'', ''kLateralLeftCurtain''),
    (''LateralRightCurtain'', ''kLateralRightCurtain''), (''CentralCurtain'', ''kCentralCurtain''),
    (''RollerShutter'', ''kRollerShutter''),
    (''ExteriorVerticalScreen'', ''kExteriorVerticalScreen''),
    (''AwningTerracePatio'', ''kAwningTerracePatio''),
    (''AwningVerticalScreen'', ''kAwningVerticalScreen''),
    (''TiltOnlyPergola'', ''kTiltOnlyPergola''), (''SwingingShutter'', ''kSwingingShutter''),
    (''SlidingShutter'', ''kSlidingShutter''), (''Unknown'', ''kUnknown'')]),
  (''WindowCovering::Type'',
   [(''Rollershade'', ''kRollerShade''), (''Rollershade2Motor'', ''kRollerShade2Motor''),
    (''RollershadeExterior'', ''kRollerShadeExterior''),
    (''RollershadeExterior2Motor'', ''kRollerShadeExterior2Motor''), (''Drapery'', ''kDrapery''),
    (''Awning'', ''kAwning''), (''Shutter'', ''kShutter''),
    (''TiltBlindTiltOnly'', ''kTiltBlindTiltOnly''),
    (''TiltBlindLiftAndTilt'', ''kTiltBlindLiftAndTilt''),
    (''ProjectorScreen'', ''kProjectorScreen''), ('''', ''kUnknown'')])]"

definition thermostat_bitmasks_to :: json_table where
  "thermostat_bitmasks_to = [
  (''Thermostat::ACErrorCodeBitmap'',
   [(''CompressorFail'', ''kCompressorFail''), (''RoomSensorFail'', ''kRoomSensorFail''),
    (''OutdoorSensorFail'', ''kOutdoorSensorFail''), (''CoilSensorFail'', ''kCoilSensorFail''),
    (''FanFail'', ''kFanFail'')]),
  (''Thermostat::Feature'',
   [(''Heating'', ''kHeating''), (''Cooling'', ''kCooling''), (''Occupancy'', ''kOccupancy''),
    (''ScheduleConfiguration'', ''kScheduleConfiguration''), (''Setback'', ''kSetback''),
    (''AutoMode'', ''kAutoMode''),
    (''LocalTemperatureNotExposed'', ''kLocalTemperatureNotExposed''),
    (''MatterScheduleConfiguration'', ''kMatterScheduleConfiguration''),
    (''Presets'', ''kPresets'')]),
  (''Thermostat::HVACSystemTypeBitmap'',
   [(''CoolingStage'', ''kCoolingStage''), (''HeatingStage'', ''kHeatingStage''),
    (''HeatingIsHeatPump'', ''kHeatingIsHeatPump''), (''HeatingUsesFuel'', ''kHeatingUsesFuel'')]),
  (''Thermostat::OccupancyBitmap'',
   [(''SensedOccupancy'', ''kOccupied'')]),
  (''Thermostat::PresetTypeFeaturesBitmap'',
   [(''Automatic'', ''kAutomatic''), (''SupportsNames'', ''kSupportsNames'')]),
  (''Thermostat::ProgrammingOperationModeBitmap'',
   [(''ScheduleActive'', ''kScheduleActive''), (''AutoRecovery'', ''kAutoRecovery''),
    (''Economy'', ''kEconomy'')]),
  (''Thermostat::RelayStateBitmap'',
   [(''Heat'', ''kHeat''), (''Cool'', ''kCool''), (''Fan'', ''kFan''),
    (''HeatStage2'', ''kHeatStage2''), (''CoolStage2'', ''kCoolStage2''),
    (''FanStage2'', ''kFanStage2''), (''FanStage3'', ''kFanStage3'')]),
  (''Thermostat::RemoteSensingBitmap'',
   [(''LocalTemperature'', ''kLocalTemperature''),
    (''OutdoorTemperature'', ''kOutdoorTemperature''), (''Occupancy'', ''kOccupancy'')]),
  (''Thermostat::ScheduleDayOfWeekBitmap'',
   [(''Sunday'', ''kSunday''), (''Monday'', ''kMonday''), (''Tuesday'', ''kTuesday''),
    (''Wednesday'', ''kWednesday''), (''Thursday'', ''kThursday''), (''Friday'', ''kFriday''),
    (''Saturday'', ''kSaturday''), (''Away'', ''kAway'')]),
  (''Thermostat::ScheduleModeBitmap'',
   [(''HeatSetpointPresent'', ''kHeatSetpointPresent''),
    (''CoolSetpointPresent'', ''kCoolSetpointPresent'')]),
  (''Thermostat::ScheduleTypeFeaturesBitmap'',
   [(''SupportsPresets'', ''kSupportsPresets''), (''SupportsSetpoints'', ''kSupportsSetpoints''),
    (''SupportsNames'', ''kSupportsNames''), (''SupportsOff'', ''kSupportsOff'')])]"

definition thermostat_enums_to_1 :: json_table where
  "thermostat_enums_to_1 = [
  (''Thermostat::ACCapacityFormatEnum'',
   [(''BTUh'', ''kBTUh'')]),
  (''Thermostat::ACCompressorTypeEnum'',
   [(''Unknown'', ''kUnknown''), (''T1'', ''kT1''), (''T2'', ''kT2''), (''T3'', ''kT3'')]),
  (''Thermostat::ACLouverPositionEnum'',
   [(''Closed'', ''kClosed''), (''Open'', ''kOpen''), (''Quarter'', ''kQuarter''),
    (''Half'', ''kHalf''), (''ThreeQuarters'', ''kThreeQuarters'')]),
  (''Thermostat::ACRefrigerantTypeEnum'',
   [(''Unknown'', ''kUnknown''), (''R22'', ''kR22''), (''R410a'', ''kR410a''),
    (''R407c'', ''kR407c'')]),
  (''Thermostat::ACTypeEnum'',
   [(''Unknown'', ''kUnknown''), (''CoolingFixed'', ''kCoolingFixed''),
    (''HeatPumpFixed'', ''kHeatPumpFixed''), (''CoolingInverter'', ''kCoolingInverter''),
    (''HeatPumpInverter'', ''kHeatPumpInverter'')]),
  (''Thermostat::ControlSequenceOfOperationEnum'',
   [(''CoolingOnly'', ''kCoolingOnly''), (''CoolingWithReheat'', ''kCoolingWithReheat''),
    (''HeatingOnly'', ''kHeatingOnly''), (''HeatingWithReheat'', ''kHeatingWithReheat''),
    (''CoolingAndHeating4Pipes'', ''kCoolingAndHeating''),
    (''CoolingAndHeating4PipesWithReheat'', ''kCoolingAndHeatingWithReheat'')]),
  (''Thermostat::PresetScenarioEnum'',
   [(''Occupied'', ''kOccupied''), (''Unoccupied'', ''kUnoccupied''), (''Sleep'', ''kSleep''),
    (''Wake'', ''kWake''), (''Vacation'', ''kVacation''), (''GoingToSleep'', ''kGoingToSleep''),
    (''UserDefined'', ''kUserDefined'')]),
  (''Thermostat::SetpointChangeSourceEnum'',
   [(''Manual'', ''kManual''), (''Schedule'', ''kSchedule''), (''External'', ''kExternal'')])]"

definition thermostat_enums_to_2 :: json_table where
  "thermostat_enums_to_2 = [
  (''Thermostat::SetpointRaiseLowerModeEnum'',
   [(''Heat'', ''kHeat''), (''Cool'', ''kCool''), (''Both'', ''kBoth'')]),
  (''Thermostat::StartOfWeekEnum'',
   [(''Sunday'', ''kSunday''), (''Monday'', ''kMonday''), (''Tuesday'', ''kTuesday''),
    (''Wednesday'', ''kWednesday''), (''Thursday'', ''kThursday''), (''Friday'', ''kFriday''),
    (''Saturday'', ''kSaturday'')]),
  (''Thermostat::SystemModeEnum'',
   [(''Off'', ''kOff''), (''Auto'', ''kAuto''), (''Cool'', ''kCool''), (''Heat'', ''kHeat''),
    (''EmergencyHeating'', ''kEmergencyHeat''), (''Precooling'', ''kPrecooling''),
    (''FanOnly'', ''kFanOnly''), (''Dry'', ''kDry''), (''Sleep'', ''kSleep'')]),
  (''Thermostat::TemperatureSetpointHoldEnum'',
   [(''SetpointHoldOff'', ''kSetpointHoldOff''), (''SetpointHoldOn'', ''kSetpointHoldOn'')]),
  (''Thermostat::ThermostatRunningModeEnum'',
   [(''Off'', ''kOff''), (''Cool'', ''kCool''), (''Heat'', ''kHeat'')])]"

definition color_control_bitmasks_to :: json_table where
  "color_control_bitmasks_to = [
  (''ColorControl::ColorCapabilitiesBitmap'',
   [(''HueSaturation'', ''kHueSaturation''), (''EnhancedHue'', ''kEnhancedHue''),
    (''ColorLoop'', ''kColorLoop''), (''XY'', ''kXy''),
    (''ColorTemperature'', ''kColorTemperature'')]),
  (''ColorControl::Feature'',
   [(''Hue And Saturation'', ''kHueAndSaturation''), (''Enhanced Hue'', ''kEnhancedHue''),
    (''Color loop'', ''kColorLoop''), (''XY'', ''kXy''),
    (''Color temperature'', ''kColorTemperature'')]),
  (''ColorControl::OptionsBitmap'',
   [(''ExecuteIfOff'', ''kExecuteIfOff'')]),
  (''ColorControl::UpdateFlagsBitmap'',
   [(''UpdateAction'', ''kUpdateAction''), (''UpdateDirection'', ''kUpdateDirection''),
    (''UpdateTime'', ''kUpdateTime''), (''UpdateStartHue'', ''kUpdateStartHue'')])]"

definition color_control_enums_to :: json_table where
  "color_control_enums_to = [
  (''ColorControl::ColorLoopActionEnum'',
   [(''Deactivate'', ''kDeactivate''),
    (''ActivateFromColorLoopStartEnhancedHue'', ''kActivateFromColorLoopStartEnhancedHue''),
    (''ActivateFromEnhancedCurrentHue'', ''kActivateFromEnhancedCurrentHue'')]),
  (''ColorControl::ColorLoopDirectionEnum'',
   [(''Decrement'', ''kDecrement''), (''Increment'', ''kIncrement'')]),
  (''ColorControl::ColorModeEnum'',
   [(''CurrentHueAndCurrentSaturation'', ''kCurrentHueAndCurrentSaturation''),
    (''CurrentXAndCurrentY'', ''kCurrentXAndCurrentY''),
    (''ColorTemperatureMireds'', ''kColorTemperatureMireds'')]),
  (''ColorControl::DirectionEnum'',
   [(''ShortestDistance'', ''kShortest''), (''LongestDistance'', ''kLongest''), (''Up'', ''kUp''),
    (''Down'', ''kDown'')]),
  (''ColorControl::DriftCompensationEnum'',
   [(''None'', ''kNone''), (''OtherOrUnknown'', ''kOtherOrUnknown''),
    (''TemperatureMonitoring'', ''kTemperatureMonitoring''),
    (''OpticalLuminanceMonitoringAndFeedback'', ''kOpticalLuminanceMonitoringAndFeedback''),
    (''OpticalColorMonitoringAndFeedback'', ''kOpticalColorMonitoringAndFeedback'')]),
  (''ColorControl::EnhancedColorModeEnum'',
   [(''CurrentHueAndCurrentSaturation'', ''kCurrentHueAndCurrentSaturation''),
    (''CurrentXAndCurrentY'', ''kCurrentXAndCurrentY''),
    (''ColorTemperatureMireds'', ''kColorTemperatureMireds''),
    (''EnhancedCurrentHueAndCurrentSaturation'', ''kEnhancedCurrentHueAndCurrentSaturation'')]),
  (''ColorControl::MoveModeEnum'',
   [(''Stop'', ''kStop''), (''Up'', ''kUp''), (''Down'', ''kDown'')]),
  (''ColorControl::StepModeEnum'',
   [(''Up'', ''kUp''), (''Down'', ''kDown'')])]"

definition illuminance_measurement_enums_to :: json_table where
  "illuminance_measurement_enums_to = [
  (''IlluminanceMeasurement::LightSensorTypeEnum'',
   [(''Photodiode'', ''kPhotodiode''), (''CMOS'', ''kCmos'')])]"

definition pressure_measurement_bitmasks_to :: json_table where
  "pressure_measurement_bitmasks_to = [
  (''PressureMeasurement::Feature'',
   [(''Extended'', ''kExtended'')])]"

definition occupancy_sensing_bitmasks_to :: json_table where
  "occupancy_sensing_bitmasks_to = [
  (''OccupancySensing::Feature'',
   [(''Other'', ''kOther''), (''PassiveInfrared'', ''kPassiveInfrared''),
    (''Ultrasonic'', ''kUltrasonic''), (''PhysicalContact'', ''kPhysicalContact''),
    (''ActiveInfrared'', ''kActiveInfrared''), (''Radar'', ''kRadar''),
    (''RFSensing'', ''kRFSensing''), (''Vision'', ''kVision'')]),
  (''OccupancySensing::OccupancyBitmap'',
   [(''SensedOccupancy'', ''kOccupied'')]),
  (''OccupancySensing::OccupancySensorTypeBitmap'',
   [(''PIR'', ''kPir''), (''Ultrasonic'', ''kUltrasonic''),
    (''PhysicalContact'', ''kPhysicalContact'')])]"

definition occupancy_sensing_enums_to :: json_table where
  "occupancy_sensing_enums_to = [
  (''OccupancySensing::OccupancySensorTypeEnum'',
   [(''PIR'', ''kPir''), (''Ultrasonic'', ''kUltrasonic''),
    (''PIRAndUltrasonic'', ''kPIRAndUltrasonic''), (''PhysicalContact'', ''kPhysicalContact'')])]"

section \<open>All of them\<close>

definition enums_from_json :: json_table where
  "enums_from_json =
     identify_enums_from @ on_off_enums_from @ level_control_enums_from @ door_lock_enums_from_1 @
     door_lock_enums_from_2 @ door_lock_enums_from_3 @ window_covering_enums_from @
     thermostat_enums_from_1 @ thermostat_enums_from_2 @ color_control_enums_from @
     illuminance_measurement_enums_from @ occupancy_sensing_enums_from"

lemmas enums_from_json_parts = enums_from_json_def
     identify_enums_from_def on_off_enums_from_def level_control_enums_from_def
     door_lock_enums_from_1_def door_lock_enums_from_2_def door_lock_enums_from_3_def
     window_covering_enums_from_def thermostat_enums_from_1_def thermostat_enums_from_2_def
     color_control_enums_from_def illuminance_measurement_enums_from_def
     occupancy_sensing_enums_from_def

definition bitmasks_from_json :: json_table where
  "bitmasks_from_json =
     groups_bitmasks_from @ on_off_bitmasks_from @ level_control_bitmasks_from @
     door_lock_bitmasks_from_1 @ door_lock_bitmasks_from_2 @ window_covering_bitmasks_from @
     thermostat_bitmasks_from @ color_control_bitmasks_from @ pressure_measurement_bitmasks_from @
     occupancy_sensing_bitmasks_from"

lemmas bitmasks_from_json_parts = bitmasks_from_json_def
     groups_bitmasks_from_def on_off_bitmasks_from_def level_control_bitmasks_from_def
     door_lock_bitmasks_from_1_def door_lock_bitmasks_from_2_def window_covering_bitmasks_from_def
     thermostat_bitmasks_from_def color_control_bitmasks_from_def
     pressure_measurement_bitmasks_from_def occupancy_sensing_bitmasks_from_def

definition enums_to_json :: json_table where
  "enums_to_json =
     identify_enums_to @ on_off_enums_to @ level_control_enums_to @ door_lock_enums_to_1 @
     door_lock_enums_to_2 @ door_lock_enums_to_3 @ door_lock_enums_to_4 @ window_covering_enums_to @
     thermostat_enums_to_1 @ thermostat_enums_to_2 @ color_control_enums_to @
     illuminance_measurement_enums_to @ occupancy_sensing_enums_to"

lemmas enums_to_json_parts = enums_to_json_def
     identify_enums_to_def on_off_enums_to_def level_control_enums_to_def door_lock_enums_to_1_def
     door_lock_enums_to_2_def door_lock_enums_to_3_def door_lock_enums_to_4_def
     window_covering_enums_to_def thermostat_enums_to_1_def thermostat_enums_to_2_def
     color_control_enums_to_def illuminance_measurement_enums_to_def occupancy_sensing_enums_to_def

definition bitmasks_to_json :: json_table where
  "bitmasks_to_json =
     groups_bitmasks_to @ on_off_bitmasks_to @ level_control_bitmasks_to @ door_lock_bitmasks_to_1 @
     door_lock_bitmasks_to_2 @ window_covering_bitmasks_to @ thermostat_bitmasks_to @
     color_control_bitmasks_to @ pressure_measurement_bitmasks_to @ occupancy_sensing_bitmasks_to"

lemmas bitmasks_to_json_parts = bitmasks_to_json_def
     groups_bitmasks_to_def on_off_bitmasks_to_def level_control_bitmasks_to_def
     door_lock_bitmasks_to_1_def door_lock_bitmasks_to_2_def window_covering_bitmasks_to_def
     thermostat_bitmasks_to_def color_control_bitmasks_to_def pressure_measurement_bitmasks_to_def
     occupancy_sensing_bitmasks_to_def

end
