(* ===== verification/Json_Conversions.thy ===== *)
theory Json_Conversions
  imports Json_Tables Emulator
begin

text \<open>
  How the generated overloads of \<open>from_json\<close> and \<open>to_json\<close> use their tables (Json_Tables). The number
  of an enumerator and the fields of \<open>chip::BitMask\<close> belong to the Matter library: \<open>num\<close> maps the
  enumerators of one type to their values, \<open>set_field\<close> and \<open>get_field\<close> are \<open>SetField\<close> and \<open>GetField\<close> of
  one type, with the laws \<open>field_laws\<close>.
\<close>

section \<open>Enumerations\<close>

text \<open>A \<open>std::map\<close> built from an initialiser keeps the first of two elements with one key.\<close>

definition enum_from_json ::
  "(string \<Rightarrow> value_t) \<Rightarrow> (string \<times> string) list \<Rightarrow> json \<Rightarrow> cdata option res" where
  "enum_from_json num rows j =
     rbind (json_get_string j) (\<lambda>s. Inr (map_option (\<lambda>k. Scalar (num k)) (map_of rows s)))"

definition enum_arg :: "(string \<Rightarrow> value_t) \<Rightarrow> (string \<times> string) list \<Rightarrow> value_t \<Rightarrow> arg" where
  "enum_arg num rows v = A_Enum (map_option fst (find (\<lambda>(_, k). num k = v) rows))"

section \<open>Bit masks\<close>

text \<open>\<open>obj.value(name, false)\<close> of an object.\<close>

definition flag_value :: "(string \<times> json) list \<Rightarrow> string \<Rightarrow> bool res" where
  "flag_value ms name =
     (case map_of ms name of None \<Rightarrow> Inr False | Some (JBool b) \<Rightarrow> Inr b | Some _ \<Rightarrow> Inl Json_Type_Error)"

fun set_fields ::
  "(string \<Rightarrow> bool \<Rightarrow> value_t \<Rightarrow> value_t) \<Rightarrow> (string \<times> json) list \<Rightarrow> (string \<times> string) list \<Rightarrow> value_t \<Rightarrow>
     value_t res" where
  "set_fields set_field ms [] m = Inr m"
| "set_fields set_field ms ((name, flag) # rows) m =
     rbind (flag_value ms name) (\<lambda>b. set_fields set_field ms rows (set_field flag b m))"

definition bitmask_from_json ::
  "(string \<Rightarrow> bool \<Rightarrow> value_t \<Rightarrow> value_t) \<Rightarrow> value_t \<Rightarrow> (string \<times> string) list \<Rightarrow> json \<Rightarrow> cdata option res" where
  "bitmask_from_json set_field zero rows j =
     (case j of
        JObject ms \<Rightarrow> rbind (set_fields set_field ms rows zero) (\<lambda>m. Inr (Some (Scalar m)))
      | _ \<Rightarrow> Inl Json_Type_Error)"

definition bitmask_arg :: "(string \<Rightarrow> value_t \<Rightarrow> bool) \<Rightarrow> (string \<times> string) list \<Rightarrow> value_t \<Rightarrow> arg" where
  "bitmask_arg get_field rows m = A_Bits (map (\<lambda>(name, flag). (name, get_field flag m)) rows)"

definition field_laws ::
  "(string \<Rightarrow> bool \<Rightarrow> value_t \<Rightarrow> value_t) \<Rightarrow> (string \<Rightarrow> value_t \<Rightarrow> bool) \<Rightarrow> string set \<Rightarrow> bool" where
  "field_laws set_field get_field flags \<longleftrightarrow>
     (\<forall>f\<in>flags. \<forall>g\<in>flags. \<forall>b m. get_field g (set_field f b m) = (if g = f then b else get_field g m))"

text \<open>The structure of a credential, the only one with an overload.\<close>

definition credential_to_json :: "arg \<Rightarrow> arg \<Rightarrow> json" where
  "credential_to_json credential_type credential_index =
     JObject [(''CredentialType'', to_json credential_type), (''CredentialIndex'', to_json credential_index)]"

section \<open>Facts about the tables\<close>

lemma enum_tables_agree: "enums_to_json = enums_from_json"
  by (simp only: enums_from_json_parts enums_to_json_parts append_Cons append_Nil)

lemma bitmask_tables_agree: "bitmasks_to_json = bitmasks_from_json"
  by (simp only: bitmasks_from_json_parts bitmasks_to_json_parts append_Cons append_Nil)

lemma enum_types_distinct: "distinct (map fst enums_from_json)"
  by (simp add: enums_from_json_parts)

lemma bitmask_types_distinct: "distinct (map fst bitmasks_from_json)"
  by (simp add: bitmasks_from_json_parts)

lemma enumerators_distinct: "list_all (\<lambda>(_, rows). distinct (map snd rows)) enums_from_json"
  by (simp add: enums_from_json_parts)

lemma enum_names_distinct:
  "list_all (\<lambda>(ty, rows). distinct (map fst rows) \<or> ty = ''DoorLock::CredentialTypeEnum'') enums_from_json"
  by (simp add: enums_from_json_parts)

lemma credential_rows: "map_of enums_from_json ''DoorLock::CredentialTypeEnum'' = Some
    [(''ProgrammingPIN'', ''kProgrammingPIN''), (''PIN'', ''kPin''), (''RFID'', ''kRfid''),
     (''Fingerprint'', ''kFingerprint''), (''FingerVein'', ''kFingerVein''), (''Face'', ''kFace''),
     ([], ''kAliroCredentialIssuerKey''), ([], ''kAliroEvictableEndpointKey''),
     ([], ''kAliroNonEvictableEndpointKey'')]"
  by (simp add: enums_from_json_parts)

lemma credential_lookup:
  "\<exists>rows. map_of enums_from_json ''DoorLock::CredentialTypeEnum'' = Some rows \<and>
     list_all (\<lambda>(s, k). map_of rows s = Some (if k = ''kAliroEvictableEndpointKey'' \<or>
       k = ''kAliroNonEvictableEndpointKey'' then ''kAliroCredentialIssuerKey'' else k)) rows"
  unfolding credential_rows by simp

lemma flags_distinct: "list_all (\<lambda>(_, rows). distinct (map snd rows) \<and> distinct (map fst rows)) bitmasks_from_json"
  by (simp add: bitmasks_from_json_parts)

lemmas table_facts = enum_tables_agree bitmask_tables_agree enum_types_distinct bitmask_types_distinct

lemma enum_rows:
  assumes "(ty, rows) \<in> set enums_from_json"
  shows "map_of enums_to_json ty = Some rows" and "distinct (map snd rows)"
  using assms enumerators_distinct by (auto simp: table_facts map_of_eq_Some_iff list_all_iff)

lemma bitmask_rows:
  assumes "(ty, rows) \<in> set bitmasks_from_json"
  shows "map_of bitmasks_to_json ty = Some rows" and "distinct (map fst rows)" and "distinct (map snd rows)"
  using assms flags_distinct by (auto simp: table_facts map_of_eq_Some_iff list_all_iff)

lemma find_enumerator:
  assumes "inj_on num (snd ` set rows)" and "distinct (map snd rows)" and "(s, k) \<in> set rows"
  shows "find (\<lambda>(_, k'). num k' = num k) rows = Some (s, k)"
  using assms
proof (induction rows)
  case (Cons r rows)
  show ?case
  proof (cases "r = (s, k)")
    case False
    then have "(s, k) \<in> set rows" using Cons.prems(3) by simp
    then have "snd r \<noteq> k" using Cons.prems(2) by (auto simp: image_iff)
    then have "num (snd r) \<noteq> num k"
      using Cons.prems(1) \<open>(s, k) \<in> set rows\<close> by (auto simp: inj_on_def)
    then show ?thesis
      using Cons.IH Cons.prems \<open>(s, k) \<in> set rows\<close> by (auto simp: case_prod_beta inj_on_def)
  qed (simp add: case_prod_beta)
qed simp

lemma enum_arg_of:
  assumes "(ty, rows) \<in> set enums_from_json" and "inj_on num (snd ` set rows)" and "(s, k) \<in> set rows"
  shows "to_json (enum_arg num rows (num k)) = JString s"
  using find_enumerator [OF assms(2) enum_rows(2) [OF assms(1)] assms(3)] by (simp add: enum_arg_def)

definition json_flags :: "(string \<Rightarrow> bool) \<Rightarrow> (string \<times> string) list \<Rightarrow> json" where
  "json_flags bits rows = JObject (map (\<lambda>(name, flag). (name, JBool (bits flag))) rows)"

lemma bitmask_to_json: "to_json (bitmask_arg get_field rows m) = json_flags (\<lambda>flag. get_field flag m) rows"
  by (auto simp: bitmask_arg_def json_flags_def)

lemma set_fields_flags:
  assumes "\<forall>(name, flag)\<in>set rows. map_of ms name = Some (JBool (bits flag))"
  shows "set_fields set_field ms rows m = Inr (foldl (\<lambda>m (_, flag). set_field flag (bits flag) m) m rows)"
  using assms by (induction rows arbitrary: m) (auto simp: flag_value_def)

lemma get_after_fields:
  assumes "field_laws set_field get_field flags" and "snd ` set rows \<subseteq> flags" and "g \<in> flags"
  shows "get_field g (foldl (\<lambda>m (_, flag). set_field flag (bits flag) m) m rows) =
    (if g \<in> snd ` set rows then bits g else get_field g m)"
  using assms(2)
proof (induction rows arbitrary: m)
  case (Cons r rows)
  then show ?case using assms(1,3) by (cases r) (auto simp: field_laws_def)
qed simp

lemma map_of_flags:
  "distinct (map fst rows) \<Longrightarrow> (name, flag) \<in> set rows \<Longrightarrow>
   map_of (map (\<lambda>(name, flag). (name, JBool (bits flag))) rows) name = Some (JBool (bits flag))"
  by (induction rows) (auto simp: image_iff)

lemma flags_from_json:
  assumes "(ty, rows) \<in> set bitmasks_from_json" and "field_laws set_field get_field (snd ` set rows)"
  shows "\<exists>m. bitmask_from_json set_field zero rows (json_flags bits rows) = Inr (Some (Scalar m)) \<and>
    (\<forall>flag\<in>snd ` set rows. get_field flag m = bits flag)"
proof -
  have "\<forall>(name, flag)\<in>set rows. map_of (map (\<lambda>(name, flag). (name, JBool (bits flag))) rows) name = Some (JBool (bits flag))"
    using map_of_flags [OF bitmask_rows(2) [OF assms(1)]] by fast
  then show ?thesis
    using get_after_fields [OF assms(2) order_refl]
    by (simp add: bitmask_from_json_def json_flags_def set_fields_flags)
qed

section \<open>Properties\<close>

text \<open>A name Unify uses for an enumerator comes back unchanged: every enumeration that can be read
  from JSON can be written, and what a name is read as is written with this name.\<close>

theorem enum_name_roundtrip:
  assumes "(ty, rows) \<in> set enums_from_json" and "inj_on num (snd ` set rows)"
    and "enum_from_json num rows (JString s) = Inr (Some (Scalar v))"
  shows "\<exists>rows'. map_of enums_to_json ty = Some rows' \<and> to_json (enum_arg num rows' v) = JString s"
proof -
  obtain k where k: "map_of rows s = Some k" "v = num k"
    using assms(3) by (auto simp: enum_from_json_def)
  show ?thesis
    using enum_rows(1) [OF assms(1)] enum_arg_of [OF assms(1,2) map_of_SomeD [OF k(1)]] k(2) by auto
qed

definition lock_state_number :: "string \<Rightarrow> value_t" where
  "lock_state_number k = VUInt8 (if k = ''kNotFullyLocked'' then 0 else if k = ''kLocked'' then 1
     else if k = ''kUnlocked'' then 2 else 3)"

lemma lock_state_rows:
  "(''DoorLock::DlLockState'', [(''NotFullyLocked'', ''kNotFullyLocked''), (''Locked'', ''kLocked''),
      (''Unlocked'', ''kUnlocked''), (''Unlatched'', ''kUnlatched'')]) \<in> set enums_from_json"
  by (simp add: enums_from_json_def door_lock_enums_from_1_def)

lemma enum_name_roundtrip_witness:
  "\<exists>rows'. map_of enums_to_json ''DoorLock::DlLockState'' = Some rows' \<and>
     to_json (enum_arg lock_state_number rows' (VUInt8 1)) = JString ''Locked''"
  by (rule enum_name_roundtrip [OF lock_state_rows])
    (simp_all add: enum_from_json_def lock_state_number_def inj_on_def)

text \<open>C22: An enumerator the bridge writes is read back as itself, with two exceptions: the credential types
  for evictable and non-evictable Aliro keys share the empty name with the issuer key, and are read as it.\<close>

theorem enumerator_roundtrip:
  assumes "(ty, rows) \<in> set enums_to_json" and "inj_on num (snd ` set rows)" and "k \<in> snd ` set rows"
  shows "\<exists>rows'. map_of enums_from_json ty = Some rows' \<and>
    enum_from_json num rows' (to_json (enum_arg num rows (num k))) =
      Inr (Some (Scalar (num (if ty = ''DoorLock::CredentialTypeEnum'' \<and>
        (k = ''kAliroEvictableEndpointKey'' \<or> k = ''kAliroNonEvictableEndpointKey'')
        then ''kAliroCredentialIssuerKey'' else k))))"
proof -
  have mem: "(ty, rows) \<in> set enums_from_json" using assms(1) by (simp add: table_facts)
  obtain s where s: "(s, k) \<in> set rows" using assms(3) by force
  have "map_of rows s = Some (if ty = ''DoorLock::CredentialTypeEnum'' \<and>
      (k = ''kAliroEvictableEndpointKey'' \<or> k = ''kAliroNonEvictableEndpointKey'')
      then ''kAliroCredentialIssuerKey'' else k)"
  proof (cases "ty = ''DoorLock::CredentialTypeEnum''")
    case True
    obtain R where R: "map_of enums_from_json ''DoorLock::CredentialTypeEnum'' = Some R"
      "list_all (\<lambda>(s, k). map_of R s = Some (if k = ''kAliroEvictableEndpointKey'' \<or>
       k = ''kAliroNonEvictableEndpointKey'' then ''kAliroCredentialIssuerKey'' else k)) R"
      using credential_lookup by blast
    have "R = rows" using R(1) enum_rows(1) [OF mem] True unfolding enum_tables_agree by simp
    then have "map_of rows s = Some (if k = ''kAliroEvictableEndpointKey'' \<or>
       k = ''kAliroNonEvictableEndpointKey'' then ''kAliroCredentialIssuerKey'' else k)"
      using bspec [OF R(2) [unfolded list_all_iff], of "(s, k)"] s by (simp only: \<open>R = rows\<close> prod.case simp_thms)
    then show ?thesis using True by (simp only: simp_thms)
  next
    case False
    then have "distinct (map fst rows)" using enum_names_distinct mem by (auto simp: list_all_iff)
    then show ?thesis using s False by (simp add: map_of_eq_Some_iff)
  qed
  then show ?thesis
    using enum_rows(1) [OF mem] enum_arg_of [OF mem assms(2) s] by (simp add: table_facts enum_from_json_def)
qed

lemma enumerator_roundtrip_witness:
  "\<exists>rows'. map_of enums_from_json ''DoorLock::DlLockState'' = Some rows' \<and>
     enum_from_json lock_state_number rows' (to_json (enum_arg lock_state_number
       [(''NotFullyLocked'', ''kNotFullyLocked''), (''Locked'', ''kLocked''), (''Unlocked'', ''kUnlocked''),
        (''Unlatched'', ''kUnlatched'')] (VUInt8 2))) = Inr (Some (Scalar (VUInt8 2)))"
  using enumerator_roundtrip [OF lock_state_rows [folded enum_tables_agree], of lock_state_number "''kUnlocked''"]
  by (simp add: lock_state_number_def inj_on_def)

text \<open>C23: A bit mask written as JSON is read back with every named flag as it was, and an object that gives
  a boolean for every name of a bit mask is written as it was read.\<close>

theorem bitmask_roundtrip:
  assumes "(ty, rows) \<in> set bitmasks_to_json" and "field_laws set_field get_field (snd ` set rows)"
  shows "\<exists>rows'. map_of bitmasks_from_json ty = Some rows' \<and>
    (\<exists>m'. bitmask_from_json set_field zero rows' (to_json (bitmask_arg get_field rows m)) = Inr (Some (Scalar m')) \<and>
       (\<forall>flag\<in>snd ` set rows. get_field flag m' = get_field flag m)) \<and>
    (\<exists>m'. bitmask_from_json set_field zero rows' (json_flags bits rows) = Inr (Some (Scalar m')) \<and>
       to_json (bitmask_arg get_field rows m') = json_flags bits rows)"
proof -
  have mem: "(ty, rows) \<in> set bitmasks_from_json" using assms(1) by (simp add: table_facts)
  have same: "json_flags (\<lambda>flag. get_field flag m') rows = json_flags bits rows"
    if "\<forall>flag\<in>snd ` set rows. get_field flag m' = bits flag" for m'
    using that unfolding json_flags_def by auto
  show ?thesis
    using bitmask_rows(1) [OF mem] flags_from_json [OF mem assms(2), of zero]
    by (metis bitmask_tables_agree bitmask_to_json same)
qed

definition mask_word :: "value_t \<Rightarrow> u32" where
  "mask_word m = (case m of VUInt32 w \<Rightarrow> w | _ \<Rightarrow> 0)"

definition set_bit_at :: "nat \<Rightarrow> bool \<Rightarrow> value_t \<Rightarrow> value_t" where
  "set_bit_at n b m = VUInt32 (if b then set_bit n (mask_word m) else unset_bit n (mask_word m))"

definition feature_bit :: "string \<Rightarrow> nat" where
  "feature_bit flag = (if flag = ''kLighting'' then 0 else if flag = ''kDeadFrontBehavior'' then 1 else 2)"

lemma bit_set_bit_at: "n < 32 \<Longrightarrow> bit (mask_word (set_bit_at n b m)) i = (if i = n then b else bit (mask_word m) i)"
  by (auto simp: set_bit_at_def mask_word_def bit_set_bit_iff bit_unset_bit_iff)

lemma feature_laws:
  "field_laws (\<lambda>flag. set_bit_at (feature_bit flag)) (\<lambda>flag m. bit (mask_word m) (feature_bit flag))
     {''kLighting'', ''kDeadFrontBehavior'', ''kOffOnly''}"
  unfolding field_laws_def by (simp add: bit_set_bit_at feature_bit_def)

lemma feature_rows: "(''OnOff::Feature'', [(''Lighting'', ''kLighting''),
    (''DeadFrontBehavior'', ''kDeadFrontBehavior''), (''OffOnly'', ''kOffOnly'')]) \<in> set bitmasks_to_json"
  by (simp add: bitmasks_to_json_def on_off_bitmasks_to_def)

lemma bitmask_roundtrip_witness:
  "\<exists>rows' m'. map_of bitmasks_from_json ''OnOff::Feature'' = Some rows' \<and>
     bitmask_from_json (\<lambda>flag. set_bit_at (feature_bit flag)) (VUInt32 0) rows'
       (JObject [(''Lighting'', JBool True), (''DeadFrontBehavior'', JBool False), (''OffOnly'', JBool True)]) =
       Inr (Some (Scalar m'))"
  using bitmask_roundtrip [OF feature_rows, of "\<lambda>flag. set_bit_at (feature_bit flag)"
      "\<lambda>flag m. bit (mask_word m) (feature_bit flag)" "VUInt32 0" "VUInt32 0" "\<lambda>flag. flag \<noteq> ''kDeadFrontBehavior''"]
  by (simp add: feature_laws json_flags_def) blast

end
