(* ===== verification/Attribute_Sizes.thy ===== *)
theory Attribute_Sizes
  imports Cluster_Interactor
begin

text \<open>
  linux/zap-generated/data_model_translator/attribute_type_size.cpp: the ZCL type and the size of the
  attributes, which the cluster interactor gives to Ember. The constants of the source are abbreviations
  for their values; the identifiers behind the case labels are those of the Matter library.
\<close>

section \<open>The constants\<close>

abbreviation (input) ZCL_NO_DATA_ATTRIBUTE_TYPES :: u8 where "ZCL_NO_DATA_ATTRIBUTE_TYPES \<equiv> 0x00"
abbreviation (input) ZCL_BOOLEAN_ATTRIBUTE_TYPES :: u8 where "ZCL_BOOLEAN_ATTRIBUTE_TYPES \<equiv> 0x10"
abbreviation (input) ZCL_BITMAP8_ATTRIBUTE_TYPES :: u8 where "ZCL_BITMAP8_ATTRIBUTE_TYPES \<equiv> 0x18"
abbreviation (input) ZCL_BITMAP16_ATTRIBUTE_TYPES :: u8 where "ZCL_BITMAP16_ATTRIBUTE_TYPES \<equiv> 0x19"
abbreviation (input) ZCL_BITMAP32_ATTRIBUTE_TYPES :: u8 where "ZCL_BITMAP32_ATTRIBUTE_TYPES \<equiv> 0x1B"
abbreviation (input) ZCL_BITMAP64_ATTRIBUTE_TYPES :: u8 where "ZCL_BITMAP64_ATTRIBUTE_TYPES \<equiv> 0x1F"
abbreviation (input) ZCL_INT8U_ATTRIBUTE_TYPES :: u8 where "ZCL_INT8U_ATTRIBUTE_TYPES \<equiv> 0x20"
abbreviation (input) ZCL_INT16U_ATTRIBUTE_TYPES :: u8 where "ZCL_INT16U_ATTRIBUTE_TYPES \<equiv> 0x21"
abbreviation (input) ZCL_INT24U_ATTRIBUTE_TYPES :: u8 where "ZCL_INT24U_ATTRIBUTE_TYPES \<equiv> 0x22"
abbreviation (input) ZCL_INT32U_ATTRIBUTE_TYPES :: u8 where "ZCL_INT32U_ATTRIBUTE_TYPES \<equiv> 0x23"
abbreviation (input) ZCL_INT40U_ATTRIBUTE_TYPES :: u8 where "ZCL_INT40U_ATTRIBUTE_TYPES \<equiv> 0x24"
abbreviation (input) ZCL_INT48U_ATTRIBUTE_TYPES :: u8 where "ZCL_INT48U_ATTRIBUTE_TYPES \<equiv> 0x25"
abbreviation (input) ZCL_INT56U_ATTRIBUTE_TYPES :: u8 where "ZCL_INT56U_ATTRIBUTE_TYPES \<equiv> 0x26"
abbreviation (input) ZCL_INT64U_ATTRIBUTE_TYPES :: u8 where "ZCL_INT64U_ATTRIBUTE_TYPES \<equiv> 0x27"
abbreviation (input) ZCL_INT8S_ATTRIBUTE_TYPES :: u8 where "ZCL_INT8S_ATTRIBUTE_TYPES \<equiv> 0x28"
abbreviation (input) ZCL_INT16S_ATTRIBUTE_TYPES :: u8 where "ZCL_INT16S_ATTRIBUTE_TYPES \<equiv> 0x29"
abbreviation (input) ZCL_INT24S_ATTRIBUTE_TYPES :: u8 where "ZCL_INT24S_ATTRIBUTE_TYPES \<equiv> 0x2A"
abbreviation (input) ZCL_INT32S_ATTRIBUTE_TYPES :: u8 where "ZCL_INT32S_ATTRIBUTE_TYPES \<equiv> 0x2B"
abbreviation (input) ZCL_INT40S_ATTRIBUTE_TYPES :: u8 where "ZCL_INT40S_ATTRIBUTE_TYPES \<equiv> 0x2C"
abbreviation (input) ZCL_INT48S_ATTRIBUTE_TYPES :: u8 where "ZCL_INT48S_ATTRIBUTE_TYPES \<equiv> 0x2D"
abbreviation (input) ZCL_INT56S_ATTRIBUTE_TYPES :: u8 where "ZCL_INT56S_ATTRIBUTE_TYPES \<equiv> 0x2E"
abbreviation (input) ZCL_INT64S_ATTRIBUTE_TYPES :: u8 where "ZCL_INT64S_ATTRIBUTE_TYPES \<equiv> 0x2F"
abbreviation (input) ZCL_ENUM8_ATTRIBUTE_TYPES :: u8 where "ZCL_ENUM8_ATTRIBUTE_TYPES \<equiv> 0x30"
abbreviation (input) ZCL_ENUM16_ATTRIBUTE_TYPES :: u8 where "ZCL_ENUM16_ATTRIBUTE_TYPES \<equiv> 0x31"
abbreviation (input) ZCL_PRIORITY_ATTRIBUTE_TYPES :: u8 where "ZCL_PRIORITY_ATTRIBUTE_TYPES \<equiv> 0x32"
abbreviation (input) ZCL_STATUS_ATTRIBUTE_TYPES :: u8 where "ZCL_STATUS_ATTRIBUTE_TYPES \<equiv> 0x33"
abbreviation (input) ZCL_SINGLE_ATTRIBUTE_TYPES :: u8 where "ZCL_SINGLE_ATTRIBUTE_TYPES \<equiv> 0x39"
abbreviation (input) ZCL_DOUBLE_ATTRIBUTE_TYPES :: u8 where "ZCL_DOUBLE_ATTRIBUTE_TYPES \<equiv> 0x3A"
abbreviation (input) ZCL_OCTET_STRING_ATTRIBUTE_TYPES :: u8 where "ZCL_OCTET_STRING_ATTRIBUTE_TYPES \<equiv> 0x41"
abbreviation (input) ZCL_CHAR_STRING_ATTRIBUTE_TYPES :: u8 where "ZCL_CHAR_STRING_ATTRIBUTE_TYPES \<equiv> 0x42"
abbreviation (input) ZCL_LONG_OCTET_STRING_ATTRIBUTE_TYPES :: u8 where "ZCL_LONG_OCTET_STRING_ATTRIBUTE_TYPES \<equiv> 0x43"
abbreviation (input) ZCL_LONG_CHAR_STRING_ATTRIBUTE_TYPES :: u8 where "ZCL_LONG_CHAR_STRING_ATTRIBUTE_TYPES \<equiv> 0x44"
abbreviation (input) ZCL_ARRAY_ATTRIBUTE_TYPES :: u8 where "ZCL_ARRAY_ATTRIBUTE_TYPES \<equiv> 0x48"
abbreviation (input) ZCL_STRUCT_ATTRIBUTE_TYPES :: u8 where "ZCL_STRUCT_ATTRIBUTE_TYPES \<equiv> 0x4C"
abbreviation (input) ZCL_GROUP_ID_ATTRIBUTE_TYPES :: u8 where "ZCL_GROUP_ID_ATTRIBUTE_TYPES \<equiv> 0xC0"
abbreviation (input) ZCL_ENDPOINT_NO_ATTRIBUTE_TYPES :: u8 where "ZCL_ENDPOINT_NO_ATTRIBUTE_TYPES \<equiv> 0xC1"
abbreviation (input) ZCL_VENDOR_ID_ATTRIBUTE_TYPES :: u8 where "ZCL_VENDOR_ID_ATTRIBUTE_TYPES \<equiv> 0xC2"
abbreviation (input) ZCL_DEVTYPE_ID_ATTRIBUTE_TYPES :: u8 where "ZCL_DEVTYPE_ID_ATTRIBUTE_TYPES \<equiv> 0xC3"
abbreviation (input) ZCL_FABRIC_ID_ATTRIBUTE_TYPES :: u8 where "ZCL_FABRIC_ID_ATTRIBUTE_TYPES \<equiv> 0xC4"
abbreviation (input) ZCL_FABRIC_IDX_ATTRIBUTE_TYPES :: u8 where "ZCL_FABRIC_IDX_ATTRIBUTE_TYPES \<equiv> 0xC5"
abbreviation (input) ZCL_ENTRY_IDX_ATTRIBUTE_TYPES :: u8 where "ZCL_ENTRY_IDX_ATTRIBUTE_TYPES \<equiv> 0xC6"
abbreviation (input) ZCL_DATA_VER_ATTRIBUTE_TYPES :: u8 where "ZCL_DATA_VER_ATTRIBUTE_TYPES \<equiv> 0xC7"
abbreviation (input) ZCL_EVENT_NO_ATTRIBUTE_TYPES :: u8 where "ZCL_EVENT_NO_ATTRIBUTE_TYPES \<equiv> 0xC8"
abbreviation (input) ZCL_SEMTAG_ATTRIBUTE_TYPES :: u8 where "ZCL_SEMTAG_ATTRIBUTE_TYPES \<equiv> 0xC9"
abbreviation (input) ZCL_NAMESPACE_ATTRIBUTE_TYPES :: u8 where "ZCL_NAMESPACE_ATTRIBUTE_TYPES \<equiv> 0xCA"
abbreviation (input) ZCL_TAG_ATTRIBUTE_TYPES :: u8 where "ZCL_TAG_ATTRIBUTE_TYPES \<equiv> 0xCB"
abbreviation (input) ZCL_SYSTIME_US_ATTRIBUTE_TYPES :: u8 where "ZCL_SYSTIME_US_ATTRIBUTE_TYPES \<equiv> 0xD0"
abbreviation (input) ZCL_SYSTIME_MS_ATTRIBUTE_TYPES :: u8 where "ZCL_SYSTIME_MS_ATTRIBUTE_TYPES \<equiv> 0xD1"
abbreviation (input) ZCL_ELAPSED_S_ATTRIBUTE_TYPES :: u8 where "ZCL_ELAPSED_S_ATTRIBUTE_TYPES \<equiv> 0xD2"
abbreviation (input) ZCL_TEMPERATURE_ATTRIBUTE_TYPES :: u8 where "ZCL_TEMPERATURE_ATTRIBUTE_TYPES \<equiv> 0xD8"
abbreviation (input) ZCL_POWER_MW_ATTRIBUTE_TYPES :: u8 where "ZCL_POWER_MW_ATTRIBUTE_TYPES \<equiv> 0xD9"
abbreviation (input) ZCL_AMPERAGE_MA_ATTRIBUTE_TYPES :: u8 where "ZCL_AMPERAGE_MA_ATTRIBUTE_TYPES \<equiv> 0xDA"
abbreviation (input) ZCL_VOLTAGE_MV_ATTRIBUTE_TYPES :: u8 where "ZCL_VOLTAGE_MV_ATTRIBUTE_TYPES \<equiv> 0xDB"
abbreviation (input) ZCL_ENERGY_MWH_ATTRIBUTE_TYPES :: u8 where "ZCL_ENERGY_MWH_ATTRIBUTE_TYPES \<equiv> 0xDC"
abbreviation (input) ZCL_TOD_ATTRIBUTE_TYPES :: u8 where "ZCL_TOD_ATTRIBUTE_TYPES \<equiv> 0xE0"
abbreviation (input) ZCL_DATE_ATTRIBUTE_TYPES :: u8 where "ZCL_DATE_ATTRIBUTE_TYPES \<equiv> 0xE1"
abbreviation (input) ZCL_EPOCH_US_ATTRIBUTE_TYPES :: u8 where "ZCL_EPOCH_US_ATTRIBUTE_TYPES \<equiv> 0xE3"
abbreviation (input) ZCL_EPOCH_S_ATTRIBUTE_TYPES :: u8 where "ZCL_EPOCH_S_ATTRIBUTE_TYPES \<equiv> 0xE4"
abbreviation (input) ZCL_POSIX_MS_ATTRIBUTE_TYPES :: u8 where "ZCL_POSIX_MS_ATTRIBUTE_TYPES \<equiv> 0xE5"
abbreviation (input) ZCL_PERCENT_ATTRIBUTE_TYPES :: u8 where "ZCL_PERCENT_ATTRIBUTE_TYPES \<equiv> 0xE6"
abbreviation (input) ZCL_PERCENT100THS_ATTRIBUTE_TYPES :: u8 where "ZCL_PERCENT100THS_ATTRIBUTE_TYPES \<equiv> 0xE7"
abbreviation (input) ZCL_CLUSTER_ID_ATTRIBUTE_TYPES :: u8 where "ZCL_CLUSTER_ID_ATTRIBUTE_TYPES \<equiv> 0xE8"
abbreviation (input) ZCL_ATTRIB_ID_ATTRIBUTE_TYPES :: u8 where "ZCL_ATTRIB_ID_ATTRIBUTE_TYPES \<equiv> 0xE9"
abbreviation (input) ZCL_FIELD_ID_ATTRIBUTE_TYPES :: u8 where "ZCL_FIELD_ID_ATTRIBUTE_TYPES \<equiv> 0xEB"
abbreviation (input) ZCL_EVENT_ID_ATTRIBUTE_TYPES :: u8 where "ZCL_EVENT_ID_ATTRIBUTE_TYPES \<equiv> 0xEC"
abbreviation (input) ZCL_COMMAND_ID_ATTRIBUTE_TYPES :: u8 where "ZCL_COMMAND_ID_ATTRIBUTE_TYPES \<equiv> 0xED"
abbreviation (input) ZCL_ACTION_ID_ATTRIBUTE_TYPES :: u8 where "ZCL_ACTION_ID_ATTRIBUTE_TYPES \<equiv> 0xEE"
abbreviation (input) ZCL_TRANS_ID_ATTRIBUTE_TYPES :: u8 where "ZCL_TRANS_ID_ATTRIBUTE_TYPES \<equiv> 0xEF"
abbreviation (input) ZCL_NODE_ID_ATTRIBUTE_TYPES :: u8 where "ZCL_NODE_ID_ATTRIBUTE_TYPES \<equiv> 0xF0"
abbreviation (input) ZCL_IPADR_ATTRIBUTE_TYPES :: u8 where "ZCL_IPADR_ATTRIBUTE_TYPES \<equiv> 0xF2"
abbreviation (input) ZCL_IPV4ADR_ATTRIBUTE_TYPES :: u8 where "ZCL_IPV4ADR_ATTRIBUTE_TYPES \<equiv> 0xF3"
abbreviation (input) ZCL_IPV6ADR_ATTRIBUTE_TYPES :: u8 where "ZCL_IPV6ADR_ATTRIBUTE_TYPES \<equiv> 0xF4"
abbreviation (input) ZCL_IPV6PRE_ATTRIBUTE_TYPES :: u8 where "ZCL_IPV6PRE_ATTRIBUTE_TYPES \<equiv> 0xF5"
abbreviation (input) ZCL_HWADR_ATTRIBUTE_TYPES :: u8 where "ZCL_HWADR_ATTRIBUTE_TYPES \<equiv> 0xF6"
abbreviation (input) ZCL_UNKNOWN_ATTRIBUTE_TYPES :: u8 where "ZCL_UNKNOWN_ATTRIBUTE_TYPES \<equiv> 0xFF"
abbreviation (input) ZCL_BOOLEAN_ATTRIBUTE_TYPES_SIZE :: u8 where "ZCL_BOOLEAN_ATTRIBUTE_TYPES_SIZE \<equiv> 1"
abbreviation (input) ZCL_BITMAP8_ATTRIBUTE_TYPES_SIZE :: u8 where "ZCL_BITMAP8_ATTRIBUTE_TYPES_SIZE \<equiv> 1"
abbreviation (input) ZCL_BITMAP16_ATTRIBUTE_TYPES_SIZE :: u8 where "ZCL_BITMAP16_ATTRIBUTE_TYPES_SIZE \<equiv> 2"
abbreviation (input) ZCL_BITMAP32_ATTRIBUTE_TYPES_SIZE :: u8 where "ZCL_BITMAP32_ATTRIBUTE_TYPES_SIZE \<equiv> 4"
abbreviation (input) ZCL_BITMAP64_ATTRIBUTE_TYPES_SIZE :: u8 where "ZCL_BITMAP64_ATTRIBUTE_TYPES_SIZE \<equiv> 8"
abbreviation (input) ZCL_INT8U_ATTRIBUTE_TYPES_SIZE :: u8 where "ZCL_INT8U_ATTRIBUTE_TYPES_SIZE \<equiv> 1"
abbreviation (input) ZCL_INT16U_ATTRIBUTE_TYPES_SIZE :: u8 where "ZCL_INT16U_ATTRIBUTE_TYPES_SIZE \<equiv> 2"
abbreviation (input) ZCL_INT24U_ATTRIBUTE_TYPES_SIZE :: u8 where "ZCL_INT24U_ATTRIBUTE_TYPES_SIZE \<equiv> 3"
abbreviation (input) ZCL_INT32U_ATTRIBUTE_TYPES_SIZE :: u8 where "ZCL_INT32U_ATTRIBUTE_TYPES_SIZE \<equiv> 4"
abbreviation (input) ZCL_INT40U_ATTRIBUTE_TYPES_SIZE :: u8 where "ZCL_INT40U_ATTRIBUTE_TYPES_SIZE \<equiv> 5"
abbreviation (input) ZCL_INT48U_ATTRIBUTE_TYPES_SIZE :: u8 where "ZCL_INT48U_ATTRIBUTE_TYPES_SIZE \<equiv> 6"
abbreviation (input) ZCL_INT56U_ATTRIBUTE_TYPES_SIZE :: u8 where "ZCL_INT56U_ATTRIBUTE_TYPES_SIZE \<equiv> 7"
abbreviation (input) ZCL_INT64U_ATTRIBUTE_TYPES_SIZE :: u8 where "ZCL_INT64U_ATTRIBUTE_TYPES_SIZE \<equiv> 8"
abbreviation (input) ZCL_INT8S_ATTRIBUTE_TYPES_SIZE :: u8 where "ZCL_INT8S_ATTRIBUTE_TYPES_SIZE \<equiv> 1"
abbreviation (input) ZCL_INT16S_ATTRIBUTE_TYPES_SIZE :: u8 where "ZCL_INT16S_ATTRIBUTE_TYPES_SIZE \<equiv> 2"
abbreviation (input) ZCL_INT24S_ATTRIBUTE_TYPES_SIZE :: u8 where "ZCL_INT24S_ATTRIBUTE_TYPES_SIZE \<equiv> 3"
abbreviation (input) ZCL_INT32S_ATTRIBUTE_TYPES_SIZE :: u8 where "ZCL_INT32S_ATTRIBUTE_TYPES_SIZE \<equiv> 4"
abbreviation (input) ZCL_INT40S_ATTRIBUTE_TYPES_SIZE :: u8 where "ZCL_INT40S_ATTRIBUTE_TYPES_SIZE \<equiv> 5"
abbreviation (input) ZCL_INT48S_ATTRIBUTE_TYPES_SIZE :: u8 where "ZCL_INT48S_ATTRIBUTE_TYPES_SIZE \<equiv> 6"
abbreviation (input) ZCL_INT56S_ATTRIBUTE_TYPES_SIZE :: u8 where "ZCL_INT56S_ATTRIBUTE_TYPES_SIZE \<equiv> 7"
abbreviation (input) ZCL_INT64S_ATTRIBUTE_TYPES_SIZE :: u8 where "ZCL_INT64S_ATTRIBUTE_TYPES_SIZE \<equiv> 8"
abbreviation (input) ZCL_ENUM8_ATTRIBUTE_TYPES_SIZE :: u8 where "ZCL_ENUM8_ATTRIBUTE_TYPES_SIZE \<equiv> 1"
abbreviation (input) ZCL_ENUM16_ATTRIBUTE_TYPES_SIZE :: u8 where "ZCL_ENUM16_ATTRIBUTE_TYPES_SIZE \<equiv> 2"
abbreviation (input) ZCL_PRIORITY_ATTRIBUTE_TYPES_SIZE :: u8 where "ZCL_PRIORITY_ATTRIBUTE_TYPES_SIZE \<equiv> 1"
abbreviation (input) ZCL_STATUS_ATTRIBUTE_TYPES_SIZE :: u8 where "ZCL_STATUS_ATTRIBUTE_TYPES_SIZE \<equiv> 1"
abbreviation (input) ZCL_SINGLE_ATTRIBUTE_TYPES_SIZE :: u8 where "ZCL_SINGLE_ATTRIBUTE_TYPES_SIZE \<equiv> 4"
abbreviation (input) ZCL_DOUBLE_ATTRIBUTE_TYPES_SIZE :: u8 where "ZCL_DOUBLE_ATTRIBUTE_TYPES_SIZE \<equiv> 8"
abbreviation (input) ZCL_GROUP_ID_ATTRIBUTE_TYPES_SIZE :: u8 where "ZCL_GROUP_ID_ATTRIBUTE_TYPES_SIZE \<equiv> 2"
abbreviation (input) ZCL_ENDPOINT_NO_ATTRIBUTE_TYPES_SIZE :: u8 where "ZCL_ENDPOINT_NO_ATTRIBUTE_TYPES_SIZE \<equiv> 2"
abbreviation (input) ZCL_VENDOR_ID_ATTRIBUTE_TYPES_SIZE :: u8 where "ZCL_VENDOR_ID_ATTRIBUTE_TYPES_SIZE \<equiv> 2"
abbreviation (input) ZCL_DEVTYPE_ID_ATTRIBUTE_TYPES_SIZE :: u8 where "ZCL_DEVTYPE_ID_ATTRIBUTE_TYPES_SIZE \<equiv> 4"
abbreviation (input) ZCL_FABRIC_ID_ATTRIBUTE_TYPES_SIZE :: u8 where "ZCL_FABRIC_ID_ATTRIBUTE_TYPES_SIZE \<equiv> 8"
abbreviation (input) ZCL_FABRIC_IDX_ATTRIBUTE_TYPES_SIZE :: u8 where "ZCL_FABRIC_IDX_ATTRIBUTE_TYPES_SIZE \<equiv> 1"
abbreviation (input) ZCL_ENTRY_IDX_ATTRIBUTE_TYPES_SIZE :: u8 where "ZCL_ENTRY_IDX_ATTRIBUTE_TYPES_SIZE \<equiv> 2"
abbreviation (input) ZCL_DATA_VER_ATTRIBUTE_TYPES_SIZE :: u8 where "ZCL_DATA_VER_ATTRIBUTE_TYPES_SIZE \<equiv> 4"
abbreviation (input) ZCL_EVENT_NO_ATTRIBUTE_TYPES_SIZE :: u8 where "ZCL_EVENT_NO_ATTRIBUTE_TYPES_SIZE \<equiv> 8"
abbreviation (input) ZCL_SEMTAG_ATTRIBUTE_TYPES_SIZE :: u8 where "ZCL_SEMTAG_ATTRIBUTE_TYPES_SIZE \<equiv> 4"
abbreviation (input) ZCL_NAMESPACE_ATTRIBUTE_TYPES_SIZE :: u8 where "ZCL_NAMESPACE_ATTRIBUTE_TYPES_SIZE \<equiv> 1"
abbreviation (input) ZCL_TAG_ATTRIBUTE_TYPES_SIZE :: u8 where "ZCL_TAG_ATTRIBUTE_TYPES_SIZE \<equiv> 1"
abbreviation (input) ZCL_SYSTIME_US_ATTRIBUTE_TYPES_SIZE :: u8 where "ZCL_SYSTIME_US_ATTRIBUTE_TYPES_SIZE \<equiv> 8"
abbreviation (input) ZCL_SYSTIME_MS_ATTRIBUTE_TYPES_SIZE :: u8 where "ZCL_SYSTIME_MS_ATTRIBUTE_TYPES_SIZE \<equiv> 8"
abbreviation (input) ZCL_ELAPSED_S_ATTRIBUTE_TYPES_SIZE :: u8 where "ZCL_ELAPSED_S_ATTRIBUTE_TYPES_SIZE \<equiv> 4"
abbreviation (input) ZCL_TEMPERATURE_ATTRIBUTE_TYPES_SIZE :: u8 where "ZCL_TEMPERATURE_ATTRIBUTE_TYPES_SIZE \<equiv> 2"
abbreviation (input) ZCL_POWER_MW_ATTRIBUTE_TYPES_SIZE :: u8 where "ZCL_POWER_MW_ATTRIBUTE_TYPES_SIZE \<equiv> 8"
abbreviation (input) ZCL_AMPERAGE_MA_ATTRIBUTE_TYPES_SIZE :: u8 where "ZCL_AMPERAGE_MA_ATTRIBUTE_TYPES_SIZE \<equiv> 8"
abbreviation (input) ZCL_VOLTAGE_MV_ATTRIBUTE_TYPES_SIZE :: u8 where "ZCL_VOLTAGE_MV_ATTRIBUTE_TYPES_SIZE \<equiv> 8"
abbreviation (input) ZCL_ENERGY_MWH_ATTRIBUTE_TYPES_SIZE :: u8 where "ZCL_ENERGY_MWH_ATTRIBUTE_TYPES_SIZE \<equiv> 8"
abbreviation (input) ZCL_TOD_ATTRIBUTE_TYPES_SIZE :: u8 where "ZCL_TOD_ATTRIBUTE_TYPES_SIZE \<equiv> 4"
abbreviation (input) ZCL_DATE_ATTRIBUTE_TYPES_SIZE :: u8 where "ZCL_DATE_ATTRIBUTE_TYPES_SIZE \<equiv> 4"
abbreviation (input) ZCL_EPOCH_US_ATTRIBUTE_TYPES_SIZE :: u8 where "ZCL_EPOCH_US_ATTRIBUTE_TYPES_SIZE \<equiv> 8"
abbreviation (input) ZCL_EPOCH_S_ATTRIBUTE_TYPES_SIZE :: u8 where "ZCL_EPOCH_S_ATTRIBUTE_TYPES_SIZE \<equiv> 4"
abbreviation (input) ZCL_POSIX_MS_ATTRIBUTE_TYPES_SIZE :: u8 where "ZCL_POSIX_MS_ATTRIBUTE_TYPES_SIZE \<equiv> 8"
abbreviation (input) ZCL_PERCENT_ATTRIBUTE_TYPES_SIZE :: u8 where "ZCL_PERCENT_ATTRIBUTE_TYPES_SIZE \<equiv> 1"
abbreviation (input) ZCL_PERCENT100THS_ATTRIBUTE_TYPES_SIZE :: u8 where "ZCL_PERCENT100THS_ATTRIBUTE_TYPES_SIZE \<equiv> 2"
abbreviation (input) ZCL_CLUSTER_ID_ATTRIBUTE_TYPES_SIZE :: u8 where "ZCL_CLUSTER_ID_ATTRIBUTE_TYPES_SIZE \<equiv> 4"
abbreviation (input) ZCL_ATTRIB_ID_ATTRIBUTE_TYPES_SIZE :: u8 where "ZCL_ATTRIB_ID_ATTRIBUTE_TYPES_SIZE \<equiv> 4"
abbreviation (input) ZCL_FIELD_ID_ATTRIBUTE_TYPES_SIZE :: u8 where "ZCL_FIELD_ID_ATTRIBUTE_TYPES_SIZE \<equiv> 4"
abbreviation (input) ZCL_EVENT_ID_ATTRIBUTE_TYPES_SIZE :: u8 where "ZCL_EVENT_ID_ATTRIBUTE_TYPES_SIZE \<equiv> 4"
abbreviation (input) ZCL_COMMAND_ID_ATTRIBUTE_TYPES_SIZE :: u8 where "ZCL_COMMAND_ID_ATTRIBUTE_TYPES_SIZE \<equiv> 4"
abbreviation (input) ZCL_ACTION_ID_ATTRIBUTE_TYPES_SIZE :: u8 where "ZCL_ACTION_ID_ATTRIBUTE_TYPES_SIZE \<equiv> 1"
abbreviation (input) ZCL_TRANS_ID_ATTRIBUTE_TYPES_SIZE :: u8 where "ZCL_TRANS_ID_ATTRIBUTE_TYPES_SIZE \<equiv> 4"
abbreviation (input) ZCL_NODE_ID_ATTRIBUTE_TYPES_SIZE :: u8 where "ZCL_NODE_ID_ATTRIBUTE_TYPES_SIZE \<equiv> 8"
abbreviation (input) ZCL_IPV4ADR_ATTRIBUTE_TYPES_SIZE :: u8 where "ZCL_IPV4ADR_ATTRIBUTE_TYPES_SIZE \<equiv> 4"
abbreviation (input) ZCL_IPV6ADR_ATTRIBUTE_TYPES_SIZE :: u8 where "ZCL_IPV6ADR_ATTRIBUTE_TYPES_SIZE \<equiv> 16"
abbreviation (input) ZCL_NO_DATA_ATTRIBUTE_TYPES_SIZE :: u8 where "ZCL_NO_DATA_ATTRIBUTE_TYPES_SIZE \<equiv> 0"
abbreviation (input) ZCL_OCTET_STRING_ATTRIBUTE_TYPES_SIZE :: u8 where "ZCL_OCTET_STRING_ATTRIBUTE_TYPES_SIZE \<equiv> 32"
abbreviation (input) ZCL_CHAR_STRING_ATTRIBUTE_TYPES_SIZE :: u8 where "ZCL_CHAR_STRING_ATTRIBUTE_TYPES_SIZE \<equiv> 32"
abbreviation (input) ZCL_LONG_OCTET_STRING_ATTRIBUTE_TYPES_SIZE :: u8 where "ZCL_LONG_OCTET_STRING_ATTRIBUTE_TYPES_SIZE \<equiv> 32"
abbreviation (input) ZCL_LONG_CHAR_STRING_ATTRIBUTE_TYPES_SIZE :: u8 where "ZCL_LONG_CHAR_STRING_ATTRIBUTE_TYPES_SIZE \<equiv> 32"
abbreviation (input) ZCL_STRUCT_ATTRIBUTE_TYPES_SIZE :: u8 where "ZCL_STRUCT_ATTRIBUTE_TYPES_SIZE \<equiv> 254"
abbreviation (input) ZCL_ARRAY_ATTRIBUTE_TYPES_SIZE :: u8 where "ZCL_ARRAY_ATTRIBUTE_TYPES_SIZE \<equiv> 254"
abbreviation (input) ZCL_EFFECT_IDENTIFIER_ENUM_ATTRIBUTE_TYPES :: u8 where "ZCL_EFFECT_IDENTIFIER_ENUM_ATTRIBUTE_TYPES \<equiv> ZCL_ENUM8_ATTRIBUTE_TYPES"
abbreviation (input) ZCL_EFFECT_IDENTIFIER_ENUM_ATTRIBUTE_TYPES_SIZE :: u8 where "ZCL_EFFECT_IDENTIFIER_ENUM_ATTRIBUTE_TYPES_SIZE \<equiv> ZCL_ENUM8_ATTRIBUTE_TYPES_SIZE"
abbreviation (input) ZCL_EFFECT_VARIANT_ENUM_ATTRIBUTE_TYPES :: u8 where "ZCL_EFFECT_VARIANT_ENUM_ATTRIBUTE_TYPES \<equiv> ZCL_ENUM8_ATTRIBUTE_TYPES"
abbreviation (input) ZCL_EFFECT_VARIANT_ENUM_ATTRIBUTE_TYPES_SIZE :: u8 where "ZCL_EFFECT_VARIANT_ENUM_ATTRIBUTE_TYPES_SIZE \<equiv> ZCL_ENUM8_ATTRIBUTE_TYPES_SIZE"
abbreviation (input) ZCL_IDENTIFY_TYPE_ENUM_ATTRIBUTE_TYPES :: u8 where "ZCL_IDENTIFY_TYPE_ENUM_ATTRIBUTE_TYPES \<equiv> ZCL_ENUM8_ATTRIBUTE_TYPES"
abbreviation (input) ZCL_IDENTIFY_TYPE_ENUM_ATTRIBUTE_TYPES_SIZE :: u8 where "ZCL_IDENTIFY_TYPE_ENUM_ATTRIBUTE_TYPES_SIZE \<equiv> ZCL_ENUM8_ATTRIBUTE_TYPES_SIZE"
abbreviation (input) ZCL_GROUPS_FEATURE_ATTRIBUTE_TYPES :: u8 where "ZCL_GROUPS_FEATURE_ATTRIBUTE_TYPES \<equiv> ZCL_BITMAP32_ATTRIBUTE_TYPES"
abbreviation (input) ZCL_GROUPS_FEATURE_ATTRIBUTE_TYPES_SIZE :: u8 where "ZCL_GROUPS_FEATURE_ATTRIBUTE_TYPES_SIZE \<equiv> ZCL_BITMAP32_ATTRIBUTE_TYPES_SIZE"
abbreviation (input) ZCL_GROUPS_NAME_SUPPORT_BITMAP_ATTRIBUTE_TYPES :: u8 where "ZCL_GROUPS_NAME_SUPPORT_BITMAP_ATTRIBUTE_TYPES \<equiv> ZCL_BITMAP32_ATTRIBUTE_TYPES"
abbreviation (input) ZCL_GROUPS_NAME_SUPPORT_BITMAP_ATTRIBUTE_TYPES_SIZE :: u8 where "ZCL_GROUPS_NAME_SUPPORT_BITMAP_ATTRIBUTE_TYPES_SIZE \<equiv> ZCL_BITMAP32_ATTRIBUTE_TYPES_SIZE"
abbreviation (input) ZCL_ON_OFF_FEATURE_ATTRIBUTE_TYPES :: u8 where "ZCL_ON_OFF_FEATURE_ATTRIBUTE_TYPES \<equiv> ZCL_BITMAP32_ATTRIBUTE_TYPES"
abbreviation (input) ZCL_ON_OFF_FEATURE_ATTRIBUTE_TYPES_SIZE :: u8 where "ZCL_ON_OFF_FEATURE_ATTRIBUTE_TYPES_SIZE \<equiv> ZCL_BITMAP32_ATTRIBUTE_TYPES_SIZE"
abbreviation (input) ZCL_ON_OFF_CONTROL_BITMAP_ATTRIBUTE_TYPES :: u8 where "ZCL_ON_OFF_CONTROL_BITMAP_ATTRIBUTE_TYPES \<equiv> ZCL_BITMAP32_ATTRIBUTE_TYPES"
abbreviation (input) ZCL_ON_OFF_CONTROL_BITMAP_ATTRIBUTE_TYPES_SIZE :: u8 where "ZCL_ON_OFF_CONTROL_BITMAP_ATTRIBUTE_TYPES_SIZE \<equiv> ZCL_BITMAP32_ATTRIBUTE_TYPES_SIZE"
abbreviation (input) ZCL_DELAYED_ALL_OFF_EFFECT_VARIANT_ENUM_ATTRIBUTE_TYPES :: u8 where "ZCL_DELAYED_ALL_OFF_EFFECT_VARIANT_ENUM_ATTRIBUTE_TYPES \<equiv> ZCL_ENUM8_ATTRIBUTE_TYPES"
abbreviation (input) ZCL_DELAYED_ALL_OFF_EFFECT_VARIANT_ENUM_ATTRIBUTE_TYPES_SIZE :: u8 where "ZCL_DELAYED_ALL_OFF_EFFECT_VARIANT_ENUM_ATTRIBUTE_TYPES_SIZE \<equiv> ZCL_ENUM8_ATTRIBUTE_TYPES_SIZE"
abbreviation (input) ZCL_DYING_LIGHT_EFFECT_VARIANT_ENUM_ATTRIBUTE_TYPES :: u8 where "ZCL_DYING_LIGHT_EFFECT_VARIANT_ENUM_ATTRIBUTE_TYPES \<equiv> ZCL_ENUM8_ATTRIBUTE_TYPES"
abbreviation (input) ZCL_DYING_LIGHT_EFFECT_VARIANT_ENUM_ATTRIBUTE_TYPES_SIZE :: u8 where "ZCL_DYING_LIGHT_EFFECT_VARIANT_ENUM_ATTRIBUTE_TYPES_SIZE \<equiv> ZCL_ENUM8_ATTRIBUTE_TYPES_SIZE"
abbreviation (input) ZCL_ON_OFF_EFFECT_IDENTIFIER_ENUM_ATTRIBUTE_TYPES :: u8 where "ZCL_ON_OFF_EFFECT_IDENTIFIER_ENUM_ATTRIBUTE_TYPES \<equiv> ZCL_ENUM8_ATTRIBUTE_TYPES"
abbreviation (input) ZCL_ON_OFF_EFFECT_IDENTIFIER_ENUM_ATTRIBUTE_TYPES_SIZE :: u8 where "ZCL_ON_OFF_EFFECT_IDENTIFIER_ENUM_ATTRIBUTE_TYPES_SIZE \<equiv> ZCL_ENUM8_ATTRIBUTE_TYPES_SIZE"
abbreviation (input) ZCL_START_UP_ON_OFF_ENUM_ATTRIBUTE_TYPES :: u8 where "ZCL_START_UP_ON_OFF_ENUM_ATTRIBUTE_TYPES \<equiv> ZCL_ENUM8_ATTRIBUTE_TYPES"
abbreviation (input) ZCL_START_UP_ON_OFF_ENUM_ATTRIBUTE_TYPES_SIZE :: u8 where "ZCL_START_UP_ON_OFF_ENUM_ATTRIBUTE_TYPES_SIZE \<equiv> ZCL_ENUM8_ATTRIBUTE_TYPES_SIZE"
abbreviation (input) ZCL_LEVEL_CONTROL_FEATURE_ATTRIBUTE_TYPES :: u8 where "ZCL_LEVEL_CONTROL_FEATURE_ATTRIBUTE_TYPES \<equiv> ZCL_BITMAP32_ATTRIBUTE_TYPES"
abbreviation (input) ZCL_LEVEL_CONTROL_FEATURE_ATTRIBUTE_TYPES_SIZE :: u8 where "ZCL_LEVEL_CONTROL_FEATURE_ATTRIBUTE_TYPES_SIZE \<equiv> ZCL_BITMAP32_ATTRIBUTE_TYPES_SIZE"
abbreviation (input) ZCL_OPTIONS_BITMAP_ATTRIBUTE_TYPES :: u8 where "ZCL_OPTIONS_BITMAP_ATTRIBUTE_TYPES \<equiv> ZCL_BITMAP32_ATTRIBUTE_TYPES"
abbreviation (input) ZCL_OPTIONS_BITMAP_ATTRIBUTE_TYPES_SIZE :: u8 where "ZCL_OPTIONS_BITMAP_ATTRIBUTE_TYPES_SIZE \<equiv> ZCL_BITMAP32_ATTRIBUTE_TYPES_SIZE"
abbreviation (input) ZCL_MOVE_MODE_ENUM_ATTRIBUTE_TYPES :: u8 where "ZCL_MOVE_MODE_ENUM_ATTRIBUTE_TYPES \<equiv> ZCL_ENUM8_ATTRIBUTE_TYPES"
abbreviation (input) ZCL_MOVE_MODE_ENUM_ATTRIBUTE_TYPES_SIZE :: u8 where "ZCL_MOVE_MODE_ENUM_ATTRIBUTE_TYPES_SIZE \<equiv> ZCL_ENUM8_ATTRIBUTE_TYPES_SIZE"
abbreviation (input) ZCL_STEP_MODE_ENUM_ATTRIBUTE_TYPES :: u8 where "ZCL_STEP_MODE_ENUM_ATTRIBUTE_TYPES \<equiv> ZCL_ENUM8_ATTRIBUTE_TYPES"
abbreviation (input) ZCL_STEP_MODE_ENUM_ATTRIBUTE_TYPES_SIZE :: u8 where "ZCL_STEP_MODE_ENUM_ATTRIBUTE_TYPES_SIZE \<equiv> ZCL_ENUM8_ATTRIBUTE_TYPES_SIZE"
abbreviation (input) ZCL_DAYS_MASK_MAP_ATTRIBUTE_TYPES :: u8 where "ZCL_DAYS_MASK_MAP_ATTRIBUTE_TYPES \<equiv> ZCL_BITMAP32_ATTRIBUTE_TYPES"
abbreviation (input) ZCL_DAYS_MASK_MAP_ATTRIBUTE_TYPES_SIZE :: u8 where "ZCL_DAYS_MASK_MAP_ATTRIBUTE_TYPES_SIZE \<equiv> ZCL_BITMAP32_ATTRIBUTE_TYPES_SIZE"
abbreviation (input) ZCL_DL_CREDENTIAL_RULE_MASK_ATTRIBUTE_TYPES :: u8 where "ZCL_DL_CREDENTIAL_RULE_MASK_ATTRIBUTE_TYPES \<equiv> ZCL_BITMAP32_ATTRIBUTE_TYPES"
abbreviation (input) ZCL_DL_CREDENTIAL_RULE_MASK_ATTRIBUTE_TYPES_SIZE :: u8 where "ZCL_DL_CREDENTIAL_RULE_MASK_ATTRIBUTE_TYPES_SIZE \<equiv> ZCL_BITMAP32_ATTRIBUTE_TYPES_SIZE"
abbreviation (input) ZCL_DL_CREDENTIAL_RULES_SUPPORT_ATTRIBUTE_TYPES :: u8 where "ZCL_DL_CREDENTIAL_RULES_SUPPORT_ATTRIBUTE_TYPES \<equiv> ZCL_BITMAP32_ATTRIBUTE_TYPES"
abbreviation (input) ZCL_DL_CREDENTIAL_RULES_SUPPORT_ATTRIBUTE_TYPES_SIZE :: u8 where "ZCL_DL_CREDENTIAL_RULES_SUPPORT_ATTRIBUTE_TYPES_SIZE \<equiv> ZCL_BITMAP32_ATTRIBUTE_TYPES_SIZE"
abbreviation (input) ZCL_DL_DEFAULT_CONFIGURATION_REGISTER_ATTRIBUTE_TYPES :: u8 where "ZCL_DL_DEFAULT_CONFIGURATION_REGISTER_ATTRIBUTE_TYPES \<equiv> ZCL_BITMAP32_ATTRIBUTE_TYPES"
abbreviation (input) ZCL_DL_DEFAULT_CONFIGURATION_REGISTER_ATTRIBUTE_TYPES_SIZE :: u8 where "ZCL_DL_DEFAULT_CONFIGURATION_REGISTER_ATTRIBUTE_TYPES_SIZE \<equiv> ZCL_BITMAP32_ATTRIBUTE_TYPES_SIZE"
abbreviation (input) ZCL_DL_KEYPAD_OPERATION_EVENT_MASK_ATTRIBUTE_TYPES :: u8 where "ZCL_DL_KEYPAD_OPERATION_EVENT_MASK_ATTRIBUTE_TYPES \<equiv> ZCL_BITMAP32_ATTRIBUTE_TYPES"
abbreviation (input) ZCL_DL_KEYPAD_OPERATION_EVENT_MASK_ATTRIBUTE_TYPES_SIZE :: u8 where "ZCL_DL_KEYPAD_OPERATION_EVENT_MASK_ATTRIBUTE_TYPES_SIZE \<equiv> ZCL_BITMAP32_ATTRIBUTE_TYPES_SIZE"
abbreviation (input) ZCL_DL_KEYPAD_PROGRAMMING_EVENT_MASK_ATTRIBUTE_TYPES :: u8 where "ZCL_DL_KEYPAD_PROGRAMMING_EVENT_MASK_ATTRIBUTE_TYPES \<equiv> ZCL_BITMAP32_ATTRIBUTE_TYPES"
abbreviation (input) ZCL_DL_KEYPAD_PROGRAMMING_EVENT_MASK_ATTRIBUTE_TYPES_SIZE :: u8 where "ZCL_DL_KEYPAD_PROGRAMMING_EVENT_MASK_ATTRIBUTE_TYPES_SIZE \<equiv> ZCL_BITMAP32_ATTRIBUTE_TYPES_SIZE"
abbreviation (input) ZCL_DL_LOCAL_PROGRAMMING_FEATURES_ATTRIBUTE_TYPES :: u8 where "ZCL_DL_LOCAL_PROGRAMMING_FEATURES_ATTRIBUTE_TYPES \<equiv> ZCL_BITMAP32_ATTRIBUTE_TYPES"
abbreviation (input) ZCL_DL_LOCAL_PROGRAMMING_FEATURES_ATTRIBUTE_TYPES_SIZE :: u8 where "ZCL_DL_LOCAL_PROGRAMMING_FEATURES_ATTRIBUTE_TYPES_SIZE \<equiv> ZCL_BITMAP32_ATTRIBUTE_TYPES_SIZE"
abbreviation (input) ZCL_DL_MANUAL_OPERATION_EVENT_MASK_ATTRIBUTE_TYPES :: u8 where "ZCL_DL_MANUAL_OPERATION_EVENT_MASK_ATTRIBUTE_TYPES \<equiv> ZCL_BITMAP32_ATTRIBUTE_TYPES"
abbreviation (input) ZCL_DL_MANUAL_OPERATION_EVENT_MASK_ATTRIBUTE_TYPES_SIZE :: u8 where "ZCL_DL_MANUAL_OPERATION_EVENT_MASK_ATTRIBUTE_TYPES_SIZE \<equiv> ZCL_BITMAP32_ATTRIBUTE_TYPES_SIZE"
abbreviation (input) ZCL_DL_RFID_OPERATION_EVENT_MASK_ATTRIBUTE_TYPES :: u8 where "ZCL_DL_RFID_OPERATION_EVENT_MASK_ATTRIBUTE_TYPES \<equiv> ZCL_BITMAP32_ATTRIBUTE_TYPES"
abbreviation (input) ZCL_DL_RFID_OPERATION_EVENT_MASK_ATTRIBUTE_TYPES_SIZE :: u8 where "ZCL_DL_RFID_OPERATION_EVENT_MASK_ATTRIBUTE_TYPES_SIZE \<equiv> ZCL_BITMAP32_ATTRIBUTE_TYPES_SIZE"
abbreviation (input) ZCL_DL_RFID_PROGRAMMING_EVENT_MASK_ATTRIBUTE_TYPES :: u8 where "ZCL_DL_RFID_PROGRAMMING_EVENT_MASK_ATTRIBUTE_TYPES \<equiv> ZCL_BITMAP32_ATTRIBUTE_TYPES"
abbreviation (input) ZCL_DL_RFID_PROGRAMMING_EVENT_MASK_ATTRIBUTE_TYPES_SIZE :: u8 where "ZCL_DL_RFID_PROGRAMMING_EVENT_MASK_ATTRIBUTE_TYPES_SIZE \<equiv> ZCL_BITMAP32_ATTRIBUTE_TYPES_SIZE"
abbreviation (input) ZCL_DL_REMOTE_OPERATION_EVENT_MASK_ATTRIBUTE_TYPES :: u8 where "ZCL_DL_REMOTE_OPERATION_EVENT_MASK_ATTRIBUTE_TYPES \<equiv> ZCL_BITMAP32_ATTRIBUTE_TYPES"
abbreviation (input) ZCL_DL_REMOTE_OPERATION_EVENT_MASK_ATTRIBUTE_TYPES_SIZE :: u8 where "ZCL_DL_REMOTE_OPERATION_EVENT_MASK_ATTRIBUTE_TYPES_SIZE \<equiv> ZCL_BITMAP32_ATTRIBUTE_TYPES_SIZE"
abbreviation (input) ZCL_DL_REMOTE_PROGRAMMING_EVENT_MASK_ATTRIBUTE_TYPES :: u8 where "ZCL_DL_REMOTE_PROGRAMMING_EVENT_MASK_ATTRIBUTE_TYPES \<equiv> ZCL_BITMAP32_ATTRIBUTE_TYPES"
abbreviation (input) ZCL_DL_REMOTE_PROGRAMMING_EVENT_MASK_ATTRIBUTE_TYPES_SIZE :: u8 where "ZCL_DL_REMOTE_PROGRAMMING_EVENT_MASK_ATTRIBUTE_TYPES_SIZE \<equiv> ZCL_BITMAP32_ATTRIBUTE_TYPES_SIZE"
abbreviation (input) ZCL_DL_SUPPORTED_OPERATING_MODES_ATTRIBUTE_TYPES :: u8 where "ZCL_DL_SUPPORTED_OPERATING_MODES_ATTRIBUTE_TYPES \<equiv> ZCL_BITMAP32_ATTRIBUTE_TYPES"
abbreviation (input) ZCL_DL_SUPPORTED_OPERATING_MODES_ATTRIBUTE_TYPES_SIZE :: u8 where "ZCL_DL_SUPPORTED_OPERATING_MODES_ATTRIBUTE_TYPES_SIZE \<equiv> ZCL_BITMAP32_ATTRIBUTE_TYPES_SIZE"
abbreviation (input) ZCL_DOOR_LOCK_DAY_OF_WEEK_ATTRIBUTE_TYPES :: u8 where "ZCL_DOOR_LOCK_DAY_OF_WEEK_ATTRIBUTE_TYPES \<equiv> ZCL_BITMAP32_ATTRIBUTE_TYPES"
abbreviation (input) ZCL_DOOR_LOCK_DAY_OF_WEEK_ATTRIBUTE_TYPES_SIZE :: u8 where "ZCL_DOOR_LOCK_DAY_OF_WEEK_ATTRIBUTE_TYPES_SIZE \<equiv> ZCL_BITMAP32_ATTRIBUTE_TYPES_SIZE"
abbreviation (input) ZCL_DOOR_LOCK_FEATURE_ATTRIBUTE_TYPES :: u8 where "ZCL_DOOR_LOCK_FEATURE_ATTRIBUTE_TYPES \<equiv> ZCL_BITMAP32_ATTRIBUTE_TYPES"
abbreviation (input) ZCL_DOOR_LOCK_FEATURE_ATTRIBUTE_TYPES_SIZE :: u8 where "ZCL_DOOR_LOCK_FEATURE_ATTRIBUTE_TYPES_SIZE \<equiv> ZCL_BITMAP32_ATTRIBUTE_TYPES_SIZE"
abbreviation (input) ZCL_ALARM_CODE_ENUM_ATTRIBUTE_TYPES :: u8 where "ZCL_ALARM_CODE_ENUM_ATTRIBUTE_TYPES \<equiv> ZCL_ENUM8_ATTRIBUTE_TYPES"
abbreviation (input) ZCL_ALARM_CODE_ENUM_ATTRIBUTE_TYPES_SIZE :: u8 where "ZCL_ALARM_CODE_ENUM_ATTRIBUTE_TYPES_SIZE \<equiv> ZCL_ENUM8_ATTRIBUTE_TYPES_SIZE"
abbreviation (input) ZCL_CREDENTIAL_RULE_ENUM_ATTRIBUTE_TYPES :: u8 where "ZCL_CREDENTIAL_RULE_ENUM_ATTRIBUTE_TYPES \<equiv> ZCL_ENUM8_ATTRIBUTE_TYPES"
abbreviation (input) ZCL_CREDENTIAL_RULE_ENUM_ATTRIBUTE_TYPES_SIZE :: u8 where "ZCL_CREDENTIAL_RULE_ENUM_ATTRIBUTE_TYPES_SIZE \<equiv> ZCL_ENUM8_ATTRIBUTE_TYPES_SIZE"
abbreviation (input) ZCL_CREDENTIAL_TYPE_ENUM_ATTRIBUTE_TYPES :: u8 where "ZCL_CREDENTIAL_TYPE_ENUM_ATTRIBUTE_TYPES \<equiv> ZCL_ENUM8_ATTRIBUTE_TYPES"
abbreviation (input) ZCL_CREDENTIAL_TYPE_ENUM_ATTRIBUTE_TYPES_SIZE :: u8 where "ZCL_CREDENTIAL_TYPE_ENUM_ATTRIBUTE_TYPES_SIZE \<equiv> ZCL_ENUM8_ATTRIBUTE_TYPES_SIZE"
abbreviation (input) ZCL_DATA_OPERATION_TYPE_ENUM_ATTRIBUTE_TYPES :: u8 where "ZCL_DATA_OPERATION_TYPE_ENUM_ATTRIBUTE_TYPES \<equiv> ZCL_ENUM8_ATTRIBUTE_TYPES"
abbreviation (input) ZCL_DATA_OPERATION_TYPE_ENUM_ATTRIBUTE_TYPES_SIZE :: u8 where "ZCL_DATA_OPERATION_TYPE_ENUM_ATTRIBUTE_TYPES_SIZE \<equiv> ZCL_ENUM8_ATTRIBUTE_TYPES_SIZE"
abbreviation (input) ZCL_DL_LOCK_STATE_ATTRIBUTE_TYPES :: u8 where "ZCL_DL_LOCK_STATE_ATTRIBUTE_TYPES \<equiv> ZCL_ENUM8_ATTRIBUTE_TYPES"
abbreviation (input) ZCL_DL_LOCK_STATE_ATTRIBUTE_TYPES_SIZE :: u8 where "ZCL_DL_LOCK_STATE_ATTRIBUTE_TYPES_SIZE \<equiv> ZCL_ENUM8_ATTRIBUTE_TYPES_SIZE"
abbreviation (input) ZCL_DL_LOCK_TYPE_ATTRIBUTE_TYPES :: u8 where "ZCL_DL_LOCK_TYPE_ATTRIBUTE_TYPES \<equiv> ZCL_ENUM8_ATTRIBUTE_TYPES"
abbreviation (input) ZCL_DL_LOCK_TYPE_ATTRIBUTE_TYPES_SIZE :: u8 where "ZCL_DL_LOCK_TYPE_ATTRIBUTE_TYPES_SIZE \<equiv> ZCL_ENUM8_ATTRIBUTE_TYPES_SIZE"
abbreviation (input) ZCL_DL_STATUS_ATTRIBUTE_TYPES :: u8 where "ZCL_DL_STATUS_ATTRIBUTE_TYPES \<equiv> ZCL_ENUM8_ATTRIBUTE_TYPES"
abbreviation (input) ZCL_DL_STATUS_ATTRIBUTE_TYPES_SIZE :: u8 where "ZCL_DL_STATUS_ATTRIBUTE_TYPES_SIZE \<equiv> ZCL_ENUM8_ATTRIBUTE_TYPES_SIZE"
abbreviation (input) ZCL_DOOR_LOCK_OPERATION_EVENT_CODE_ATTRIBUTE_TYPES :: u8 where "ZCL_DOOR_LOCK_OPERATION_EVENT_CODE_ATTRIBUTE_TYPES \<equiv> ZCL_ENUM8_ATTRIBUTE_TYPES"
abbreviation (input) ZCL_DOOR_LOCK_OPERATION_EVENT_CODE_ATTRIBUTE_TYPES_SIZE :: u8 where "ZCL_DOOR_LOCK_OPERATION_EVENT_CODE_ATTRIBUTE_TYPES_SIZE \<equiv> ZCL_ENUM8_ATTRIBUTE_TYPES_SIZE"
abbreviation (input) ZCL_DOOR_LOCK_PROGRAMMING_EVENT_CODE_ATTRIBUTE_TYPES :: u8 where "ZCL_DOOR_LOCK_PROGRAMMING_EVENT_CODE_ATTRIBUTE_TYPES \<equiv> ZCL_ENUM8_ATTRIBUTE_TYPES"
abbreviation (input) ZCL_DOOR_LOCK_PROGRAMMING_EVENT_CODE_ATTRIBUTE_TYPES_SIZE :: u8 where "ZCL_DOOR_LOCK_PROGRAMMING_EVENT_CODE_ATTRIBUTE_TYPES_SIZE \<equiv> ZCL_ENUM8_ATTRIBUTE_TYPES_SIZE"
abbreviation (input) ZCL_DOOR_LOCK_SET_PIN_OR_ID_STATUS_ATTRIBUTE_TYPES :: u8 where "ZCL_DOOR_LOCK_SET_PIN_OR_ID_STATUS_ATTRIBUTE_TYPES \<equiv> ZCL_ENUM8_ATTRIBUTE_TYPES"
abbreviation (input) ZCL_DOOR_LOCK_SET_PIN_OR_ID_STATUS_ATTRIBUTE_TYPES_SIZE :: u8 where "ZCL_DOOR_LOCK_SET_PIN_OR_ID_STATUS_ATTRIBUTE_TYPES_SIZE \<equiv> ZCL_ENUM8_ATTRIBUTE_TYPES_SIZE"
abbreviation (input) ZCL_DOOR_LOCK_USER_STATUS_ATTRIBUTE_TYPES :: u8 where "ZCL_DOOR_LOCK_USER_STATUS_ATTRIBUTE_TYPES \<equiv> ZCL_ENUM8_ATTRIBUTE_TYPES"
abbreviation (input) ZCL_DOOR_LOCK_USER_STATUS_ATTRIBUTE_TYPES_SIZE :: u8 where "ZCL_DOOR_LOCK_USER_STATUS_ATTRIBUTE_TYPES_SIZE \<equiv> ZCL_ENUM8_ATTRIBUTE_TYPES_SIZE"
abbreviation (input) ZCL_DOOR_LOCK_USER_TYPE_ATTRIBUTE_TYPES :: u8 where "ZCL_DOOR_LOCK_USER_TYPE_ATTRIBUTE_TYPES \<equiv> ZCL_ENUM8_ATTRIBUTE_TYPES"
abbreviation (input) ZCL_DOOR_LOCK_USER_TYPE_ATTRIBUTE_TYPES_SIZE :: u8 where "ZCL_DOOR_LOCK_USER_TYPE_ATTRIBUTE_TYPES_SIZE \<equiv> ZCL_ENUM8_ATTRIBUTE_TYPES_SIZE"
abbreviation (input) ZCL_DOOR_STATE_ENUM_ATTRIBUTE_TYPES :: u8 where "ZCL_DOOR_STATE_ENUM_ATTRIBUTE_TYPES \<equiv> ZCL_ENUM8_ATTRIBUTE_TYPES"
abbreviation (input) ZCL_DOOR_STATE_ENUM_ATTRIBUTE_TYPES_SIZE :: u8 where "ZCL_DOOR_STATE_ENUM_ATTRIBUTE_TYPES_SIZE \<equiv> ZCL_ENUM8_ATTRIBUTE_TYPES_SIZE"
abbreviation (input) ZCL_LOCK_DATA_TYPE_ENUM_ATTRIBUTE_TYPES :: u8 where "ZCL_LOCK_DATA_TYPE_ENUM_ATTRIBUTE_TYPES \<equiv> ZCL_ENUM8_ATTRIBUTE_TYPES"
abbreviation (input) ZCL_LOCK_DATA_TYPE_ENUM_ATTRIBUTE_TYPES_SIZE :: u8 where "ZCL_LOCK_DATA_TYPE_ENUM_ATTRIBUTE_TYPES_SIZE \<equiv> ZCL_ENUM8_ATTRIBUTE_TYPES_SIZE"
abbreviation (input) ZCL_LOCK_OPERATION_TYPE_ENUM_ATTRIBUTE_TYPES :: u8 where "ZCL_LOCK_OPERATION_TYPE_ENUM_ATTRIBUTE_TYPES \<equiv> ZCL_ENUM8_ATTRIBUTE_TYPES"
abbreviation (input) ZCL_LOCK_OPERATION_TYPE_ENUM_ATTRIBUTE_TYPES_SIZE :: u8 where "ZCL_LOCK_OPERATION_TYPE_ENUM_ATTRIBUTE_TYPES_SIZE \<equiv> ZCL_ENUM8_ATTRIBUTE_TYPES_SIZE"
abbreviation (input) ZCL_OPERATING_MODE_ENUM_ATTRIBUTE_TYPES :: u8 where "ZCL_OPERATING_MODE_ENUM_ATTRIBUTE_TYPES \<equiv> ZCL_ENUM8_ATTRIBUTE_TYPES"
abbreviation (input) ZCL_OPERATING_MODE_ENUM_ATTRIBUTE_TYPES_SIZE :: u8 where "ZCL_OPERATING_MODE_ENUM_ATTRIBUTE_TYPES_SIZE \<equiv> ZCL_ENUM8_ATTRIBUTE_TYPES_SIZE"
abbreviation (input) ZCL_OPERATION_ERROR_ENUM_ATTRIBUTE_TYPES :: u8 where "ZCL_OPERATION_ERROR_ENUM_ATTRIBUTE_TYPES \<equiv> ZCL_ENUM8_ATTRIBUTE_TYPES"
abbreviation (input) ZCL_OPERATION_ERROR_ENUM_ATTRIBUTE_TYPES_SIZE :: u8 where "ZCL_OPERATION_ERROR_ENUM_ATTRIBUTE_TYPES_SIZE \<equiv> ZCL_ENUM8_ATTRIBUTE_TYPES_SIZE"
abbreviation (input) ZCL_OPERATION_SOURCE_ENUM_ATTRIBUTE_TYPES :: u8 where "ZCL_OPERATION_SOURCE_ENUM_ATTRIBUTE_TYPES \<equiv> ZCL_ENUM8_ATTRIBUTE_TYPES"
abbreviation (input) ZCL_OPERATION_SOURCE_ENUM_ATTRIBUTE_TYPES_SIZE :: u8 where "ZCL_OPERATION_SOURCE_ENUM_ATTRIBUTE_TYPES_SIZE \<equiv> ZCL_ENUM8_ATTRIBUTE_TYPES_SIZE"
abbreviation (input) ZCL_USER_STATUS_ENUM_ATTRIBUTE_TYPES :: u8 where "ZCL_USER_STATUS_ENUM_ATTRIBUTE_TYPES \<equiv> ZCL_ENUM8_ATTRIBUTE_TYPES"
abbreviation (input) ZCL_USER_STATUS_ENUM_ATTRIBUTE_TYPES_SIZE :: u8 where "ZCL_USER_STATUS_ENUM_ATTRIBUTE_TYPES_SIZE \<equiv> ZCL_ENUM8_ATTRIBUTE_TYPES_SIZE"
abbreviation (input) ZCL_USER_TYPE_ENUM_ATTRIBUTE_TYPES :: u8 where "ZCL_USER_TYPE_ENUM_ATTRIBUTE_TYPES \<equiv> ZCL_ENUM8_ATTRIBUTE_TYPES"
abbreviation (input) ZCL_USER_TYPE_ENUM_ATTRIBUTE_TYPES_SIZE :: u8 where "ZCL_USER_TYPE_ENUM_ATTRIBUTE_TYPES_SIZE \<equiv> ZCL_ENUM8_ATTRIBUTE_TYPES_SIZE"
abbreviation (input) ZCL_CREDENTIAL_STRUCT_ATTRIBUTE_TYPES :: u8 where "ZCL_CREDENTIAL_STRUCT_ATTRIBUTE_TYPES \<equiv> ZCL_STRUCT_ATTRIBUTE_TYPES"
abbreviation (input) ZCL_CREDENTIAL_STRUCT_ATTRIBUTE_TYPES_SIZE :: u8 where "ZCL_CREDENTIAL_STRUCT_ATTRIBUTE_TYPES_SIZE \<equiv> ZCL_STRUCT_ATTRIBUTE_TYPES_SIZE"
abbreviation (input) ZCL_CONFIG_STATUS_ATTRIBUTE_TYPES :: u8 where "ZCL_CONFIG_STATUS_ATTRIBUTE_TYPES \<equiv> ZCL_BITMAP32_ATTRIBUTE_TYPES"
abbreviation (input) ZCL_CONFIG_STATUS_ATTRIBUTE_TYPES_SIZE :: u8 where "ZCL_CONFIG_STATUS_ATTRIBUTE_TYPES_SIZE \<equiv> ZCL_BITMAP32_ATTRIBUTE_TYPES_SIZE"
abbreviation (input) ZCL_WINDOW_COVERING_FEATURE_ATTRIBUTE_TYPES :: u8 where "ZCL_WINDOW_COVERING_FEATURE_ATTRIBUTE_TYPES \<equiv> ZCL_BITMAP32_ATTRIBUTE_TYPES"
abbreviation (input) ZCL_WINDOW_COVERING_FEATURE_ATTRIBUTE_TYPES_SIZE :: u8 where "ZCL_WINDOW_COVERING_FEATURE_ATTRIBUTE_TYPES_SIZE \<equiv> ZCL_BITMAP32_ATTRIBUTE_TYPES_SIZE"
abbreviation (input) ZCL_MODE_ATTRIBUTE_TYPES :: u8 where "ZCL_MODE_ATTRIBUTE_TYPES \<equiv> ZCL_BITMAP32_ATTRIBUTE_TYPES"
abbreviation (input) ZCL_MODE_ATTRIBUTE_TYPES_SIZE :: u8 where "ZCL_MODE_ATTRIBUTE_TYPES_SIZE \<equiv> ZCL_BITMAP32_ATTRIBUTE_TYPES_SIZE"
abbreviation (input) ZCL_OPERATIONAL_STATUS_ATTRIBUTE_TYPES :: u8 where "ZCL_OPERATIONAL_STATUS_ATTRIBUTE_TYPES \<equiv> ZCL_BITMAP32_ATTRIBUTE_TYPES"
abbreviation (input) ZCL_OPERATIONAL_STATUS_ATTRIBUTE_TYPES_SIZE :: u8 where "ZCL_OPERATIONAL_STATUS_ATTRIBUTE_TYPES_SIZE \<equiv> ZCL_BITMAP32_ATTRIBUTE_TYPES_SIZE"
abbreviation (input) ZCL_SAFETY_STATUS_ATTRIBUTE_TYPES :: u8 where "ZCL_SAFETY_STATUS_ATTRIBUTE_TYPES \<equiv> ZCL_BITMAP32_ATTRIBUTE_TYPES"
abbreviation (input) ZCL_SAFETY_STATUS_ATTRIBUTE_TYPES_SIZE :: u8 where "ZCL_SAFETY_STATUS_ATTRIBUTE_TYPES_SIZE \<equiv> ZCL_BITMAP32_ATTRIBUTE_TYPES_SIZE"
abbreviation (input) ZCL_END_PRODUCT_TYPE_ATTRIBUTE_TYPES :: u8 where "ZCL_END_PRODUCT_TYPE_ATTRIBUTE_TYPES \<equiv> ZCL_ENUM8_ATTRIBUTE_TYPES"
abbreviation (input) ZCL_END_PRODUCT_TYPE_ATTRIBUTE_TYPES_SIZE :: u8 where "ZCL_END_PRODUCT_TYPE_ATTRIBUTE_TYPES_SIZE \<equiv> ZCL_ENUM8_ATTRIBUTE_TYPES_SIZE"
abbreviation (input) ZCL_TYPE_ATTRIBUTE_TYPES :: u8 where "ZCL_TYPE_ATTRIBUTE_TYPES \<equiv> ZCL_ENUM8_ATTRIBUTE_TYPES"
abbreviation (input) ZCL_TYPE_ATTRIBUTE_TYPES_SIZE :: u8 where "ZCL_TYPE_ATTRIBUTE_TYPES_SIZE \<equiv> ZCL_ENUM8_ATTRIBUTE_TYPES_SIZE"
abbreviation (input) ZCL_AC_ERROR_CODE_BITMAP_ATTRIBUTE_TYPES :: u8 where "ZCL_AC_ERROR_CODE_BITMAP_ATTRIBUTE_TYPES \<equiv> ZCL_BITMAP32_ATTRIBUTE_TYPES"
abbreviation (input) ZCL_AC_ERROR_CODE_BITMAP_ATTRIBUTE_TYPES_SIZE :: u8 where "ZCL_AC_ERROR_CODE_BITMAP_ATTRIBUTE_TYPES_SIZE \<equiv> ZCL_BITMAP32_ATTRIBUTE_TYPES_SIZE"
abbreviation (input) ZCL_THERMOSTAT_FEATURE_ATTRIBUTE_TYPES :: u8 where "ZCL_THERMOSTAT_FEATURE_ATTRIBUTE_TYPES \<equiv> ZCL_BITMAP32_ATTRIBUTE_TYPES"
abbreviation (input) ZCL_THERMOSTAT_FEATURE_ATTRIBUTE_TYPES_SIZE :: u8 where "ZCL_THERMOSTAT_FEATURE_ATTRIBUTE_TYPES_SIZE \<equiv> ZCL_BITMAP32_ATTRIBUTE_TYPES_SIZE"
abbreviation (input) ZCL_HVAC_SYSTEM_TYPE_BITMAP_ATTRIBUTE_TYPES :: u8 where "ZCL_HVAC_SYSTEM_TYPE_BITMAP_ATTRIBUTE_TYPES \<equiv> ZCL_BITMAP32_ATTRIBUTE_TYPES"
abbreviation (input) ZCL_HVAC_SYSTEM_TYPE_BITMAP_ATTRIBUTE_TYPES_SIZE :: u8 where "ZCL_HVAC_SYSTEM_TYPE_BITMAP_ATTRIBUTE_TYPES_SIZE \<equiv> ZCL_BITMAP32_ATTRIBUTE_TYPES_SIZE"
abbreviation (input) ZCL_THERMOSTAT_OCCUPANCY_BITMAP_ATTRIBUTE_TYPES :: u8 where "ZCL_THERMOSTAT_OCCUPANCY_BITMAP_ATTRIBUTE_TYPES \<equiv> ZCL_BITMAP32_ATTRIBUTE_TYPES"
abbreviation (input) ZCL_THERMOSTAT_OCCUPANCY_BITMAP_ATTRIBUTE_TYPES_SIZE :: u8 where "ZCL_THERMOSTAT_OCCUPANCY_BITMAP_ATTRIBUTE_TYPES_SIZE \<equiv> ZCL_BITMAP32_ATTRIBUTE_TYPES_SIZE"
abbreviation (input) ZCL_PRESET_TYPE_FEATURES_BITMAP_ATTRIBUTE_TYPES :: u8 where "ZCL_PRESET_TYPE_FEATURES_BITMAP_ATTRIBUTE_TYPES \<equiv> ZCL_BITMAP32_ATTRIBUTE_TYPES"
abbreviation (input) ZCL_PRESET_TYPE_FEATURES_BITMAP_ATTRIBUTE_TYPES_SIZE :: u8 where "ZCL_PRESET_TYPE_FEATURES_BITMAP_ATTRIBUTE_TYPES_SIZE \<equiv> ZCL_BITMAP32_ATTRIBUTE_TYPES_SIZE"
abbreviation (input) ZCL_PROGRAMMING_OPERATION_MODE_BITMAP_ATTRIBUTE_TYPES :: u8 where "ZCL_PROGRAMMING_OPERATION_MODE_BITMAP_ATTRIBUTE_TYPES \<equiv> ZCL_BITMAP32_ATTRIBUTE_TYPES"
abbreviation (input) ZCL_PROGRAMMING_OPERATION_MODE_BITMAP_ATTRIBUTE_TYPES_SIZE :: u8 where "ZCL_PROGRAMMING_OPERATION_MODE_BITMAP_ATTRIBUTE_TYPES_SIZE \<equiv> ZCL_BITMAP32_ATTRIBUTE_TYPES_SIZE"
abbreviation (input) ZCL_RELAY_STATE_BITMAP_ATTRIBUTE_TYPES :: u8 where "ZCL_RELAY_STATE_BITMAP_ATTRIBUTE_TYPES \<equiv> ZCL_BITMAP32_ATTRIBUTE_TYPES"
abbreviation (input) ZCL_RELAY_STATE_BITMAP_ATTRIBUTE_TYPES_SIZE :: u8 where "ZCL_RELAY_STATE_BITMAP_ATTRIBUTE_TYPES_SIZE \<equiv> ZCL_BITMAP32_ATTRIBUTE_TYPES_SIZE"
abbreviation (input) ZCL_REMOTE_SENSING_BITMAP_ATTRIBUTE_TYPES :: u8 where "ZCL_REMOTE_SENSING_BITMAP_ATTRIBUTE_TYPES \<equiv> ZCL_BITMAP32_ATTRIBUTE_TYPES"
abbreviation (input) ZCL_REMOTE_SENSING_BITMAP_ATTRIBUTE_TYPES_SIZE :: u8 where "ZCL_REMOTE_SENSING_BITMAP_ATTRIBUTE_TYPES_SIZE \<equiv> ZCL_BITMAP32_ATTRIBUTE_TYPES_SIZE"
abbreviation (input) ZCL_SCHEDULE_DAY_OF_WEEK_BITMAP_ATTRIBUTE_TYPES :: u8 where "ZCL_SCHEDULE_DAY_OF_WEEK_BITMAP_ATTRIBUTE_TYPES \<equiv> ZCL_BITMAP32_ATTRIBUTE_TYPES"
abbreviation (input) ZCL_SCHEDULE_DAY_OF_WEEK_BITMAP_ATTRIBUTE_TYPES_SIZE :: u8 where "ZCL_SCHEDULE_DAY_OF_WEEK_BITMAP_ATTRIBUTE_TYPES_SIZE \<equiv> ZCL_BITMAP32_ATTRIBUTE_TYPES_SIZE"
abbreviation (input) ZCL_SCHEDULE_MODE_BITMAP_ATTRIBUTE_TYPES :: u8 where "ZCL_SCHEDULE_MODE_BITMAP_ATTRIBUTE_TYPES \<equiv> ZCL_BITMAP32_ATTRIBUTE_TYPES"
abbreviation (input) ZCL_SCHEDULE_MODE_BITMAP_ATTRIBUTE_TYPES_SIZE :: u8 where "ZCL_SCHEDULE_MODE_BITMAP_ATTRIBUTE_TYPES_SIZE \<equiv> ZCL_BITMAP32_ATTRIBUTE_TYPES_SIZE"
abbreviation (input) ZCL_SCHEDULE_TYPE_FEATURES_BITMAP_ATTRIBUTE_TYPES :: u8 where "ZCL_SCHEDULE_TYPE_FEATURES_BITMAP_ATTRIBUTE_TYPES \<equiv> ZCL_BITMAP32_ATTRIBUTE_TYPES"
abbreviation (input) ZCL_SCHEDULE_TYPE_FEATURES_BITMAP_ATTRIBUTE_TYPES_SIZE :: u8 where "ZCL_SCHEDULE_TYPE_FEATURES_BITMAP_ATTRIBUTE_TYPES_SIZE \<equiv> ZCL_BITMAP32_ATTRIBUTE_TYPES_SIZE"
abbreviation (input) ZCL_AC_CAPACITY_FORMAT_ENUM_ATTRIBUTE_TYPES :: u8 where "ZCL_AC_CAPACITY_FORMAT_ENUM_ATTRIBUTE_TYPES \<equiv> ZCL_ENUM8_ATTRIBUTE_TYPES"
abbreviation (input) ZCL_AC_CAPACITY_FORMAT_ENUM_ATTRIBUTE_TYPES_SIZE :: u8 where "ZCL_AC_CAPACITY_FORMAT_ENUM_ATTRIBUTE_TYPES_SIZE \<equiv> ZCL_ENUM8_ATTRIBUTE_TYPES_SIZE"
abbreviation (input) ZCL_AC_COMPRESSOR_TYPE_ENUM_ATTRIBUTE_TYPES :: u8 where "ZCL_AC_COMPRESSOR_TYPE_ENUM_ATTRIBUTE_TYPES \<equiv> ZCL_ENUM8_ATTRIBUTE_TYPES"
abbreviation (input) ZCL_AC_COMPRESSOR_TYPE_ENUM_ATTRIBUTE_TYPES_SIZE :: u8 where "ZCL_AC_COMPRESSOR_TYPE_ENUM_ATTRIBUTE_TYPES_SIZE \<equiv> ZCL_ENUM8_ATTRIBUTE_TYPES_SIZE"
abbreviation (input) ZCL_AC_LOUVER_POSITION_ENUM_ATTRIBUTE_TYPES :: u8 where "ZCL_AC_LOUVER_POSITION_ENUM_ATTRIBUTE_TYPES \<equiv> ZCL_ENUM8_ATTRIBUTE_TYPES"
abbreviation (input) ZCL_AC_LOUVER_POSITION_ENUM_ATTRIBUTE_TYPES_SIZE :: u8 where "ZCL_AC_LOUVER_POSITION_ENUM_ATTRIBUTE_TYPES_SIZE \<equiv> ZCL_ENUM8_ATTRIBUTE_TYPES_SIZE"
abbreviation (input) ZCL_AC_REFRIGERANT_TYPE_ENUM_ATTRIBUTE_TYPES :: u8 where "ZCL_AC_REFRIGERANT_TYPE_ENUM_ATTRIBUTE_TYPES \<equiv> ZCL_ENUM8_ATTRIBUTE_TYPES"
abbreviation (input) ZCL_AC_REFRIGERANT_TYPE_ENUM_ATTRIBUTE_TYPES_SIZE :: u8 where "ZCL_AC_REFRIGERANT_TYPE_ENUM_ATTRIBUTE_TYPES_SIZE \<equiv> ZCL_ENUM8_ATTRIBUTE_TYPES_SIZE"
abbreviation (input) ZCL_AC_TYPE_ENUM_ATTRIBUTE_TYPES :: u8 where "ZCL_AC_TYPE_ENUM_ATTRIBUTE_TYPES \<equiv> ZCL_ENUM8_ATTRIBUTE_TYPES"
abbreviation (input) ZCL_AC_TYPE_ENUM_ATTRIBUTE_TYPES_SIZE :: u8 where "ZCL_AC_TYPE_ENUM_ATTRIBUTE_TYPES_SIZE \<equiv> ZCL_ENUM8_ATTRIBUTE_TYPES_SIZE"
abbreviation (input) ZCL_CONTROL_SEQUENCE_OF_OPERATION_ENUM_ATTRIBUTE_TYPES :: u8 where "ZCL_CONTROL_SEQUENCE_OF_OPERATION_ENUM_ATTRIBUTE_TYPES \<equiv> ZCL_ENUM8_ATTRIBUTE_TYPES"
abbreviation (input) ZCL_CONTROL_SEQUENCE_OF_OPERATION_ENUM_ATTRIBUTE_TYPES_SIZE :: u8 where "ZCL_CONTROL_SEQUENCE_OF_OPERATION_ENUM_ATTRIBUTE_TYPES_SIZE \<equiv> ZCL_ENUM8_ATTRIBUTE_TYPES_SIZE"
abbreviation (input) ZCL_PRESET_SCENARIO_ENUM_ATTRIBUTE_TYPES :: u8 where "ZCL_PRESET_SCENARIO_ENUM_ATTRIBUTE_TYPES \<equiv> ZCL_ENUM8_ATTRIBUTE_TYPES"
abbreviation (input) ZCL_PRESET_SCENARIO_ENUM_ATTRIBUTE_TYPES_SIZE :: u8 where "ZCL_PRESET_SCENARIO_ENUM_ATTRIBUTE_TYPES_SIZE \<equiv> ZCL_ENUM8_ATTRIBUTE_TYPES_SIZE"
abbreviation (input) ZCL_SETPOINT_CHANGE_SOURCE_ENUM_ATTRIBUTE_TYPES :: u8 where "ZCL_SETPOINT_CHANGE_SOURCE_ENUM_ATTRIBUTE_TYPES \<equiv> ZCL_ENUM8_ATTRIBUTE_TYPES"
abbreviation (input) ZCL_SETPOINT_CHANGE_SOURCE_ENUM_ATTRIBUTE_TYPES_SIZE :: u8 where "ZCL_SETPOINT_CHANGE_SOURCE_ENUM_ATTRIBUTE_TYPES_SIZE \<equiv> ZCL_ENUM8_ATTRIBUTE_TYPES_SIZE"
abbreviation (input) ZCL_SETPOINT_RAISE_LOWER_MODE_ENUM_ATTRIBUTE_TYPES :: u8 where "ZCL_SETPOINT_RAISE_LOWER_MODE_ENUM_ATTRIBUTE_TYPES \<equiv> ZCL_ENUM8_ATTRIBUTE_TYPES"
abbreviation (input) ZCL_SETPOINT_RAISE_LOWER_MODE_ENUM_ATTRIBUTE_TYPES_SIZE :: u8 where "ZCL_SETPOINT_RAISE_LOWER_MODE_ENUM_ATTRIBUTE_TYPES_SIZE \<equiv> ZCL_ENUM8_ATTRIBUTE_TYPES_SIZE"
abbreviation (input) ZCL_START_OF_WEEK_ENUM_ATTRIBUTE_TYPES :: u8 where "ZCL_START_OF_WEEK_ENUM_ATTRIBUTE_TYPES \<equiv> ZCL_ENUM8_ATTRIBUTE_TYPES"
abbreviation (input) ZCL_START_OF_WEEK_ENUM_ATTRIBUTE_TYPES_SIZE :: u8 where "ZCL_START_OF_WEEK_ENUM_ATTRIBUTE_TYPES_SIZE \<equiv> ZCL_ENUM8_ATTRIBUTE_TYPES_SIZE"
abbreviation (input) ZCL_SYSTEM_MODE_ENUM_ATTRIBUTE_TYPES :: u8 where "ZCL_SYSTEM_MODE_ENUM_ATTRIBUTE_TYPES \<equiv> ZCL_ENUM8_ATTRIBUTE_TYPES"
abbreviation (input) ZCL_SYSTEM_MODE_ENUM_ATTRIBUTE_TYPES_SIZE :: u8 where "ZCL_SYSTEM_MODE_ENUM_ATTRIBUTE_TYPES_SIZE \<equiv> ZCL_ENUM8_ATTRIBUTE_TYPES_SIZE"
abbreviation (input) ZCL_TEMPERATURE_SETPOINT_HOLD_ENUM_ATTRIBUTE_TYPES :: u8 where "ZCL_TEMPERATURE_SETPOINT_HOLD_ENUM_ATTRIBUTE_TYPES \<equiv> ZCL_ENUM8_ATTRIBUTE_TYPES"
abbreviation (input) ZCL_TEMPERATURE_SETPOINT_HOLD_ENUM_ATTRIBUTE_TYPES_SIZE :: u8 where "ZCL_TEMPERATURE_SETPOINT_HOLD_ENUM_ATTRIBUTE_TYPES_SIZE \<equiv> ZCL_ENUM8_ATTRIBUTE_TYPES_SIZE"
abbreviation (input) ZCL_THERMOSTAT_RUNNING_MODE_ENUM_ATTRIBUTE_TYPES :: u8 where "ZCL_THERMOSTAT_RUNNING_MODE_ENUM_ATTRIBUTE_TYPES \<equiv> ZCL_ENUM8_ATTRIBUTE_TYPES"
abbreviation (input) ZCL_THERMOSTAT_RUNNING_MODE_ENUM_ATTRIBUTE_TYPES_SIZE :: u8 where "ZCL_THERMOSTAT_RUNNING_MODE_ENUM_ATTRIBUTE_TYPES_SIZE \<equiv> ZCL_ENUM8_ATTRIBUTE_TYPES_SIZE"
abbreviation (input) ZCL_SCHEDULE_TRANSITION_STRUCT_ATTRIBUTE_TYPES :: u8 where "ZCL_SCHEDULE_TRANSITION_STRUCT_ATTRIBUTE_TYPES \<equiv> ZCL_STRUCT_ATTRIBUTE_TYPES"
abbreviation (input) ZCL_SCHEDULE_TRANSITION_STRUCT_ATTRIBUTE_TYPES_SIZE :: u8 where "ZCL_SCHEDULE_TRANSITION_STRUCT_ATTRIBUTE_TYPES_SIZE \<equiv> ZCL_STRUCT_ATTRIBUTE_TYPES_SIZE"
abbreviation (input) ZCL_SCHEDULE_STRUCT_ATTRIBUTE_TYPES :: u8 where "ZCL_SCHEDULE_STRUCT_ATTRIBUTE_TYPES \<equiv> ZCL_STRUCT_ATTRIBUTE_TYPES"
abbreviation (input) ZCL_SCHEDULE_STRUCT_ATTRIBUTE_TYPES_SIZE :: u8 where "ZCL_SCHEDULE_STRUCT_ATTRIBUTE_TYPES_SIZE \<equiv> ZCL_STRUCT_ATTRIBUTE_TYPES_SIZE"
abbreviation (input) ZCL_PRESET_STRUCT_ATTRIBUTE_TYPES :: u8 where "ZCL_PRESET_STRUCT_ATTRIBUTE_TYPES \<equiv> ZCL_STRUCT_ATTRIBUTE_TYPES"
abbreviation (input) ZCL_PRESET_STRUCT_ATTRIBUTE_TYPES_SIZE :: u8 where "ZCL_PRESET_STRUCT_ATTRIBUTE_TYPES_SIZE \<equiv> ZCL_STRUCT_ATTRIBUTE_TYPES_SIZE"
abbreviation (input) ZCL_PRESET_TYPE_STRUCT_ATTRIBUTE_TYPES :: u8 where "ZCL_PRESET_TYPE_STRUCT_ATTRIBUTE_TYPES \<equiv> ZCL_STRUCT_ATTRIBUTE_TYPES"
abbreviation (input) ZCL_PRESET_TYPE_STRUCT_ATTRIBUTE_TYPES_SIZE :: u8 where "ZCL_PRESET_TYPE_STRUCT_ATTRIBUTE_TYPES_SIZE \<equiv> ZCL_STRUCT_ATTRIBUTE_TYPES_SIZE"
abbreviation (input) ZCL_SCHEDULE_TYPE_STRUCT_ATTRIBUTE_TYPES :: u8 where "ZCL_SCHEDULE_TYPE_STRUCT_ATTRIBUTE_TYPES \<equiv> ZCL_STRUCT_ATTRIBUTE_TYPES"
abbreviation (input) ZCL_SCHEDULE_TYPE_STRUCT_ATTRIBUTE_TYPES_SIZE :: u8 where "ZCL_SCHEDULE_TYPE_STRUCT_ATTRIBUTE_TYPES_SIZE \<equiv> ZCL_STRUCT_ATTRIBUTE_TYPES_SIZE"
abbreviation (input) ZCL_WEEKLY_SCHEDULE_TRANSITION_STRUCT_ATTRIBUTE_TYPES :: u8 where "ZCL_WEEKLY_SCHEDULE_TRANSITION_STRUCT_ATTRIBUTE_TYPES \<equiv> ZCL_STRUCT_ATTRIBUTE_TYPES"
abbreviation (input) ZCL_WEEKLY_SCHEDULE_TRANSITION_STRUCT_ATTRIBUTE_TYPES_SIZE :: u8 where "ZCL_WEEKLY_SCHEDULE_TRANSITION_STRUCT_ATTRIBUTE_TYPES_SIZE \<equiv> ZCL_STRUCT_ATTRIBUTE_TYPES_SIZE"
abbreviation (input) ZCL_COLOR_CAPABILITIES_BITMAP_ATTRIBUTE_TYPES :: u8 where "ZCL_COLOR_CAPABILITIES_BITMAP_ATTRIBUTE_TYPES \<equiv> ZCL_BITMAP32_ATTRIBUTE_TYPES"
abbreviation (input) ZCL_COLOR_CAPABILITIES_BITMAP_ATTRIBUTE_TYPES_SIZE :: u8 where "ZCL_COLOR_CAPABILITIES_BITMAP_ATTRIBUTE_TYPES_SIZE \<equiv> ZCL_BITMAP32_ATTRIBUTE_TYPES_SIZE"
abbreviation (input) ZCL_COLOR_CONTROL_FEATURE_ATTRIBUTE_TYPES :: u8 where "ZCL_COLOR_CONTROL_FEATURE_ATTRIBUTE_TYPES \<equiv> ZCL_BITMAP32_ATTRIBUTE_TYPES"
abbreviation (input) ZCL_COLOR_CONTROL_FEATURE_ATTRIBUTE_TYPES_SIZE :: u8 where "ZCL_COLOR_CONTROL_FEATURE_ATTRIBUTE_TYPES_SIZE \<equiv> ZCL_BITMAP32_ATTRIBUTE_TYPES_SIZE"
abbreviation (input) ZCL_COLOR_CONTROL_OPTIONS_BITMAP_ATTRIBUTE_TYPES :: u8 where "ZCL_COLOR_CONTROL_OPTIONS_BITMAP_ATTRIBUTE_TYPES \<equiv> ZCL_BITMAP32_ATTRIBUTE_TYPES"
abbreviation (input) ZCL_COLOR_CONTROL_OPTIONS_BITMAP_ATTRIBUTE_TYPES_SIZE :: u8 where "ZCL_COLOR_CONTROL_OPTIONS_BITMAP_ATTRIBUTE_TYPES_SIZE \<equiv> ZCL_BITMAP32_ATTRIBUTE_TYPES_SIZE"
abbreviation (input) ZCL_UPDATE_FLAGS_BITMAP_ATTRIBUTE_TYPES :: u8 where "ZCL_UPDATE_FLAGS_BITMAP_ATTRIBUTE_TYPES \<equiv> ZCL_BITMAP32_ATTRIBUTE_TYPES"
abbreviation (input) ZCL_UPDATE_FLAGS_BITMAP_ATTRIBUTE_TYPES_SIZE :: u8 where "ZCL_UPDATE_FLAGS_BITMAP_ATTRIBUTE_TYPES_SIZE \<equiv> ZCL_BITMAP32_ATTRIBUTE_TYPES_SIZE"
abbreviation (input) ZCL_COLOR_LOOP_ACTION_ENUM_ATTRIBUTE_TYPES :: u8 where "ZCL_COLOR_LOOP_ACTION_ENUM_ATTRIBUTE_TYPES \<equiv> ZCL_ENUM8_ATTRIBUTE_TYPES"
abbreviation (input) ZCL_COLOR_LOOP_ACTION_ENUM_ATTRIBUTE_TYPES_SIZE :: u8 where "ZCL_COLOR_LOOP_ACTION_ENUM_ATTRIBUTE_TYPES_SIZE \<equiv> ZCL_ENUM8_ATTRIBUTE_TYPES_SIZE"
abbreviation (input) ZCL_COLOR_LOOP_DIRECTION_ENUM_ATTRIBUTE_TYPES :: u8 where "ZCL_COLOR_LOOP_DIRECTION_ENUM_ATTRIBUTE_TYPES \<equiv> ZCL_ENUM8_ATTRIBUTE_TYPES"
abbreviation (input) ZCL_COLOR_LOOP_DIRECTION_ENUM_ATTRIBUTE_TYPES_SIZE :: u8 where "ZCL_COLOR_LOOP_DIRECTION_ENUM_ATTRIBUTE_TYPES_SIZE \<equiv> ZCL_ENUM8_ATTRIBUTE_TYPES_SIZE"
abbreviation (input) ZCL_COLOR_MODE_ENUM_ATTRIBUTE_TYPES :: u8 where "ZCL_COLOR_MODE_ENUM_ATTRIBUTE_TYPES \<equiv> ZCL_ENUM8_ATTRIBUTE_TYPES"
abbreviation (input) ZCL_COLOR_MODE_ENUM_ATTRIBUTE_TYPES_SIZE :: u8 where "ZCL_COLOR_MODE_ENUM_ATTRIBUTE_TYPES_SIZE \<equiv> ZCL_ENUM8_ATTRIBUTE_TYPES_SIZE"
abbreviation (input) ZCL_DIRECTION_ENUM_ATTRIBUTE_TYPES :: u8 where "ZCL_DIRECTION_ENUM_ATTRIBUTE_TYPES \<equiv> ZCL_ENUM8_ATTRIBUTE_TYPES"
abbreviation (input) ZCL_DIRECTION_ENUM_ATTRIBUTE_TYPES_SIZE :: u8 where "ZCL_DIRECTION_ENUM_ATTRIBUTE_TYPES_SIZE \<equiv> ZCL_ENUM8_ATTRIBUTE_TYPES_SIZE"
abbreviation (input) ZCL_DRIFT_COMPENSATION_ENUM_ATTRIBUTE_TYPES :: u8 where "ZCL_DRIFT_COMPENSATION_ENUM_ATTRIBUTE_TYPES \<equiv> ZCL_ENUM8_ATTRIBUTE_TYPES"
abbreviation (input) ZCL_DRIFT_COMPENSATION_ENUM_ATTRIBUTE_TYPES_SIZE :: u8 where "ZCL_DRIFT_COMPENSATION_ENUM_ATTRIBUTE_TYPES_SIZE \<equiv> ZCL_ENUM8_ATTRIBUTE_TYPES_SIZE"
abbreviation (input) ZCL_ENHANCED_COLOR_MODE_ENUM_ATTRIBUTE_TYPES :: u8 where "ZCL_ENHANCED_COLOR_MODE_ENUM_ATTRIBUTE_TYPES \<equiv> ZCL_ENUM8_ATTRIBUTE_TYPES"
abbreviation (input) ZCL_ENHANCED_COLOR_MODE_ENUM_ATTRIBUTE_TYPES_SIZE :: u8 where "ZCL_ENHANCED_COLOR_MODE_ENUM_ATTRIBUTE_TYPES_SIZE \<equiv> ZCL_ENUM8_ATTRIBUTE_TYPES_SIZE"
abbreviation (input) ZCL_COLOR_CONTROL_MOVE_MODE_ENUM_ATTRIBUTE_TYPES :: u8 where "ZCL_COLOR_CONTROL_MOVE_MODE_ENUM_ATTRIBUTE_TYPES \<equiv> ZCL_ENUM8_ATTRIBUTE_TYPES"
abbreviation (input) ZCL_COLOR_CONTROL_MOVE_MODE_ENUM_ATTRIBUTE_TYPES_SIZE :: u8 where "ZCL_COLOR_CONTROL_MOVE_MODE_ENUM_ATTRIBUTE_TYPES_SIZE \<equiv> ZCL_ENUM8_ATTRIBUTE_TYPES_SIZE"
abbreviation (input) ZCL_COLOR_CONTROL_STEP_MODE_ENUM_ATTRIBUTE_TYPES :: u8 where "ZCL_COLOR_CONTROL_STEP_MODE_ENUM_ATTRIBUTE_TYPES \<equiv> ZCL_ENUM8_ATTRIBUTE_TYPES"
abbreviation (input) ZCL_COLOR_CONTROL_STEP_MODE_ENUM_ATTRIBUTE_TYPES_SIZE :: u8 where "ZCL_COLOR_CONTROL_STEP_MODE_ENUM_ATTRIBUTE_TYPES_SIZE \<equiv> ZCL_ENUM8_ATTRIBUTE_TYPES_SIZE"
abbreviation (input) ZCL_LIGHT_SENSOR_TYPE_ENUM_ATTRIBUTE_TYPES :: u8 where "ZCL_LIGHT_SENSOR_TYPE_ENUM_ATTRIBUTE_TYPES \<equiv> ZCL_ENUM8_ATTRIBUTE_TYPES"
abbreviation (input) ZCL_LIGHT_SENSOR_TYPE_ENUM_ATTRIBUTE_TYPES_SIZE :: u8 where "ZCL_LIGHT_SENSOR_TYPE_ENUM_ATTRIBUTE_TYPES_SIZE \<equiv> ZCL_ENUM8_ATTRIBUTE_TYPES_SIZE"
abbreviation (input) ZCL_PRESSURE_MEASUREMENT_FEATURE_ATTRIBUTE_TYPES :: u8 where "ZCL_PRESSURE_MEASUREMENT_FEATURE_ATTRIBUTE_TYPES \<equiv> ZCL_BITMAP32_ATTRIBUTE_TYPES"
abbreviation (input) ZCL_PRESSURE_MEASUREMENT_FEATURE_ATTRIBUTE_TYPES_SIZE :: u8 where "ZCL_PRESSURE_MEASUREMENT_FEATURE_ATTRIBUTE_TYPES_SIZE \<equiv> ZCL_BITMAP32_ATTRIBUTE_TYPES_SIZE"
abbreviation (input) ZCL_OCCUPANCY_SENSING_FEATURE_ATTRIBUTE_TYPES :: u8 where "ZCL_OCCUPANCY_SENSING_FEATURE_ATTRIBUTE_TYPES \<equiv> ZCL_BITMAP32_ATTRIBUTE_TYPES"
abbreviation (input) ZCL_OCCUPANCY_SENSING_FEATURE_ATTRIBUTE_TYPES_SIZE :: u8 where "ZCL_OCCUPANCY_SENSING_FEATURE_ATTRIBUTE_TYPES_SIZE \<equiv> ZCL_BITMAP32_ATTRIBUTE_TYPES_SIZE"
abbreviation (input) ZCL_OCCUPANCY_SENSING_OCCUPANCY_BITMAP_ATTRIBUTE_TYPES :: u8 where "ZCL_OCCUPANCY_SENSING_OCCUPANCY_BITMAP_ATTRIBUTE_TYPES \<equiv> ZCL_BITMAP32_ATTRIBUTE_TYPES"
abbreviation (input) ZCL_OCCUPANCY_SENSING_OCCUPANCY_BITMAP_ATTRIBUTE_TYPES_SIZE :: u8 where "ZCL_OCCUPANCY_SENSING_OCCUPANCY_BITMAP_ATTRIBUTE_TYPES_SIZE \<equiv> ZCL_BITMAP32_ATTRIBUTE_TYPES_SIZE"
abbreviation (input) ZCL_OCCUPANCY_SENSOR_TYPE_BITMAP_ATTRIBUTE_TYPES :: u8 where "ZCL_OCCUPANCY_SENSOR_TYPE_BITMAP_ATTRIBUTE_TYPES \<equiv> ZCL_BITMAP32_ATTRIBUTE_TYPES"
abbreviation (input) ZCL_OCCUPANCY_SENSOR_TYPE_BITMAP_ATTRIBUTE_TYPES_SIZE :: u8 where "ZCL_OCCUPANCY_SENSOR_TYPE_BITMAP_ATTRIBUTE_TYPES_SIZE \<equiv> ZCL_BITMAP32_ATTRIBUTE_TYPES_SIZE"
abbreviation (input) ZCL_OCCUPANCY_SENSOR_TYPE_ENUM_ATTRIBUTE_TYPES :: u8 where "ZCL_OCCUPANCY_SENSOR_TYPE_ENUM_ATTRIBUTE_TYPES \<equiv> ZCL_ENUM8_ATTRIBUTE_TYPES"
abbreviation (input) ZCL_OCCUPANCY_SENSOR_TYPE_ENUM_ATTRIBUTE_TYPES_SIZE :: u8 where "ZCL_OCCUPANCY_SENSOR_TYPE_ENUM_ATTRIBUTE_TYPES_SIZE \<equiv> ZCL_ENUM8_ATTRIBUTE_TYPES_SIZE"
abbreviation (input) ZCL_HOLD_TIME_LIMITS_STRUCT_ATTRIBUTE_TYPES :: u8 where "ZCL_HOLD_TIME_LIMITS_STRUCT_ATTRIBUTE_TYPES \<equiv> ZCL_STRUCT_ATTRIBUTE_TYPES"
abbreviation (input) ZCL_HOLD_TIME_LIMITS_STRUCT_ATTRIBUTE_TYPES_SIZE :: u8 where "ZCL_HOLD_TIME_LIMITS_STRUCT_ATTRIBUTE_TYPES_SIZE \<equiv> ZCL_STRUCT_ATTRIBUTE_TYPES_SIZE"

section \<open>The cases\<close>

type_synonym size_row = "string \<times> u8 \<times> u8"

definition identify_sizes :: "size_row list" where
  "identify_sizes = [
     (''IdentifyTime'', ZCL_INT16U_ATTRIBUTE_TYPES,
        ZCL_INT16U_ATTRIBUTE_TYPES_SIZE),
     (''IdentifyType'', ZCL_IDENTIFY_TYPE_ENUM_ATTRIBUTE_TYPES,
        ZCL_IDENTIFY_TYPE_ENUM_ATTRIBUTE_TYPES_SIZE),
     (''GeneratedCommandList'', ZCL_COMMAND_ID_ATTRIBUTE_TYPES,
        ZCL_COMMAND_ID_ATTRIBUTE_TYPES_SIZE),
     (''AcceptedCommandList'', ZCL_COMMAND_ID_ATTRIBUTE_TYPES,
        ZCL_COMMAND_ID_ATTRIBUTE_TYPES_SIZE),
     (''EventList'', ZCL_EVENT_ID_ATTRIBUTE_TYPES,
        ZCL_EVENT_ID_ATTRIBUTE_TYPES_SIZE),
     (''AttributeList'', ZCL_ATTRIB_ID_ATTRIBUTE_TYPES,
        ZCL_ATTRIB_ID_ATTRIBUTE_TYPES_SIZE),
     (''FeatureMap'', ZCL_BITMAP32_ATTRIBUTE_TYPES,
        ZCL_BITMAP32_ATTRIBUTE_TYPES_SIZE),
     (''ClusterRevision'', ZCL_INT16U_ATTRIBUTE_TYPES,
        ZCL_INT16U_ATTRIBUTE_TYPES_SIZE)]"

definition groups_sizes :: "size_row list" where
  "groups_sizes = [
     (''NameSupport'', ZCL_GROUPS_NAME_SUPPORT_BITMAP_ATTRIBUTE_TYPES,
        ZCL_GROUPS_NAME_SUPPORT_BITMAP_ATTRIBUTE_TYPES_SIZE),
     (''GeneratedCommandList'', ZCL_COMMAND_ID_ATTRIBUTE_TYPES,
        ZCL_COMMAND_ID_ATTRIBUTE_TYPES_SIZE),
     (''AcceptedCommandList'', ZCL_COMMAND_ID_ATTRIBUTE_TYPES,
        ZCL_COMMAND_ID_ATTRIBUTE_TYPES_SIZE),
     (''EventList'', ZCL_EVENT_ID_ATTRIBUTE_TYPES,
        ZCL_EVENT_ID_ATTRIBUTE_TYPES_SIZE),
     (''AttributeList'', ZCL_ATTRIB_ID_ATTRIBUTE_TYPES,
        ZCL_ATTRIB_ID_ATTRIBUTE_TYPES_SIZE),
     (''FeatureMap'', ZCL_BITMAP32_ATTRIBUTE_TYPES,
        ZCL_BITMAP32_ATTRIBUTE_TYPES_SIZE),
     (''ClusterRevision'', ZCL_INT16U_ATTRIBUTE_TYPES,
        ZCL_INT16U_ATTRIBUTE_TYPES_SIZE)]"

definition on_off_sizes :: "size_row list" where
  "on_off_sizes = [
     (''OnOff'', ZCL_BOOLEAN_ATTRIBUTE_TYPES,
        ZCL_BOOLEAN_ATTRIBUTE_TYPES_SIZE),
     (''GlobalSceneControl'', ZCL_BOOLEAN_ATTRIBUTE_TYPES,
        ZCL_BOOLEAN_ATTRIBUTE_TYPES_SIZE),
     (''OnTime'', ZCL_INT16U_ATTRIBUTE_TYPES,
        ZCL_INT16U_ATTRIBUTE_TYPES_SIZE),
     (''OffWaitTime'', ZCL_INT16U_ATTRIBUTE_TYPES,
        ZCL_INT16U_ATTRIBUTE_TYPES_SIZE),
     (''StartUpOnOff'', ZCL_START_UP_ON_OFF_ENUM_ATTRIBUTE_TYPES,
        ZCL_START_UP_ON_OFF_ENUM_ATTRIBUTE_TYPES_SIZE),
     (''GeneratedCommandList'', ZCL_COMMAND_ID_ATTRIBUTE_TYPES,
        ZCL_COMMAND_ID_ATTRIBUTE_TYPES_SIZE),
     (''AcceptedCommandList'', ZCL_COMMAND_ID_ATTRIBUTE_TYPES,
        ZCL_COMMAND_ID_ATTRIBUTE_TYPES_SIZE),
     (''EventList'', ZCL_EVENT_ID_ATTRIBUTE_TYPES,
        ZCL_EVENT_ID_ATTRIBUTE_TYPES_SIZE),
     (''AttributeList'', ZCL_ATTRIB_ID_ATTRIBUTE_TYPES,
        ZCL_ATTRIB_ID_ATTRIBUTE_TYPES_SIZE),
     (''FeatureMap'', ZCL_BITMAP32_ATTRIBUTE_TYPES,
        ZCL_BITMAP32_ATTRIBUTE_TYPES_SIZE),
     (''ClusterRevision'', ZCL_INT16U_ATTRIBUTE_TYPES,
        ZCL_INT16U_ATTRIBUTE_TYPES_SIZE)]"

definition level_control_sizes :: "size_row list" where
  "level_control_sizes = [
     (''CurrentLevel'', ZCL_INT8U_ATTRIBUTE_TYPES,
        ZCL_INT8U_ATTRIBUTE_TYPES_SIZE),
     (''RemainingTime'', ZCL_INT16U_ATTRIBUTE_TYPES,
        ZCL_INT16U_ATTRIBUTE_TYPES_SIZE),
     (''MinLevel'', ZCL_INT8U_ATTRIBUTE_TYPES,
        ZCL_INT8U_ATTRIBUTE_TYPES_SIZE),
     (''MaxLevel'', ZCL_INT8U_ATTRIBUTE_TYPES,
        ZCL_INT8U_ATTRIBUTE_TYPES_SIZE),
     (''CurrentFrequency'', ZCL_INT16U_ATTRIBUTE_TYPES,
        ZCL_INT16U_ATTRIBUTE_TYPES_SIZE),
     (''MinFrequency'', ZCL_INT16U_ATTRIBUTE_TYPES,
        ZCL_INT16U_ATTRIBUTE_TYPES_SIZE),
     (''MaxFrequency'', ZCL_INT16U_ATTRIBUTE_TYPES,
        ZCL_INT16U_ATTRIBUTE_TYPES_SIZE),
     (''Options'', ZCL_OPTIONS_BITMAP_ATTRIBUTE_TYPES,
        ZCL_OPTIONS_BITMAP_ATTRIBUTE_TYPES_SIZE),
     (''OnOffTransitionTime'', ZCL_INT16U_ATTRIBUTE_TYPES,
        ZCL_INT16U_ATTRIBUTE_TYPES_SIZE),
     (''OnLevel'', ZCL_INT8U_ATTRIBUTE_TYPES,
        ZCL_INT8U_ATTRIBUTE_TYPES_SIZE),
     (''OnTransitionTime'', ZCL_INT16U_ATTRIBUTE_TYPES,
        ZCL_INT16U_ATTRIBUTE_TYPES_SIZE),
     (''OffTransitionTime'', ZCL_INT16U_ATTRIBUTE_TYPES,
        ZCL_INT16U_ATTRIBUTE_TYPES_SIZE),
     (''DefaultMoveRate'', ZCL_INT8U_ATTRIBUTE_TYPES,
        ZCL_INT8U_ATTRIBUTE_TYPES_SIZE),
     (''StartUpCurrentLevel'', ZCL_INT8U_ATTRIBUTE_TYPES,
        ZCL_INT8U_ATTRIBUTE_TYPES_SIZE),
     (''GeneratedCommandList'', ZCL_COMMAND_ID_ATTRIBUTE_TYPES,
        ZCL_COMMAND_ID_ATTRIBUTE_TYPES_SIZE),
     (''AcceptedCommandList'', ZCL_COMMAND_ID_ATTRIBUTE_TYPES,
        ZCL_COMMAND_ID_ATTRIBUTE_TYPES_SIZE),
     (''EventList'', ZCL_EVENT_ID_ATTRIBUTE_TYPES,
        ZCL_EVENT_ID_ATTRIBUTE_TYPES_SIZE),
     (''AttributeList'', ZCL_ATTRIB_ID_ATTRIBUTE_TYPES,
        ZCL_ATTRIB_ID_ATTRIBUTE_TYPES_SIZE),
     (''FeatureMap'', ZCL_BITMAP32_ATTRIBUTE_TYPES,
        ZCL_BITMAP32_ATTRIBUTE_TYPES_SIZE),
     (''ClusterRevision'', ZCL_INT16U_ATTRIBUTE_TYPES,
        ZCL_INT16U_ATTRIBUTE_TYPES_SIZE)]"

definition door_lock_sizes_1 :: "size_row list" where
  "door_lock_sizes_1 = [
     (''LockState'', ZCL_DL_LOCK_STATE_ATTRIBUTE_TYPES,
        ZCL_DL_LOCK_STATE_ATTRIBUTE_TYPES_SIZE),
     (''LockType'', ZCL_DL_LOCK_TYPE_ATTRIBUTE_TYPES,
        ZCL_DL_LOCK_TYPE_ATTRIBUTE_TYPES_SIZE),
     (''ActuatorEnabled'', ZCL_BOOLEAN_ATTRIBUTE_TYPES,
        ZCL_BOOLEAN_ATTRIBUTE_TYPES_SIZE),
     (''DoorState'', ZCL_DOOR_STATE_ENUM_ATTRIBUTE_TYPES,
        ZCL_DOOR_STATE_ENUM_ATTRIBUTE_TYPES_SIZE),
     (''DoorOpenEvents'', ZCL_INT32U_ATTRIBUTE_TYPES,
        ZCL_INT32U_ATTRIBUTE_TYPES_SIZE),
     (''DoorClosedEvents'', ZCL_INT32U_ATTRIBUTE_TYPES,
        ZCL_INT32U_ATTRIBUTE_TYPES_SIZE),
     (''OpenPeriod'', ZCL_INT16U_ATTRIBUTE_TYPES,
        ZCL_INT16U_ATTRIBUTE_TYPES_SIZE),
     (''NumberOfTotalUsersSupported'', ZCL_INT16U_ATTRIBUTE_TYPES,
        ZCL_INT16U_ATTRIBUTE_TYPES_SIZE),
     (''NumberOfPINUsersSupported'', ZCL_INT16U_ATTRIBUTE_TYPES,
        ZCL_INT16U_ATTRIBUTE_TYPES_SIZE),
     (''NumberOfRFIDUsersSupported'', ZCL_INT16U_ATTRIBUTE_TYPES,
        ZCL_INT16U_ATTRIBUTE_TYPES_SIZE),
     (''NumberOfWeekDaySchedulesSupportedPerUser'', ZCL_INT8U_ATTRIBUTE_TYPES,
        ZCL_INT8U_ATTRIBUTE_TYPES_SIZE),
     (''NumberOfYearDaySchedulesSupportedPerUser'', ZCL_INT8U_ATTRIBUTE_TYPES,
        ZCL_INT8U_ATTRIBUTE_TYPES_SIZE),
     (''NumberOfHolidaySchedulesSupported'', ZCL_INT8U_ATTRIBUTE_TYPES,
        ZCL_INT8U_ATTRIBUTE_TYPES_SIZE),
     (''MaxPINCodeLength'', ZCL_INT8U_ATTRIBUTE_TYPES,
        ZCL_INT8U_ATTRIBUTE_TYPES_SIZE),
     (''MinPINCodeLength'', ZCL_INT8U_ATTRIBUTE_TYPES,
        ZCL_INT8U_ATTRIBUTE_TYPES_SIZE),
     (''MaxRFIDCodeLength'', ZCL_INT8U_ATTRIBUTE_TYPES,
        ZCL_INT8U_ATTRIBUTE_TYPES_SIZE),
     (''MinRFIDCodeLength'', ZCL_INT8U_ATTRIBUTE_TYPES,
        ZCL_INT8U_ATTRIBUTE_TYPES_SIZE),
     (''CredentialRulesSupport'', ZCL_DL_CREDENTIAL_RULE_MASK_ATTRIBUTE_TYPES,
        ZCL_DL_CREDENTIAL_RULE_MASK_ATTRIBUTE_TYPES_SIZE),
     (''NumberOfCredentialsSupportedPerUser'', ZCL_INT8U_ATTRIBUTE_TYPES,
        ZCL_INT8U_ATTRIBUTE_TYPES_SIZE),
     (''Language'', ZCL_CHAR_STRING_ATTRIBUTE_TYPES,
        ZCL_CHAR_STRING_ATTRIBUTE_TYPES_SIZE),
     (''LEDSettings'', ZCL_INT8U_ATTRIBUTE_TYPES,
        ZCL_INT8U_ATTRIBUTE_TYPES_SIZE),
     (''AutoRelockTime'', ZCL_INT32U_ATTRIBUTE_TYPES,
        ZCL_INT32U_ATTRIBUTE_TYPES_SIZE),
     (''SoundVolume'', ZCL_INT8U_ATTRIBUTE_TYPES,
        ZCL_INT8U_ATTRIBUTE_TYPES_SIZE),
     (''OperatingMode'', ZCL_OPERATING_MODE_ENUM_ATTRIBUTE_TYPES,
        ZCL_OPERATING_MODE_ENUM_ATTRIBUTE_TYPES_SIZE),
     (''SupportedOperatingModes'', ZCL_DL_SUPPORTED_OPERATING_MODES_ATTRIBUTE_TYPES,
        ZCL_DL_SUPPORTED_OPERATING_MODES_ATTRIBUTE_TYPES_SIZE),
     (''DefaultConfigurationRegister'', ZCL_DL_DEFAULT_CONFIGURATION_REGISTER_ATTRIBUTE_TYPES,
        ZCL_DL_DEFAULT_CONFIGURATION_REGISTER_ATTRIBUTE_TYPES_SIZE),
     (''EnableLocalProgramming'', ZCL_BOOLEAN_ATTRIBUTE_TYPES,
        ZCL_BOOLEAN_ATTRIBUTE_TYPES_SIZE),
     (''EnableOneTouchLocking'', ZCL_BOOLEAN_ATTRIBUTE_TYPES,
        ZCL_BOOLEAN_ATTRIBUTE_TYPES_SIZE),
     (''EnableInsideStatusLED'', ZCL_BOOLEAN_ATTRIBUTE_TYPES,
        ZCL_BOOLEAN_ATTRIBUTE_TYPES_SIZE),
     (''EnablePrivacyModeButton'', ZCL_BOOLEAN_ATTRIBUTE_TYPES,
        ZCL_BOOLEAN_ATTRIBUTE_TYPES_SIZE),
     (''LocalProgrammingFeatures'', ZCL_DL_LOCAL_PROGRAMMING_FEATURES_ATTRIBUTE_TYPES,
        ZCL_DL_LOCAL_PROGRAMMING_FEATURES_ATTRIBUTE_TYPES_SIZE),
     (''WrongCodeEntryLimit'', ZCL_INT8U_ATTRIBUTE_TYPES,
        ZCL_INT8U_ATTRIBUTE_TYPES_SIZE),
     (''UserCodeTemporaryDisableTime'', ZCL_INT8U_ATTRIBUTE_TYPES,
        ZCL_INT8U_ATTRIBUTE_TYPES_SIZE),
     (''SendPINOverTheAir'', ZCL_BOOLEAN_ATTRIBUTE_TYPES,
        ZCL_BOOLEAN_ATTRIBUTE_TYPES_SIZE),
     (''RequirePINforRemoteOperation'', ZCL_BOOLEAN_ATTRIBUTE_TYPES,
        ZCL_BOOLEAN_ATTRIBUTE_TYPES_SIZE),
     (''ExpiringUserTimeout'', ZCL_INT16U_ATTRIBUTE_TYPES,
        ZCL_INT16U_ATTRIBUTE_TYPES_SIZE),
     (''AliroReaderVerificationKey'', ZCL_OCTET_STRING_ATTRIBUTE_TYPES,
        ZCL_OCTET_STRING_ATTRIBUTE_TYPES_SIZE),
     (''AliroReaderGroupIdentifier'', ZCL_OCTET_STRING_ATTRIBUTE_TYPES,
        ZCL_OCTET_STRING_ATTRIBUTE_TYPES_SIZE),
     (''AliroReaderGroupSubIdentifier'', ZCL_OCTET_STRING_ATTRIBUTE_TYPES,
        ZCL_OCTET_STRING_ATTRIBUTE_TYPES_SIZE),
     (''AliroExpeditedTransactionSupportedProtocolVersions'', ZCL_OCTET_STRING_ATTRIBUTE_TYPES,
        ZCL_OCTET_STRING_ATTRIBUTE_TYPES_SIZE),
     (''AliroGroupResolvingKey'', ZCL_OCTET_STRING_ATTRIBUTE_TYPES,
        ZCL_OCTET_STRING_ATTRIBUTE_TYPES_SIZE),
     (''AliroSupportedBLEUWBProtocolVersions'', ZCL_OCTET_STRING_ATTRIBUTE_TYPES,
        ZCL_OCTET_STRING_ATTRIBUTE_TYPES_SIZE),
     (''AliroBLEAdvertisingVersion'', ZCL_INT8U_ATTRIBUTE_TYPES,
        ZCL_INT8U_ATTRIBUTE_TYPES_SIZE),
     (''NumberOfAliroCredentialIssuerKeysSupported'', ZCL_INT16U_ATTRIBUTE_TYPES,
        ZCL_INT16U_ATTRIBUTE_TYPES_SIZE),
     (''NumberOfAliroEndpointKeysSupported'', ZCL_INT16U_ATTRIBUTE_TYPES,
        ZCL_INT16U_ATTRIBUTE_TYPES_SIZE),
     (''GeneratedCommandList'', ZCL_COMMAND_ID_ATTRIBUTE_TYPES,
        ZCL_COMMAND_ID_ATTRIBUTE_TYPES_SIZE),
     (''AcceptedCommandList'', ZCL_COMMAND_ID_ATTRIBUTE_TYPES,
        ZCL_COMMAND_ID_ATTRIBUTE_TYPES_SIZE),
     (''EventList'', ZCL_EVENT_ID_ATTRIBUTE_TYPES,
        ZCL_EVENT_ID_ATTRIBUTE_TYPES_SIZE),
     (''AttributeList'', ZCL_ATTRIB_ID_ATTRIBUTE_TYPES,
        ZCL_ATTRIB_ID_ATTRIBUTE_TYPES_SIZE)]"

definition door_lock_sizes_2 :: "size_row list" where
  "door_lock_sizes_2 = [
     (''FeatureMap'', ZCL_BITMAP32_ATTRIBUTE_TYPES,
        ZCL_BITMAP32_ATTRIBUTE_TYPES_SIZE),
     (''ClusterRevision'', ZCL_INT16U_ATTRIBUTE_TYPES,
        ZCL_INT16U_ATTRIBUTE_TYPES_SIZE)]"

definition window_covering_sizes :: "size_row list" where
  "window_covering_sizes = [
     (''Type'', ZCL_TYPE_ATTRIBUTE_TYPES,
        ZCL_TYPE_ATTRIBUTE_TYPES_SIZE),
     (''PhysicalClosedLimitLift'', ZCL_INT16U_ATTRIBUTE_TYPES,
        ZCL_INT16U_ATTRIBUTE_TYPES_SIZE),
     (''PhysicalClosedLimitTilt'', ZCL_INT16U_ATTRIBUTE_TYPES,
        ZCL_INT16U_ATTRIBUTE_TYPES_SIZE),
     (''CurrentPositionLift'', ZCL_INT16U_ATTRIBUTE_TYPES,
        ZCL_INT16U_ATTRIBUTE_TYPES_SIZE),
     (''CurrentPositionTilt'', ZCL_INT16U_ATTRIBUTE_TYPES,
        ZCL_INT16U_ATTRIBUTE_TYPES_SIZE),
     (''NumberOfActuationsLift'', ZCL_INT16U_ATTRIBUTE_TYPES,
        ZCL_INT16U_ATTRIBUTE_TYPES_SIZE),
     (''NumberOfActuationsTilt'', ZCL_INT16U_ATTRIBUTE_TYPES,
        ZCL_INT16U_ATTRIBUTE_TYPES_SIZE),
     (''ConfigStatus'', ZCL_CONFIG_STATUS_ATTRIBUTE_TYPES,
        ZCL_CONFIG_STATUS_ATTRIBUTE_TYPES_SIZE),
     (''CurrentPositionLiftPercentage'', ZCL_PERCENT_ATTRIBUTE_TYPES,
        ZCL_PERCENT_ATTRIBUTE_TYPES_SIZE),
     (''CurrentPositionTiltPercentage'', ZCL_PERCENT_ATTRIBUTE_TYPES,
        ZCL_PERCENT_ATTRIBUTE_TYPES_SIZE),
     (''OperationalStatus'', ZCL_OPERATIONAL_STATUS_ATTRIBUTE_TYPES,
        ZCL_OPERATIONAL_STATUS_ATTRIBUTE_TYPES_SIZE),
     (''TargetPositionLiftPercent100ths'', ZCL_PERCENT100THS_ATTRIBUTE_TYPES,
        ZCL_PERCENT100THS_ATTRIBUTE_TYPES_SIZE),
     (''TargetPositionTiltPercent100ths'', ZCL_PERCENT100THS_ATTRIBUTE_TYPES,
        ZCL_PERCENT100THS_ATTRIBUTE_TYPES_SIZE),
     (''EndProductType'', ZCL_END_PRODUCT_TYPE_ATTRIBUTE_TYPES,
        ZCL_END_PRODUCT_TYPE_ATTRIBUTE_TYPES_SIZE),
     (''CurrentPositionLiftPercent100ths'', ZCL_PERCENT100THS_ATTRIBUTE_TYPES,
        ZCL_PERCENT100THS_ATTRIBUTE_TYPES_SIZE),
     (''CurrentPositionTiltPercent100ths'', ZCL_PERCENT100THS_ATTRIBUTE_TYPES,
        ZCL_PERCENT100THS_ATTRIBUTE_TYPES_SIZE),
     (''InstalledOpenLimitLift'', ZCL_INT16U_ATTRIBUTE_TYPES,
        ZCL_INT16U_ATTRIBUTE_TYPES_SIZE),
     (''InstalledClosedLimitLift'', ZCL_INT16U_ATTRIBUTE_TYPES,
        ZCL_INT16U_ATTRIBUTE_TYPES_SIZE),
     (''InstalledOpenLimitTilt'', ZCL_INT16U_ATTRIBUTE_TYPES,
        ZCL_INT16U_ATTRIBUTE_TYPES_SIZE),
     (''InstalledClosedLimitTilt'', ZCL_INT16U_ATTRIBUTE_TYPES,
        ZCL_INT16U_ATTRIBUTE_TYPES_SIZE),
     (''Mode'', ZCL_MODE_ATTRIBUTE_TYPES,
        ZCL_MODE_ATTRIBUTE_TYPES_SIZE),
     (''SafetyStatus'', ZCL_SAFETY_STATUS_ATTRIBUTE_TYPES,
        ZCL_SAFETY_STATUS_ATTRIBUTE_TYPES_SIZE),
     (''GeneratedCommandList'', ZCL_COMMAND_ID_ATTRIBUTE_TYPES,
        ZCL_COMMAND_ID_ATTRIBUTE_TYPES_SIZE),
     (''AcceptedCommandList'', ZCL_COMMAND_ID_ATTRIBUTE_TYPES,
        ZCL_COMMAND_ID_ATTRIBUTE_TYPES_SIZE),
     (''EventList'', ZCL_EVENT_ID_ATTRIBUTE_TYPES,
        ZCL_EVENT_ID_ATTRIBUTE_TYPES_SIZE),
     (''AttributeList'', ZCL_ATTRIB_ID_ATTRIBUTE_TYPES,
        ZCL_ATTRIB_ID_ATTRIBUTE_TYPES_SIZE),
     (''FeatureMap'', ZCL_BITMAP32_ATTRIBUTE_TYPES,
        ZCL_BITMAP32_ATTRIBUTE_TYPES_SIZE),
     (''ClusterRevision'', ZCL_INT16U_ATTRIBUTE_TYPES,
        ZCL_INT16U_ATTRIBUTE_TYPES_SIZE)]"

definition thermostat_sizes_1 :: "size_row list" where
  "thermostat_sizes_1 = [
     (''LocalTemperature'', ZCL_TEMPERATURE_ATTRIBUTE_TYPES,
        ZCL_TEMPERATURE_ATTRIBUTE_TYPES_SIZE),
     (''OutdoorTemperature'', ZCL_TEMPERATURE_ATTRIBUTE_TYPES,
        ZCL_TEMPERATURE_ATTRIBUTE_TYPES_SIZE),
     (''Occupancy'', ZCL_THERMOSTAT_OCCUPANCY_BITMAP_ATTRIBUTE_TYPES,
        ZCL_THERMOSTAT_OCCUPANCY_BITMAP_ATTRIBUTE_TYPES_SIZE),
     (''AbsMinHeatSetpointLimit'', ZCL_TEMPERATURE_ATTRIBUTE_TYPES,
        ZCL_TEMPERATURE_ATTRIBUTE_TYPES_SIZE),
     (''AbsMaxHeatSetpointLimit'', ZCL_TEMPERATURE_ATTRIBUTE_TYPES,
        ZCL_TEMPERATURE_ATTRIBUTE_TYPES_SIZE),
     (''AbsMinCoolSetpointLimit'', ZCL_TEMPERATURE_ATTRIBUTE_TYPES,
        ZCL_TEMPERATURE_ATTRIBUTE_TYPES_SIZE),
     (''AbsMaxCoolSetpointLimit'', ZCL_TEMPERATURE_ATTRIBUTE_TYPES,
        ZCL_TEMPERATURE_ATTRIBUTE_TYPES_SIZE),
     (''PICoolingDemand'', ZCL_INT8U_ATTRIBUTE_TYPES,
        ZCL_INT8U_ATTRIBUTE_TYPES_SIZE),
     (''PIHeatingDemand'', ZCL_INT8U_ATTRIBUTE_TYPES,
        ZCL_INT8U_ATTRIBUTE_TYPES_SIZE),
     (''HVACSystemTypeConfiguration'', ZCL_HVAC_SYSTEM_TYPE_BITMAP_ATTRIBUTE_TYPES,
        ZCL_HVAC_SYSTEM_TYPE_BITMAP_ATTRIBUTE_TYPES_SIZE),
     (''LocalTemperatureCalibration'', ZCL_INT8S_ATTRIBUTE_TYPES,
        ZCL_INT8S_ATTRIBUTE_TYPES_SIZE),
     (''OccupiedCoolingSetpoint'', ZCL_TEMPERATURE_ATTRIBUTE_TYPES,
        ZCL_TEMPERATURE_ATTRIBUTE_TYPES_SIZE),
     (''OccupiedHeatingSetpoint'', ZCL_TEMPERATURE_ATTRIBUTE_TYPES,
        ZCL_TEMPERATURE_ATTRIBUTE_TYPES_SIZE),
     (''UnoccupiedCoolingSetpoint'', ZCL_TEMPERATURE_ATTRIBUTE_TYPES,
        ZCL_TEMPERATURE_ATTRIBUTE_TYPES_SIZE),
     (''UnoccupiedHeatingSetpoint'', ZCL_TEMPERATURE_ATTRIBUTE_TYPES,
        ZCL_TEMPERATURE_ATTRIBUTE_TYPES_SIZE),
     (''MinHeatSetpointLimit'', ZCL_TEMPERATURE_ATTRIBUTE_TYPES,
        ZCL_TEMPERATURE_ATTRIBUTE_TYPES_SIZE),
     (''MaxHeatSetpointLimit'', ZCL_TEMPERATURE_ATTRIBUTE_TYPES,
        ZCL_TEMPERATURE_ATTRIBUTE_TYPES_SIZE),
     (''MinCoolSetpointLimit'', ZCL_TEMPERATURE_ATTRIBUTE_TYPES,
        ZCL_TEMPERATURE_ATTRIBUTE_TYPES_SIZE),
     (''MaxCoolSetpointLimit'', ZCL_TEMPERATURE_ATTRIBUTE_TYPES,
        ZCL_TEMPERATURE_ATTRIBUTE_TYPES_SIZE),
     (''MinSetpointDeadBand'', ZCL_INT8S_ATTRIBUTE_TYPES,
        ZCL_INT8S_ATTRIBUTE_TYPES_SIZE),
     (''RemoteSensing'', ZCL_REMOTE_SENSING_BITMAP_ATTRIBUTE_TYPES,
        ZCL_REMOTE_SENSING_BITMAP_ATTRIBUTE_TYPES_SIZE),
     (''ControlSequenceOfOperation'', ZCL_CONTROL_SEQUENCE_OF_OPERATION_ENUM_ATTRIBUTE_TYPES,
        ZCL_CONTROL_SEQUENCE_OF_OPERATION_ENUM_ATTRIBUTE_TYPES_SIZE),
     (''SystemMode'', ZCL_SYSTEM_MODE_ENUM_ATTRIBUTE_TYPES,
        ZCL_SYSTEM_MODE_ENUM_ATTRIBUTE_TYPES_SIZE),
     (''ThermostatRunningMode'', ZCL_THERMOSTAT_RUNNING_MODE_ENUM_ATTRIBUTE_TYPES,
        ZCL_THERMOSTAT_RUNNING_MODE_ENUM_ATTRIBUTE_TYPES_SIZE),
     (''StartOfWeek'', ZCL_START_OF_WEEK_ENUM_ATTRIBUTE_TYPES,
        ZCL_START_OF_WEEK_ENUM_ATTRIBUTE_TYPES_SIZE),
     (''NumberOfWeeklyTransitions'', ZCL_INT8U_ATTRIBUTE_TYPES,
        ZCL_INT8U_ATTRIBUTE_TYPES_SIZE),
     (''NumberOfDailyTransitions'', ZCL_INT8U_ATTRIBUTE_TYPES,
        ZCL_INT8U_ATTRIBUTE_TYPES_SIZE),
     (''TemperatureSetpointHold'', ZCL_TEMPERATURE_SETPOINT_HOLD_ENUM_ATTRIBUTE_TYPES,
        ZCL_TEMPERATURE_SETPOINT_HOLD_ENUM_ATTRIBUTE_TYPES_SIZE),
     (''TemperatureSetpointHoldDuration'', ZCL_INT16U_ATTRIBUTE_TYPES,
        ZCL_INT16U_ATTRIBUTE_TYPES_SIZE),
     (''ThermostatProgrammingOperationMode'', ZCL_PROGRAMMING_OPERATION_MODE_BITMAP_ATTRIBUTE_TYPES,
        ZCL_PROGRAMMING_OPERATION_MODE_BITMAP_ATTRIBUTE_TYPES_SIZE),
     (''ThermostatRunningState'', ZCL_RELAY_STATE_BITMAP_ATTRIBUTE_TYPES,
        ZCL_RELAY_STATE_BITMAP_ATTRIBUTE_TYPES_SIZE),
     (''SetpointChangeSource'', ZCL_SETPOINT_CHANGE_SOURCE_ENUM_ATTRIBUTE_TYPES,
        ZCL_SETPOINT_CHANGE_SOURCE_ENUM_ATTRIBUTE_TYPES_SIZE),
     (''SetpointChangeAmount'', ZCL_INT16S_ATTRIBUTE_TYPES,
        ZCL_INT16S_ATTRIBUTE_TYPES_SIZE),
     (''SetpointChangeSourceTimestamp'', ZCL_EPOCH_S_ATTRIBUTE_TYPES,
        ZCL_EPOCH_S_ATTRIBUTE_TYPES_SIZE),
     (''OccupiedSetback'', ZCL_INT8U_ATTRIBUTE_TYPES,
        ZCL_INT8U_ATTRIBUTE_TYPES_SIZE),
     (''OccupiedSetbackMin'', ZCL_INT8U_ATTRIBUTE_TYPES,
        ZCL_INT8U_ATTRIBUTE_TYPES_SIZE),
     (''OccupiedSetbackMax'', ZCL_INT8U_ATTRIBUTE_TYPES,
        ZCL_INT8U_ATTRIBUTE_TYPES_SIZE),
     (''UnoccupiedSetback'', ZCL_INT8U_ATTRIBUTE_TYPES,
        ZCL_INT8U_ATTRIBUTE_TYPES_SIZE),
     (''UnoccupiedSetbackMin'', ZCL_INT8U_ATTRIBUTE_TYPES,
        ZCL_INT8U_ATTRIBUTE_TYPES_SIZE),
     (''UnoccupiedSetbackMax'', ZCL_INT8U_ATTRIBUTE_TYPES,
        ZCL_INT8U_ATTRIBUTE_TYPES_SIZE),
     (''EmergencyHeatDelta'', ZCL_INT8U_ATTRIBUTE_TYPES,
        ZCL_INT8U_ATTRIBUTE_TYPES_SIZE),
     (''ACType'', ZCL_AC_TYPE_ENUM_ATTRIBUTE_TYPES,
        ZCL_AC_TYPE_ENUM_ATTRIBUTE_TYPES_SIZE),
     (''ACCapacity'', ZCL_INT16U_ATTRIBUTE_TYPES,
        ZCL_INT16U_ATTRIBUTE_TYPES_SIZE),
     (''ACRefrigerantType'', ZCL_AC_REFRIGERANT_TYPE_ENUM_ATTRIBUTE_TYPES,
        ZCL_AC_REFRIGERANT_TYPE_ENUM_ATTRIBUTE_TYPES_SIZE),
     (''ACCompressorType'', ZCL_AC_COMPRESSOR_TYPE_ENUM_ATTRIBUTE_TYPES,
        ZCL_AC_COMPRESSOR_TYPE_ENUM_ATTRIBUTE_TYPES_SIZE),
     (''ACErrorCode'', ZCL_AC_ERROR_CODE_BITMAP_ATTRIBUTE_TYPES,
        ZCL_AC_ERROR_CODE_BITMAP_ATTRIBUTE_TYPES_SIZE),
     (''ACLouverPosition'', ZCL_AC_LOUVER_POSITION_ENUM_ATTRIBUTE_TYPES,
        ZCL_AC_LOUVER_POSITION_ENUM_ATTRIBUTE_TYPES_SIZE),
     (''ACCoilTemperature'', ZCL_TEMPERATURE_ATTRIBUTE_TYPES,
        ZCL_TEMPERATURE_ATTRIBUTE_TYPES_SIZE)]"

definition thermostat_sizes_2 :: "size_row list" where
  "thermostat_sizes_2 = [
     (''ACCapacityformat'', ZCL_AC_CAPACITY_FORMAT_ENUM_ATTRIBUTE_TYPES,
        ZCL_AC_CAPACITY_FORMAT_ENUM_ATTRIBUTE_TYPES_SIZE),
     (''PresetTypes'', ZCL_PRESET_TYPE_STRUCT_ATTRIBUTE_TYPES,
        ZCL_PRESET_TYPE_STRUCT_ATTRIBUTE_TYPES_SIZE),
     (''ScheduleTypes'', ZCL_SCHEDULE_TYPE_STRUCT_ATTRIBUTE_TYPES,
        ZCL_SCHEDULE_TYPE_STRUCT_ATTRIBUTE_TYPES_SIZE),
     (''NumberOfPresets'', ZCL_INT8U_ATTRIBUTE_TYPES,
        ZCL_INT8U_ATTRIBUTE_TYPES_SIZE),
     (''NumberOfSchedules'', ZCL_INT8U_ATTRIBUTE_TYPES,
        ZCL_INT8U_ATTRIBUTE_TYPES_SIZE),
     (''NumberOfScheduleTransitions'', ZCL_INT8U_ATTRIBUTE_TYPES,
        ZCL_INT8U_ATTRIBUTE_TYPES_SIZE),
     (''NumberOfScheduleTransitionPerDay'', ZCL_INT8U_ATTRIBUTE_TYPES,
        ZCL_INT8U_ATTRIBUTE_TYPES_SIZE),
     (''ActivePresetHandle'', ZCL_OCTET_STRING_ATTRIBUTE_TYPES,
        ZCL_OCTET_STRING_ATTRIBUTE_TYPES_SIZE),
     (''ActiveScheduleHandle'', ZCL_OCTET_STRING_ATTRIBUTE_TYPES,
        ZCL_OCTET_STRING_ATTRIBUTE_TYPES_SIZE),
     (''Presets'', ZCL_PRESET_STRUCT_ATTRIBUTE_TYPES,
        ZCL_PRESET_STRUCT_ATTRIBUTE_TYPES_SIZE),
     (''Schedules'', ZCL_SCHEDULE_STRUCT_ATTRIBUTE_TYPES,
        ZCL_SCHEDULE_STRUCT_ATTRIBUTE_TYPES_SIZE),
     (''SetpointHoldExpiryTimestamp'', ZCL_EPOCH_S_ATTRIBUTE_TYPES,
        ZCL_EPOCH_S_ATTRIBUTE_TYPES_SIZE),
     (''GeneratedCommandList'', ZCL_COMMAND_ID_ATTRIBUTE_TYPES,
        ZCL_COMMAND_ID_ATTRIBUTE_TYPES_SIZE),
     (''AcceptedCommandList'', ZCL_COMMAND_ID_ATTRIBUTE_TYPES,
        ZCL_COMMAND_ID_ATTRIBUTE_TYPES_SIZE),
     (''EventList'', ZCL_EVENT_ID_ATTRIBUTE_TYPES,
        ZCL_EVENT_ID_ATTRIBUTE_TYPES_SIZE),
     (''AttributeList'', ZCL_ATTRIB_ID_ATTRIBUTE_TYPES,
        ZCL_ATTRIB_ID_ATTRIBUTE_TYPES_SIZE),
     (''FeatureMap'', ZCL_BITMAP32_ATTRIBUTE_TYPES,
        ZCL_BITMAP32_ATTRIBUTE_TYPES_SIZE),
     (''ClusterRevision'', ZCL_INT16U_ATTRIBUTE_TYPES,
        ZCL_INT16U_ATTRIBUTE_TYPES_SIZE)]"

definition color_control_sizes_1 :: "size_row list" where
  "color_control_sizes_1 = [
     (''CurrentHue'', ZCL_INT8U_ATTRIBUTE_TYPES,
        ZCL_INT8U_ATTRIBUTE_TYPES_SIZE),
     (''CurrentSaturation'', ZCL_INT8U_ATTRIBUTE_TYPES,
        ZCL_INT8U_ATTRIBUTE_TYPES_SIZE),
     (''RemainingTime'', ZCL_INT16U_ATTRIBUTE_TYPES,
        ZCL_INT16U_ATTRIBUTE_TYPES_SIZE),
     (''CurrentX'', ZCL_INT16U_ATTRIBUTE_TYPES,
        ZCL_INT16U_ATTRIBUTE_TYPES_SIZE),
     (''CurrentY'', ZCL_INT16U_ATTRIBUTE_TYPES,
        ZCL_INT16U_ATTRIBUTE_TYPES_SIZE),
     (''DriftCompensation'', ZCL_DRIFT_COMPENSATION_ENUM_ATTRIBUTE_TYPES,
        ZCL_DRIFT_COMPENSATION_ENUM_ATTRIBUTE_TYPES_SIZE),
     (''CompensationText'', ZCL_CHAR_STRING_ATTRIBUTE_TYPES,
        ZCL_CHAR_STRING_ATTRIBUTE_TYPES_SIZE),
     (''ColorTemperatureMireds'', ZCL_INT16U_ATTRIBUTE_TYPES,
        ZCL_INT16U_ATTRIBUTE_TYPES_SIZE),
     (''ColorMode'', ZCL_COLOR_MODE_ENUM_ATTRIBUTE_TYPES,
        ZCL_COLOR_MODE_ENUM_ATTRIBUTE_TYPES_SIZE),
     (''Options'', ZCL_COLOR_CONTROL_OPTIONS_BITMAP_ATTRIBUTE_TYPES,
        ZCL_COLOR_CONTROL_OPTIONS_BITMAP_ATTRIBUTE_TYPES_SIZE),
     (''NumberOfPrimaries'', ZCL_INT8U_ATTRIBUTE_TYPES,
        ZCL_INT8U_ATTRIBUTE_TYPES_SIZE),
     (''Primary1X'', ZCL_INT16U_ATTRIBUTE_TYPES,
        ZCL_INT16U_ATTRIBUTE_TYPES_SIZE),
     (''Primary1Y'', ZCL_INT16U_ATTRIBUTE_TYPES,
        ZCL_INT16U_ATTRIBUTE_TYPES_SIZE),
     (''Primary1Intensity'', ZCL_INT8U_ATTRIBUTE_TYPES,
        ZCL_INT8U_ATTRIBUTE_TYPES_SIZE),
     (''Primary2X'', ZCL_INT16U_ATTRIBUTE_TYPES,
        ZCL_INT16U_ATTRIBUTE_TYPES_SIZE),
     (''Primary2Y'', ZCL_INT16U_ATTRIBUTE_TYPES,
        ZCL_INT16U_ATTRIBUTE_TYPES_SIZE),
     (''Primary2Intensity'', ZCL_INT8U_ATTRIBUTE_TYPES,
        ZCL_INT8U_ATTRIBUTE_TYPES_SIZE),
     (''Primary3X'', ZCL_INT16U_ATTRIBUTE_TYPES,
        ZCL_INT16U_ATTRIBUTE_TYPES_SIZE),
     (''Primary3Y'', ZCL_INT16U_ATTRIBUTE_TYPES,
        ZCL_INT16U_ATTRIBUTE_TYPES_SIZE),
     (''Primary3Intensity'', ZCL_INT8U_ATTRIBUTE_TYPES,
        ZCL_INT8U_ATTRIBUTE_TYPES_SIZE),
     (''Primary4X'', ZCL_INT16U_ATTRIBUTE_TYPES,
        ZCL_INT16U_ATTRIBUTE_TYPES_SIZE),
     (''Primary4Y'', ZCL_INT16U_ATTRIBUTE_TYPES,
        ZCL_INT16U_ATTRIBUTE_TYPES_SIZE),
     (''Primary4Intensity'', ZCL_INT8U_ATTRIBUTE_TYPES,
        ZCL_INT8U_ATTRIBUTE_TYPES_SIZE),
     (''Primary5X'', ZCL_INT16U_ATTRIBUTE_TYPES,
        ZCL_INT16U_ATTRIBUTE_TYPES_SIZE),
     (''Primary5Y'', ZCL_INT16U_ATTRIBUTE_TYPES,
        ZCL_INT16U_ATTRIBUTE_TYPES_SIZE),
     (''Primary5Intensity'', ZCL_INT8U_ATTRIBUTE_TYPES,
        ZCL_INT8U_ATTRIBUTE_TYPES_SIZE),
     (''Primary6X'', ZCL_INT16U_ATTRIBUTE_TYPES,
        ZCL_INT16U_ATTRIBUTE_TYPES_SIZE),
     (''Primary6Y'', ZCL_INT16U_ATTRIBUTE_TYPES,
        ZCL_INT16U_ATTRIBUTE_TYPES_SIZE),
     (''Primary6Intensity'', ZCL_INT8U_ATTRIBUTE_TYPES,
        ZCL_INT8U_ATTRIBUTE_TYPES_SIZE),
     (''WhitePointX'', ZCL_INT16U_ATTRIBUTE_TYPES,
        ZCL_INT16U_ATTRIBUTE_TYPES_SIZE),
     (''WhitePointY'', ZCL_INT16U_ATTRIBUTE_TYPES,
        ZCL_INT16U_ATTRIBUTE_TYPES_SIZE),
     (''ColorPointRX'', ZCL_INT16U_ATTRIBUTE_TYPES,
        ZCL_INT16U_ATTRIBUTE_TYPES_SIZE),
     (''ColorPointRY'', ZCL_INT16U_ATTRIBUTE_TYPES,
        ZCL_INT16U_ATTRIBUTE_TYPES_SIZE),
     (''ColorPointRIntensity'', ZCL_INT8U_ATTRIBUTE_TYPES,
        ZCL_INT8U_ATTRIBUTE_TYPES_SIZE),
     (''ColorPointGX'', ZCL_INT16U_ATTRIBUTE_TYPES,
        ZCL_INT16U_ATTRIBUTE_TYPES_SIZE),
     (''ColorPointGY'', ZCL_INT16U_ATTRIBUTE_TYPES,
        ZCL_INT16U_ATTRIBUTE_TYPES_SIZE),
     (''ColorPointGIntensity'', ZCL_INT8U_ATTRIBUTE_TYPES,
        ZCL_INT8U_ATTRIBUTE_TYPES_SIZE),
     (''ColorPointBX'', ZCL_INT16U_ATTRIBUTE_TYPES,
        ZCL_INT16U_ATTRIBUTE_TYPES_SIZE),
     (''ColorPointBY'', ZCL_INT16U_ATTRIBUTE_TYPES,
        ZCL_INT16U_ATTRIBUTE_TYPES_SIZE),
     (''ColorPointBIntensity'', ZCL_INT8U_ATTRIBUTE_TYPES,
        ZCL_INT8U_ATTRIBUTE_TYPES_SIZE),
     (''EnhancedCurrentHue'', ZCL_INT16U_ATTRIBUTE_TYPES,
        ZCL_INT16U_ATTRIBUTE_TYPES_SIZE),
     (''EnhancedColorMode'', ZCL_ENHANCED_COLOR_MODE_ENUM_ATTRIBUTE_TYPES,
        ZCL_ENHANCED_COLOR_MODE_ENUM_ATTRIBUTE_TYPES_SIZE),
     (''ColorLoopActive'', ZCL_INT8U_ATTRIBUTE_TYPES,
        ZCL_INT8U_ATTRIBUTE_TYPES_SIZE),
     (''ColorLoopDirection'', ZCL_INT8U_ATTRIBUTE_TYPES,
        ZCL_INT8U_ATTRIBUTE_TYPES_SIZE),
     (''ColorLoopTime'', ZCL_INT16U_ATTRIBUTE_TYPES,
        ZCL_INT16U_ATTRIBUTE_TYPES_SIZE),
     (''ColorLoopStartEnhancedHue'', ZCL_INT16U_ATTRIBUTE_TYPES,
        ZCL_INT16U_ATTRIBUTE_TYPES_SIZE),
     (''ColorLoopStoredEnhancedHue'', ZCL_INT16U_ATTRIBUTE_TYPES,
        ZCL_INT16U_ATTRIBUTE_TYPES_SIZE),
     (''ColorCapabilities'', ZCL_COLOR_CAPABILITIES_BITMAP_ATTRIBUTE_TYPES,
        ZCL_COLOR_CAPABILITIES_BITMAP_ATTRIBUTE_TYPES_SIZE),
     (''ColorTempPhysicalMinMireds'', ZCL_INT16U_ATTRIBUTE_TYPES,
        ZCL_INT16U_ATTRIBUTE_TYPES_SIZE)]"

definition color_control_sizes_2 :: "size_row list" where
  "color_control_sizes_2 = [
     (''ColorTempPhysicalMaxMireds'', ZCL_INT16U_ATTRIBUTE_TYPES,
        ZCL_INT16U_ATTRIBUTE_TYPES_SIZE),
     (''CoupleColorTempToLevelMinMireds'', ZCL_INT16U_ATTRIBUTE_TYPES,
        ZCL_INT16U_ATTRIBUTE_TYPES_SIZE),
     (''StartUpColorTemperatureMireds'', ZCL_INT16U_ATTRIBUTE_TYPES,
        ZCL_INT16U_ATTRIBUTE_TYPES_SIZE),
     (''GeneratedCommandList'', ZCL_COMMAND_ID_ATTRIBUTE_TYPES,
        ZCL_COMMAND_ID_ATTRIBUTE_TYPES_SIZE),
     (''AcceptedCommandList'', ZCL_COMMAND_ID_ATTRIBUTE_TYPES,
        ZCL_COMMAND_ID_ATTRIBUTE_TYPES_SIZE),
     (''EventList'', ZCL_EVENT_ID_ATTRIBUTE_TYPES,
        ZCL_EVENT_ID_ATTRIBUTE_TYPES_SIZE),
     (''AttributeList'', ZCL_ATTRIB_ID_ATTRIBUTE_TYPES,
        ZCL_ATTRIB_ID_ATTRIBUTE_TYPES_SIZE),
     (''FeatureMap'', ZCL_BITMAP32_ATTRIBUTE_TYPES,
        ZCL_BITMAP32_ATTRIBUTE_TYPES_SIZE),
     (''ClusterRevision'', ZCL_INT16U_ATTRIBUTE_TYPES,
        ZCL_INT16U_ATTRIBUTE_TYPES_SIZE)]"

definition illuminance_measurement_sizes :: "size_row list" where
  "illuminance_measurement_sizes = [
     (''MeasuredValue'', ZCL_INT16U_ATTRIBUTE_TYPES,
        ZCL_INT16U_ATTRIBUTE_TYPES_SIZE),
     (''MinMeasuredValue'', ZCL_INT16U_ATTRIBUTE_TYPES,
        ZCL_INT16U_ATTRIBUTE_TYPES_SIZE),
     (''MaxMeasuredValue'', ZCL_INT16U_ATTRIBUTE_TYPES,
        ZCL_INT16U_ATTRIBUTE_TYPES_SIZE),
     (''Tolerance'', ZCL_INT16U_ATTRIBUTE_TYPES,
        ZCL_INT16U_ATTRIBUTE_TYPES_SIZE),
     (''LightSensorType'', ZCL_LIGHT_SENSOR_TYPE_ENUM_ATTRIBUTE_TYPES,
        ZCL_LIGHT_SENSOR_TYPE_ENUM_ATTRIBUTE_TYPES_SIZE),
     (''GeneratedCommandList'', ZCL_COMMAND_ID_ATTRIBUTE_TYPES,
        ZCL_COMMAND_ID_ATTRIBUTE_TYPES_SIZE),
     (''AcceptedCommandList'', ZCL_COMMAND_ID_ATTRIBUTE_TYPES,
        ZCL_COMMAND_ID_ATTRIBUTE_TYPES_SIZE),
     (''EventList'', ZCL_EVENT_ID_ATTRIBUTE_TYPES,
        ZCL_EVENT_ID_ATTRIBUTE_TYPES_SIZE),
     (''AttributeList'', ZCL_ATTRIB_ID_ATTRIBUTE_TYPES,
        ZCL_ATTRIB_ID_ATTRIBUTE_TYPES_SIZE),
     (''FeatureMap'', ZCL_BITMAP32_ATTRIBUTE_TYPES,
        ZCL_BITMAP32_ATTRIBUTE_TYPES_SIZE),
     (''ClusterRevision'', ZCL_INT16U_ATTRIBUTE_TYPES,
        ZCL_INT16U_ATTRIBUTE_TYPES_SIZE)]"

definition temperature_measurement_sizes :: "size_row list" where
  "temperature_measurement_sizes = [
     (''MeasuredValue'', ZCL_TEMPERATURE_ATTRIBUTE_TYPES,
        ZCL_TEMPERATURE_ATTRIBUTE_TYPES_SIZE),
     (''MinMeasuredValue'', ZCL_TEMPERATURE_ATTRIBUTE_TYPES,
        ZCL_TEMPERATURE_ATTRIBUTE_TYPES_SIZE),
     (''MaxMeasuredValue'', ZCL_TEMPERATURE_ATTRIBUTE_TYPES,
        ZCL_TEMPERATURE_ATTRIBUTE_TYPES_SIZE),
     (''Tolerance'', ZCL_INT16U_ATTRIBUTE_TYPES,
        ZCL_INT16U_ATTRIBUTE_TYPES_SIZE),
     (''GeneratedCommandList'', ZCL_COMMAND_ID_ATTRIBUTE_TYPES,
        ZCL_COMMAND_ID_ATTRIBUTE_TYPES_SIZE),
     (''AcceptedCommandList'', ZCL_COMMAND_ID_ATTRIBUTE_TYPES,
        ZCL_COMMAND_ID_ATTRIBUTE_TYPES_SIZE),
     (''EventList'', ZCL_EVENT_ID_ATTRIBUTE_TYPES,
        ZCL_EVENT_ID_ATTRIBUTE_TYPES_SIZE),
     (''AttributeList'', ZCL_ATTRIB_ID_ATTRIBUTE_TYPES,
        ZCL_ATTRIB_ID_ATTRIBUTE_TYPES_SIZE),
     (''FeatureMap'', ZCL_BITMAP32_ATTRIBUTE_TYPES,
        ZCL_BITMAP32_ATTRIBUTE_TYPES_SIZE),
     (''ClusterRevision'', ZCL_INT16U_ATTRIBUTE_TYPES,
        ZCL_INT16U_ATTRIBUTE_TYPES_SIZE)]"

definition pressure_measurement_sizes :: "size_row list" where
  "pressure_measurement_sizes = [
     (''MeasuredValue'', ZCL_INT16S_ATTRIBUTE_TYPES,
        ZCL_INT16S_ATTRIBUTE_TYPES_SIZE),
     (''MinMeasuredValue'', ZCL_INT16S_ATTRIBUTE_TYPES,
        ZCL_INT16S_ATTRIBUTE_TYPES_SIZE),
     (''MaxMeasuredValue'', ZCL_INT16S_ATTRIBUTE_TYPES,
        ZCL_INT16S_ATTRIBUTE_TYPES_SIZE),
     (''Tolerance'', ZCL_INT16U_ATTRIBUTE_TYPES,
        ZCL_INT16U_ATTRIBUTE_TYPES_SIZE),
     (''ScaledValue'', ZCL_INT16S_ATTRIBUTE_TYPES,
        ZCL_INT16S_ATTRIBUTE_TYPES_SIZE),
     (''MinScaledValue'', ZCL_INT16S_ATTRIBUTE_TYPES,
        ZCL_INT16S_ATTRIBUTE_TYPES_SIZE),
     (''MaxScaledValue'', ZCL_INT16S_ATTRIBUTE_TYPES,
        ZCL_INT16S_ATTRIBUTE_TYPES_SIZE),
     (''ScaledTolerance'', ZCL_INT16U_ATTRIBUTE_TYPES,
        ZCL_INT16U_ATTRIBUTE_TYPES_SIZE),
     (''Scale'', ZCL_INT8S_ATTRIBUTE_TYPES,
        ZCL_INT8S_ATTRIBUTE_TYPES_SIZE),
     (''GeneratedCommandList'', ZCL_COMMAND_ID_ATTRIBUTE_TYPES,
        ZCL_COMMAND_ID_ATTRIBUTE_TYPES_SIZE),
     (''AcceptedCommandList'', ZCL_COMMAND_ID_ATTRIBUTE_TYPES,
        ZCL_COMMAND_ID_ATTRIBUTE_TYPES_SIZE),
     (''EventList'', ZCL_EVENT_ID_ATTRIBUTE_TYPES,
        ZCL_EVENT_ID_ATTRIBUTE_TYPES_SIZE),
     (''AttributeList'', ZCL_ATTRIB_ID_ATTRIBUTE_TYPES,
        ZCL_ATTRIB_ID_ATTRIBUTE_TYPES_SIZE),
     (''FeatureMap'', ZCL_BITMAP32_ATTRIBUTE_TYPES,
        ZCL_BITMAP32_ATTRIBUTE_TYPES_SIZE),
     (''ClusterRevision'', ZCL_INT16U_ATTRIBUTE_TYPES,
        ZCL_INT16U_ATTRIBUTE_TYPES_SIZE)]"

definition flow_measurement_sizes :: "size_row list" where
  "flow_measurement_sizes = [
     (''MeasuredValue'', ZCL_INT16U_ATTRIBUTE_TYPES,
        ZCL_INT16U_ATTRIBUTE_TYPES_SIZE),
     (''MinMeasuredValue'', ZCL_INT16U_ATTRIBUTE_TYPES,
        ZCL_INT16U_ATTRIBUTE_TYPES_SIZE),
     (''MaxMeasuredValue'', ZCL_INT16U_ATTRIBUTE_TYPES,
        ZCL_INT16U_ATTRIBUTE_TYPES_SIZE),
     (''Tolerance'', ZCL_INT16U_ATTRIBUTE_TYPES,
        ZCL_INT16U_ATTRIBUTE_TYPES_SIZE),
     (''GeneratedCommandList'', ZCL_COMMAND_ID_ATTRIBUTE_TYPES,
        ZCL_COMMAND_ID_ATTRIBUTE_TYPES_SIZE),
     (''AcceptedCommandList'', ZCL_COMMAND_ID_ATTRIBUTE_TYPES,
        ZCL_COMMAND_ID_ATTRIBUTE_TYPES_SIZE),
     (''EventList'', ZCL_EVENT_ID_ATTRIBUTE_TYPES,
        ZCL_EVENT_ID_ATTRIBUTE_TYPES_SIZE),
     (''AttributeList'', ZCL_ATTRIB_ID_ATTRIBUTE_TYPES,
        ZCL_ATTRIB_ID_ATTRIBUTE_TYPES_SIZE),
     (''FeatureMap'', ZCL_BITMAP32_ATTRIBUTE_TYPES,
        ZCL_BITMAP32_ATTRIBUTE_TYPES_SIZE),
     (''ClusterRevision'', ZCL_INT16U_ATTRIBUTE_TYPES,
        ZCL_INT16U_ATTRIBUTE_TYPES_SIZE)]"

definition relative_humidity_measurement_sizes :: "size_row list" where
  "relative_humidity_measurement_sizes = [
     (''MeasuredValue'', ZCL_INT16U_ATTRIBUTE_TYPES,
        ZCL_INT16U_ATTRIBUTE_TYPES_SIZE),
     (''MinMeasuredValue'', ZCL_INT16U_ATTRIBUTE_TYPES,
        ZCL_INT16U_ATTRIBUTE_TYPES_SIZE),
     (''MaxMeasuredValue'', ZCL_INT16U_ATTRIBUTE_TYPES,
        ZCL_INT16U_ATTRIBUTE_TYPES_SIZE),
     (''Tolerance'', ZCL_INT16U_ATTRIBUTE_TYPES,
        ZCL_INT16U_ATTRIBUTE_TYPES_SIZE),
     (''GeneratedCommandList'', ZCL_COMMAND_ID_ATTRIBUTE_TYPES,
        ZCL_COMMAND_ID_ATTRIBUTE_TYPES_SIZE),
     (''AcceptedCommandList'', ZCL_COMMAND_ID_ATTRIBUTE_TYPES,
        ZCL_COMMAND_ID_ATTRIBUTE_TYPES_SIZE),
     (''EventList'', ZCL_EVENT_ID_ATTRIBUTE_TYPES,
        ZCL_EVENT_ID_ATTRIBUTE_TYPES_SIZE),
     (''AttributeList'', ZCL_ATTRIB_ID_ATTRIBUTE_TYPES,
        ZCL_ATTRIB_ID_ATTRIBUTE_TYPES_SIZE),
     (''FeatureMap'', ZCL_BITMAP32_ATTRIBUTE_TYPES,
        ZCL_BITMAP32_ATTRIBUTE_TYPES_SIZE),
     (''ClusterRevision'', ZCL_INT16U_ATTRIBUTE_TYPES,
        ZCL_INT16U_ATTRIBUTE_TYPES_SIZE)]"

definition occupancy_sensing_sizes :: "size_row list" where
  "occupancy_sensing_sizes = [
     (''Occupancy'', ZCL_OCCUPANCY_SENSING_OCCUPANCY_BITMAP_ATTRIBUTE_TYPES,
        ZCL_OCCUPANCY_SENSING_OCCUPANCY_BITMAP_ATTRIBUTE_TYPES_SIZE),
     (''OccupancySensorType'', ZCL_OCCUPANCY_SENSOR_TYPE_ENUM_ATTRIBUTE_TYPES,
        ZCL_OCCUPANCY_SENSOR_TYPE_ENUM_ATTRIBUTE_TYPES_SIZE),
     (''OccupancySensorTypeBitmap'', ZCL_OCCUPANCY_SENSOR_TYPE_BITMAP_ATTRIBUTE_TYPES,
        ZCL_OCCUPANCY_SENSOR_TYPE_BITMAP_ATTRIBUTE_TYPES_SIZE),
     (''HoldTime'', ZCL_INT16U_ATTRIBUTE_TYPES,
        ZCL_INT16U_ATTRIBUTE_TYPES_SIZE),
     (''HoldTimeLimits'', ZCL_HOLD_TIME_LIMITS_STRUCT_ATTRIBUTE_TYPES,
        ZCL_HOLD_TIME_LIMITS_STRUCT_ATTRIBUTE_TYPES_SIZE),
     (''PIROccupiedToUnoccupiedDelay'', ZCL_INT16U_ATTRIBUTE_TYPES,
        ZCL_INT16U_ATTRIBUTE_TYPES_SIZE),
     (''PIRUnoccupiedToOccupiedDelay'', ZCL_INT16U_ATTRIBUTE_TYPES,
        ZCL_INT16U_ATTRIBUTE_TYPES_SIZE),
     (''PIRUnoccupiedToOccupiedThreshold'', ZCL_INT8U_ATTRIBUTE_TYPES,
        ZCL_INT8U_ATTRIBUTE_TYPES_SIZE),
     (''UltrasonicOccupiedToUnoccupiedDelay'', ZCL_INT16U_ATTRIBUTE_TYPES,
        ZCL_INT16U_ATTRIBUTE_TYPES_SIZE),
     (''UltrasonicUnoccupiedToOccupiedDelay'', ZCL_INT16U_ATTRIBUTE_TYPES,
        ZCL_INT16U_ATTRIBUTE_TYPES_SIZE),
     (''UltrasonicUnoccupiedToOccupiedThreshold'', ZCL_INT8U_ATTRIBUTE_TYPES,
        ZCL_INT8U_ATTRIBUTE_TYPES_SIZE),
     (''PhysicalContactOccupiedToUnoccupiedDelay'', ZCL_INT16U_ATTRIBUTE_TYPES,
        ZCL_INT16U_ATTRIBUTE_TYPES_SIZE),
     (''PhysicalContactUnoccupiedToOccupiedDelay'', ZCL_INT16U_ATTRIBUTE_TYPES,
        ZCL_INT16U_ATTRIBUTE_TYPES_SIZE),
     (''PhysicalContactUnoccupiedToOccupiedThreshold'', ZCL_INT8U_ATTRIBUTE_TYPES,
        ZCL_INT8U_ATTRIBUTE_TYPES_SIZE),
     (''GeneratedCommandList'', ZCL_COMMAND_ID_ATTRIBUTE_TYPES,
        ZCL_COMMAND_ID_ATTRIBUTE_TYPES_SIZE),
     (''AcceptedCommandList'', ZCL_COMMAND_ID_ATTRIBUTE_TYPES,
        ZCL_COMMAND_ID_ATTRIBUTE_TYPES_SIZE),
     (''EventList'', ZCL_EVENT_ID_ATTRIBUTE_TYPES,
        ZCL_EVENT_ID_ATTRIBUTE_TYPES_SIZE),
     (''AttributeList'', ZCL_ATTRIB_ID_ATTRIBUTE_TYPES,
        ZCL_ATTRIB_ID_ATTRIBUTE_TYPES_SIZE),
     (''FeatureMap'', ZCL_BITMAP32_ATTRIBUTE_TYPES,
        ZCL_BITMAP32_ATTRIBUTE_TYPES_SIZE),
     (''ClusterRevision'', ZCL_INT16U_ATTRIBUTE_TYPES,
        ZCL_INT16U_ATTRIBUTE_TYPES_SIZE)]"

definition attribute_sizes :: "(string \<times> size_row list) list" where
  "attribute_sizes = [
     (''Identify'', identify_sizes),
     (''Groups'', groups_sizes),
     (''OnOff'', on_off_sizes),
     (''LevelControl'', level_control_sizes),
     (''DoorLock'', door_lock_sizes_1 @ door_lock_sizes_2),
     (''WindowCovering'', window_covering_sizes),
     (''Thermostat'', thermostat_sizes_1 @ thermostat_sizes_2),
     (''ColorControl'', color_control_sizes_1 @ color_control_sizes_2),
     (''IlluminanceMeasurement'', illuminance_measurement_sizes),
     (''TemperatureMeasurement'', temperature_measurement_sizes),
     (''PressureMeasurement'', pressure_measurement_sizes),
     (''FlowMeasurement'', flow_measurement_sizes),
     (''RelativeHumidityMeasurement'', relative_humidity_measurement_sizes),
     (''OccupancySensing'', occupancy_sensing_sizes)]"

lemmas attribute_sizes_parts =
  identify_sizes_def
  groups_sizes_def
  on_off_sizes_def
  level_control_sizes_def
  door_lock_sizes_1_def door_lock_sizes_2_def
  window_covering_sizes_def
  thermostat_sizes_1_def thermostat_sizes_2_def
  color_control_sizes_1_def color_control_sizes_2_def
  illuminance_measurement_sizes_def
  temperature_measurement_sizes_def
  pressure_measurement_sizes_def
  flow_measurement_sizes_def
  relative_humidity_measurement_sizes_def
  occupancy_sensing_sizes_def

text \<open>
  \<open>get_attribute_type_size\<close>. The arguments are narrowed to 16 bits; \<open>cluster_ids\<close> and \<open>attribute_ids\<close> give
  the identifiers of the case labels.
\<close>

definition get_attribute_type_size ::
  "(string \<Rightarrow> u32) \<Rightarrow> (string \<Rightarrow> string \<Rightarrow> u32) \<Rightarrow> u16 \<Rightarrow> u16 \<Rightarrow> u8 \<times> u8" where
  "get_attribute_type_size cluster_ids attribute_ids cluster_id attribute_id =
     (case find (\<lambda>(c, _). cluster_ids c = ucast cluster_id) attribute_sizes of
        None \<Rightarrow> (ZCL_BOOLEAN_ATTRIBUTE_TYPES, 1)
      | Some (c, rows) \<Rightarrow>
          (case find (\<lambda>(a, _). attribute_ids c a = ucast attribute_id) rows of
             None \<Rightarrow> (ZCL_BOOLEAN_ATTRIBUTE_TYPES, 1)
           | Some (_, ts) \<Rightarrow> ts))"

text \<open>The two members where the cluster interactor puts them: the size has 16 bits in Ember.\<close>

definition type_and_size ::
  "(string \<Rightarrow> u32) \<Rightarrow> (string \<Rightarrow> string \<Rightarrow> u32) \<Rightarrow> cluster_id \<Rightarrow> attribute_id \<Rightarrow> u16 \<times> ember_type" where
  "type_and_size cluster_ids attribute_ids cl a =
     (let ts = get_attribute_type_size cluster_ids attribute_ids (ucast cl) (ucast a)
      in (ucast (snd ts), ZCL_TYPE (fst ts)))"

section \<open>Lemmas\<close>

lemma all_rows:
  assumes "list_all (\<lambda>(c, rows). list_all (\<lambda>(a, ts). P ts) rows) attribute_sizes"
    and "P (ZCL_BOOLEAN_ATTRIBUTE_TYPES, 1)"
  shows "P (get_attribute_type_size cluster_ids attribute_ids cl a)"
proof -
  have "P ts" if "find f attribute_sizes = Some (c, rows)" and "find g rows = Some (n, ts)" for f g c rows n ts
    using find_Some_iff_mem [OF that(1)] find_Some_iff_mem [OF that(2)] assms(1)
    unfolding list_all_iff by fastforce
  then show ?thesis
    using assms(2) by (simp add: get_attribute_type_size_def split: option.splits prod.splits)
qed

text \<open>The size of each type code that occurs.\<close>

definition size_of_type :: "u8 \<Rightarrow> u8" where
  "size_of_type t =
     (if t \<in> {0x10, 0x20, 0x28, 0x30, 0xE6, 0x18} then 1
      else if t \<in> {0x21, 0x29, 0xD8, 0xE7, 0x19} then 2
      else if t \<in> {0x41, 0x42} then 32 else if t = 0x4C then 254 else 4)"

lemma rows_sized: "list_all (\<lambda>(c, rows). list_all (\<lambda>(a, ts). snd ts = size_of_type (fst ts)) rows) attribute_sizes"
  by (simp add: attribute_sizes_def attribute_sizes_parts size_of_type_def)

lemma size_of_type_range: "1 \<le> size_of_type t \<and> size_of_type t \<le> 254"
  by (simp add: size_of_type_def)

definition sized :: "ember_attribute \<Rightarrow> bool" where
  "sized a \<longleftrightarrow> 1 \<le> ea_size a \<and> ea_size a \<le> 254 \<and>
     (case ea_type a of ZCL_TYPE t \<Rightarrow> ea_size a = ucast (size_of_type t) | _ \<Rightarrow> True)"

lemma emulator_keeps_sized:
  assumes "e \<in> set cluster_emulators" and "list_all sized (cb_attributes b)"
  shows "list_all sized (cb_attributes (snd (em_emulate e uc b)))"
  using assms by (auto simp: cluster_emulators_def emulator_defs default_emulator_def identify_emulate_def
      groups_emulate_def doorlock_emulate_def window_covering_emulate_def external_attribute_def sized_def
      builder_defs)

lemma emulated_sized:
  "list_all sized (cb_attributes b) \<Longrightarrow> list_all sized (cb_attributes (add_emulated_commands_and_attributes uc b))"
  unfolding add_emulated_commands_and_attributes_def Let_def string_emulator_map_def
  by (auto split: option.splits intro!: emulator_keeps_sized dest!: map_of_SomeD
      simp: builder_defs external_attribute_def sized_def)

lemma generated_size:
  "snd (get_attribute_type_size cluster_ids attribute_ids cl a) =
     size_of_type (fst (get_attribute_type_size cluster_ids attribute_ids cl a))"
  by (rule all_rows [OF rows_sized]) (simp add: size_of_type_def)

lemma generated_sized:
  "sized \<lparr>ea_default = None, ea_id = i, ea_size = fst (type_and_size cluster_ids attribute_ids cl a),
     ea_type = snd (type_and_size cluster_ids attribute_ids cl a), ea_mask = m\<rparr>"
  by (simp add: sized_def type_and_size_def Let_def generated_size) (simp add: size_of_type_def)

lemma build_cluster_sized:
  "list_all sized (cb_attributes (build_cluster t (type_and_size cluster_ids attribute_ids) name cl uc))"
  unfolding build_cluster_def Let_def
  by (rule emulated_sized)
    (auto simp: builder_defs plain_attribute_def sized_def [of "\<lparr>ea_default = None, ea_id = _, ea_size = 1, ea_type = ZCL_BOOLEAN, ea_mask = []\<rparr>"]
      sized_def [of "\<lparr>ea_default = None, ea_id = _, ea_size = 32, ea_type = ZCL_CHAR_STRING, ea_mask = []\<rparr>"]
      list_all_iff map_filter_def generated_sized)

section \<open>Properties\<close>

text \<open>C24: Every attribute of every cluster of a Matter endpoint, taken from the generated table, from
  an emulator or added by the bridge itself, has a size from 1 to 254 bytes, and the generated attributes
  have the size of their ZCL type.\<close>

theorem built_attribute_sizes:
  "list_all (\<lambda>c. list_all sized (ec_attributes c))
     (build_matter_cluster t (type_and_size cluster_ids attribute_ids) ucs)"
  using build_cluster_sized
  by (auto simp: build_matter_cluster_def build_clusters_eq append_bridged_clusters_def bridged_basic_cluster_def
      cluster_done_def finished_cluster_def descriptor_cluster_attributes_def plain_attribute_def
      sized_def new_cluster_builder_def list_all_iff split: prod.splits)

end
