(* ===== verification/Node_Refinement.thy ===== *)
theory Node_Refinement
  imports Node_State_Monitor
begin

text \<open>
  What the node state monitor promises: a map from Unify endpoints (UNID and number) to their Matter endpoint
  and whether they can be reached. The multimap of the code, sorted by UNID and searched linearly, refines
  it: every operation of the monitor is one operation on the map.
\<close>

section \<open>The map\<close>

type_synonym node_map = "unid \<times> u8 \<rightharpoonup> endpoint_id \<times> bool option"

definition spec_remove :: "unid \<Rightarrow> node_map \<Rightarrow> node_map" where
  "spec_remove u m = (\<lambda>k. if fst k = u then None else m k)"

definition spec_state :: "unid \<Rightarrow> bool \<Rightarrow> node_map \<Rightarrow> node_map" where
  "spec_state u online m =
     (\<lambda>k. if fst k = u then map_option (\<lambda>(e, _). (e, Some online)) (m k) else m k)"

text \<open>A new endpoint displaces an endpoint of its node that had the same Matter endpoint.\<close>

definition spec_add :: "unid \<Rightarrow> u8 \<Rightarrow> endpoint_id \<Rightarrow> bool \<Rightarrow> node_map \<Rightarrow> node_map" where
  "spec_add u ep e online m =
     (\<lambda>k. if fst k = u \<and> map_option fst (m k) = Some e then None else m k)((u, ep) \<mapsto> (e, Some online))"

section \<open>The abstraction\<close>

definition node_map_of :: "endpoint_table \<Rightarrow> node_map" where
  "node_map_of t = (\<lambda>(u, ep). map_option (\<lambda>b. (be_matter_endpoint b, be_reachable b))
     (bridged_endpoint_by_unify t u (uint ep)))"

lemma node_map_iff:
  assumes "monitor_ok env nm"
  shows "node_map_of (nm_endpoints nm) (u, ep) = Some (e, r) \<longleftrightarrow>
    (\<exists>b. (u, b) \<in> set (nm_endpoints nm) \<and> be_unify_endpoint b = ep \<and> be_matter_endpoint b = e \<and> be_reachable b = r)"
  by (auto simp: node_map_of_def lookup_iff [OF assms])

lemma removed_map:
  "on_unify_node_removed env u nm = (out, nm') \<Longrightarrow>
   node_map_of (nm_endpoints nm') = spec_remove u (node_map_of (nm_endpoints nm))"
  by (auto simp: on_unify_node_removed_eq Let_def node_map_of_def spec_remove_def fun_eq_iff
      bridged_endpoint_by_unify_def equal_range_def)
    (metis (mono_tags, lifting) filter_cong)

lemma find_map: "find P (map f xs) = map_option f (find (P \<circ> f) xs)"
  by (induction xs) auto

lemma equal_range_changed:
  "equal_range u' (map (\<lambda>(v, ep). if v = u then (v, f ep) else (v, ep)) t) =
     (if u' = u then map f (equal_range u' t) else equal_range u' t)"
  by (induction t) (auto simp: equal_range_def)

lemma changed_map:
  assumes "on_unify_node_state_changed u online nm = (out, nm')"
  shows "node_map_of (nm_endpoints nm') = spec_state u online (node_map_of (nm_endpoints nm))"
proof -
  have "nm_endpoints nm' = map (\<lambda>(v, ep). if v = u then (v, ep\<lparr>be_reachable := Some online\<rparr>) else (v, ep)) (nm_endpoints nm)"
    using assms by (auto simp: on_unify_node_state_changed_def)
  then show ?thesis
    by (auto simp: node_map_of_def spec_state_def fun_eq_iff bridged_endpoint_by_unify_def equal_range_changed
        find_map comp_def option.map_comp)
qed

lemma option_filtered:
  assumes "\<And>x r. m' = Some (x, r) \<longleftrightarrow> m = Some (x, r) \<and> P x"
  shows "m' = (case m of Some (x, r) \<Rightarrow> if P x then Some (x, r) else None | None \<Rightarrow> None)"
proof (cases m')
  case None
  then show ?thesis using assms by (auto split: option.split)
next
  case (Some y)
  then have "m = Some y \<and> P (fst y)" using assms [of "fst y" "snd y"] by simp
  then show ?thesis using Some by (auto split: prod.split)
qed

lemma added_map:
  assumes "key_value_store (env_kvs env)" and "reliable_store (env_kvs env)" and "monitor_ok env nm"
    and "add_endpoint env u online ep ue nm = Inr (out, nm')"
  shows "node_map_of (nm_endpoints nm') = node_map_of (nm_endpoints nm) \<or>
    (\<exists>e. stored_endpoint (env_kvs env) (nm_kv nm') (u, ep) = Some e \<and>
       node_map_of (nm_endpoints nm') = spec_add u ep e online (node_map_of (nm_endpoints nm)))"
  using assms(4)
proof (cases rule: add_endpoint_cases)
  case (2 ty e nm1)
  let ?be = "new_bridge u ep e (ei_fixed_count (env_ember env)) ty
    (build_matter_cluster (env_translator env) (env_type_size env) (ue_clusters ue))"
  have ok: "monitor_ok env nm'" using key_value_store.add_endpoint_ok [OF assms(1) refl assms(2-4)] .
  have f: "be_unify_unid ?be = u" "be_unify_endpoint ?be = ep" "be_matter_endpoint ?be = e"
    by (simp_all add: new_bridge_def)
  have nm': "nm' = snd (insert_bridge env online ?be nm1)" using 2(2) by simp
  have nm1: "nm_endpoints nm1 = nm_endpoints nm"
    using assign_keeps_endpoints(1) [of env u ep nm] 2(1) by simp
  have "distinct (map (\<lambda>(u, ep). (u, be_matter_endpoint ep)) (nm_endpoints nm))"
    using assms(3) by (simp only: monitor_ok_def table_ok_def)
  then have t: "set (nm_endpoints nm') = insert (u, ?be\<lparr>be_reachable := Some online\<rparr>)
      {x \<in> set (nm_endpoints nm). \<not> (fst x = u \<and> be_matter_endpoint (snd x) = e)}"
    unfolding nm' insert_bridge_def Let_def f(1) by (simp add: nm1 erase_gone f(3))
  have stored: "stored_endpoint (env_kvs env) (nm_kv nm') (u, ep) = Some e"
    using key_value_store.stored_after_assign [OF assms(1) refl assms(2) 2(1), of "(u, ep)"]
    by (simp add: nm' insert_bridge_def Let_def)
  have "node_map_of (nm_endpoints nm') (v, p) = spec_add u ep e online (node_map_of (nm_endpoints nm)) (v, p)" for v p
  proof (cases "(v, p) = (u, ep)")
    case True
    have "node_map_of (nm_endpoints nm') (u, ep) = Some (e, Some online)"
      unfolding node_map_iff [OF ok] t by (rule exI [of _ "?be\<lparr>be_reachable := Some online\<rparr>"]) (simp add: f)
    then show ?thesis using True by (simp add: spec_add_def)
  next
    case False
    have "node_map_of (nm_endpoints nm') (v, p) = Some (x, r) \<longleftrightarrow>
        node_map_of (nm_endpoints nm) (v, p) = Some (x, r) \<and> \<not> (v = u \<and> x = e)" for x r
      unfolding node_map_iff [OF ok] node_map_iff [OF assms(3)] t using False by (auto simp: f)
    then show ?thesis
      using False
      by (subst option_filtered [where P = "\<lambda>x. \<not> (v = u \<and> x = e)"])
        (auto simp: spec_add_def split: option.splits)
  qed
  then have "node_map_of (nm_endpoints nm') = spec_add u ep e online (node_map_of (nm_endpoints nm))"
    by (auto simp: fun_eq_iff)
  then show ?thesis using stored by blast
qed simp

section \<open>Runs\<close>

text \<open>The reported endpoints of one node, one after the other, and then any events.\<close>

inductive spec_step :: "node_map \<Rightarrow> node_map \<Rightarrow> bool" where
  spec_added: "spec_step m (spec_add u ep e online m)"
| spec_removed: "spec_step m (spec_remove u m)"
| spec_changed: "spec_step m (spec_state u online m)"

lemma endpoints_added_map:
  assumes "key_value_store (env_kvs env)" and "reliable_store (env_kvs env)"
  shows "monitor_ok env nm \<Longrightarrow> add_endpoints env u online eps nm = Inr (out, nm') \<Longrightarrow>
    spec_step\<^sup>*\<^sup>* (node_map_of (nm_endpoints nm)) (node_map_of (nm_endpoints nm'))"
proof (induction eps arbitrary: nm out)
  case (Cons x eps)
  obtain ep ue where "x = (ep, ue)" by (cases x)
  then obtain out1 nm1 out2 where step: "add_endpoint env u online ep ue nm = Inr (out1, nm1)"
      "add_endpoints env u online eps nm1 = Inr (out2, nm')"
    using Cons.prems(2) by (auto simp: rbind_eq_Inr)
  have "monitor_ok env nm1"
    using key_value_store.add_endpoint_ok [OF assms(1) refl assms(2) Cons.prems(1) step(1)] .
  then have "spec_step\<^sup>*\<^sup>* (node_map_of (nm_endpoints nm1)) (node_map_of (nm_endpoints nm'))"
    using Cons.IH step(2) by blast
  moreover have "spec_step\<^sup>*\<^sup>* (node_map_of (nm_endpoints nm)) (node_map_of (nm_endpoints nm1))"
    using added_map [OF assms Cons.prems(1) step(1)] spec_added by (metis r_into_rtranclp rtranclp.rtrancl_refl)
  ultimately show ?case by (rule rtranclp_trans [rotated])
qed simp

section \<open>Properties\<close>

text \<open>C11: The node state monitor refines a map from Unify endpoints to Matter endpoints and reachability:
  removing a node removes its keys, a change of state sets the reachability of its keys, and a reported
  endpoint is either passed over or becomes the key's new entry, with its persisted Matter endpoint,
  displacing only an entry of the same node with this Matter endpoint.\<close>

theorem monitor_refines_map:
  assumes "key_value_store (env_kvs env)" and "reliable_store (env_kvs env)" and "monitor_ok env nm"
  shows "node_map_of (nm_endpoints (snd (on_unify_node_removed env u nm))) =
      spec_remove u (node_map_of (nm_endpoints nm)) \<and>
    node_map_of (nm_endpoints (snd (on_unify_node_state_changed u online nm))) =
      spec_state u online (node_map_of (nm_endpoints nm)) \<and>
    (case add_endpoint env u online ep ue nm of
       Inl _ \<Rightarrow> True
     | Inr (out, nm') \<Rightarrow>
         node_map_of (nm_endpoints nm') = node_map_of (nm_endpoints nm) \<or>
         (\<exists>e. stored_endpoint (env_kvs env) (nm_kv nm') (u, ep) = Some e \<and>
            node_map_of (nm_endpoints nm') = spec_add u ep e online (node_map_of (nm_endpoints nm))))"
  using removed_map [of env u nm] changed_map [of u online nm] added_map [OF assms, of u online ep ue]
  by (cases "on_unify_node_removed env u nm"; cases "on_unify_node_state_changed u online nm")
    (auto split: sum.splits)

lemma monitor_refines_map_witness:
  "node_map_of (nm_endpoints (snd (on_unify_node_removed sample_env ''zw-1'' two_nodes))) (''zw-2'', 0) =
     Some (4, Some True) \<and>
   node_map_of (nm_endpoints (snd (on_unify_node_state_changed ''zw-1'' False two_nodes))) (''zw-1'', 1) =
     Some (3, Some False)"
  using monitor_refines_map [where env = sample_env and nm = two_nodes and u = "''zw-1''" and online = False]
    mem_kvs.key_value_store_axioms map_kvs_reliable two_nodes_ok
  by (simp add: spec_remove_def spec_state_def node_map_of_def two_nodes_def bridged_endpoint_by_unify_def
      equal_range_def sample_bridge_def new_bridge_def)

text \<open>From an empty table, whatever nodes are added, removed and changed in whatever order, the
  table is the result of a run of the map: the code has no behaviour the map does not have.\<close>

theorem monitor_runs_refine:
  assumes "key_value_store (env_kvs env)" and "reliable_store (env_kvs env)" and "nm_endpoints nm0 = []"
    and "monitor_reachable env nm0 nm"
  shows "spec_step\<^sup>*\<^sup>* Map.empty (node_map_of (nm_endpoints nm))"
  using assms(4)
proof induction
  case start
  have "node_map_of [] = Map.empty"
    by (auto simp: node_map_of_def bridged_endpoint_by_unify_def equal_range_def)
  then show ?case using assms(3) by simp
next
  case (added nm node out nm')
  have "monitor_ok env nm" using key_value_store.reachable_ok [OF assms(1) refl assms(2,3) added(1)] .
  from endpoints_added_map [OF assms(1,2) this added(2) [unfolded on_unify_node_added_def]] added(3)
  show ?case by (rule rtranclp_trans [rotated])
next
  case (removed nm u out nm')
  then show ?case
    using spec_removed by (metis removed_map rtranclp.rtrancl_into_rtrancl)
next
  case (changed nm u online out nm')
  then show ?case
    using spec_changed by (metis changed_map rtranclp.rtrancl_into_rtrancl)
next
  case (listening nm l)
  then show ?case by (simp add: register_event_listener_def)
qed

end
