(* ===== verification/Node_Registry.thy ===== *)
theory Node_Registry
  imports Node_Refinement
begin

text \<open>
  The three tables of the node state monitor together: the table of bridged endpoints, the persisted Matter
  endpoints and the dynamic endpoints of Ember. Started with nothing persisted, they stay in step: every
  persisted Matter endpoint is registered at its own index, so no two Unify endpoints share one.
\<close>

section \<open>The invariant\<close>

definition registry_ok :: "('kv, 'em) environment \<Rightarrow> ('kv, 'em) node_monitor \<Rightarrow> bool" where
  "registry_ok env nm \<longleftrightarrow>
     ei_fixed_count (env_ember env) \<le> nm_last nm + 1 \<and> nm_last nm < ei_max_count (env_ember env) \<and>
     (\<forall>k x. stored_endpoint (env_kvs env) (nm_kv nm) k = Some x \<longrightarrow> x \<noteq> kInvalidEndpointId \<longrightarrow>
        ei_fixed_count (env_ember env) \<le> x \<and> x < ei_max_count (env_ember env) \<and>
        ei_dynamic_index (env_ember env) x (nm_ember nm) = x - ei_fixed_count (env_ember env)) \<and>
     (\<forall>k k' x. stored_endpoint (env_kvs env) (nm_kv nm) k = Some x \<longrightarrow>
        stored_endpoint (env_kvs env) (nm_kv nm) k' = Some x \<longrightarrow> x \<noteq> kInvalidEndpointId \<longrightarrow> k = k')"

lemma valid_endpoint_below:
  fixes e fixed m :: u16
  assumes "fixed \<le> e" and "e < m"
  shows "e - fixed < m - fixed" and "e - fixed \<noteq> kEmberInvalidEndpointIndex"
proof -
  have "unat (e - fixed) = unat e - unat fixed" "unat (m - fixed) = unat m - unat fixed"
    using assms by (simp_all add: unat_sub order.trans [OF assms(1) less_imp_le])
  then show "e - fixed < m - fixed"
    using assms by (simp add: word_less_nat_alt word_le_nat_alt)
  then show "e - fixed \<noteq> kEmberInvalidEndpointIndex"
    using unat16_less [of "m - fixed"] by (auto simp: word_less_nat_alt)
qed

lemma index_distinct: "(x :: u16) - fixed = y - fixed \<longleftrightarrow> x = y"
  by simp

context ember_registry
begin

lemma register_own:
  assumes "be_matter_endpoint ep = e" and "be_index ep = e - ei_fixed_count ops"
    and "ei_fixed_count ops \<le> e" and "e < ei_max_count ops"
  shows "ei_dynamic_index ops e (snd (register_dynamic_endpoint ops ep s)) = e - ei_fixed_count ops"
proof -
  let ?i = "ei_dynamic_index ops e s"
  let ?s = "if ?i \<noteq> kEmberInvalidEndpointIndex then snd (ei_clear_dynamic ops ?i s) else s"
  have "is_free ops ?s e"
    using free_after_clear [OF refl] by (cases "?i = kEmberInvalidEndpointIndex") (auto simp: is_free_def prod_eq_iff)
  moreover have "unat (ee_cluster_count (be_ember_endpoint ep)) \<le> data_version_span_length (be_ember_endpoint ep)"
    by (simp add: data_version_span_length_def data_version_count_def)
  ultimately show ?thesis
    using set_free [OF valid_endpoint_below(1) [OF assms(3,4)], of ?s] assms(1,2)
    by (simp add: register_dynamic_endpoint_def Let_def)
qed

lemma register_other:
  assumes "be_index ep = be_matter_endpoint ep - ei_fixed_count ops" and "x \<noteq> be_matter_endpoint ep"
    and "ei_dynamic_index ops x s = x - ei_fixed_count ops"
  shows "ei_dynamic_index ops x (snd (register_dynamic_endpoint ops ep s)) = x - ei_fixed_count ops"
proof -
  let ?i = "ei_dynamic_index ops (be_matter_endpoint ep) s"
  let ?s = "if ?i \<noteq> kEmberInvalidEndpointIndex then snd (ei_clear_dynamic ops ?i s) else s"
  have "ei_dynamic_index ops x ?s = x - ei_fixed_count ops"
    using assms(2,3) clear_used [OF refl, of "be_matter_endpoint ep" s] by (auto simp: prod_eq_iff)
  then show ?thesis
    using set_other [OF assms(2), of ?s] assms(1,2) by (simp add: register_dynamic_endpoint_def Let_def)
qed

lemma clear_all_other:
  assumes "\<forall>ep\<in>set eps. be_index ep = be_matter_endpoint ep - ei_fixed_count ops \<and>
      be_index ep \<noteq> kEmberInvalidEndpointIndex \<and> be_matter_endpoint ep \<noteq> x"
    and "ei_dynamic_index ops x s = x - ei_fixed_count ops"
  shows "ei_dynamic_index ops x (clear_all ops eps s) = x - ei_fixed_count ops"
  using assms
proof (induction eps arbitrary: s)
  case (Cons ep eps)
  have "ei_dynamic_index ops x (snd (ei_clear_dynamic ops (be_index ep) s)) = x - ei_fixed_count ops"
    using clear_other [of "be_index ep" x s] Cons.prems by auto
  moreover have "\<forall>ep\<in>set eps. be_index ep = be_matter_endpoint ep - ei_fixed_count ops \<and>
      be_index ep \<noteq> kEmberInvalidEndpointIndex \<and> be_matter_endpoint ep \<noteq> x"
    using Cons.prems(1) by (simp only: list.set ball_simps) blast
  ultimately have "ei_dynamic_index ops x
      (clear_all ops eps (snd (ei_clear_dynamic ops (be_index ep) s))) = x - ei_fixed_count ops"
    by (intro Cons.IH)
  then show ?case by (simp only: clear_all_def foldl.simps)
qed (simp add: clear_all_def)

end

section \<open>The operations keep it\<close>

text \<open>What the assignment of a Matter endpoint leaves: everything in step but the new endpoint itself.\<close>

lemma assign_registry:
  assumes "key_value_store (env_kvs env)" and "reliable_store (env_kvs env)" and "0 < ei_fixed_count (env_ember env)"
    and ok: "registry_ok env nm" and a: "assign_matter_endpoint env u ep nm = (e, nm1)"
  shows "ei_fixed_count (env_ember env) \<le> nm_last nm1 + 1 \<and> nm_last nm1 < ei_max_count (env_ember env)"
    and "e \<noteq> kInvalidEndpointId \<Longrightarrow> ei_fixed_count (env_ember env) \<le> e \<and> e < ei_max_count (env_ember env)"
    and "stored_endpoint (env_kvs env) (nm_kv nm1) k = Some e \<Longrightarrow> e \<noteq> kInvalidEndpointId \<Longrightarrow> k = (u, ep)"
proof -
  note stored = key_value_store.stored_after_assign [OF assms(1) refl assms(2) a]
  have "(ei_fixed_count (env_ember env) \<le> nm_last nm1 + 1 \<and> nm_last nm1 < ei_max_count (env_ember env)) \<and>
    (e \<noteq> kInvalidEndpointId \<longrightarrow> ei_fixed_count (env_ember env) \<le> e \<and> e < ei_max_count (env_ember env)) \<and>
    (stored_endpoint (env_kvs env) (nm_kv nm1) k = Some e \<longrightarrow> e \<noteq> kInvalidEndpointId \<longrightarrow> k = (u, ep))"
  proof (cases "stored_endpoint (env_kvs env) (nm_kv nm) (u, ep)")
    case (Some x)
    then have "e = x" "nm1 = nm" using a by (auto simp: assign_matter_endpoint_eq)
    then show ?thesis using ok Some unfolding registry_ok_def by blast
  next
    case None
    then have n: "get_next_endpoint (env_ember env) (nm_ember nm) (nm_last nm) = (e, nm_last nm1)"
      using a by (auto simp: assign_matter_endpoint_eq split: prod.splits)
    have last: "ei_fixed_count (env_ember env) \<le> nm_last nm + 1" "nm_last nm < ei_max_count (env_ember env)"
      using ok by (simp_all add: registry_ok_def)
    note next_ok = get_next_endpoint_free [OF assms(3) last n]
    have fresh: "stored_endpoint (env_kvs env) (nm_kv nm) k \<noteq> Some e" if "e \<noteq> kInvalidEndpointId"
    proof
      assume "stored_endpoint (env_kvs env) (nm_kv nm) k = Some e"
      then have "ei_fixed_count (env_ember env) \<le> e" "e < ei_max_count (env_ember env)"
          "ei_dynamic_index (env_ember env) e (nm_ember nm) = e - ei_fixed_count (env_ember env)"
        using ok that unfolding registry_ok_def by blast+
      moreover have "is_free (env_ember env) (nm_ember nm) e" using next_ok that by simp
      ultimately show False using valid_endpoint_below(2) by (simp add: is_free_def)
    qed
    show ?thesis using next_ok stored [of k] fresh by (cases "e = kInvalidEndpointId") auto
  qed
  then show "ei_fixed_count (env_ember env) \<le> nm_last nm1 + 1 \<and> nm_last nm1 < ei_max_count (env_ember env)"
    and "e \<noteq> kInvalidEndpointId \<Longrightarrow> ei_fixed_count (env_ember env) \<le> e \<and> e < ei_max_count (env_ember env)"
    and "stored_endpoint (env_kvs env) (nm_kv nm1) k = Some e \<Longrightarrow> e \<noteq> kInvalidEndpointId \<Longrightarrow> k = (u, ep)"
    by blast+
qed

locale bridge_env =
  fixes env :: "('kv, 'em) environment"
  assumes store: "key_value_store (env_kvs env)" and reliable: "reliable_store (env_kvs env)"
    and ember: "ember_registry (env_ember env)" and fixed: "0 < ei_fixed_count (env_ember env)"
begin

lemma added_registry:
  assumes ok: "registry_ok env nm" and add: "add_endpoint env u online ep ue nm = Inr (out, nm')"
  shows "registry_ok env nm'"
  using add
proof (cases rule: add_endpoint_cases)
  case (2 ty e nm1)
  let ?f = "ei_fixed_count (env_ember env)"
  let ?be = "new_bridge u ep e ?f ty (build_matter_cluster (env_translator env) (env_type_size env) (ue_clusters ue))"
  have be: "be_matter_endpoint ?be = e" "be_index ?be = e - ?f" by (simp_all add: new_bridge_def)
  have nm': "nm_last nm' = nm_last nm1" "nm_kv nm' = nm_kv nm1"
      "nm_ember nm' = snd (register_dynamic_endpoint (env_ember env) ?be (nm_ember nm1))"
    using 2(2) by (auto simp: insert_bridge_def Let_def)
  have em: "nm_ember nm1 = nm_ember nm" using assign_keeps_endpoints(3) [of env u ep nm] 2(1) by simp
  note assigned = assign_registry [OF store reliable fixed ok 2(1)]
  note stored = key_value_store.stored_after_assign [OF store refl reliable 2(1)]
  have entry: "?f \<le> x \<and> x < ei_max_count (env_ember env) \<and>
      ei_dynamic_index (env_ember env) x (nm_ember nm') = x - ?f"
    if "stored_endpoint (env_kvs env) (nm_kv nm1) k = Some x" and "x \<noteq> kInvalidEndpointId" for k x
  proof (cases "x = e")
    case True
    then show ?thesis
      using assigned(2) that(2) ember_registry.register_own [OF ember be] nm'(3) by simp
  next
    case False
    then have "stored_endpoint (env_kvs env) (nm_kv nm) k = Some x"
      using that(1) stored [of k] by (auto split: if_splits)
    then have "?f \<le> x" "x < ei_max_count (env_ember env)" "ei_dynamic_index (env_ember env) x (nm_ember nm) = x - ?f"
      using ok that(2) unfolding registry_ok_def by blast+
    then show ?thesis
      using ember_registry.register_other [OF ember, of ?be x "nm_ember nm1"] False em be nm'(3) by simp
  qed
  have "k = k'" if "stored_endpoint (env_kvs env) (nm_kv nm1) k = Some x"
      "stored_endpoint (env_kvs env) (nm_kv nm1) k' = Some x" "x \<noteq> kInvalidEndpointId" for k k' x
  proof (cases "x = e")
    case True
    then show ?thesis using assigned(3) that by blast
  next
    case False
    then have "stored_endpoint (env_kvs env) (nm_kv nm) k = Some x" "stored_endpoint (env_kvs env) (nm_kv nm) k' = Some x"
      using that(1,2) stored by (auto split: if_splits)
    then show ?thesis using ok that(3) unfolding registry_ok_def by blast
  qed
  then show ?thesis using assigned(1) entry unfolding registry_ok_def nm'(1,2) by blast
qed (use ok in simp)

lemma endpoints_added_registry:
  "registry_ok env nm \<Longrightarrow> add_endpoints env u online eps nm = Inr (out, nm') \<Longrightarrow> registry_ok env nm'"
  by (induction eps arbitrary: nm out) (simp, auto simp: rbind_eq_Inr, meson added_registry)

lemma removed_registry:
  assumes ok: "registry_ok env nm" and m: "monitor_ok env nm"
  shows "registry_ok env (snd (on_unify_node_removed env u nm))"
proof -
  let ?f = "ei_fixed_count (env_ember env)"
  let ?eps = "equal_range u (nm_endpoints nm)"
  have eps: "stored_endpoint (env_kvs env) (nm_kv nm) (unify_key b) = Some (be_matter_endpoint b) \<and>
      be_index b = be_matter_endpoint b - ?f" if "b \<in> set ?eps" for b
    using that m table_ok_unid by (auto simp: equal_range_set monitor_ok_def entry_ok_def)
  have index: "be_index b \<noteq> kEmberInvalidEndpointIndex" if "b \<in> set ?eps" for b
  proof (cases "be_matter_endpoint b = kInvalidEndpointId")
    case True
    then show ?thesis using eps [OF that] fixed by simp
  next
    case False
    then have "?f \<le> be_matter_endpoint b" "be_matter_endpoint b < ei_max_count (env_ember env)"
      using ok eps [OF that] unfolding registry_ok_def by blast+
    then show ?thesis using valid_endpoint_below(2) eps [OF that] by simp
  qed
  have kept: "stored_endpoint (env_kvs env) (nm_kv nm) k = Some x \<and> k \<notin> unify_key ` set ?eps"
    if "stored_endpoint (env_kvs env) (forget_all (env_kvs env) ?eps (nm_kv nm)) k = Some x" for k x
    using that key_value_store.stored_forget_all [OF store] by (simp split: if_splits)
  have entry: "?f \<le> x \<and> x < ei_max_count (env_ember env) \<and>
      ei_dynamic_index (env_ember env) x (clear_all (env_ember env) ?eps (nm_ember nm)) = x - ?f"
    if "stored_endpoint (env_kvs env) (forget_all (env_kvs env) ?eps (nm_kv nm)) k = Some x" "x \<noteq> kInvalidEndpointId" for k x
  proof -
    note k = kept [OF that(1)]
    have "be_matter_endpoint b \<noteq> x" if "b \<in> set ?eps" for b
      using ok k eps [OF that] that \<open>x \<noteq> kInvalidEndpointId\<close> unfolding registry_ok_def by blast
    then have "\<forall>b\<in>set ?eps. be_index b = be_matter_endpoint b - ?f \<and> be_index b \<noteq> kEmberInvalidEndpointIndex \<and>
        be_matter_endpoint b \<noteq> x" using eps index by blast
    moreover have "?f \<le> x" "x < ei_max_count (env_ember env)" "ei_dynamic_index (env_ember env) x (nm_ember nm) = x - ?f"
      using ok k that(2) unfolding registry_ok_def by blast+
    ultimately show ?thesis using ember_registry.clear_all_other [OF ember] by blast
  qed
  have "k = k'" if "stored_endpoint (env_kvs env) (forget_all (env_kvs env) ?eps (nm_kv nm)) k = Some x"
      "stored_endpoint (env_kvs env) (forget_all (env_kvs env) ?eps (nm_kv nm)) k' = Some x" "x \<noteq> kInvalidEndpointId" for k k' x
    using ok kept [OF that(1)] kept [OF that(2)] that(3) unfolding registry_ok_def by blast
  then show ?thesis
    using ok entry unfolding registry_ok_def on_unify_node_removed_eq Let_def by simp
qed

lemma reachable_registry:
  assumes "nm_endpoints nm0 = []" and "registry_ok env nm0"
  shows "monitor_reachable env nm0 nm \<Longrightarrow> registry_ok env nm \<and> monitor_ok env nm"
proof (induction rule: monitor_reachable.induct)
  case start
  then show ?case using assms by (simp add: monitor_ok_def table_ok_def)
next
  case (added nm node out nm')
  then show ?case
    using endpoints_added_registry key_value_store.add_endpoints_ok [OF store refl reliable]
    unfolding on_unify_node_added_def by blast
next
  case (removed nm u out nm')
  then show ?case
    using removed_registry [of nm u] key_value_store.removed_ok [OF store refl, of nm u] by simp
next
  case (changed nm u online out nm')
  then show ?case
    using changed_ok [of env nm u online] by (auto simp: on_unify_node_state_changed_def registry_ok_def)
next
  case (listening nm l)
  then show ?case by (simp add: register_event_listener_def registry_ok_def monitor_ok_def)
qed

lemma endpoints_distinct:
  assumes "registry_ok env nm" and "monitor_ok env nm" and "(u, b) \<in> set (nm_endpoints nm)"
    and "(u', b') \<in> set (nm_endpoints nm)" and "be_matter_endpoint b = be_matter_endpoint b'"
    and "be_matter_endpoint b \<noteq> kInvalidEndpointId"
  shows "u = u' \<and> b = b'"
proof -
  have "stored_endpoint (env_kvs env) (nm_kv nm) (u, be_unify_endpoint b) = Some (be_matter_endpoint b)"
    "stored_endpoint (env_kvs env) (nm_kv nm) (u', be_unify_endpoint b') = Some (be_matter_endpoint b')"
    using assms(2-4) by (auto simp: monitor_ok_def entry_ok_def)
  then have "(u, be_unify_endpoint b) = (u', be_unify_endpoint b')"
    using assms(1,5,6) unfolding registry_ok_def by metis
  then show ?thesis
    using lookup_iff [OF assms(2), of u "be_unify_endpoint b"] assms(3,4) by (metis option.inject prod.inject)
qed

text \<open>An entry of the table is what both lookups of the monitor find for its addresses.\<close>

lemma lookups:
  assumes "registry_ok env nm" and "monitor_ok env nm" and "(u, b) \<in> set (nm_endpoints nm)"
    and "be_matter_endpoint b \<noteq> kInvalidEndpointId"
  shows "bridged_endpoint_by_matter (nm_endpoints nm) (be_matter_endpoint b) = Some b"
    and "bridged_endpoint_by_unify (nm_endpoints nm) u (uint (be_unify_endpoint b)) = Some b"
    and "be_unify_unid b = u"
proof -
  have "bridged_endpoint_by_matter (nm_endpoints nm) (be_matter_endpoint b) \<noteq> None"
    using assms(3) unfolding bridged_endpoint_by_matter_def find_None_iff_all by force
  then obtain x where x: "bridged_endpoint_by_matter (nm_endpoints nm) (be_matter_endpoint b) = Some x" by blast
  from find_Some_iff_mem [OF this [unfolded bridged_endpoint_by_matter_def]]
  obtain v where "(v, x) \<in> set (nm_endpoints nm)" "be_matter_endpoint x = be_matter_endpoint b" by auto
  then have "x = b" using endpoints_distinct [OF assms(1,2) _ assms(3)] assms(4) by metis
  then show "bridged_endpoint_by_matter (nm_endpoints nm) (be_matter_endpoint b) = Some b" using x by simp
  show "bridged_endpoint_by_unify (nm_endpoints nm) u (uint (be_unify_endpoint b)) = Some b"
    using assms(3) by (simp add: lookup_iff [OF assms(2)])
  show "be_unify_unid b = u" using assms(2,3) by (auto simp: monitor_ok_def intro: table_ok_unid)
qed

end

text \<open>The store and the Ember table in memory are such surroundings.\<close>

interpretation memory_env: bridge_env sample_env
  by (rule bridge_env.intro)
    (simp_all add: mem_kvs.key_value_store_axioms map_kvs_reliable memory_registry.ember_registry_axioms)

lemma empty_registry:
  assumes "\<forall>k. stored_endpoint (env_kvs env) (nm_kv nm) k = None"
    and "ei_fixed_count (env_ember env) \<le> nm_last nm + 1" and "nm_last nm < ei_max_count (env_ember env)"
  shows "registry_ok env nm"
  using assms by (simp add: registry_ok_def)

lemma sample_registry: "registry_ok sample_env (sample_monitor Map.empty)"
  by (rule empty_registry) (simp_all add: sample_monitor_def stored_endpoint_eq map_kvs_def)

text \<open>A bridge that was started with nothing persisted, and one of its bridged endpoints.\<close>

definition fresh_bridge :: "('kv, 'em) environment \<Rightarrow> ('kv, 'em) node_monitor \<Rightarrow> bool" where
  "fresh_bridge env nm \<longleftrightarrow> nm_endpoints nm = [] \<and>
     (\<forall>k. stored_endpoint (env_kvs env) (nm_kv nm) k = None) \<and>
     ei_fixed_count (env_ember env) \<le> nm_last nm + 1 \<and> nm_last nm < ei_max_count (env_ember env)"

lemma sample_fresh: "fresh_bridge sample_env (sample_monitor Map.empty)"
  by (simp add: fresh_bridge_def sample_monitor_def stored_endpoint_eq map_kvs_def)

lemma fresh_run_ok:
  assumes "bridge_env env" and "fresh_bridge env nm0" and "monitor_reachable env nm0 nm"
  shows "registry_ok env nm" and "monitor_ok env nm"
  using bridge_env.reachable_registry [OF assms(1) _ empty_registry assms(3)] assms(2)
  by (simp_all add: fresh_bridge_def)

section \<open>Properties\<close>

text \<open>C9: Started with nothing persisted, with a store that keeps what was put and an Ember registry that finds what was
  set, and through every order of nodes added, removed and changed: a bridged endpoint with a valid Matter endpoint shares
  it with no other bridged endpoint, of whatever node, and is registered with Ember at its own index. The invalid endpoint,
  given when none is free, can recur; and a start with persisted data can break this.\<close>

theorem matter_endpoints_never_shared:
  assumes "key_value_store (env_kvs env)" and "reliable_store (env_kvs env)"
    and "ember_registry (env_ember env)" and "0 < ei_fixed_count (env_ember env)"
    and "fresh_bridge env nm0" and "monitor_reachable env nm0 nm"
    and "(u, b) \<in> set (nm_endpoints nm)" and "be_matter_endpoint b \<noteq> kInvalidEndpointId"
  shows "ei_dynamic_index (env_ember env) (be_matter_endpoint b) (nm_ember nm) = be_index b \<and>
    (\<forall>u' b'. (u', b') \<in> set (nm_endpoints nm) \<and> be_matter_endpoint b' = be_matter_endpoint b \<longrightarrow> u' = u \<and> b' = b)"
proof -
  have env: "bridge_env env" using assms(1-4) by (rule bridge_env.intro)
  note ok = fresh_run_ok [OF env assms(5,6)]
  have "stored_endpoint (env_kvs env) (nm_kv nm) (u, be_unify_endpoint b) = Some (be_matter_endpoint b)"
    "be_index b = be_matter_endpoint b - ei_fixed_count (env_ember env)"
    using ok(2) assms(7) by (auto simp: monitor_ok_def entry_ok_def)
  then have "ei_dynamic_index (env_ember env) (be_matter_endpoint b) (nm_ember nm) = be_index b"
    using ok(1) assms(8) unfolding registry_ok_def by metis
  then show ?thesis using bridge_env.endpoints_distinct [OF env ok _ assms(7)] assms(8) by metis
qed

lemma first_lock_bridged:
  "\<exists>out nm b. on_unify_node_added sample_env (lock_node u) (sample_monitor Map.empty) = Inr (out, nm) \<and>
     (u, b) \<in> set (nm_endpoints nm) \<and> be_unify_unid b = u \<and> be_unify_endpoint b = 0 \<and> be_matter_endpoint b = 2 \<and> be_index b = 0"
proof -
  have none: "stored_endpoint map_kvs Map.empty k = None" for k
    by (simp add: stored_endpoint_eq map_kvs_def)
  obtain nm1 where a: "assign_matter_endpoint sample_env u 0 (sample_monitor Map.empty) = (2, nm1)"
    by (simp add: assign_matter_endpoint_eq sample_monitor_def none map_ember_first_endpoint)
  let ?b = "new_bridge u 0 2 2 10 (build_matter_cluster (sample_translator False)
    (env_type_size sample_env) (ue_clusters (snd (hd (un_endpoints (lock_node u))))))"
  have "(u, ?b\<lparr>be_reachable := Some True\<rparr>) \<in> set (nm_endpoints (snd (insert_bridge sample_env True ?b nm1)))"
    using insert_bridge_present [of True ?b sample_env nm1]
    by (simp only: equal_range_set) (simp add: new_bridge_def)
  then show ?thesis
    by (cases "insert_bridge sample_env True ?b nm1") (force simp: lock_node_added a Let_def new_bridge_def)
qed

lemma matter_endpoints_never_shared_witness:
  "\<exists>nm b. monitor_reachable sample_env (sample_monitor Map.empty) nm \<and> (''zw-1'', b) \<in> set (nm_endpoints nm) \<and>
     be_matter_endpoint b = 2 \<and> ei_dynamic_index map_ember 2 (nm_ember nm) = 0"
proof -
  obtain out nm b where nm: "on_unify_node_added sample_env (lock_node ''zw-1'') (sample_monitor Map.empty) = Inr (out, nm)"
    and b: "(''zw-1'', b) \<in> set (nm_endpoints nm)" "be_matter_endpoint b = 2" "be_index b = 0"
    using first_lock_bridged [of "''zw-1''"] by blast
  have r: "monitor_reachable sample_env (sample_monitor Map.empty) nm"
    using monitor_reachable.start nm by (rule monitor_reachable.added)
  have "ei_dynamic_index map_ember (be_matter_endpoint b) (nm_ember nm) = be_index b"
    using matter_endpoints_never_shared [OF _ _ _ _ sample_fresh r b(1)] b(2)
      memory_env.store memory_env.reliable memory_env.ember by simp
  then show ?thesis using r b by auto
qed

end
