(* ===== verification/Bridge_Startup.thy ===== *)
theory Bridge_Startup
  imports Ember_Interface
begin

unbundle bit_operations_syntax

text \<open>
  linux/src/matter_bridge_config.cpp, the device options that linux/src/matter_bridge_main.cpp computes from
  the configuration, linux/src/matter_bridge_qrcode_publisher.cpp, and the command of
  linux/src/matter_bridge_cli.cpp that lists the endpoints. The configuration and command line modules of
  Unify, the random generator, the setup payload and the broker are parameters.
\<close>

section \<open>Declaring the configuration\<close>

datatype config_default = Default_String string | Default_Bool bool | Default_Int u32

abbreviation CONFIG_KEY_INTERFACE :: string where "CONFIG_KEY_INTERFACE \<equiv> ''umb.interface''"
abbreviation CONFIG_KEY_KVS_PATH :: string where "CONFIG_KEY_KVS_PATH \<equiv> ''umb.kvs''"
abbreviation CONFIG_KEY_VENDOR_ID :: string where "CONFIG_KEY_VENDOR_ID \<equiv> ''umb.vendor''"
abbreviation CONFIG_KEY_PRODUCT_ID :: string where "CONFIG_KEY_PRODUCT_ID \<equiv> ''umb.product''"
abbreviation CONFIG_KEY_DISCRIMINATOR_ID :: string where "CONFIG_KEY_DISCRIMINATOR_ID \<equiv> ''umb.discriminator''"
abbreviation CONFIG_KEY_PIN_ID :: string where "CONFIG_KEY_PIN_ID \<equiv> ''umb.pin''"
abbreviation CONFIG_KEY_STRICT :: string where "CONFIG_KEY_STRICT \<equiv> ''umb.strict_device_mapping''"
abbreviation CONFIG_KEY_WIFI :: string where "CONFIG_KEY_WIFI \<equiv> ''umb.wifi''"
abbreviation CONFIG_KEY_THREAD :: string where "CONFIG_KEY_THREAD \<equiv> ''umb.thread''"

text \<open>The options in the order they are added, on Linux, for the random number \<open>random_pin\<close>.\<close>

definition config_options :: "u32 \<Rightarrow> (string \<times> config_default) list" where
  "config_options random_pin =
     [(CONFIG_KEY_INTERFACE, Default_String ''eth0''),
      (CONFIG_KEY_KVS_PATH, Default_String ''/var/chip_unify_bridge.kvs''),
      (CONFIG_KEY_STRICT, Default_Bool False),
      (CONFIG_KEY_VENDOR_ID, Default_Int 0xFFF1),
      (CONFIG_KEY_PRODUCT_ID, Default_Int 0x8001),
      (CONFIG_KEY_DISCRIMINATOR_ID, Default_Int 0xFFE),
      (CONFIG_KEY_PIN_ID, Default_Int (random_pin AND 0xFFFFFF)),
      (CONFIG_KEY_WIFI, Default_Bool False),
      (CONFIG_KEY_THREAD, Default_Bool False)]"

text \<open>
  \<open>drbg\<close> gives four random bytes, or nothing when it fails; \<open>add\<close> declares an option and gives a status,
  zero for \<open>CONFIG_STATUS_OK\<close>. The result is true on failure. Of the two random numbers only the first is
  used.
\<close>

definition matter_bridge_config_init ::
  "('r \<Rightarrow> u32 option \<times> 'r) \<Rightarrow> (string \<Rightarrow> config_default \<Rightarrow> 's \<Rightarrow> u32 \<times> 's) \<Rightarrow> 'r \<Rightarrow> 's \<Rightarrow> bool \<times> 's" where
  "matter_bridge_config_init drbg add r s =
     (case drbg r of
        (None, r) \<Rightarrow> (True, s)
      | (Some random_pin, r) \<Rightarrow>
          (case drbg r of
             (None, r) \<Rightarrow> (True, s)
           | (Some random_disc, r) \<Rightarrow>
               (let (status, s) = foldl (\<lambda>(status, s) (key, dflt). let (st, s) = add key dflt s in (status OR st, s))
                  (0, s) (config_options random_pin)
                in (status \<noteq> 0, s))))"

section \<open>Reading the configuration\<close>

record bridge_config =
  interface :: "string option"
  kvs_path :: "string option"
  strict_device_mapping :: bool
  vendor_id :: u16
  product_id :: u16
  discriminator :: u16
  pin :: u32
  wifi :: bool
  thread :: bool

text \<open>What \<open>memset\<close> leaves: null pointers, false and zero.\<close>

definition zero_config :: bridge_config where
  "zero_config = \<lparr>interface = None, kvs_path = None, strict_device_mapping = False, vendor_id = 0,
     product_id = 0, discriminator = 0, pin = 0, wifi = False, thread = False\<rparr>"

record config_values =
  get_as_string :: "string \<Rightarrow> string option"
  get_as_bool :: "string \<Rightarrow> bool option"
  get_as_int :: "string \<Rightarrow> u32 option"

definition config_get_int_safe :: "config_values \<Rightarrow> string \<Rightarrow> u32 res" where
  "config_get_int_safe vs key = (case get_as_int vs key of Some v \<Rightarrow> Inr v | None \<Rightarrow> Inl Fatal_Assertion)"

definition config_fixt_setup :: "config_values \<Rightarrow> bridge_config \<Rightarrow> bridge_config res" where
  "config_fixt_setup vs c =
     (let c = c\<lparr>interface := (case get_as_string vs CONFIG_KEY_INTERFACE of None \<Rightarrow> interface c | v \<Rightarrow> v),
               kvs_path := (case get_as_string vs CONFIG_KEY_KVS_PATH of None \<Rightarrow> kvs_path c | v \<Rightarrow> v),
               strict_device_mapping :=
                 (case get_as_bool vs CONFIG_KEY_STRICT of None \<Rightarrow> strict_device_mapping c | Some b \<Rightarrow> b),
               wifi := (case get_as_bool vs CONFIG_KEY_WIFI of None \<Rightarrow> wifi c | Some b \<Rightarrow> b),
               thread := (case get_as_bool vs CONFIG_KEY_THREAD of None \<Rightarrow> thread c | Some b \<Rightarrow> b)\<rparr>
      in rbind (config_get_int_safe vs CONFIG_KEY_VENDOR_ID) (\<lambda>v.
         rbind (config_get_int_safe vs CONFIG_KEY_PRODUCT_ID) (\<lambda>p.
         rbind (config_get_int_safe vs CONFIG_KEY_DISCRIMINATOR_ID) (\<lambda>d.
         rbind (config_get_int_safe vs CONFIG_KEY_PIN_ID) (\<lambda>n.
         Inr (c\<lparr>vendor_id := ucast v, product_id := ucast p,
                discriminator := ucast (d AND 0xFFFFFF), pin := n AND 0xFFF\<rparr>))))))"

section \<open>The options of the device\<close>

text \<open>The start of \<open>main\<close>; the second \<open>Emplace\<close> drops nothing, since the first left no flag.\<close>

record device_options =
  opt_standard_flow :: bool
  opt_on_network :: bool
  opt_wifi :: bool
  opt_thread :: bool
  opt_kvs :: "string option"
  opt_product_id :: u16
  opt_vendor_id :: u16
  opt_setup_pin :: u32
  opt_discriminator :: u16

definition options_of_config :: "bridge_config \<Rightarrow> device_options" where
  "options_of_config c =
     \<lparr>opt_standard_flow = True, opt_on_network = True, opt_wifi = wifi c, opt_thread = thread c,
      opt_kvs = kvs_path c, opt_product_id = product_id c, opt_vendor_id = vendor_id c,
      opt_setup_pin = pin c AND 0xFFFFFF, opt_discriminator = discriminator c AND 0xFFF\<rparr>"

section \<open>The QR code\<close>

datatype device_event =
    kDnssdInitialized
  | kFailSafeTimerExpired
  | kCommissioningComplete
  | Other_Event

definition qr_topic :: "string \<Rightarrow> string" where
  "qr_topic qr = ''ucl/SmartStart/CommissionableDevice/'' @ qr"

definition qr_payload :: "string \<Rightarrow> string" where
  "qr_payload qr = ''{ '' @ [CHR 0x22] @ ''QRCode'' @ [CHR 0x22] @ '' : '' @ [CHR 0x22] @ qr @ [CHR 0x22] @ '' } ''"

text \<open>\<open>qr\<close> is the code the Matter library makes from the options, empty when it fails.\<close>

definition qr_publish :: "string \<Rightarrow> mqtt_action list" where
  "qr_publish qr = (if qr = [] then [] else [Publish (qr_topic qr) (qr_payload qr) True])"

definition qr_unretain :: "string \<Rightarrow> mqtt_action list" where
  "qr_unretain qr = (if qr = [] then [] else [Publish (qr_topic qr) [] False])"

fun qr_device_event :: "string \<Rightarrow> bool \<Rightarrow> device_event \<Rightarrow> mqtt_action list" where
  "qr_device_event qr window_open kDnssdInitialized = (if window_open then qr_publish qr else [])"
| "qr_device_event qr window_open kFailSafeTimerExpired = qr_unretain qr"
| "qr_device_event qr window_open kCommissioningComplete = qr_unretain qr"
| "qr_device_event qr window_open Other_Event = []"

definition qr_run :: "string \<Rightarrow> (bool \<times> device_event) list \<Rightarrow> mqtt_action list" where
  "qr_run qr events = concat (map (\<lambda>(window_open, e). qr_device_event qr window_open e) events)"

section \<open>Listing the endpoints\<close>

datatype store_line = Line_Endpoint u16 | Line_Cluster cluster_id | Line_Attribute_Id | Line_Attribute attribute_id

definition store_cluster :: "ember_cluster \<Rightarrow> store_line list" where
  "store_cluster c = [Line_Cluster (ec_cluster_id c), Line_Attribute_Id] @
     map (\<lambda>a. Line_Attribute (ea_id a)) (take (unat (ec_attribute_count c)) (ec_attributes c))"

definition store_endpoint :: "u16 \<Rightarrow> ember_endpoint \<Rightarrow> store_line list" where
  "store_endpoint ep e = Line_Endpoint ep #
     concat (map store_cluster (take (unat (ee_cluster_count e)) (ee_clusters e)))"

text \<open>
  The loop counts positions up to the number of endpoints, but looks each one up as an endpoint identifier
  (\<open>emberAfFindEndpointType\<close>, \<open>find_type\<close>), and ends at the first one it does not find.
\<close>

function attribute_store_lines :: "(u16 \<Rightarrow> ember_endpoint option) \<Rightarrow> u16 \<Rightarrow> u16 \<Rightarrow> store_line list" where
  "attribute_store_lines find_type count ep =
     (if ep < count then
        case find_type ep of
          None \<Rightarrow> []
        | Some e \<Rightarrow> store_endpoint ep e @ attribute_store_lines find_type count (ep + 1)
      else [])"
  by pat_completeness auto

termination attribute_store_lines
  by (relation "measure (\<lambda>(_, count, ep). unat count - unat ep)")
    (auto simp: word_less_succ16 word_less_nat_alt)

declare attribute_store_lines.simps [simp del]

definition attribute_store_cli_func :: "(u16 \<Rightarrow> ember_endpoint option) \<Rightarrow> u16 \<Rightarrow> store_line list" where
  "attribute_store_cli_func find_type count = attribute_store_lines find_type count 0"

section \<open>Lemmas\<close>

lemma config_fixt_setup_fields:
  assumes "get_as_int vs CONFIG_KEY_VENDOR_ID = Some v" and "get_as_int vs CONFIG_KEY_PRODUCT_ID = Some p"
    and "get_as_int vs CONFIG_KEY_DISCRIMINATOR_ID = Some d" and "get_as_int vs CONFIG_KEY_PIN_ID = Some n"
  shows "\<exists>c'. config_fixt_setup vs c = Inr c' \<and> vendor_id c' = ucast v \<and> product_id c' = ucast p \<and>
    discriminator c' = ucast (d AND 0xFFFFFF) \<and> pin c' = n AND 0xFFF"
  using assms by (simp add: config_fixt_setup_def config_get_int_safe_def Let_def)

lemma and_mask_12: "(n :: 'a::len word) AND 0xFFF = take_bit 12 n"
  by (simp add: take_bit_eq_mask mask_eq_exp_minus_1)

lemma and_mask_24: "(n :: 'a::len word) AND 0xFFFFFF = take_bit 24 n"
  by (simp add: take_bit_eq_mask mask_eq_exp_minus_1)

lemma pin_kept_iff: "take_bit 12 (n :: u32) = n \<longleftrightarrow> n < 4096"
  by (simp add: word_unat_eq_iff unsigned_take_bit_eq take_bit_nat_eq_self_iff word_less_nat_alt)

lemmas masks = and_mask_12 and_mask_24

lemma attribute_store_from:
  assumes "i \<le> unat count"
  shows "attribute_store_lines find_type count (word_of_nat i) =
    concat (map (\<lambda>ep. store_endpoint ep (the (find_type ep)))
      (takeWhile (\<lambda>ep. find_type ep \<noteq> None) (map word_of_nat [i..<unat count])))"
  using assms
proof (induction rule: inc_induct)
  case base
  show ?case by (simp add: attribute_store_lines.simps)
next
  case (step i)
  have lt: "(word_of_nat i :: u16) < count"
    using step(2) unat16_less [of count] by (simp add: word_less_nat_alt unat_of_nat take_bit_nat_eq_self)
  have upt: "[i..<unat count] = i # [Suc i..<unat count]" using step(2) by (simp add: upt_conv_Cons)
  show ?case
    using step(3) lt unfolding upt
    by (subst attribute_store_lines.simps) (auto simp: add.commute split: option.splits)
qed

section \<open>Properties\<close>

text \<open>C38: Of the setup pin the bridge is configured with only the low 12 bits become the setup code, so a
  pin from 4096 on is not the one a controller has to use, although the option and \<open>main\<close> speak of 24
  bits; of the discriminator, which has 12 bits, all 12 are kept.\<close>

theorem setup_code_of_configuration:
  assumes "get_as_int vs CONFIG_KEY_VENDOR_ID = Some v" and "get_as_int vs CONFIG_KEY_PRODUCT_ID = Some p"
    and "get_as_int vs CONFIG_KEY_DISCRIMINATOR_ID = Some d" and "get_as_int vs CONFIG_KEY_PIN_ID = Some n"
  shows "\<exists>c. config_fixt_setup vs zero_config = Inr c \<and>
    opt_setup_pin (options_of_config c) = take_bit 12 n \<and>
    (opt_setup_pin (options_of_config c) = n \<longleftrightarrow> n < 4096) \<and>
    opt_discriminator (options_of_config c) = take_bit 12 (ucast d)"
proof -
  obtain c where c: "config_fixt_setup vs zero_config = Inr c" "discriminator c = ucast (d AND 0xFFFFFF)"
      "pin c = n AND 0xFFF"
    using config_fixt_setup_fields [OF assms] by blast
  have "ucast (take_bit 24 d) = (ucast d :: u16)"
    by (rule bit_word_eqI) (auto simp: bit_simps)
  then show ?thesis
    using c pin_kept_iff [of n] by (simp add: options_of_config_def masks)
qed

lemma setup_code_of_configuration_witness:
  "\<exists>c. config_fixt_setup \<lparr>get_as_string = Map.empty, get_as_bool = Map.empty,
       get_as_int = [CONFIG_KEY_VENDOR_ID \<mapsto> 0xFFF1, CONFIG_KEY_PRODUCT_ID \<mapsto> 0x8001,
         CONFIG_KEY_DISCRIMINATOR_ID \<mapsto> 3840, CONFIG_KEY_PIN_ID \<mapsto> 20202021]\<rparr> zero_config = Inr c \<and>
     opt_setup_pin (options_of_config c) = 549 \<and> opt_discriminator (options_of_config c) = 3840"
  using setup_code_of_configuration [where vs = "\<lparr>get_as_string = Map.empty, get_as_bool = Map.empty,
       get_as_int = [CONFIG_KEY_VENDOR_ID \<mapsto> 0xFFF1, CONFIG_KEY_PRODUCT_ID \<mapsto> 0x8001,
         CONFIG_KEY_DISCRIMINATOR_ID \<mapsto> 3840, CONFIG_KEY_PIN_ID \<mapsto> 20202021]\<rparr>"
      and v = "0xFFF1" and p = "0x8001" and d = 3840 and n = 20202021]
  by simp blast

text \<open>With a broker that keeps the last retained message of a topic, the code the bridge announces when
  it starts stays announced for ever: when commissioning ends the empty message is sent without the retain
  flag, which does not clear the retained one.\<close>

theorem qr_code_stays_retained:
  assumes "\<forall>t m r. broker (Publish t m False) r = r"
    and "\<forall>t m r. m \<noteq> [] \<longrightarrow> broker (Publish t m True) r = r(t \<mapsto> m)"
    and "qr \<noteq> []"
  shows "fold broker (qr_run qr ((True, kDnssdInitialized) # events)) r (qr_topic qr) = Some (qr_payload qr)"
proof -
  have p: "qr_payload qr \<noteq> []" by (simp add: qr_payload_def)
  have "fold broker (qr_run qr events) r (qr_topic qr) = Some (qr_payload qr)"
    if "r (qr_topic qr) = Some (qr_payload qr)" for r
    using that
  proof (induction events arbitrary: r)
    case (Cons e events)
    obtain w ev where e: "e = (w, ev)" by (cases e)
    show ?case
      using Cons assms p unfolding e by (cases ev) (auto simp: qr_run_def qr_publish_def qr_unretain_def)
  qed (simp add: qr_run_def)
  from this [of "r(qr_topic qr \<mapsto> qr_payload qr)"] show ?thesis
    using assms p by (simp add: qr_run_def qr_publish_def)
qed

definition sample_broker :: "mqtt_action \<Rightarrow> (string \<rightharpoonup> string) \<Rightarrow> string \<rightharpoonup> string" where
  "sample_broker a r = (case a of
     Publish t m retain \<Rightarrow> if \<not> retain then r else r(t := if m = [] then None else Some m) | _ \<Rightarrow> r)"

lemma qr_code_stays_retained_witness:
  "fold sample_broker (qr_run ''MT:1'' [(True, kDnssdInitialized), (False, kCommissioningComplete)]) Map.empty
     (qr_topic ''MT:1'') = Some (qr_payload ''MT:1'')"
  by (rule qr_code_stays_retained) (auto simp: sample_broker_def)

text \<open>The listing shows the endpoints with the identifiers 0, 1, ... up to the first that Ember does not
  know, and never more than the number of positions: what comes after a removed endpoint is left out.\<close>

theorem attribute_store_stops_at_gap:
  "attribute_store_cli_func find_type count =
     concat (map (\<lambda>ep. store_endpoint ep (the (find_type ep)))
       (takeWhile (\<lambda>ep. find_type ep \<noteq> None) (map word_of_nat [0..<unat count])))"
  using attribute_store_from [of 0 count find_type] by (simp add: attribute_store_cli_func_def)

end
