(* ===== verification/Bridge_Threads.thy ===== *)
theory Bridge_Threads
  imports Prelude
begin

text \<open>
  linux/src/matter_bridge_main.cpp: the two threads of the running bridge. The Unify thread (\<open>run_unify\<close>) waits for
  file descriptors and asks the event loop of Matter to run \<open>call_unify_event_queue\<close>; the main thread runs this
  event loop until it is stopped, and joins. Every statement that touches the shared flag, the mutex or the
  work of the event loop is a step; the threads interleave in any order.

  The event loop is the one of the Matter library: work that was scheduled is done once, in any order, between two
  events, and \<open>StopEventLoopTask\<close> or a signal to the process ends it. A wait for file descriptors ends.
\<close>

section \<open>State\<close>

datatype event_work = Run_Unify | Stop_Loop

datatype bridge_thread = Main_Thread | Unify_Thread

text \<open>The statements of the Unify thread and of the main thread that come next.\<close>

datatype unify_pc = U_Test | U_Wait | U_Lock | U_Schedule | U_Unlock | U_Done

datatype main_pc =
    M_Loop
  | M_Lock
  | M_Run
  | M_Unlock bool
  | M_Test bool
  | M_Clear
  | M_Event
  | M_Schedule
  | M_Left
  | M_Join
  | M_Exit

record bridge_threads =
  matter_running :: bool
  unify_mutex :: "bridge_thread option"
  scheduled_work :: "event_work list"
  unify_at :: unify_pc
  main_at :: main_pc

definition threads_started :: bridge_threads where
  "threads_started = \<lparr>matter_running = True, unify_mutex = None, scheduled_work = [],
     unify_at = U_Test, main_at = M_Loop\<rparr>"

section \<open>Steps\<close>

text \<open>The loop of the Unify thread.\<close>

inductive unify_step :: "bridge_threads \<Rightarrow> bridge_threads \<Rightarrow> bool" where
  go_on: "unify_at s = U_Test \<Longrightarrow> matter_running s \<Longrightarrow> unify_step s (s\<lparr>unify_at := U_Wait\<rparr>)"
| finish: "unify_at s = U_Test \<Longrightarrow> \<not> matter_running s \<Longrightarrow> unify_step s (s\<lparr>unify_at := U_Done\<rparr>)"
| woken: "unify_at s = U_Wait \<Longrightarrow> unify_step s (s\<lparr>unify_at := U_Lock\<rparr>)"
| lock: "unify_at s = U_Lock \<Longrightarrow> unify_mutex s = None \<Longrightarrow>
    unify_step s (s\<lparr>unify_mutex := Some Unify_Thread, unify_at := U_Schedule\<rparr>)"
| schedule: "unify_at s = U_Schedule \<Longrightarrow>
    unify_step s (s\<lparr>scheduled_work := scheduled_work s @ [Run_Unify], unify_at := U_Unlock\<rparr>)"
| unlock: "unify_at s = U_Unlock \<Longrightarrow> unify_step s (s\<lparr>unify_mutex := None, unify_at := U_Test\<rparr>)"

text \<open>The main thread: the event loop, \<open>call_unify_event_queue\<close>, and the end of \<open>main\<close>. The Boolean is the
  variable \<open>shutdown\<close>.\<close>

inductive main_step :: "bridge_threads \<Rightarrow> bridge_threads \<Rightarrow> bool" where
  take_run: "main_at s = M_Loop \<Longrightarrow> scheduled_work s = ws @ Run_Unify # ws' \<Longrightarrow>
    main_step s (s\<lparr>scheduled_work := ws @ ws', main_at := M_Lock\<rparr>)"
| take_stop: "main_at s = M_Loop \<Longrightarrow> scheduled_work s = ws @ Stop_Loop # ws' \<Longrightarrow>
    main_step s (s\<lparr>scheduled_work := ws @ ws', main_at := M_Left\<rparr>)"
| lock: "main_at s = M_Lock \<Longrightarrow> unify_mutex s = None \<Longrightarrow>
    main_step s (s\<lparr>unify_mutex := Some Main_Thread, main_at := M_Run\<rparr>)"
| run: "main_at s = M_Run \<Longrightarrow> main_step s (s\<lparr>main_at := M_Unlock shutdown\<rparr>)"
| unlock: "main_at s = M_Unlock shutdown \<Longrightarrow>
    main_step s (s\<lparr>unify_mutex := None, main_at := M_Test shutdown\<rparr>)"
| test: "main_at s = M_Test shutdown \<Longrightarrow>
    main_step s (s\<lparr>main_at := if shutdown then M_Clear else M_Loop\<rparr>)"
| clear: "main_at s = M_Clear \<Longrightarrow> main_step s (s\<lparr>matter_running := False, main_at := M_Event\<rparr>)"
| event: "main_at s = M_Event \<Longrightarrow> main_step s (s\<lparr>main_at := M_Schedule\<rparr>)"
| schedule: "main_at s = M_Schedule \<Longrightarrow>
    main_step s (s\<lparr>scheduled_work := scheduled_work s @ [Stop_Loop], main_at := M_Loop\<rparr>)"
| left: "main_at s = M_Left \<Longrightarrow> main_step s (s\<lparr>matter_running := False, main_at := M_Join\<rparr>)"
| join: "main_at s = M_Join \<Longrightarrow> unify_at s = U_Done \<Longrightarrow> main_step s (s\<lparr>main_at := M_Exit\<rparr>)"

inductive bridge_step :: "bridge_threads \<Rightarrow> bridge_threads \<Rightarrow> bool" where
  unify: "unify_step s t \<Longrightarrow> bridge_step s t"
| main: "main_step s t \<Longrightarrow> bridge_step s t"

text \<open>A signal ends the event loop from outside.\<close>

inductive threads_reachable :: "bridge_threads \<Rightarrow> bool" where
  start: "threads_reachable threads_started"
| step: "threads_reachable s \<Longrightarrow> bridge_step s t \<Longrightarrow> threads_reachable t"
| signal: "threads_reachable s \<Longrightarrow> main_at s = M_Loop \<Longrightarrow> threads_reachable (s\<lparr>main_at := M_Left\<rparr>)"

inductive_cases unify_stepE: "unify_step s t"
inductive_cases main_stepE: "main_step s t"
inductive_simps bridge_step_iff: "bridge_step s t"

section \<open>The invariant\<close>

text \<open>
  Who holds the mutex is where the code says, and after the flag is cleared the end of the event loop is on its way.
\<close>

definition stopping :: "bridge_threads \<Rightarrow> bool" where
  "stopping s \<longleftrightarrow> main_at s \<in> {M_Event, M_Schedule, M_Left, M_Join, M_Exit} \<or> Stop_Loop \<in> set (scheduled_work s)"

definition threads_ok :: "bridge_threads \<Rightarrow> bool" where
  "threads_ok s \<longleftrightarrow>
     (unify_mutex s = Some Unify_Thread \<longleftrightarrow> unify_at s \<in> {U_Schedule, U_Unlock}) \<and>
     (unify_mutex s = Some Main_Thread \<longleftrightarrow> main_at s = M_Run \<or> (\<exists>shutdown. main_at s = M_Unlock shutdown)) \<and>
     (\<not> matter_running s \<longrightarrow> stopping s) \<and>
     (main_at s = M_Join \<longrightarrow> \<not> matter_running s) \<and> (main_at s = M_Exit \<longrightarrow> unify_at s = U_Done) \<and>
     (unify_at s = U_Done \<longrightarrow> \<not> matter_running s)"

lemma unify_step_ok: "unify_step s t \<Longrightarrow> threads_ok s \<Longrightarrow> threads_ok t"
  by (induction rule: unify_step.induct) (auto simp: threads_ok_def stopping_def)

lemma main_step_ok: "main_step s t \<Longrightarrow> threads_ok s \<Longrightarrow> threads_ok t"
  by (induction rule: main_step.induct) (auto simp: threads_ok_def stopping_def split: if_splits)

lemma threads_reachable_ok: "threads_reachable s \<Longrightarrow> threads_ok s"
proof (induction rule: threads_reachable.induct)
  case start
  show ?case by (simp add: threads_ok_def threads_started_def)
next
  case (step s t)
  then show ?case by (auto simp: bridge_step_iff dest: unify_step_ok main_step_ok)
next
  case (signal s)
  then show ?case by (auto simp: threads_ok_def stopping_def)
qed

section \<open>The way to the end\<close>

text \<open>Once the flag is cleared, this many steps are left at most.\<close>

fun unify_left :: "unify_pc \<Rightarrow> nat" where
  "unify_left U_Done = 0"
| "unify_left U_Test = 1"
| "unify_left U_Unlock = 2"
| "unify_left U_Schedule = 12"
| "unify_left U_Lock = 13"
| "unify_left U_Wait = 14"

fun main_left :: "main_pc \<Rightarrow> nat" where
  "main_left M_Exit = 0"
| "main_left M_Join = 1"
| "main_left M_Left = 2"
| "main_left M_Loop = 3"
| "main_left M_Schedule = 5"
| "main_left M_Event = 6"
| "main_left M_Clear = 7"
| "main_left (M_Test _) = 8"
| "main_left (M_Unlock _) = 9"
| "main_left M_Run = 10"
| "main_left M_Lock = 11"

fun work_left :: "event_work \<Rightarrow> nat" where
  "work_left Run_Unify = 9"
| "work_left Stop_Loop = 1"

definition steps_left :: "bridge_threads \<Rightarrow> nat" where
  "steps_left s = unify_left (unify_at s) + main_left (main_at s) + sum_list (map work_left (scheduled_work s))"

lemma unify_step_left: "unify_step s t \<Longrightarrow> \<not> matter_running s \<Longrightarrow> \<not> matter_running t \<and> steps_left t < steps_left s"
  by (induction rule: unify_step.induct) (auto simp: steps_left_def)

lemma main_step_left: "main_step s t \<Longrightarrow> \<not> matter_running s \<Longrightarrow> \<not> matter_running t \<and> steps_left t < steps_left s"
  by (induction rule: main_step.induct) (auto simp: steps_left_def)

lemma steps_bounded:
  assumes "(bridge_step ^^ n) s t" and "\<not> matter_running s"
  shows "\<not> matter_running t \<and> n + steps_left t \<le> steps_left s"
  using assms(1)
proof (induction n arbitrary: t)
  case 0
  then show ?case using assms(2) by simp
next
  case (Suc n)
  then obtain r where r: "(bridge_step ^^ n) s r" "bridge_step r t" by auto
  with Suc.IH [OF r(1)] show ?case
    by (auto simp: bridge_step_iff dest!: unify_step_left main_step_left)
qed

text \<open>No thread waits for ever: where neither can go on, both have ended.\<close>

lemma can_go_on:
  assumes "threads_ok s" and "\<not> matter_running s" and "\<not> (main_at s = M_Exit \<and> unify_at s = U_Done)"
  shows "\<exists>t. bridge_step s t"
proof (cases "unify_at s")
  case U_Lock
  show ?thesis
  proof (cases "unify_mutex s")
    case None
    then show ?thesis using U_Lock by (blast intro: bridge_step.unify unify_step.lock)
  next
    case (Some th)
    then have "main_at s = M_Run \<or> (\<exists>shutdown. main_at s = M_Unlock shutdown)"
      using assms(1) U_Lock by (cases th) (auto simp: threads_ok_def)
    then show ?thesis by (blast intro: bridge_step.main main_step.run main_step.unlock)
  qed
next
  case U_Done
  then have free: "unify_mutex s = None \<or> main_at s = M_Run \<or> (\<exists>shutdown. main_at s = M_Unlock shutdown)"
    using assms(1) by (cases "unify_mutex s"; cases "the (unify_mutex s)") (auto simp: threads_ok_def)
  show ?thesis
  proof (cases "main_at s")
    case M_Loop
    then have "Stop_Loop \<in> set (scheduled_work s)" using assms(1,2) by (auto simp: threads_ok_def stopping_def)
    then show ?thesis using M_Loop by (blast dest: split_list intro: bridge_step.main main_step.take_stop)
  next
    case M_Exit
    then show ?thesis using assms(3) U_Done by simp
  qed (use free U_Done in \<open>blast intro: bridge_step.main main_step.intros\<close>)+
qed (use assms(2) in \<open>blast intro: bridge_step.unify unify_step.intros\<close>)+

text \<open>A run to the point where the flag is cleared, and from there to two calls at once.\<close>

lemma about_to_clear: "threads_reachable \<lparr>matter_running = True, unify_mutex = None, scheduled_work = [],
      unify_at = U_Test, main_at = M_Clear\<rparr>"
proof -
  have r: "threads_reachable \<lparr>matter_running = True, unify_mutex = None, scheduled_work = [],
      unify_at = U_Test, main_at = M_Loop\<rparr>"
    using threads_reachable.start by (simp add: threads_started_def)
  have r: "threads_reachable \<lparr>matter_running = True, unify_mutex = None, scheduled_work = [],
      unify_at = U_Wait, main_at = M_Loop\<rparr>"
    using threads_reachable.step [OF r bridge_step.unify [OF unify_step.go_on]] by simp
  have r: "threads_reachable \<lparr>matter_running = True, unify_mutex = None, scheduled_work = [],
      unify_at = U_Lock, main_at = M_Loop\<rparr>"
    using threads_reachable.step [OF r bridge_step.unify [OF unify_step.woken]] by simp
  have r: "threads_reachable \<lparr>matter_running = True, unify_mutex = Some Unify_Thread, scheduled_work = [],
      unify_at = U_Schedule, main_at = M_Loop\<rparr>"
    using threads_reachable.step [OF r bridge_step.unify [OF unify_step.lock]] by simp
  have r: "threads_reachable \<lparr>matter_running = True, unify_mutex = Some Unify_Thread, scheduled_work = [Run_Unify],
      unify_at = U_Unlock, main_at = M_Loop\<rparr>"
    using threads_reachable.step [OF r bridge_step.unify [OF unify_step.schedule]] by simp
  have r: "threads_reachable \<lparr>matter_running = True, unify_mutex = None, scheduled_work = [Run_Unify],
      unify_at = U_Test, main_at = M_Loop\<rparr>"
    using threads_reachable.step [OF r bridge_step.unify [OF unify_step.unlock]] by simp
  have r: "threads_reachable \<lparr>matter_running = True, unify_mutex = None, scheduled_work = [],
      unify_at = U_Test, main_at = M_Lock\<rparr>"
    using threads_reachable.step [OF r bridge_step.main [OF main_step.take_run [where ws = "[]" and ws' = "[]"]]] by simp
  have r: "threads_reachable \<lparr>matter_running = True, unify_mutex = Some Main_Thread, scheduled_work = [],
      unify_at = U_Test, main_at = M_Run\<rparr>"
    using threads_reachable.step [OF r bridge_step.main [OF main_step.lock]] by simp
  have r: "threads_reachable \<lparr>matter_running = True, unify_mutex = Some Main_Thread, scheduled_work = [],
      unify_at = U_Test, main_at = M_Unlock True\<rparr>"
    using threads_reachable.step [OF r bridge_step.main [OF main_step.run [where shutdown = True]]] by simp
  have r: "threads_reachable \<lparr>matter_running = True, unify_mutex = None, scheduled_work = [],
      unify_at = U_Test, main_at = M_Test True\<rparr>"
    using threads_reachable.step [OF r bridge_step.main [OF main_step.unlock [where shutdown = True]]] by simp
  show "threads_reachable \<lparr>matter_running = True, unify_mutex = None, scheduled_work = [],
      unify_at = U_Test, main_at = M_Clear\<rparr>"
    using threads_reachable.step [OF r bridge_step.main [OF main_step.test [where shutdown = True]]] by simp
qed

lemma both_scheduling: "threads_reachable \<lparr>matter_running = False, unify_mutex = Some Unify_Thread, scheduled_work = [],
      unify_at = U_Schedule, main_at = M_Schedule\<rparr>"
proof -
  note r = about_to_clear
  have r: "threads_reachable \<lparr>matter_running = True, unify_mutex = None, scheduled_work = [],
      unify_at = U_Wait, main_at = M_Clear\<rparr>"
    using threads_reachable.step [OF r bridge_step.unify [OF unify_step.go_on]] by simp
  have r: "threads_reachable \<lparr>matter_running = True, unify_mutex = None, scheduled_work = [],
      unify_at = U_Lock, main_at = M_Clear\<rparr>"
    using threads_reachable.step [OF r bridge_step.unify [OF unify_step.woken]] by simp
  have r: "threads_reachable \<lparr>matter_running = False, unify_mutex = None, scheduled_work = [],
      unify_at = U_Lock, main_at = M_Event\<rparr>"
    using threads_reachable.step [OF r bridge_step.main [OF main_step.clear]] by simp
  have r: "threads_reachable \<lparr>matter_running = False, unify_mutex = None, scheduled_work = [],
      unify_at = U_Lock, main_at = M_Schedule\<rparr>"
    using threads_reachable.step [OF r bridge_step.main [OF main_step.event]] by simp
  show "threads_reachable \<lparr>matter_running = False, unify_mutex = Some Unify_Thread, scheduled_work = [],
      unify_at = U_Schedule, main_at = M_Schedule\<rparr>"
    using threads_reachable.step [OF r bridge_step.unify [OF unify_step.lock]] by simp
qed

section \<open>Properties\<close>

text \<open>C7: When the bridge is told to shut down and the flag is cleared, by the Unify library or by a signal, it ends:
  however the threads interleave, at most the given number of steps follows, and where no further step is possible
  the Unify thread has left its loop and \<open>main\<close> has joined it and returned. In particular neither thread is left
  waiting for the mutex or for the other.\<close>

theorem shutdown_ends:
  assumes "threads_reachable s" and "\<not> matter_running s"
  shows "((bridge_step ^^ n) s t \<longrightarrow> n \<le> steps_left s) \<and>
    ((bridge_step ^^ n) s t \<and> \<not> (\<exists>r. bridge_step t r) \<longrightarrow> main_at t = M_Exit \<and> unify_at t = U_Done)"
proof -
  have "threads_reachable t" if "(bridge_step ^^ n) s t" for n t
    using that assms(1) by (induction n arbitrary: t) (auto intro: threads_reachable.step)
  then show ?thesis using steps_bounded [OF _ assms(2), of n t] can_go_on [OF threads_reachable_ok, of t] by fastforce
qed

lemma signalled: "threads_reachable (threads_started\<lparr>matter_running := False, main_at := M_Join\<rparr>)"
proof -
  have "threads_reachable (threads_started\<lparr>main_at := M_Left\<rparr>)"
    by (rule threads_reachable.signal [OF threads_reachable.start]) (simp add: threads_started_def)
  then have "threads_reachable (threads_started\<lparr>main_at := M_Left, matter_running := False, main_at := M_Join\<rparr>)"
    by (rule threads_reachable.step) (rule bridge_step.main, rule main_step.left, simp)
  then show ?thesis by simp
qed

lemma shutdown_ends_witness:
  "\<exists>t. (bridge_step ^^ 2) (threads_started\<lparr>matter_running := False, main_at := M_Join\<rparr>) t \<and>
     2 \<le> steps_left (threads_started\<lparr>matter_running := False, main_at := M_Join\<rparr>) \<and> main_at t = M_Exit \<and> unify_at t = U_Done"
proof -
  let ?s = "threads_started\<lparr>matter_running := False, main_at := M_Join\<rparr>"
  let ?r = "?s\<lparr>unify_at := U_Done\<rparr>"
  let ?t = "?r\<lparr>main_at := M_Exit\<rparr>"
  have "bridge_step ?s ?r"
    by (rule bridge_step.unify, rule unify_step.finish) (simp_all add: threads_started_def)
  moreover have "bridge_step ?r ?t" by (rule bridge_step.main, rule main_step.join) simp_all
  ultimately have run: "(bridge_step ^^ 2) ?s ?t" unfolding numeral_2_eq_2 by auto
  have "\<not> bridge_step ?t r" for r by (auto simp: bridge_step_iff elim: unify_stepE main_stepE)
  then have "main_at ?t = M_Exit \<and> unify_at ?t = U_Done \<and> 2 \<le> steps_left ?s"
    using shutdown_ends [OF signalled, of 2 ?t] run by simp
  then show ?thesis using run by blast
qed

text \<open>C35: The mutex keeps the Unify library and the scheduling by the Unify thread apart: \<open>uic_main_loop_run\<close> and that
  call of \<open>ScheduleWork\<close> never overlap.\<close>

theorem unify_calls_exclusive:
  assumes "threads_reachable s"
  shows "\<not> (unify_at s = U_Schedule \<and> main_at s = M_Run)"
  using threads_reachable_ok [OF assms] by (auto simp: threads_ok_def)

lemma unify_calls_exclusive_witness: "\<not> (unify_at threads_started = U_Schedule \<and> main_at threads_started = M_Run)"
  using unify_calls_exclusive [OF threads_reachable.start] .

text \<open>C36: The second call of \<open>ScheduleWork\<close> is not protected: both threads can be about to call it at the same
  time, although the comment of the code says that the mutex is there because the function is not thread safe. The
  flag is not protected either: one thread can read it while the other writes it.\<close>

theorem schedule_work_unprotected:
  "(\<exists>s. threads_reachable s \<and> unify_at s = U_Schedule \<and> main_at s = M_Schedule) \<and>
   (\<exists>s. threads_reachable s \<and> unify_at s = U_Test \<and> main_at s = M_Clear)"
proof (rule conjI)
  show "\<exists>s. threads_reachable s \<and> unify_at s = U_Schedule \<and> main_at s = M_Schedule"
    by (rule exI, rule conjI, rule both_scheduling, simp)
  show "\<exists>s. threads_reachable s \<and> unify_at s = U_Test \<and> main_at s = M_Clear"
    by (rule exI, rule conjI, rule about_to_clear, simp)
qed

end
