(* ===== verification/Unify_Names.thy ===== *)
theory Unify_Names
  imports Prelude
begin

text \<open>
  linux/zap-generated/unify-data-model-templates/device-type-mapper/matter_device_mapper.inc: the names of Unify
  and the constants of the Matter library they are translated to. A constant \<open>X::Id\<close> of the namespace of a
  cluster is written by its name \<open>X\<close>. The tables are of type \<open>std::unordered_map\<close>, which keeps the first of
  equal keys, like \<open>map_of\<close>.
\<close>

type_synonym name_rows = "(string \<times> string) list"

section \<open>Clusters\<close>

definition unify_cluster_rows :: name_rows where
  "unify_cluster_rows =
     [(''Basic'', ''BridgedDeviceBasicInformation''), (''Identify'', ''Identify''), (''Groups'', ''Groups''),
      (''OnOff'', ''OnOff''), (''Level'', ''LevelControl''), (''DoorLock'', ''DoorLock''),
      (''WindowCovering'', ''WindowCovering''), (''Thermostat'', ''Thermostat''),
      (''ColorControl'', ''ColorControl''), (''IlluminanceMeasurement'', ''IlluminanceMeasurement''),
      (''TemperatureMeasurement'', ''TemperatureMeasurement''),
      (''PressureMeasurement'', ''PressureMeasurement''), (''FlowMeasurement'', ''FlowMeasurement''),
      (''RelativityHumidity'', ''RelativeHumidityMeasurement''), (''OccupancySensing'', ''OccupancySensing'')]"

section \<open>Attributes\<close>

definition unify_bridged_device_basic_information_attributes :: name_rows where
  "unify_bridged_device_basic_information_attributes =
     [(''PhysicalEnvironment'', ''Reachable''), (''DeviceEnabled'', ''UniqueID'')]"

definition unify_identify_attributes :: name_rows where
  "unify_identify_attributes =
     [(''IdentifyTime'', ''IdentifyTime'')]"

definition unify_groups_attributes :: name_rows where
  "unify_groups_attributes =
     [(''NameSupport'', ''NameSupport'')]"

definition unify_onoff_attributes :: name_rows where
  "unify_onoff_attributes =
     [(''OnOff'', ''OnOff''), (''GlobalSceneControl'', ''GlobalSceneControl''), (''OnTime'', ''OnTime''),
      (''OffWaitTime'', ''OffWaitTime''), (''StartUpOnOff'', ''StartUpOnOff'')]"

definition unify_level_control_attributes :: name_rows where
  "unify_level_control_attributes =
     [(''CurrentLevel'', ''CurrentLevel''), (''RemainingTime'', ''RemainingTime''),
      (''MinLevel'', ''MinLevel''), (''MaxLevel'', ''MaxLevel''),
      (''CurrentFrequency'', ''CurrentFrequency''), (''MinFrequency'', ''MinFrequency''),
      (''MaxFrequency'', ''MaxFrequency''), (''Options'', ''Options''),
      (''OnOffTransitionTime'', ''OnOffTransitionTime''), (''OnLevel'', ''OnLevel''),
      (''OnTransitionTime'', ''OnTransitionTime''), (''OffTransitionTime'', ''OffTransitionTime''),
      (''DefaultMoveRate'', ''DefaultMoveRate''), (''StartUpCurrentLevel'', ''StartUpCurrentLevel'')]"

definition unify_doorlock_attributes :: name_rows where
  "unify_doorlock_attributes =
     [(''LockState'', ''LockState''), (''LockType'', ''LockType''),
      (''ActuatorEnabled'', ''ActuatorEnabled''), (''DoorState'', ''DoorState''),
      (''OperatingMode'', ''OperatingMode''), (''SupportedOperatingModes'', ''SupportedOperatingModes''),
      (''FeatureMap'', ''FeatureMap'')]"

definition unify_window_covering_attributes :: name_rows where
  "unify_window_covering_attributes =
     [(''WindowCoveringType'', ''Type''), (''CurrentPositionLift'', ''CurrentPositionLift''),
      (''ConfigOrStatus'', ''ConfigStatus''),
      (''CurrentPositionLiftPercentage'', ''CurrentPositionLiftPercentage''),
      (''InstalledOpenLimitLift'', ''InstalledOpenLimitLift''),
      (''InstalledClosedLimitLift'', ''InstalledClosedLimitLift''), (''Mode'', ''Mode'')]"

definition unify_thermostat_attributes :: name_rows where
  "unify_thermostat_attributes =
     [(''LocalTemperature'', ''LocalTemperature''),
      (''OccupiedCoolingSetpoint'', ''OccupiedCoolingSetpoint''),
      (''OccupiedHeatingSetpoint'', ''OccupiedHeatingSetpoint''),
      (''MinHeatSetpointLimit'', ''MinHeatSetpointLimit''),
      (''MaxHeatSetpointLimit'', ''MaxHeatSetpointLimit''),
      (''MinCoolSetpointLimit'', ''MinCoolSetpointLimit''),
      (''MaxCoolSetpointLimit'', ''MaxCoolSetpointLimit''),
      (''ControlSequenceOfOperation'', ''ControlSequenceOfOperation''), (''SystemMode'', ''SystemMode'')]"

definition unify_color_control_attributes :: name_rows where
  "unify_color_control_attributes =
     [(''CurrentHue'', ''CurrentHue''), (''CurrentSaturation'', ''CurrentSaturation''),
      (''RemainingTime'', ''RemainingTime''), (''CurrentX'', ''CurrentX''), (''CurrentY'', ''CurrentY''),
      (''DriftCompensation'', ''DriftCompensation''),
      (''ColorTemperatureMireds'', ''ColorTemperatureMireds''), (''ColorMode'', ''ColorMode''),
      (''Options'', ''Options''), (''NumberOfPrimaries'', ''NumberOfPrimaries''),
      (''Primary1X'', ''Primary1X''), (''Primary1Y'', ''Primary1Y''),
      (''Primary1Intensity'', ''Primary1Intensity''), (''Primary2X'', ''Primary2X''),
      (''Primary2Y'', ''Primary2Y''), (''Primary2Intensity'', ''Primary2Intensity''),
      (''Primary3X'', ''Primary3X''), (''Primary3Y'', ''Primary3Y''),
      (''Primary3Intensity'', ''Primary3Intensity''), (''Primary4X'', ''Primary4X''),
      (''Primary4Y'', ''Primary4Y''), (''Primary4Intensity'', ''Primary4Intensity''),
      (''Primary5X'', ''Primary5X''), (''Primary5Y'', ''Primary5Y''),
      (''Primary5Intensity'', ''Primary5Intensity''), (''Primary6X'', ''Primary6X''),
      (''Primary6Y'', ''Primary6Y''), (''Primary6Intensity'', ''Primary6Intensity''),
      (''WhitePointX'', ''WhitePointX''), (''WhitePointY'', ''WhitePointY''),
      (''ColorPointRX'', ''ColorPointRX''), (''ColorPointRY'', ''ColorPointRY''),
      (''ColorPointRIntensity'', ''ColorPointRIntensity''), (''ColorPointGX'', ''ColorPointGX''),
      (''ColorPointGY'', ''ColorPointGY''), (''ColorPointGIntensity'', ''ColorPointGIntensity''),
      (''ColorPointBX'', ''ColorPointBX''), (''ColorPointBY'', ''ColorPointBY''),
      (''ColorPointBIntensity'', ''ColorPointBIntensity''), (''EnhancedCurrentHue'', ''EnhancedCurrentHue''),
      (''EnhancedColorMode'', ''EnhancedColorMode''), (''ColorLoopActive'', ''ColorLoopActive''),
      (''ColorLoopDirection'', ''ColorLoopDirection''), (''ColorLoopTime'', ''ColorLoopTime''),
      (''ColorLoopStartEnhancedHue'', ''ColorLoopStartEnhancedHue''),
      (''ColorLoopStoredEnhancedHue'', ''ColorLoopStoredEnhancedHue''),
      (''ColorCapabilities'', ''ColorCapabilities''),
      (''ColorTempPhysicalMinMireds'', ''ColorTempPhysicalMinMireds''),
      (''ColorTempPhysicalMaxMireds'', ''ColorTempPhysicalMaxMireds''),
      (''CoupleColorTempToLevelMinMireds'', ''CoupleColorTempToLevelMinMireds''),
      (''StartUpColorTemperatureMireds'', ''StartUpColorTemperatureMireds'')]"

definition unify_illuminance_measurement_attributes :: name_rows where
  "unify_illuminance_measurement_attributes =
     [(''MeasuredValue'', ''MeasuredValue''), (''MinMeasuredValue'', ''MinMeasuredValue''),
      (''MaxMeasuredValue'', ''MaxMeasuredValue''), (''Tolerance'', ''Tolerance''),
      (''LightSensorType'', ''LightSensorType'')]"

definition unify_temperature_measurement_attributes :: name_rows where
  "unify_temperature_measurement_attributes =
     [(''MeasuredValue'', ''MeasuredValue''), (''MinMeasuredValue'', ''MinMeasuredValue''),
      (''MaxMeasuredValue'', ''MaxMeasuredValue''), (''Tolerance'', ''Tolerance'')]"

definition unify_pressure_measurement_attributes :: name_rows where
  "unify_pressure_measurement_attributes =
     [(''MeasuredValue'', ''MeasuredValue''), (''MinMeasuredValue'', ''MinMeasuredValue''),
      (''MaxMeasuredValue'', ''MaxMeasuredValue''), (''Tolerance'', ''Tolerance''),
      (''ScaledValue'', ''ScaledValue''), (''MinScaledValue'', ''MinScaledValue''),
      (''MaxScaledValue'', ''MaxScaledValue''), (''ScaledTolerance'', ''ScaledTolerance''),
      (''Scale'', ''Scale'')]"

definition unify_flow_measurement_attributes :: name_rows where
  "unify_flow_measurement_attributes =
     [(''MeasuredValue'', ''MeasuredValue''), (''MinMeasuredValue'', ''MinMeasuredValue''),
      (''MaxMeasuredValue'', ''MaxMeasuredValue''), (''Tolerance'', ''Tolerance'')]"

definition unify_relative_humidity_measurement_attributes :: name_rows where
  "unify_relative_humidity_measurement_attributes =
     [(''MeasuredValue'', ''MeasuredValue''), (''MinMeasuredValue'', ''MinMeasuredValue''),
      (''MaxMeasuredValue'', ''MaxMeasuredValue''), (''Tolerance'', ''Tolerance'')]"

definition unify_occupancy_sensing_attributes :: name_rows where
  "unify_occupancy_sensing_attributes =
     [(''Occupancy'', ''Occupancy''), (''OccupancySensorType'', ''OccupancySensorType''),
      (''OccupancySensorTypeBitmap'', ''OccupancySensorTypeBitmap'')]"

text \<open>The table of each Unify cluster, with the namespace of its constants.\<close>

definition unify_attribute_rows :: "(string \<times> string \<times> name_rows) list" where
  "unify_attribute_rows =
     [(''Basic'', ''BridgedDeviceBasicInformation'', unify_bridged_device_basic_information_attributes),
      (''Identify'', ''Identify'', unify_identify_attributes),
      (''Groups'', ''Groups'', unify_groups_attributes), (''OnOff'', ''OnOff'', unify_onoff_attributes),
      (''Level'', ''LevelControl'', unify_level_control_attributes),
      (''DoorLock'', ''DoorLock'', unify_doorlock_attributes),
      (''WindowCovering'', ''WindowCovering'', unify_window_covering_attributes),
      (''Thermostat'', ''Thermostat'', unify_thermostat_attributes),
      (''ColorControl'', ''ColorControl'', unify_color_control_attributes),
      (''IlluminanceMeasurement'', ''IlluminanceMeasurement'', unify_illuminance_measurement_attributes),
      (''TemperatureMeasurement'', ''TemperatureMeasurement'', unify_temperature_measurement_attributes),
      (''PressureMeasurement'', ''PressureMeasurement'', unify_pressure_measurement_attributes),
      (''FlowMeasurement'', ''FlowMeasurement'', unify_flow_measurement_attributes),
      (''RelativityHumidity'', ''RelativeHumidityMeasurement'', unify_relative_humidity_measurement_attributes),
      (''OccupancySensing'', ''OccupancySensing'', unify_occupancy_sensing_attributes)]"

section \<open>Commands\<close>

definition unify_bridged_device_basic_information_commands :: name_rows where
  "unify_bridged_device_basic_information_commands =
     []"

definition unify_identify_commands :: name_rows where
  "unify_identify_commands =
     [(''Identify'', ''Identify''), (''IdentifyQueryResponse'', ''Identify''),
      (''TriggerEffect'', ''TriggerEffect'')]"

definition unify_groups_commands :: name_rows where
  "unify_groups_commands =
     [(''AddGroup'', ''AddGroupResponse''), (''AddGroupResponse'', ''AddGroupResponse''),
      (''ViewGroup'', ''ViewGroupResponse''), (''ViewGroupResponse'', ''ViewGroupResponse''),
      (''GetGroupMembership'', ''GetGroupMembershipResponse''),
      (''GetGroupMembershipResponse'', ''GetGroupMembershipResponse''),
      (''RemoveGroup'', ''RemoveGroupResponse''), (''RemoveGroupResponse'', ''RemoveGroupResponse''),
      (''RemoveAllGroups'', ''RemoveAllGroups''), (''AddGroupIfIdentifying'', ''AddGroupIfIdentifying'')]"

definition unify_onoff_commands :: name_rows where
  "unify_onoff_commands =
     [(''Off'', ''Off''), (''On'', ''On''), (''Toggle'', ''Toggle''), (''OffWithEffect'', ''OffWithEffect''),
      (''OnWithRecallGlobalScene'', ''OnWithRecallGlobalScene''), (''OnWithTimedOff'', ''OnWithTimedOff'')]"

definition unify_level_control_commands :: name_rows where
  "unify_level_control_commands =
     [(''MoveToLevel'', ''MoveToLevel''), (''Move'', ''Move''), (''Step'', ''Step''), (''Stop'', ''Stop''),
      (''MoveToLevelWithOnOff'', ''MoveToLevelWithOnOff''), (''MoveWithOnOff'', ''MoveWithOnOff''),
      (''StepWithOnOff'', ''StepWithOnOff''), (''StopWithOnOff'', ''StopWithOnOff''),
      (''MoveToClosestFrequency'', ''MoveToClosestFrequency'')]"

definition unify_doorlock_commands :: name_rows where
  "unify_doorlock_commands =
     [(''LockDoor'', ''LockDoor''), (''LockDoorResponse'', ''LockDoor''), (''UnlockDoor'', ''UnlockDoor''),
      (''UnlockDoorResponse'', ''UnlockDoor'')]"

definition unify_window_covering_commands :: name_rows where
  "unify_window_covering_commands =
     [(''UpOrOpen'', ''UpOrOpen''), (''DownOrClose'', ''DownOrClose''), (''Stop'', ''StopMotion'')]"

definition unify_thermostat_commands :: name_rows where
  "unify_thermostat_commands =
     [(''SetpointRaiseOrLower'', ''SetpointRaiseLower''),
      (''GetWeeklyScheduleResponse'', ''SetpointRaiseLower'')]"

definition unify_color_control_commands :: name_rows where
  "unify_color_control_commands =
     [(''MoveToHue'', ''MoveToHue''), (''MoveHue'', ''MoveHue''), (''StepHue'', ''StepHue''),
      (''MoveToSaturation'', ''MoveToSaturation''), (''MoveSaturation'', ''MoveSaturation''),
      (''StepSaturation'', ''StepSaturation''), (''MoveToHueAndSaturation'', ''MoveToHueAndSaturation''),
      (''MoveToColor'', ''MoveToColor''), (''MoveColor'', ''MoveColor''), (''StepColor'', ''StepColor''),
      (''MoveToColorTemperature'', ''MoveToColorTemperature''),
      (''EnhancedMoveToHue'', ''EnhancedMoveToHue''), (''EnhancedMoveHue'', ''EnhancedMoveHue''),
      (''EnhancedStepHue'', ''EnhancedStepHue''),
      (''EnhancedMoveToHueAndSaturation'', ''EnhancedMoveToHueAndSaturation''),
      (''ColorLoopSet'', ''ColorLoopSet''), (''StopMoveStep'', ''StopMoveStep''),
      (''MoveColorTemperature'', ''MoveColorTemperature''),
      (''StepColorTemperature'', ''StepColorTemperature'')]"

definition unify_illuminance_measurement_commands :: name_rows where
  "unify_illuminance_measurement_commands =
     []"

definition unify_temperature_measurement_commands :: name_rows where
  "unify_temperature_measurement_commands =
     []"

definition unify_pressure_measurement_commands :: name_rows where
  "unify_pressure_measurement_commands =
     []"

definition unify_flow_measurement_commands :: name_rows where
  "unify_flow_measurement_commands =
     []"

definition unify_relative_humidity_measurement_commands :: name_rows where
  "unify_relative_humidity_measurement_commands =
     []"

definition unify_occupancy_sensing_commands :: name_rows where
  "unify_occupancy_sensing_commands =
     []"

text \<open>The table of each Unify cluster, with the namespace of its constants.\<close>

definition unify_command_rows :: "(string \<times> string \<times> name_rows) list" where
  "unify_command_rows =
     [(''Basic'', ''BridgedDeviceBasicInformation'', unify_bridged_device_basic_information_commands),
      (''Identify'', ''Identify'', unify_identify_commands), (''Groups'', ''Groups'', unify_groups_commands),
      (''OnOff'', ''OnOff'', unify_onoff_commands),
      (''Level'', ''LevelControl'', unify_level_control_commands),
      (''DoorLock'', ''DoorLock'', unify_doorlock_commands),
      (''WindowCovering'', ''WindowCovering'', unify_window_covering_commands),
      (''Thermostat'', ''Thermostat'', unify_thermostat_commands),
      (''ColorControl'', ''ColorControl'', unify_color_control_commands),
      (''IlluminanceMeasurement'', ''IlluminanceMeasurement'', unify_illuminance_measurement_commands),
      (''TemperatureMeasurement'', ''TemperatureMeasurement'', unify_temperature_measurement_commands),
      (''PressureMeasurement'', ''PressureMeasurement'', unify_pressure_measurement_commands),
      (''FlowMeasurement'', ''FlowMeasurement'', unify_flow_measurement_commands),
      (''RelativityHumidity'', ''RelativeHumidityMeasurement'', unify_relative_humidity_measurement_commands),
      (''OccupancySensing'', ''OccupancySensing'', unify_occupancy_sensing_commands)]"

lemmas unify_attribute_tables =
  unify_bridged_device_basic_information_attributes_def unify_identify_attributes_def
  unify_groups_attributes_def unify_onoff_attributes_def unify_level_control_attributes_def
  unify_doorlock_attributes_def unify_window_covering_attributes_def unify_thermostat_attributes_def
  unify_color_control_attributes_def unify_illuminance_measurement_attributes_def
  unify_temperature_measurement_attributes_def unify_pressure_measurement_attributes_def
  unify_flow_measurement_attributes_def unify_relative_humidity_measurement_attributes_def
  unify_occupancy_sensing_attributes_def

lemmas unify_command_tables =
  unify_bridged_device_basic_information_commands_def unify_identify_commands_def unify_groups_commands_def
  unify_onoff_commands_def unify_level_control_commands_def unify_doorlock_commands_def
  unify_window_covering_commands_def unify_thermostat_commands_def unify_color_control_commands_def
  unify_illuminance_measurement_commands_def unify_temperature_measurement_commands_def
  unify_pressure_measurement_commands_def unify_flow_measurement_commands_def
  unify_relative_humidity_measurement_commands_def unify_occupancy_sensing_commands_def

end
