(* ===== verification/Matter_Names.thy ===== *)
theory Matter_Names
  imports Prelude
begin

text \<open>
  linux/zap-generated/data_model_translator/device-type-mapper/matter_id_model.inc: the Matter names of all
  clusters, attributes and commands. Every row has the form \<open>{ "X", X::Id }\<close> and is written \<open>X\<close>; every table is
  in the namespace of its cluster. Names of clusters that have a table in the Unify mapping stand in a
  definition of their own, the others in groups of consecutive tables.
\<close>

section \<open>Clusters\<close>

definition matter_cluster_names :: "string list" where
  "matter_cluster_names =
     [''Identify'', ''Groups'', ''OnOff'', ''LevelControl'', ''PulseWidthModulation'', ''Descriptor'',
      ''Binding'', ''AccessControl'', ''Actions'', ''BasicInformation'', ''OtaSoftwareUpdateProvider'',
      ''OtaSoftwareUpdateRequestor'', ''LocalizationConfiguration'', ''TimeFormatLocalization'',
      ''UnitLocalization'', ''PowerSourceConfiguration'', ''PowerSource'', ''GeneralCommissioning'',
      ''NetworkCommissioning'', ''DiagnosticLogs'', ''GeneralDiagnostics'', ''SoftwareDiagnostics'',
      ''ThreadNetworkDiagnostics'', ''WiFiNetworkDiagnostics'', ''EthernetNetworkDiagnostics'',
      ''TimeSynchronization'', ''BridgedDeviceBasicInformation'', ''Switch'', ''AdministratorCommissioning'',
      ''OperationalCredentials'', ''GroupKeyManagement'', ''FixedLabel'', ''UserLabel'',
      ''ProxyConfiguration'', ''ProxyDiscovery'', ''ProxyValid'', ''BooleanState'', ''IcdManagement'',
      ''Timer'', ''OvenCavityOperationalState'', ''OvenMode'', ''LaundryDryerControls'', ''ModeSelect'',
      ''LaundryWasherMode'', ''RefrigeratorAndTemperatureControlledCabinetMode'', ''LaundryWasherControls'',
      ''RvcRunMode'', ''RvcCleanMode'', ''TemperatureControl'', ''RefrigeratorAlarm'', ''DishwasherMode'',
      ''AirQuality'', ''SmokeCoAlarm'', ''DishwasherAlarm'', ''MicrowaveOvenMode'', ''MicrowaveOvenControl'',
      ''OperationalState'', ''RvcOperationalState'', ''ScenesManagement'', ''HepaFilterMonitoring'',
      ''ActivatedCarbonFilterMonitoring'', ''BooleanStateConfiguration'', ''ValveConfigurationAndControl'',
      ''ElectricalPowerMeasurement'', ''ElectricalEnergyMeasurement'', ''WaterHeaterManagement'',
      ''DemandResponseLoadControl'', ''Messages'', ''DeviceEnergyManagement'', ''EnergyEvse'',
      ''EnergyPreference'', ''PowerTopology'', ''EnergyEvseMode'', ''WaterHeaterMode'',
      ''DeviceEnergyManagementMode'', ''DoorLock'', ''WindowCovering'', ''ServiceArea'',
      ''PumpConfigurationAndControl'', ''Thermostat'', ''FanControl'',
      ''ThermostatUserInterfaceConfiguration'', ''ColorControl'', ''BallastConfiguration'',
      ''IlluminanceMeasurement'', ''TemperatureMeasurement'', ''PressureMeasurement'', ''FlowMeasurement'',
      ''RelativeHumidityMeasurement'', ''OccupancySensing'', ''CarbonMonoxideConcentrationMeasurement'',
      ''CarbonDioxideConcentrationMeasurement'', ''NitrogenDioxideConcentrationMeasurement'',
      ''OzoneConcentrationMeasurement'', ''Pm25ConcentrationMeasurement'',
      ''FormaldehydeConcentrationMeasurement'', ''Pm1ConcentrationMeasurement'',
      ''Pm10ConcentrationMeasurement'', ''TotalVolatileOrganicCompoundsConcentrationMeasurement'',
      ''RadonConcentrationMeasurement'', ''WiFiNetworkManagement'', ''ThreadBorderRouterManagement'',
      ''ThreadNetworkDirectory'', ''WakeOnLan'', ''Channel'', ''TargetNavigator'', ''MediaPlayback'',
      ''MediaInput'', ''LowPower'', ''KeypadInput'', ''ContentLauncher'', ''AudioOutput'',
      ''ApplicationLauncher'', ''ApplicationBasic'', ''AccountLogin'', ''ContentControl'',
      ''ContentAppObserver'', ''WebRTCTransportProvider'', ''Chime'', ''EcosystemInformation'',
      ''CommissionerControl'', ''UnitTesting'', ''FaultInjection'', ''SampleMei'']"

section \<open>Attributes\<close>

definition matter_identify_attributes :: "string list" where
  "matter_identify_attributes =
     [''IdentifyTime'', ''IdentifyType'', ''GeneratedCommandList'', ''AcceptedCommandList'', ''EventList'',
      ''AttributeList'', ''FeatureMap'', ''ClusterRevision'']"

definition matter_groups_attributes :: "string list" where
  "matter_groups_attributes =
     [''NameSupport'', ''GeneratedCommandList'', ''AcceptedCommandList'', ''EventList'', ''AttributeList'',
      ''FeatureMap'', ''ClusterRevision'']"

definition matter_onoff_attributes :: "string list" where
  "matter_onoff_attributes =
     [''OnOff'', ''GlobalSceneControl'', ''OnTime'', ''OffWaitTime'', ''StartUpOnOff'',
      ''GeneratedCommandList'', ''AcceptedCommandList'', ''EventList'', ''AttributeList'', ''FeatureMap'',
      ''ClusterRevision'']"

definition matter_level_control_attributes :: "string list" where
  "matter_level_control_attributes =
     [''CurrentLevel'', ''RemainingTime'', ''MinLevel'', ''MaxLevel'', ''CurrentFrequency'', ''MinFrequency'',
      ''MaxFrequency'', ''Options'', ''OnOffTransitionTime'', ''OnLevel'', ''OnTransitionTime'',
      ''OffTransitionTime'', ''DefaultMoveRate'', ''StartUpCurrentLevel'', ''GeneratedCommandList'',
      ''AcceptedCommandList'', ''EventList'', ''AttributeList'', ''FeatureMap'', ''ClusterRevision'']"

definition matter_attributes_1 :: "(string \<times> string list) list" where
  "matter_attributes_1 =
     [(''PulseWidthModulation'', [''GeneratedCommandList'', ''AcceptedCommandList'', ''EventList'', ''AttributeList'', ''FeatureMap'',
         ''ClusterRevision'']),
      (''Descriptor'', [''DeviceTypeList'', ''ServerList'', ''ClientList'', ''PartsList'', ''GeneratedCommandList'',
         ''AcceptedCommandList'', ''EventList'', ''AttributeList'', ''FeatureMap'', ''ClusterRevision'']),
      (''Binding'', [''Binding'', ''GeneratedCommandList'', ''AcceptedCommandList'', ''EventList'', ''AttributeList'',
         ''FeatureMap'', ''ClusterRevision'']),
      (''AccessControl'', [''Acl'', ''SubjectsPerAccessControlEntry'', ''TargetsPerAccessControlEntry'',
         ''AccessControlEntriesPerFabric'', ''GeneratedCommandList'', ''AcceptedCommandList'', ''EventList'',
         ''AttributeList'', ''FeatureMap'', ''ClusterRevision'']),
      (''Actions'', [''ActionList'', ''EndpointLists'', ''GeneratedCommandList'', ''AcceptedCommandList'', ''EventList'',
         ''AttributeList'', ''FeatureMap'', ''ClusterRevision'']),
      (''BasicInformation'', [''DataModelRevision'', ''VendorName'', ''VendorID'', ''ProductName'', ''ProductID'', ''NodeLabel'',
         ''Location'', ''HardwareVersion'', ''HardwareVersionString'', ''SoftwareVersion'',
         ''SoftwareVersionString'', ''UniqueID'', ''CapabilityMinima'', ''SpecificationVersion'',
         ''MaxPathsPerInvoke'', ''GeneratedCommandList'', ''AcceptedCommandList'', ''EventList'',
         ''AttributeList'', ''FeatureMap'', ''ClusterRevision'']),
      (''OtaSoftwareUpdateProvider'', [''GeneratedCommandList'', ''AcceptedCommandList'', ''EventList'', ''AttributeList'', ''FeatureMap'',
         ''ClusterRevision'']),
      (''OtaSoftwareUpdateRequestor'', [''DefaultOTAProviders'', ''UpdatePossible'', ''UpdateState'', ''UpdateStateProgress'',
         ''GeneratedCommandList'', ''AcceptedCommandList'', ''EventList'', ''AttributeList'', ''FeatureMap'',
         ''ClusterRevision'']),
      (''LocalizationConfiguration'', [''ActiveLocale'', ''SupportedLocales'', ''GeneratedCommandList'', ''AcceptedCommandList'',
         ''EventList'', ''AttributeList'', ''FeatureMap'', ''ClusterRevision''])]"

definition matter_attributes_2 :: "(string \<times> string list) list" where
  "matter_attributes_2 =
     [(''TimeFormatLocalization'', [''HourFormat'', ''GeneratedCommandList'', ''AcceptedCommandList'', ''EventList'', ''AttributeList'',
         ''FeatureMap'', ''ClusterRevision'']),
      (''UnitLocalization'', [''GeneratedCommandList'', ''AcceptedCommandList'', ''EventList'', ''AttributeList'', ''FeatureMap'',
         ''ClusterRevision'']),
      (''PowerSourceConfiguration'', [''Sources'', ''GeneratedCommandList'', ''AcceptedCommandList'', ''EventList'', ''AttributeList'',
         ''FeatureMap'', ''ClusterRevision'']),
      (''PowerSource'', [''Status'', ''Order'', ''Description'', ''EndpointList'', ''GeneratedCommandList'',
         ''AcceptedCommandList'', ''EventList'', ''AttributeList'', ''FeatureMap'', ''ClusterRevision'']),
      (''GeneralCommissioning'', [''Breadcrumb'', ''BasicCommissioningInfo'', ''RegulatoryConfig'', ''LocationCapability'',
         ''SupportsConcurrentConnection'', ''GeneratedCommandList'', ''AcceptedCommandList'', ''EventList'',
         ''AttributeList'', ''FeatureMap'', ''ClusterRevision'']),
      (''NetworkCommissioning'', [''MaxNetworks'', ''Networks'', ''InterfaceEnabled'', ''LastNetworkingStatus'', ''LastNetworkID'',
         ''LastConnectErrorValue'', ''GeneratedCommandList'', ''AcceptedCommandList'', ''EventList'',
         ''AttributeList'', ''FeatureMap'', ''ClusterRevision'']),
      (''DiagnosticLogs'', [''GeneratedCommandList'', ''AcceptedCommandList'', ''EventList'', ''AttributeList'', ''FeatureMap'',
         ''ClusterRevision'']),
      (''GeneralDiagnostics'', [''NetworkInterfaces'', ''RebootCount'', ''TestEventTriggersEnabled'', ''GeneratedCommandList'',
         ''AcceptedCommandList'', ''EventList'', ''AttributeList'', ''FeatureMap'', ''ClusterRevision'']),
      (''SoftwareDiagnostics'', [''GeneratedCommandList'', ''AcceptedCommandList'', ''EventList'', ''AttributeList'', ''FeatureMap'',
         ''ClusterRevision''])]"

definition matter_attributes_3 :: "(string \<times> string list) list" where
  "matter_attributes_3 =
     [(''ThreadNetworkDiagnostics'', [''Channel'', ''RoutingRole'', ''NetworkName'', ''PanId'', ''ExtendedPanId'', ''MeshLocalPrefix'',
         ''NeighborTable'', ''RouteTable'', ''PartitionId'', ''Weighting'', ''DataVersion'',
         ''StableDataVersion'', ''LeaderRouterId'', ''SecurityPolicy'', ''ChannelPage0Mask'',
         ''OperationalDatasetComponents'', ''ActiveNetworkFaultsList'', ''GeneratedCommandList'',
         ''AcceptedCommandList'', ''EventList'', ''AttributeList'', ''FeatureMap'', ''ClusterRevision'']),
      (''WiFiNetworkDiagnostics'', [''Bssid'', ''SecurityType'', ''WiFiVersion'', ''ChannelNumber'', ''Rssi'', ''GeneratedCommandList'',
         ''AcceptedCommandList'', ''EventList'', ''AttributeList'', ''FeatureMap'', ''ClusterRevision'']),
      (''EthernetNetworkDiagnostics'', [''GeneratedCommandList'', ''AcceptedCommandList'', ''EventList'', ''AttributeList'', ''FeatureMap'',
         ''ClusterRevision'']),
      (''TimeSynchronization'', [''UTCTime'', ''Granularity'', ''GeneratedCommandList'', ''AcceptedCommandList'', ''EventList'',
         ''AttributeList'', ''FeatureMap'', ''ClusterRevision''])]"

definition matter_bridged_device_basic_information_attributes :: "string list" where
  "matter_bridged_device_basic_information_attributes =
     [''Reachable'', ''UniqueID'', ''GeneratedCommandList'', ''AcceptedCommandList'', ''EventList'',
      ''AttributeList'', ''FeatureMap'', ''ClusterRevision'']"

definition matter_attributes_4 :: "(string \<times> string list) list" where
  "matter_attributes_4 =
     [(''Switch'', [''NumberOfPositions'', ''CurrentPosition'', ''GeneratedCommandList'', ''AcceptedCommandList'',
         ''EventList'', ''AttributeList'', ''FeatureMap'', ''ClusterRevision'']),
      (''AdministratorCommissioning'', [''WindowStatus'', ''AdminFabricIndex'', ''AdminVendorId'', ''GeneratedCommandList'',
         ''AcceptedCommandList'', ''EventList'', ''AttributeList'', ''FeatureMap'', ''ClusterRevision'']),
      (''OperationalCredentials'', [''NOCs'', ''Fabrics'', ''SupportedFabrics'', ''CommissionedFabrics'', ''TrustedRootCertificates'',
         ''CurrentFabricIndex'', ''GeneratedCommandList'', ''AcceptedCommandList'', ''EventList'',
         ''AttributeList'', ''FeatureMap'', ''ClusterRevision'']),
      (''GroupKeyManagement'', [''GroupKeyMap'', ''GroupTable'', ''MaxGroupsPerFabric'', ''MaxGroupKeysPerFabric'',
         ''GeneratedCommandList'', ''AcceptedCommandList'', ''EventList'', ''AttributeList'', ''FeatureMap'',
         ''ClusterRevision'']),
      (''FixedLabel'', [''LabelList'', ''GeneratedCommandList'', ''AcceptedCommandList'', ''EventList'', ''AttributeList'',
         ''FeatureMap'', ''ClusterRevision'']),
      (''UserLabel'', [''LabelList'', ''GeneratedCommandList'', ''AcceptedCommandList'', ''EventList'', ''AttributeList'',
         ''FeatureMap'', ''ClusterRevision'']),
      (''ProxyConfiguration'', [''GeneratedCommandList'', ''AcceptedCommandList'', ''EventList'', ''AttributeList'', ''FeatureMap'',
         ''ClusterRevision'']),
      (''ProxyDiscovery'', [''GeneratedCommandList'', ''AcceptedCommandList'', ''EventList'', ''AttributeList'', ''FeatureMap'',
         ''ClusterRevision'']),
      (''ProxyValid'', [''GeneratedCommandList'', ''AcceptedCommandList'', ''EventList'', ''AttributeList'', ''FeatureMap'',
         ''ClusterRevision'']),
      (''BooleanState'', [''StateValue'', ''GeneratedCommandList'', ''AcceptedCommandList'', ''EventList'', ''AttributeList'',
         ''FeatureMap'', ''ClusterRevision''])]"

definition matter_attributes_5 :: "(string \<times> string list) list" where
  "matter_attributes_5 =
     [(''IcdManagement'', [''IdleModeDuration'', ''ActiveModeDuration'', ''ActiveModeThreshold'', ''GeneratedCommandList'',
         ''AcceptedCommandList'', ''EventList'', ''AttributeList'', ''FeatureMap'', ''ClusterRevision'']),
      (''Timer'', [''SetTime'', ''TimeRemaining'', ''TimerState'', ''GeneratedCommandList'', ''AcceptedCommandList'',
         ''EventList'', ''AttributeList'', ''FeatureMap'', ''ClusterRevision'']),
      (''OvenCavityOperationalState'', [''PhaseList'', ''CurrentPhase'', ''OperationalStateList'', ''OperationalState'',
         ''OperationalError'', ''GeneratedCommandList'', ''AcceptedCommandList'', ''EventList'',
         ''AttributeList'', ''FeatureMap'', ''ClusterRevision'']),
      (''OvenMode'', [''SupportedModes'', ''CurrentMode'', ''GeneratedCommandList'', ''AcceptedCommandList'',
         ''EventList'', ''AttributeList'', ''FeatureMap'', ''ClusterRevision'']),
      (''LaundryDryerControls'', [''SupportedDrynessLevels'', ''SelectedDrynessLevel'', ''GeneratedCommandList'',
         ''AcceptedCommandList'', ''EventList'', ''AttributeList'', ''FeatureMap'', ''ClusterRevision'']),
      (''ModeSelect'', [''Description'', ''StandardNamespace'', ''SupportedModes'', ''CurrentMode'',
         ''GeneratedCommandList'', ''AcceptedCommandList'', ''EventList'', ''AttributeList'', ''FeatureMap'',
         ''ClusterRevision'']),
      (''LaundryWasherMode'', [''SupportedModes'', ''CurrentMode'', ''GeneratedCommandList'', ''AcceptedCommandList'',
         ''EventList'', ''AttributeList'', ''FeatureMap'', ''ClusterRevision'']),
      (''RefrigeratorAndTemperatureControlledCabinetMode'', [''SupportedModes'', ''CurrentMode'', ''GeneratedCommandList'', ''AcceptedCommandList'',
         ''EventList'', ''AttributeList'', ''FeatureMap'', ''ClusterRevision'']),
      (''LaundryWasherControls'', [''GeneratedCommandList'', ''AcceptedCommandList'', ''EventList'', ''AttributeList'', ''FeatureMap'',
         ''ClusterRevision'']),
      (''RvcRunMode'', [''SupportedModes'', ''CurrentMode'', ''GeneratedCommandList'', ''AcceptedCommandList'',
         ''EventList'', ''AttributeList'', ''FeatureMap'', ''ClusterRevision''])]"

definition matter_attributes_6 :: "(string \<times> string list) list" where
  "matter_attributes_6 =
     [(''RvcCleanMode'', [''SupportedModes'', ''CurrentMode'', ''GeneratedCommandList'', ''AcceptedCommandList'',
         ''EventList'', ''AttributeList'', ''FeatureMap'', ''ClusterRevision'']),
      (''TemperatureControl'', [''GeneratedCommandList'', ''AcceptedCommandList'', ''EventList'', ''AttributeList'', ''FeatureMap'',
         ''ClusterRevision'']),
      (''RefrigeratorAlarm'', [''Mask'', ''State'', ''Supported'', ''GeneratedCommandList'', ''AcceptedCommandList'', ''EventList'',
         ''AttributeList'', ''FeatureMap'', ''ClusterRevision'']),
      (''DishwasherMode'', [''SupportedModes'', ''CurrentMode'', ''GeneratedCommandList'', ''AcceptedCommandList'',
         ''EventList'', ''AttributeList'', ''FeatureMap'', ''ClusterRevision'']),
      (''AirQuality'', [''AirQuality'', ''GeneratedCommandList'', ''AcceptedCommandList'', ''EventList'', ''AttributeList'',
         ''FeatureMap'', ''ClusterRevision'']),
      (''SmokeCoAlarm'', [''ExpressedState'', ''BatteryAlert'', ''TestInProgress'', ''HardwareFaultAlert'',
         ''EndOfServiceAlert'', ''GeneratedCommandList'', ''AcceptedCommandList'', ''EventList'',
         ''AttributeList'', ''FeatureMap'', ''ClusterRevision'']),
      (''DishwasherAlarm'', [''Mask'', ''State'', ''Supported'', ''GeneratedCommandList'', ''AcceptedCommandList'', ''EventList'',
         ''AttributeList'', ''FeatureMap'', ''ClusterRevision'']),
      (''MicrowaveOvenMode'', [''SupportedModes'', ''CurrentMode'', ''GeneratedCommandList'', ''AcceptedCommandList'',
         ''EventList'', ''AttributeList'', ''FeatureMap'', ''ClusterRevision'']),
      (''MicrowaveOvenControl'', [''CookTime'', ''MaxCookTime'', ''GeneratedCommandList'', ''AcceptedCommandList'', ''EventList'',
         ''AttributeList'', ''FeatureMap'', ''ClusterRevision'']),
      (''OperationalState'', [''PhaseList'', ''CurrentPhase'', ''OperationalStateList'', ''OperationalState'',
         ''OperationalError'', ''GeneratedCommandList'', ''AcceptedCommandList'', ''EventList'',
         ''AttributeList'', ''FeatureMap'', ''ClusterRevision''])]"

definition matter_attributes_7 :: "(string \<times> string list) list" where
  "matter_attributes_7 =
     [(''RvcOperationalState'', [''PhaseList'', ''CurrentPhase'', ''OperationalStateList'', ''OperationalState'',
         ''OperationalError'', ''GeneratedCommandList'', ''AcceptedCommandList'', ''EventList'',
         ''AttributeList'', ''FeatureMap'', ''ClusterRevision'']),
      (''ScenesManagement'', [''SceneTableSize'', ''FabricSceneInfo'', ''GeneratedCommandList'', ''AcceptedCommandList'',
         ''EventList'', ''AttributeList'', ''FeatureMap'', ''ClusterRevision'']),
      (''HepaFilterMonitoring'', [''ChangeIndication'', ''GeneratedCommandList'', ''AcceptedCommandList'', ''EventList'',
         ''AttributeList'', ''FeatureMap'', ''ClusterRevision'']),
      (''ActivatedCarbonFilterMonitoring'', [''ChangeIndication'', ''GeneratedCommandList'', ''AcceptedCommandList'', ''EventList'',
         ''AttributeList'', ''FeatureMap'', ''ClusterRevision'']),
      (''BooleanStateConfiguration'', [''GeneratedCommandList'', ''AcceptedCommandList'', ''EventList'', ''AttributeList'', ''FeatureMap'',
         ''ClusterRevision'']),
      (''ValveConfigurationAndControl'', [''OpenDuration'', ''DefaultOpenDuration'', ''RemainingDuration'', ''CurrentState'', ''TargetState'',
         ''GeneratedCommandList'', ''AcceptedCommandList'', ''EventList'', ''AttributeList'', ''FeatureMap'',
         ''ClusterRevision'']),
      (''ElectricalPowerMeasurement'', [''PowerMode'', ''NumberOfMeasurementTypes'', ''Accuracy'', ''ActivePower'', ''GeneratedCommandList'',
         ''AcceptedCommandList'', ''EventList'', ''AttributeList'', ''FeatureMap'', ''ClusterRevision'']),
      (''ElectricalEnergyMeasurement'', [''Accuracy'', ''GeneratedCommandList'', ''AcceptedCommandList'', ''EventList'', ''AttributeList'',
         ''FeatureMap'', ''ClusterRevision'']),
      (''WaterHeaterManagement'', [''HeaterTypes'', ''HeatDemand'', ''BoostState'', ''GeneratedCommandList'', ''AcceptedCommandList'',
         ''EventList'', ''AttributeList'', ''FeatureMap'', ''ClusterRevision''])]"

definition matter_attributes_8 :: "(string \<times> string list) list" where
  "matter_attributes_8 =
     [(''DemandResponseLoadControl'', [''LoadControlPrograms'', ''NumberOfLoadControlPrograms'', ''Events'', ''ActiveEvents'',
         ''NumberOfEventsPerProgram'', ''NumberOfTransitions'', ''DefaultRandomStart'',
         ''DefaultRandomDuration'', ''GeneratedCommandList'', ''AcceptedCommandList'', ''EventList'',
         ''AttributeList'', ''FeatureMap'', ''ClusterRevision'']),
      (''Messages'', [''Messages'', ''ActiveMessageIDs'', ''GeneratedCommandList'', ''AcceptedCommandList'', ''EventList'',
         ''AttributeList'', ''FeatureMap'', ''ClusterRevision'']),
      (''DeviceEnergyManagement'', [''ESAType'', ''ESACanGenerate'', ''ESAState'', ''AbsMinPower'', ''AbsMaxPower'',
         ''GeneratedCommandList'', ''AcceptedCommandList'', ''EventList'', ''AttributeList'', ''FeatureMap'',
         ''ClusterRevision'']),
      (''EnergyEvse'', [''State'', ''SupplyState'', ''FaultState'', ''ChargingEnabledUntil'', ''CircuitCapacity'',
         ''MinimumChargeCurrent'', ''MaximumChargeCurrent'', ''SessionID'', ''SessionDuration'',
         ''SessionEnergyCharged'', ''GeneratedCommandList'', ''AcceptedCommandList'', ''EventList'',
         ''AttributeList'', ''FeatureMap'', ''ClusterRevision'']),
      (''EnergyPreference'', [''GeneratedCommandList'', ''AcceptedCommandList'', ''EventList'', ''AttributeList'', ''FeatureMap'',
         ''ClusterRevision'']),
      (''PowerTopology'', [''GeneratedCommandList'', ''AcceptedCommandList'', ''EventList'', ''AttributeList'', ''FeatureMap'',
         ''ClusterRevision'']),
      (''EnergyEvseMode'', [''SupportedModes'', ''CurrentMode'', ''GeneratedCommandList'', ''AcceptedCommandList'',
         ''EventList'', ''AttributeList'', ''FeatureMap'', ''ClusterRevision'']),
      (''WaterHeaterMode'', [''SupportedModes'', ''CurrentMode'', ''GeneratedCommandList'', ''AcceptedCommandList'',
         ''EventList'', ''AttributeList'', ''FeatureMap'', ''ClusterRevision'']),
      (''DeviceEnergyManagementMode'', [''SupportedModes'', ''CurrentMode'', ''GeneratedCommandList'', ''AcceptedCommandList'',
         ''EventList'', ''AttributeList'', ''FeatureMap'', ''ClusterRevision''])]"

definition matter_doorlock_attributes :: "string list" where
  "matter_doorlock_attributes =
     [''LockState'', ''LockType'', ''ActuatorEnabled'', ''DoorState'', ''OperatingMode'',
      ''SupportedOperatingModes'', ''GeneratedCommandList'', ''AcceptedCommandList'', ''EventList'',
      ''AttributeList'', ''FeatureMap'', ''ClusterRevision'']"

definition matter_window_covering_attributes :: "string list" where
  "matter_window_covering_attributes =
     [''Type'', ''CurrentPositionLift'', ''ConfigStatus'', ''CurrentPositionLiftPercentage'',
      ''OperationalStatus'', ''EndProductType'', ''InstalledOpenLimitLift'', ''InstalledClosedLimitLift'',
      ''Mode'', ''GeneratedCommandList'', ''AcceptedCommandList'', ''EventList'', ''AttributeList'',
      ''FeatureMap'', ''ClusterRevision'']"

definition matter_attributes_9 :: "(string \<times> string list) list" where
  "matter_attributes_9 =
     [(''ServiceArea'', [''SupportedAreas'', ''SelectedAreas'', ''GeneratedCommandList'', ''AcceptedCommandList'',
         ''EventList'', ''AttributeList'', ''FeatureMap'', ''ClusterRevision'']),
      (''PumpConfigurationAndControl'', [''MaxPressure'', ''MaxSpeed'', ''MaxFlow'', ''EffectiveOperationMode'', ''EffectiveControlMode'',
         ''Capacity'', ''OperationMode'', ''GeneratedCommandList'', ''AcceptedCommandList'', ''EventList'',
         ''AttributeList'', ''FeatureMap'', ''ClusterRevision''])]"

definition matter_thermostat_attributes :: "string list" where
  "matter_thermostat_attributes =
     [''LocalTemperature'', ''OccupiedCoolingSetpoint'', ''OccupiedHeatingSetpoint'',
      ''MinHeatSetpointLimit'', ''MaxHeatSetpointLimit'', ''MinCoolSetpointLimit'', ''MaxCoolSetpointLimit'',
      ''ControlSequenceOfOperation'', ''SystemMode'', ''GeneratedCommandList'', ''AcceptedCommandList'',
      ''EventList'', ''AttributeList'', ''FeatureMap'', ''ClusterRevision'']"

definition matter_attributes_10 :: "(string \<times> string list) list" where
  "matter_attributes_10 =
     [(''FanControl'', [''FanMode'', ''FanModeSequence'', ''PercentSetting'', ''PercentCurrent'', ''GeneratedCommandList'',
         ''AcceptedCommandList'', ''EventList'', ''AttributeList'', ''FeatureMap'', ''ClusterRevision'']),
      (''ThermostatUserInterfaceConfiguration'', [''TemperatureDisplayMode'', ''KeypadLockout'', ''GeneratedCommandList'', ''AcceptedCommandList'',
         ''EventList'', ''AttributeList'', ''FeatureMap'', ''ClusterRevision''])]"

definition matter_color_control_attributes :: "string list" where
  "matter_color_control_attributes =
     [''CurrentHue'', ''CurrentSaturation'', ''RemainingTime'', ''CurrentX'', ''CurrentY'',
      ''DriftCompensation'', ''ColorTemperatureMireds'', ''ColorMode'', ''Options'', ''NumberOfPrimaries'',
      ''Primary1X'', ''Primary1Y'', ''Primary1Intensity'', ''Primary2X'', ''Primary2Y'',
      ''Primary2Intensity'', ''Primary3X'', ''Primary3Y'', ''Primary3Intensity'', ''Primary4X'',
      ''Primary4Y'', ''Primary4Intensity'', ''Primary5X'', ''Primary5Y'', ''Primary5Intensity'',
      ''Primary6X'', ''Primary6Y'', ''Primary6Intensity'', ''WhitePointX'', ''WhitePointY'', ''ColorPointRX'',
      ''ColorPointRY'', ''ColorPointRIntensity'', ''ColorPointGX'', ''ColorPointGY'',
      ''ColorPointGIntensity'', ''ColorPointBX'', ''ColorPointBY'', ''ColorPointBIntensity'',
      ''EnhancedCurrentHue'', ''EnhancedColorMode'', ''ColorLoopActive'', ''ColorLoopDirection'',
      ''ColorLoopTime'', ''ColorLoopStartEnhancedHue'', ''ColorLoopStoredEnhancedHue'', ''ColorCapabilities'',
      ''ColorTempPhysicalMinMireds'', ''ColorTempPhysicalMaxMireds'', ''CoupleColorTempToLevelMinMireds'',
      ''StartUpColorTemperatureMireds'', ''GeneratedCommandList'', ''AcceptedCommandList'', ''EventList'',
      ''AttributeList'', ''FeatureMap'', ''ClusterRevision'']"

definition matter_attributes_11 :: "(string \<times> string list) list" where
  "matter_attributes_11 =
     [(''BallastConfiguration'', [''PhysicalMinLevel'', ''PhysicalMaxLevel'', ''MinLevel'', ''MaxLevel'', ''LampQuantity'',
         ''GeneratedCommandList'', ''AcceptedCommandList'', ''EventList'', ''AttributeList'', ''FeatureMap'',
         ''ClusterRevision''])]"

definition matter_illuminance_measurement_attributes :: "string list" where
  "matter_illuminance_measurement_attributes =
     [''MeasuredValue'', ''MinMeasuredValue'', ''MaxMeasuredValue'', ''Tolerance'', ''LightSensorType'',
      ''GeneratedCommandList'', ''AcceptedCommandList'', ''EventList'', ''AttributeList'', ''FeatureMap'',
      ''ClusterRevision'']"

definition matter_temperature_measurement_attributes :: "string list" where
  "matter_temperature_measurement_attributes =
     [''MeasuredValue'', ''MinMeasuredValue'', ''MaxMeasuredValue'', ''Tolerance'', ''GeneratedCommandList'',
      ''AcceptedCommandList'', ''EventList'', ''AttributeList'', ''FeatureMap'', ''ClusterRevision'']"

definition matter_pressure_measurement_attributes :: "string list" where
  "matter_pressure_measurement_attributes =
     [''MeasuredValue'', ''MinMeasuredValue'', ''MaxMeasuredValue'', ''Tolerance'', ''ScaledValue'',
      ''MinScaledValue'', ''MaxScaledValue'', ''ScaledTolerance'', ''Scale'', ''GeneratedCommandList'',
      ''AcceptedCommandList'', ''EventList'', ''AttributeList'', ''FeatureMap'', ''ClusterRevision'']"

definition matter_flow_measurement_attributes :: "string list" where
  "matter_flow_measurement_attributes =
     [''MeasuredValue'', ''MinMeasuredValue'', ''MaxMeasuredValue'', ''Tolerance'', ''GeneratedCommandList'',
      ''AcceptedCommandList'', ''EventList'', ''AttributeList'', ''FeatureMap'', ''ClusterRevision'']"

definition matter_relative_humidity_measurement_attributes :: "string list" where
  "matter_relative_humidity_measurement_attributes =
     [''MeasuredValue'', ''MinMeasuredValue'', ''MaxMeasuredValue'', ''Tolerance'', ''GeneratedCommandList'',
      ''AcceptedCommandList'', ''EventList'', ''AttributeList'', ''FeatureMap'', ''ClusterRevision'']"

definition matter_occupancy_sensing_attributes :: "string list" where
  "matter_occupancy_sensing_attributes =
     [''Occupancy'', ''OccupancySensorType'', ''OccupancySensorTypeBitmap'', ''GeneratedCommandList'',
      ''AcceptedCommandList'', ''EventList'', ''AttributeList'', ''FeatureMap'', ''ClusterRevision'']"

definition matter_attributes_12 :: "(string \<times> string list) list" where
  "matter_attributes_12 =
     [(''CarbonMonoxideConcentrationMeasurement'', [''GeneratedCommandList'', ''AcceptedCommandList'', ''EventList'', ''AttributeList'', ''FeatureMap'',
         ''ClusterRevision'']),
      (''CarbonDioxideConcentrationMeasurement'', [''GeneratedCommandList'', ''AcceptedCommandList'', ''EventList'', ''AttributeList'', ''FeatureMap'',
         ''ClusterRevision'']),
      (''NitrogenDioxideConcentrationMeasurement'', [''GeneratedCommandList'', ''AcceptedCommandList'', ''EventList'', ''AttributeList'', ''FeatureMap'',
         ''ClusterRevision'']),
      (''OzoneConcentrationMeasurement'', [''GeneratedCommandList'', ''AcceptedCommandList'', ''EventList'', ''AttributeList'', ''FeatureMap'',
         ''ClusterRevision'']),
      (''Pm25ConcentrationMeasurement'', [''GeneratedCommandList'', ''AcceptedCommandList'', ''EventList'', ''AttributeList'', ''FeatureMap'',
         ''ClusterRevision'']),
      (''FormaldehydeConcentrationMeasurement'', [''GeneratedCommandList'', ''AcceptedCommandList'', ''EventList'', ''AttributeList'', ''FeatureMap'',
         ''ClusterRevision'']),
      (''Pm1ConcentrationMeasurement'', [''GeneratedCommandList'', ''AcceptedCommandList'', ''EventList'', ''AttributeList'', ''FeatureMap'',
         ''ClusterRevision'']),
      (''Pm10ConcentrationMeasurement'', [''GeneratedCommandList'', ''AcceptedCommandList'', ''EventList'', ''AttributeList'', ''FeatureMap'',
         ''ClusterRevision'']),
      (''TotalVolatileOrganicCompoundsConcentrationMeasurement'', [''GeneratedCommandList'', ''AcceptedCommandList'', ''EventList'', ''AttributeList'', ''FeatureMap'',
         ''ClusterRevision'']),
      (''RadonConcentrationMeasurement'', [''GeneratedCommandList'', ''AcceptedCommandList'', ''EventList'', ''AttributeList'', ''FeatureMap'',
         ''ClusterRevision'']),
      (''WiFiNetworkManagement'', [''Ssid'', ''PassphraseSurrogate'', ''GeneratedCommandList'', ''AcceptedCommandList'', ''EventList'',
         ''AttributeList'', ''FeatureMap'', ''ClusterRevision''])]"

definition matter_attributes_13 :: "(string \<times> string list) list" where
  "matter_attributes_13 =
     [(''ThreadBorderRouterManagement'', [''BorderRouterName'', ''BorderAgentID'', ''ThreadVersion'', ''InterfaceEnabled'',
         ''ActiveDatasetTimestamp'', ''PendingDatasetTimestamp'', ''GeneratedCommandList'',
         ''AcceptedCommandList'', ''EventList'', ''AttributeList'', ''FeatureMap'', ''ClusterRevision'']),
      (''ThreadNetworkDirectory'', [''PreferredExtendedPanID'', ''ThreadNetworks'', ''ThreadNetworkTableSize'', ''GeneratedCommandList'',
         ''AcceptedCommandList'', ''EventList'', ''AttributeList'', ''FeatureMap'', ''ClusterRevision'']),
      (''WakeOnLan'', [''GeneratedCommandList'', ''AcceptedCommandList'', ''EventList'', ''AttributeList'', ''FeatureMap'',
         ''ClusterRevision'']),
      (''Channel'', [''GeneratedCommandList'', ''AcceptedCommandList'', ''EventList'', ''AttributeList'', ''FeatureMap'',
         ''ClusterRevision'']),
      (''TargetNavigator'', [''TargetList'', ''GeneratedCommandList'', ''AcceptedCommandList'', ''EventList'', ''AttributeList'',
         ''FeatureMap'', ''ClusterRevision'']),
      (''MediaPlayback'', [''CurrentState'', ''GeneratedCommandList'', ''AcceptedCommandList'', ''EventList'',
         ''AttributeList'', ''FeatureMap'', ''ClusterRevision'']),
      (''MediaInput'', [''InputList'', ''CurrentInput'', ''GeneratedCommandList'', ''AcceptedCommandList'', ''EventList'',
         ''AttributeList'', ''FeatureMap'', ''ClusterRevision'']),
      (''LowPower'', [''GeneratedCommandList'', ''AcceptedCommandList'', ''EventList'', ''AttributeList'', ''FeatureMap'',
         ''ClusterRevision'']),
      (''KeypadInput'', [''GeneratedCommandList'', ''AcceptedCommandList'', ''EventList'', ''AttributeList'', ''FeatureMap'',
         ''ClusterRevision'']),
      (''ContentLauncher'', [''GeneratedCommandList'', ''AcceptedCommandList'', ''EventList'', ''AttributeList'', ''FeatureMap'',
         ''ClusterRevision'']),
      (''AudioOutput'', [''OutputList'', ''CurrentOutput'', ''GeneratedCommandList'', ''AcceptedCommandList'', ''EventList'',
         ''AttributeList'', ''FeatureMap'', ''ClusterRevision''])]"

definition matter_attributes_14 :: "(string \<times> string list) list" where
  "matter_attributes_14 =
     [(''ApplicationLauncher'', [''GeneratedCommandList'', ''AcceptedCommandList'', ''EventList'', ''AttributeList'', ''FeatureMap'',
         ''ClusterRevision'']),
      (''ApplicationBasic'', [''ApplicationName'', ''Application'', ''Status'', ''ApplicationVersion'', ''AllowedVendorList'',
         ''GeneratedCommandList'', ''AcceptedCommandList'', ''EventList'', ''AttributeList'', ''FeatureMap'',
         ''ClusterRevision'']),
      (''AccountLogin'', [''GeneratedCommandList'', ''AcceptedCommandList'', ''EventList'', ''AttributeList'', ''FeatureMap'',
         ''ClusterRevision'']),
      (''ContentControl'', [''Enabled'', ''BlockUnrated'', ''GeneratedCommandList'', ''AcceptedCommandList'', ''EventList'',
         ''AttributeList'', ''FeatureMap'', ''ClusterRevision'']),
      (''ContentAppObserver'', [''GeneratedCommandList'', ''AcceptedCommandList'', ''EventList'', ''AttributeList'', ''FeatureMap'',
         ''ClusterRevision'']),
      (''WebRTCTransportProvider'', [''CurrentSessions'', ''GeneratedCommandList'', ''AcceptedCommandList'', ''EventList'',
         ''AttributeList'', ''FeatureMap'', ''ClusterRevision'']),
      (''Chime'', [''InstalledChimeSounds'', ''ActiveChimeID'', ''Enabled'', ''GeneratedCommandList'',
         ''AcceptedCommandList'', ''EventList'', ''AttributeList'', ''FeatureMap'', ''ClusterRevision'']),
      (''EcosystemInformation'', [''DeviceDirectory'', ''LocationDirectory'', ''GeneratedCommandList'', ''AcceptedCommandList'',
         ''EventList'', ''AttributeList'', ''FeatureMap'', ''ClusterRevision'']),
      (''CommissionerControl'', [''SupportedDeviceCategories'', ''GeneratedCommandList'', ''AcceptedCommandList'', ''EventList'',
         ''AttributeList'', ''FeatureMap'', ''ClusterRevision''])]"

definition matter_attributes_15 :: "(string \<times> string list) list" where
  "matter_attributes_15 =
     [(''UnitTesting'', [''Boolean'', ''Bitmap8'', ''Bitmap16'', ''Bitmap32'', ''Bitmap64'', ''Int8u'', ''Int16u'',
         ''Int24u'', ''Int32u'', ''Int40u'', ''Int48u'', ''Int56u'', ''Int64u'', ''Int8s'', ''Int16s'',
         ''Int24s'', ''Int32s'', ''Int40s'', ''Int48s'', ''Int56s'', ''Int64s'', ''Enum8'', ''Enum16'',
         ''FloatSingle'', ''FloatDouble'', ''OctetString'', ''ListInt8u'', ''ListOctetString'',
         ''ListStructOctetString'', ''LongOctetString'', ''CharString'', ''LongCharString'', ''EpochUs'',
         ''EpochS'', ''VendorId'', ''ListNullablesAndOptionalsStruct'', ''EnumAttr'', ''StructAttr'',
         ''RangeRestrictedInt8u'', ''RangeRestrictedInt8s'', ''RangeRestrictedInt16u'',
         ''RangeRestrictedInt16s'', ''ListLongOctetString'', ''ListFabricScoped'', ''TimedWriteBoolean'',
         ''GeneralErrorBoolean'', ''ClusterErrorBoolean'', ''GlobalEnum'', ''GlobalStruct'',
         ''NullableBoolean'', ''NullableBitmap8'', ''NullableBitmap16'', ''NullableBitmap32'',
         ''NullableBitmap64'', ''NullableInt8u'', ''NullableInt16u'', ''NullableInt24u'', ''NullableInt32u'',
         ''NullableInt40u'', ''NullableInt48u'', ''NullableInt56u'', ''NullableInt64u'', ''NullableInt8s'',
         ''NullableInt16s'', ''NullableInt24s'', ''NullableInt32s'', ''NullableInt40s'', ''NullableInt48s'',
         ''NullableInt56s'', ''NullableInt64s'', ''NullableEnum8'', ''NullableEnum16'',
         ''NullableFloatSingle'', ''NullableFloatDouble'', ''NullableOctetString'', ''NullableCharString'',
         ''NullableEnumAttr'', ''NullableStruct'', ''NullableRangeRestrictedInt8u'',
         ''NullableRangeRestrictedInt8s'', ''NullableRangeRestrictedInt16u'',
         ''NullableRangeRestrictedInt16s'', ''NullableGlobalEnum'', ''NullableGlobalStruct'',
         ''GeneratedCommandList'', ''AcceptedCommandList'', ''EventList'', ''AttributeList'', ''FeatureMap'',
         ''ClusterRevision'', ''MeiInt8u'']),
      (''FaultInjection'', [''GeneratedCommandList'', ''AcceptedCommandList'', ''EventList'', ''AttributeList'', ''FeatureMap'',
         ''ClusterRevision'']),
      (''SampleMei'', [''FlipFlop'', ''GeneratedCommandList'', ''AcceptedCommandList'', ''EventList'', ''AttributeList'',
         ''FeatureMap'', ''ClusterRevision''])]"

definition matter_attribute_names :: "(string \<times> string list) list" where
  "matter_attribute_names =
     [(''Identify'', matter_identify_attributes), (''Groups'', matter_groups_attributes),
      (''OnOff'', matter_onoff_attributes), (''LevelControl'', matter_level_control_attributes)] @
     matter_attributes_1 @
     matter_attributes_2 @
     matter_attributes_3 @
     [(''BridgedDeviceBasicInformation'', matter_bridged_device_basic_information_attributes)] @
     matter_attributes_4 @
     matter_attributes_5 @
     matter_attributes_6 @
     matter_attributes_7 @
     matter_attributes_8 @
     [(''DoorLock'', matter_doorlock_attributes), (''WindowCovering'', matter_window_covering_attributes)] @
     matter_attributes_9 @
     [(''Thermostat'', matter_thermostat_attributes)] @
     matter_attributes_10 @
     [(''ColorControl'', matter_color_control_attributes)] @
     matter_attributes_11 @
     [(''IlluminanceMeasurement'', matter_illuminance_measurement_attributes),
      (''TemperatureMeasurement'', matter_temperature_measurement_attributes),
      (''PressureMeasurement'', matter_pressure_measurement_attributes),
      (''FlowMeasurement'', matter_flow_measurement_attributes),
      (''RelativeHumidityMeasurement'', matter_relative_humidity_measurement_attributes),
      (''OccupancySensing'', matter_occupancy_sensing_attributes)] @
     matter_attributes_12 @
     matter_attributes_13 @
     matter_attributes_14 @
     matter_attributes_15"

section \<open>Commands\<close>

definition matter_identify_commands :: "string list" where
  "matter_identify_commands =
     [''Identify'', ''TriggerEffect'']"

definition matter_groups_commands :: "string list" where
  "matter_groups_commands =
     [''AddGroup'', ''AddGroupResponse'', ''ViewGroup'', ''ViewGroupResponse'', ''GetGroupMembership'',
      ''GetGroupMembershipResponse'', ''RemoveGroup'', ''RemoveGroupResponse'', ''RemoveAllGroups'',
      ''AddGroupIfIdentifying'']"

definition matter_onoff_commands :: "string list" where
  "matter_onoff_commands =
     [''Off'', ''On'', ''Toggle'', ''OffWithEffect'', ''OnWithRecallGlobalScene'', ''OnWithTimedOff'']"

definition matter_level_control_commands :: "string list" where
  "matter_level_control_commands =
     [''MoveToLevel'', ''Move'', ''Step'', ''Stop'', ''MoveToLevelWithOnOff'', ''MoveWithOnOff'',
      ''StepWithOnOff'', ''StopWithOnOff'', ''MoveToClosestFrequency'']"

definition matter_commands_1 :: "(string \<times> string list) list" where
  "matter_commands_1 =
     [(''PulseWidthModulation'', []),
      (''Descriptor'', []),
      (''Binding'', []),
      (''AccessControl'', []),
      (''Actions'', []),
      (''BasicInformation'', []),
      (''OtaSoftwareUpdateProvider'', [''QueryImage'', ''QueryImageResponse'', ''ApplyUpdateRequest'', ''ApplyUpdateResponse'',
         ''NotifyUpdateApplied'']),
      (''OtaSoftwareUpdateRequestor'', []),
      (''LocalizationConfiguration'', []),
      (''TimeFormatLocalization'', []),
      (''UnitLocalization'', []),
      (''PowerSourceConfiguration'', []),
      (''PowerSource'', []),
      (''GeneralCommissioning'', [''ArmFailSafe'', ''ArmFailSafeResponse'', ''SetRegulatoryConfig'', ''SetRegulatoryConfigResponse'',
         ''CommissioningComplete'', ''CommissioningCompleteResponse'']),
      (''NetworkCommissioning'', []),
      (''DiagnosticLogs'', [''RetrieveLogsRequest'', ''RetrieveLogsResponse'']),
      (''GeneralDiagnostics'', [''TestEventTrigger'', ''TimeSnapshot'', ''TimeSnapshotResponse'']),
      (''SoftwareDiagnostics'', []),
      (''ThreadNetworkDiagnostics'', []),
      (''WiFiNetworkDiagnostics'', []),
      (''EthernetNetworkDiagnostics'', []),
      (''TimeSynchronization'', [''SetUTCTime''])]"

definition matter_bridged_device_basic_information_commands :: "string list" where
  "matter_bridged_device_basic_information_commands =
     []"

definition matter_commands_2 :: "(string \<times> string list) list" where
  "matter_commands_2 =
     [(''Switch'', []),
      (''AdministratorCommissioning'', [''OpenCommissioningWindow'', ''RevokeCommissioning'']),
      (''OperationalCredentials'', [''AttestationRequest'', ''AttestationResponse'', ''CertificateChainRequest'',
         ''CertificateChainResponse'', ''CSRRequest'', ''CSRResponse'', ''AddNOC'', ''UpdateNOC'',
         ''NOCResponse'', ''UpdateFabricLabel'', ''RemoveFabric'', ''AddTrustedRootCertificate'']),
      (''GroupKeyManagement'', [''KeySetWrite'', ''KeySetRead'', ''KeySetReadResponse'', ''KeySetRemove'', ''KeySetReadAllIndices'',
         ''KeySetReadAllIndicesResponse'']),
      (''FixedLabel'', []),
      (''UserLabel'', []),
      (''ProxyConfiguration'', []),
      (''ProxyDiscovery'', []),
      (''ProxyValid'', []),
      (''BooleanState'', []),
      (''IcdManagement'', []),
      (''Timer'', [''SetTimer'', ''AddTime'']),
      (''OvenCavityOperationalState'', []),
      (''OvenMode'', [''ChangeToMode'', ''ChangeToModeResponse'']),
      (''LaundryDryerControls'', []),
      (''ModeSelect'', [''ChangeToMode'']),
      (''LaundryWasherMode'', [''ChangeToMode'', ''ChangeToModeResponse'']),
      (''RefrigeratorAndTemperatureControlledCabinetMode'', [''ChangeToMode'', ''ChangeToModeResponse'']),
      (''LaundryWasherControls'', []),
      (''RvcRunMode'', [''ChangeToMode'', ''ChangeToModeResponse'']),
      (''RvcCleanMode'', [''ChangeToMode'', ''ChangeToModeResponse''])]"

definition matter_commands_3 :: "(string \<times> string list) list" where
  "matter_commands_3 =
     [(''TemperatureControl'', [''SetTemperature'']),
      (''RefrigeratorAlarm'', []),
      (''DishwasherMode'', [''ChangeToMode'', ''ChangeToModeResponse'']),
      (''AirQuality'', []),
      (''SmokeCoAlarm'', []),
      (''DishwasherAlarm'', []),
      (''MicrowaveOvenMode'', []),
      (''MicrowaveOvenControl'', [''SetCookingParameters'']),
      (''OperationalState'', []),
      (''RvcOperationalState'', []),
      (''ScenesManagement'', [''AddScene'', ''AddSceneResponse'', ''ViewScene'', ''ViewSceneResponse'', ''RemoveScene'',
         ''RemoveSceneResponse'', ''RemoveAllScenes'', ''RemoveAllScenesResponse'', ''StoreScene'',
         ''StoreSceneResponse'', ''RecallScene'', ''GetSceneMembership'', ''GetSceneMembershipResponse'']),
      (''HepaFilterMonitoring'', []),
      (''ActivatedCarbonFilterMonitoring'', []),
      (''BooleanStateConfiguration'', []),
      (''ValveConfigurationAndControl'', [''Open'', ''Close'']),
      (''ElectricalPowerMeasurement'', []),
      (''ElectricalEnergyMeasurement'', []),
      (''WaterHeaterManagement'', [''Boost'', ''CancelBoost'']),
      (''DemandResponseLoadControl'', [''RegisterLoadControlProgramRequest'', ''UnregisterLoadControlProgramRequest'',
         ''AddLoadControlEventRequest'', ''RemoveLoadControlEventRequest'']),
      (''Messages'', [''PresentMessagesRequest'', ''CancelMessagesRequest'']),
      (''DeviceEnergyManagement'', []),
      (''EnergyEvse'', [''Disable'', ''EnableCharging''])]"

definition matter_commands_4 :: "(string \<times> string list) list" where
  "matter_commands_4 =
     [(''EnergyPreference'', []),
      (''PowerTopology'', []),
      (''EnergyEvseMode'', [''ChangeToMode'', ''ChangeToModeResponse'']),
      (''WaterHeaterMode'', [''ChangeToMode'', ''ChangeToModeResponse'']),
      (''DeviceEnergyManagementMode'', [''ChangeToMode'', ''ChangeToModeResponse''])]"

definition matter_doorlock_commands :: "string list" where
  "matter_doorlock_commands =
     [''LockDoor'', ''UnlockDoor'']"

definition matter_window_covering_commands :: "string list" where
  "matter_window_covering_commands =
     [''UpOrOpen'', ''DownOrClose'', ''StopMotion'']"

definition matter_commands_5 :: "(string \<times> string list) list" where
  "matter_commands_5 =
     [(''ServiceArea'', [''SelectAreas'', ''SelectAreasResponse'']),
      (''PumpConfigurationAndControl'', [])]"

definition matter_thermostat_commands :: "string list" where
  "matter_thermostat_commands =
     [''SetpointRaiseLower'', ''GetWeeklyScheduleResponse'']"

definition matter_commands_6 :: "(string \<times> string list) list" where
  "matter_commands_6 =
     [(''FanControl'', []),
      (''ThermostatUserInterfaceConfiguration'', [])]"

definition matter_color_control_commands :: "string list" where
  "matter_color_control_commands =
     [''MoveToHue'', ''MoveHue'', ''StepHue'', ''MoveToSaturation'', ''MoveSaturation'', ''StepSaturation'',
      ''MoveToHueAndSaturation'', ''MoveToColor'', ''MoveColor'', ''StepColor'', ''MoveToColorTemperature'',
      ''EnhancedMoveToHue'', ''EnhancedMoveHue'', ''EnhancedStepHue'', ''EnhancedMoveToHueAndSaturation'',
      ''ColorLoopSet'', ''StopMoveStep'', ''MoveColorTemperature'', ''StepColorTemperature'']"

definition matter_commands_7 :: "(string \<times> string list) list" where
  "matter_commands_7 =
     [(''BallastConfiguration'', [])]"

definition matter_illuminance_measurement_commands :: "string list" where
  "matter_illuminance_measurement_commands =
     []"

definition matter_temperature_measurement_commands :: "string list" where
  "matter_temperature_measurement_commands =
     []"

definition matter_pressure_measurement_commands :: "string list" where
  "matter_pressure_measurement_commands =
     []"

definition matter_flow_measurement_commands :: "string list" where
  "matter_flow_measurement_commands =
     []"

definition matter_relative_humidity_measurement_commands :: "string list" where
  "matter_relative_humidity_measurement_commands =
     []"

definition matter_occupancy_sensing_commands :: "string list" where
  "matter_occupancy_sensing_commands =
     []"

definition matter_commands_8 :: "(string \<times> string list) list" where
  "matter_commands_8 =
     [(''CarbonMonoxideConcentrationMeasurement'', []),
      (''CarbonDioxideConcentrationMeasurement'', []),
      (''NitrogenDioxideConcentrationMeasurement'', []),
      (''OzoneConcentrationMeasurement'', []),
      (''Pm25ConcentrationMeasurement'', []),
      (''FormaldehydeConcentrationMeasurement'', []),
      (''Pm1ConcentrationMeasurement'', []),
      (''Pm10ConcentrationMeasurement'', []),
      (''TotalVolatileOrganicCompoundsConcentrationMeasurement'', []),
      (''RadonConcentrationMeasurement'', []),
      (''WiFiNetworkManagement'', [''NetworkPassphraseRequest'', ''NetworkPassphraseResponse'']),
      (''ThreadBorderRouterManagement'', [''GetActiveDatasetRequest'', ''GetPendingDatasetRequest'', ''DatasetResponse'',
         ''SetActiveDatasetRequest'']),
      (''ThreadNetworkDirectory'', [''AddNetwork'', ''RemoveNetwork'', ''GetOperationalDataset'', ''OperationalDatasetResponse'']),
      (''WakeOnLan'', []),
      (''Channel'', [''ChangeChannelByNumber'', ''SkipChannel'']),
      (''TargetNavigator'', [''NavigateTarget'', ''NavigateTargetResponse'']),
      (''MediaPlayback'', [''Play'', ''Pause'', ''Stop'', ''PlaybackResponse'']),
      (''MediaInput'', [''SelectInput'', ''ShowInputStatus'', ''HideInputStatus'']),
      (''LowPower'', [''Sleep'']),
      (''KeypadInput'', [''SendKey'', ''SendKeyResponse'']),
      (''ContentLauncher'', []),
      (''AudioOutput'', [''SelectOutput''])]"

definition matter_commands_9 :: "(string \<times> string list) list" where
  "matter_commands_9 =
     [(''ApplicationLauncher'', [''LaunchApp'', ''StopApp'', ''HideApp'', ''LauncherResponse'']),
      (''ApplicationBasic'', []),
      (''AccountLogin'', [''GetSetupPIN'', ''GetSetupPINResponse'', ''Login'', ''Logout'']),
      (''ContentControl'', []),
      (''ContentAppObserver'', [''ContentAppMessage'', ''ContentAppMessageResponse'']),
      (''WebRTCTransportProvider'', [''SolicitOffer'', ''SolicitOfferResponse'', ''ProvideOffer'', ''ProvideOfferResponse'',
         ''ProvideAnswer'', ''ProvideICECandidate'', ''EndSession'']),
      (''Chime'', [''PlayChimeSound'']),
      (''EcosystemInformation'', []),
      (''CommissionerControl'', [''RequestCommissioningApproval'', ''CommissionNode'', ''ReverseOpenCommissioningWindow'']),
      (''UnitTesting'', [''Test'', ''TestSpecificResponse'', ''TestNotHandled'', ''TestAddArgumentsResponse'',
         ''TestSpecific'', ''TestSimpleArgumentResponse'']),
      (''FaultInjection'', [''FailAtFault'', ''FailRandomlyAtFault'']),
      (''SampleMei'', [''Ping'', ''AddArgumentsResponse'', ''AddArguments''])]"

definition matter_command_names :: "(string \<times> string list) list" where
  "matter_command_names =
     [(''Identify'', matter_identify_commands), (''Groups'', matter_groups_commands),
      (''OnOff'', matter_onoff_commands), (''LevelControl'', matter_level_control_commands)] @
     matter_commands_1 @
     [(''BridgedDeviceBasicInformation'', matter_bridged_device_basic_information_commands)] @
     matter_commands_2 @
     matter_commands_3 @
     matter_commands_4 @
     [(''DoorLock'', matter_doorlock_commands), (''WindowCovering'', matter_window_covering_commands)] @
     matter_commands_5 @
     [(''Thermostat'', matter_thermostat_commands)] @
     matter_commands_6 @
     [(''ColorControl'', matter_color_control_commands)] @
     matter_commands_7 @
     [(''IlluminanceMeasurement'', matter_illuminance_measurement_commands),
      (''TemperatureMeasurement'', matter_temperature_measurement_commands),
      (''PressureMeasurement'', matter_pressure_measurement_commands),
      (''FlowMeasurement'', matter_flow_measurement_commands),
      (''RelativeHumidityMeasurement'', matter_relative_humidity_measurement_commands),
      (''OccupancySensing'', matter_occupancy_sensing_commands)] @
     matter_commands_8 @
     matter_commands_9"

end
