(* ===== verification/Matter_Listing.thy ===== *)
theory Matter_Listing
  imports Prelude
begin

text \<open>
  The numbers of the Matter library for the clusters the bridge translates, and for Binding, which a
  device type needs, as linux/zap-generated/data-models/matter_support_model.js lists them. The C++ code has the constants of the library instead; the lemmas
  about numbers assume that these have the listed values.
\<close>

type_synonym number_rows = "(string \<times> 32 word) list"

definition listed_bridged_device_basic_information_attributes :: number_rows where
  "listed_bridged_device_basic_information_attributes =
     [(''Reachable'', 17), (''UniqueID'', 18), (''GeneratedCommandList'', 65528),
      (''AcceptedCommandList'', 65529), (''EventList'', 65530), (''AttributeList'', 65531),
      (''FeatureMap'', 65532), (''ClusterRevision'', 65533)]"

definition listed_bridged_device_basic_information_commands :: number_rows where
  "listed_bridged_device_basic_information_commands =
     []"

definition listed_identify_attributes :: number_rows where
  "listed_identify_attributes =
     [(''IdentifyTime'', 0), (''IdentifyType'', 1), (''GeneratedCommandList'', 65528),
      (''AcceptedCommandList'', 65529), (''EventList'', 65530), (''AttributeList'', 65531),
      (''FeatureMap'', 65532), (''ClusterRevision'', 65533)]"

definition listed_identify_commands :: number_rows where
  "listed_identify_commands =
     [(''Identify'', 0), (''TriggerEffect'', 64)]"

definition listed_groups_attributes :: number_rows where
  "listed_groups_attributes =
     [(''NameSupport'', 0), (''GeneratedCommandList'', 65528), (''AcceptedCommandList'', 65529),
      (''EventList'', 65530), (''AttributeList'', 65531), (''FeatureMap'', 65532),
      (''ClusterRevision'', 65533)]"

definition listed_groups_commands :: number_rows where
  "listed_groups_commands =
     [(''AddGroup'', 0), (''AddGroupResponse'', 0), (''ViewGroup'', 1), (''ViewGroupResponse'', 1),
      (''GetGroupMembership'', 2), (''GetGroupMembershipResponse'', 2), (''RemoveGroup'', 3),
      (''RemoveGroupResponse'', 3), (''RemoveAllGroups'', 4), (''AddGroupIfIdentifying'', 5)]"

definition listed_onoff_attributes :: number_rows where
  "listed_onoff_attributes =
     [(''OnOff'', 0), (''GlobalSceneControl'', 16384), (''OnTime'', 16385), (''OffWaitTime'', 16386),
      (''StartUpOnOff'', 16387), (''GeneratedCommandList'', 65528), (''AcceptedCommandList'', 65529),
      (''EventList'', 65530), (''AttributeList'', 65531), (''FeatureMap'', 65532),
      (''ClusterRevision'', 65533)]"

definition listed_onoff_commands :: number_rows where
  "listed_onoff_commands =
     [(''Off'', 0), (''On'', 1), (''Toggle'', 2), (''OffWithEffect'', 64), (''OnWithRecallGlobalScene'', 65),
      (''OnWithTimedOff'', 66)]"

definition listed_level_control_attributes :: number_rows where
  "listed_level_control_attributes =
     [(''CurrentLevel'', 0), (''RemainingTime'', 1), (''MinLevel'', 2), (''MaxLevel'', 3),
      (''CurrentFrequency'', 4), (''MinFrequency'', 5), (''MaxFrequency'', 6), (''Options'', 15),
      (''OnOffTransitionTime'', 16), (''OnLevel'', 17), (''OnTransitionTime'', 18),
      (''OffTransitionTime'', 19), (''DefaultMoveRate'', 20), (''StartUpCurrentLevel'', 16384),
      (''GeneratedCommandList'', 65528), (''AcceptedCommandList'', 65529), (''EventList'', 65530),
      (''AttributeList'', 65531), (''FeatureMap'', 65532), (''ClusterRevision'', 65533)]"

definition listed_level_control_commands :: number_rows where
  "listed_level_control_commands =
     [(''MoveToLevel'', 0), (''Move'', 1), (''Step'', 2), (''Stop'', 3), (''MoveToLevelWithOnOff'', 4),
      (''MoveWithOnOff'', 5), (''StepWithOnOff'', 6), (''StopWithOnOff'', 7), (''MoveToClosestFrequency'', 8)]"

definition listed_doorlock_attributes :: number_rows where
  "listed_doorlock_attributes =
     [(''LockState'', 0), (''LockType'', 1), (''ActuatorEnabled'', 2), (''DoorState'', 3),
      (''OperatingMode'', 37), (''SupportedOperatingModes'', 38), (''GeneratedCommandList'', 65528),
      (''AcceptedCommandList'', 65529), (''EventList'', 65530), (''AttributeList'', 65531),
      (''FeatureMap'', 65532), (''ClusterRevision'', 65533)]"

definition listed_doorlock_commands :: number_rows where
  "listed_doorlock_commands =
     [(''LockDoor'', 0), (''UnlockDoor'', 1)]"

definition listed_window_covering_attributes :: number_rows where
  "listed_window_covering_attributes =
     [(''Type'', 0), (''CurrentPositionLift'', 3), (''ConfigStatus'', 7),
      (''CurrentPositionLiftPercentage'', 8), (''OperationalStatus'', 10), (''EndProductType'', 13),
      (''InstalledOpenLimitLift'', 16), (''InstalledClosedLimitLift'', 17), (''Mode'', 23),
      (''GeneratedCommandList'', 65528), (''AcceptedCommandList'', 65529), (''EventList'', 65530),
      (''AttributeList'', 65531), (''FeatureMap'', 65532), (''ClusterRevision'', 65533)]"

definition listed_window_covering_commands :: number_rows where
  "listed_window_covering_commands =
     [(''UpOrOpen'', 0), (''DownOrClose'', 1), (''StopMotion'', 2)]"

definition listed_thermostat_attributes :: number_rows where
  "listed_thermostat_attributes =
     [(''LocalTemperature'', 0), (''OccupiedCoolingSetpoint'', 17), (''OccupiedHeatingSetpoint'', 18),
      (''MinHeatSetpointLimit'', 21), (''MaxHeatSetpointLimit'', 22), (''MinCoolSetpointLimit'', 23),
      (''MaxCoolSetpointLimit'', 24), (''ControlSequenceOfOperation'', 27), (''SystemMode'', 28),
      (''GeneratedCommandList'', 65528), (''AcceptedCommandList'', 65529), (''EventList'', 65530),
      (''AttributeList'', 65531), (''FeatureMap'', 65532), (''ClusterRevision'', 65533)]"

definition listed_thermostat_commands :: number_rows where
  "listed_thermostat_commands =
     [(''SetpointRaiseLower'', 0)]"

definition listed_color_control_attributes :: number_rows where
  "listed_color_control_attributes =
     [(''CurrentHue'', 0), (''CurrentSaturation'', 1), (''RemainingTime'', 2), (''CurrentX'', 3),
      (''CurrentY'', 4), (''DriftCompensation'', 5), (''ColorTemperatureMireds'', 7), (''ColorMode'', 8),
      (''Options'', 15), (''NumberOfPrimaries'', 16), (''Primary1X'', 17), (''Primary1Y'', 18),
      (''Primary1Intensity'', 19), (''Primary2X'', 21), (''Primary2Y'', 22), (''Primary2Intensity'', 23),
      (''Primary3X'', 25), (''Primary3Y'', 26), (''Primary3Intensity'', 27), (''Primary4X'', 32),
      (''Primary4Y'', 33), (''Primary4Intensity'', 34), (''Primary5X'', 36), (''Primary5Y'', 37),
      (''Primary5Intensity'', 38), (''Primary6X'', 40), (''Primary6Y'', 41), (''Primary6Intensity'', 42),
      (''WhitePointX'', 48), (''WhitePointY'', 49), (''ColorPointRX'', 50), (''ColorPointRY'', 51),
      (''ColorPointRIntensity'', 52), (''ColorPointGX'', 54), (''ColorPointGY'', 55),
      (''ColorPointGIntensity'', 56), (''ColorPointBX'', 58), (''ColorPointBY'', 59),
      (''ColorPointBIntensity'', 60), (''EnhancedCurrentHue'', 16384), (''EnhancedColorMode'', 16385),
      (''ColorLoopActive'', 16386), (''ColorLoopDirection'', 16387), (''ColorLoopTime'', 16388),
      (''ColorLoopStartEnhancedHue'', 16389), (''ColorLoopStoredEnhancedHue'', 16390),
      (''ColorCapabilities'', 16394), (''ColorTempPhysicalMinMireds'', 16395),
      (''ColorTempPhysicalMaxMireds'', 16396), (''CoupleColorTempToLevelMinMireds'', 16397),
      (''StartUpColorTemperatureMireds'', 16400), (''GeneratedCommandList'', 65528),
      (''AcceptedCommandList'', 65529), (''EventList'', 65530), (''AttributeList'', 65531),
      (''FeatureMap'', 65532), (''ClusterRevision'', 65533)]"

definition listed_color_control_commands :: number_rows where
  "listed_color_control_commands =
     [(''MoveToHue'', 0), (''MoveHue'', 1), (''StepHue'', 2), (''MoveToSaturation'', 3),
      (''MoveSaturation'', 4), (''StepSaturation'', 5), (''MoveToHueAndSaturation'', 6), (''MoveToColor'', 7),
      (''MoveColor'', 8), (''StepColor'', 9), (''MoveToColorTemperature'', 10), (''EnhancedMoveToHue'', 64),
      (''EnhancedMoveHue'', 65), (''EnhancedStepHue'', 66), (''EnhancedMoveToHueAndSaturation'', 67),
      (''ColorLoopSet'', 68), (''StopMoveStep'', 71), (''MoveColorTemperature'', 75),
      (''StepColorTemperature'', 76)]"

definition listed_illuminance_measurement_attributes :: number_rows where
  "listed_illuminance_measurement_attributes =
     [(''MeasuredValue'', 0), (''MinMeasuredValue'', 1), (''MaxMeasuredValue'', 2), (''Tolerance'', 3),
      (''LightSensorType'', 4), (''GeneratedCommandList'', 65528), (''AcceptedCommandList'', 65529),
      (''EventList'', 65530), (''AttributeList'', 65531), (''FeatureMap'', 65532),
      (''ClusterRevision'', 65533)]"

definition listed_illuminance_measurement_commands :: number_rows where
  "listed_illuminance_measurement_commands =
     []"

definition listed_temperature_measurement_attributes :: number_rows where
  "listed_temperature_measurement_attributes =
     [(''MeasuredValue'', 0), (''MinMeasuredValue'', 1), (''MaxMeasuredValue'', 2), (''Tolerance'', 3),
      (''GeneratedCommandList'', 65528), (''AcceptedCommandList'', 65529), (''EventList'', 65530),
      (''AttributeList'', 65531), (''FeatureMap'', 65532), (''ClusterRevision'', 65533)]"

definition listed_temperature_measurement_commands :: number_rows where
  "listed_temperature_measurement_commands =
     []"

definition listed_pressure_measurement_attributes :: number_rows where
  "listed_pressure_measurement_attributes =
     [(''MeasuredValue'', 0), (''MinMeasuredValue'', 1), (''MaxMeasuredValue'', 2), (''Tolerance'', 3),
      (''ScaledValue'', 16), (''MinScaledValue'', 17), (''MaxScaledValue'', 18), (''ScaledTolerance'', 19),
      (''Scale'', 20), (''GeneratedCommandList'', 65528), (''AcceptedCommandList'', 65529),
      (''EventList'', 65530), (''AttributeList'', 65531), (''FeatureMap'', 65532),
      (''ClusterRevision'', 65533)]"

definition listed_pressure_measurement_commands :: number_rows where
  "listed_pressure_measurement_commands =
     []"

definition listed_flow_measurement_attributes :: number_rows where
  "listed_flow_measurement_attributes =
     [(''MeasuredValue'', 0), (''MinMeasuredValue'', 1), (''MaxMeasuredValue'', 2), (''Tolerance'', 3),
      (''GeneratedCommandList'', 65528), (''AcceptedCommandList'', 65529), (''EventList'', 65530),
      (''AttributeList'', 65531), (''FeatureMap'', 65532), (''ClusterRevision'', 65533)]"

definition listed_flow_measurement_commands :: number_rows where
  "listed_flow_measurement_commands =
     []"

definition listed_relative_humidity_measurement_attributes :: number_rows where
  "listed_relative_humidity_measurement_attributes =
     [(''MeasuredValue'', 0), (''MinMeasuredValue'', 1), (''MaxMeasuredValue'', 2), (''Tolerance'', 3),
      (''GeneratedCommandList'', 65528), (''AcceptedCommandList'', 65529), (''EventList'', 65530),
      (''AttributeList'', 65531), (''FeatureMap'', 65532), (''ClusterRevision'', 65533)]"

definition listed_relative_humidity_measurement_commands :: number_rows where
  "listed_relative_humidity_measurement_commands =
     []"

definition listed_occupancy_sensing_attributes :: number_rows where
  "listed_occupancy_sensing_attributes =
     [(''Occupancy'', 0), (''OccupancySensorType'', 1), (''OccupancySensorTypeBitmap'', 2),
      (''GeneratedCommandList'', 65528), (''AcceptedCommandList'', 65529), (''EventList'', 65530),
      (''AttributeList'', 65531), (''FeatureMap'', 65532), (''ClusterRevision'', 65533)]"

definition listed_occupancy_sensing_commands :: number_rows where
  "listed_occupancy_sensing_commands =
     []"

definition listed_binding_attributes :: number_rows where
  "listed_binding_attributes =
     [(''Binding'', 0), (''GeneratedCommandList'', 65528), (''AcceptedCommandList'', 65529),
      (''EventList'', 65530), (''AttributeList'', 65531), (''FeatureMap'', 65532),
      (''ClusterRevision'', 65533)]"

definition listed_binding_commands :: number_rows where
  "listed_binding_commands =
     []"

definition matter_listing :: "(string \<times> 32 word \<times> number_rows \<times> number_rows) list" where
  "matter_listing =
     [(''BridgedDeviceBasicInformation'', 57, listed_bridged_device_basic_information_attributes, listed_bridged_device_basic_information_commands),
      (''Identify'', 3, listed_identify_attributes, listed_identify_commands),
      (''Groups'', 4, listed_groups_attributes, listed_groups_commands),
      (''OnOff'', 6, listed_onoff_attributes, listed_onoff_commands),
      (''LevelControl'', 8, listed_level_control_attributes, listed_level_control_commands),
      (''DoorLock'', 257, listed_doorlock_attributes, listed_doorlock_commands),
      (''WindowCovering'', 258, listed_window_covering_attributes, listed_window_covering_commands),
      (''Thermostat'', 513, listed_thermostat_attributes, listed_thermostat_commands),
      (''ColorControl'', 768, listed_color_control_attributes, listed_color_control_commands),
      (''IlluminanceMeasurement'', 1024, listed_illuminance_measurement_attributes, listed_illuminance_measurement_commands),
      (''TemperatureMeasurement'', 1026, listed_temperature_measurement_attributes, listed_temperature_measurement_commands),
      (''PressureMeasurement'', 1027, listed_pressure_measurement_attributes, listed_pressure_measurement_commands),
      (''FlowMeasurement'', 1028, listed_flow_measurement_attributes, listed_flow_measurement_commands),
      (''RelativeHumidityMeasurement'', 1029, listed_relative_humidity_measurement_attributes, listed_relative_humidity_measurement_commands),
      (''OccupancySensing'', 1030, listed_occupancy_sensing_attributes, listed_occupancy_sensing_commands),
      (''Binding'', 30, listed_binding_attributes, listed_binding_commands)]"

lemmas listed_attribute_tables =
  listed_bridged_device_basic_information_attributes_def listed_identify_attributes_def
  listed_groups_attributes_def listed_onoff_attributes_def listed_level_control_attributes_def
  listed_doorlock_attributes_def listed_window_covering_attributes_def listed_thermostat_attributes_def
  listed_color_control_attributes_def listed_illuminance_measurement_attributes_def
  listed_temperature_measurement_attributes_def listed_pressure_measurement_attributes_def
  listed_flow_measurement_attributes_def listed_relative_humidity_measurement_attributes_def
  listed_occupancy_sensing_attributes_def listed_binding_attributes_def

lemmas listed_command_tables =
  listed_bridged_device_basic_information_commands_def listed_identify_commands_def
  listed_groups_commands_def listed_onoff_commands_def listed_level_control_commands_def
  listed_doorlock_commands_def listed_window_covering_commands_def listed_thermostat_commands_def
  listed_color_control_commands_def listed_illuminance_measurement_commands_def
  listed_temperature_measurement_commands_def listed_pressure_measurement_commands_def
  listed_flow_measurement_commands_def listed_relative_humidity_measurement_commands_def
  listed_occupancy_sensing_commands_def listed_binding_commands_def

end
