(* ===== verification/Name_Tables.thy ===== *)
theory Name_Tables
  imports Device_Translator Unify_Names Matter_Names Matter_Listing
begin

text \<open>
  The device translator over the tables of matter_device_mapper.inc and matter_id_model.inc. The
  constants \<open>X::Id\<close> of the Matter library are given by a numbering; \<open>numbers_listed\<close> says that it has the values
  of matter_support_model.js, and \<open>listed_numbers\<close> is one that has.
\<close>

section \<open>The translator\<close>

record matter_numbers =
  mn_cluster :: "string \<Rightarrow> u32"
  mn_attribute :: "string \<Rightarrow> string \<Rightarrow> u32"
  mn_command :: "string \<Rightarrow> string \<Rightarrow> u32"

definition id_map :: "(string \<Rightarrow> u32) \<Rightarrow> name_rows \<Rightarrow> name_map" where
  "id_map num rows = map_of (map (\<lambda>(name, const). (name, num const)) rows)"

definition unify_table :: "(string \<Rightarrow> string \<Rightarrow> u32) \<Rightarrow> (string \<times> string \<times> name_rows) list \<Rightarrow> string \<rightharpoonup> name_map" where
  "unify_table num tables = map_of (map (\<lambda>(cluster, ns, rows). (cluster, id_map (num ns) rows)) tables)"

definition matter_table :: "(string \<Rightarrow> string \<Rightarrow> u32) \<Rightarrow> (string \<times> string list) list \<Rightarrow> string \<rightharpoonup> name_map" where
  "matter_table num tables = map_of (map (\<lambda>(ns, names). (ns, id_map (num ns) (map (\<lambda>n. (n, n)) names))) tables)"

definition generated_translator :: "matter_numbers \<Rightarrow> bool \<Rightarrow> device_translator" where
  "generated_translator num compliant =
     \<lparr>unify_cluster_id_map = id_map (mn_cluster num) unify_cluster_rows,
      unify_to_matter_attribute_id_map = unify_table (mn_attribute num) unify_attribute_rows,
      unify_to_matter_command_id_map = unify_table (mn_command num) unify_command_rows,
      matter_cluster_id_map = id_map (mn_cluster num) (map (\<lambda>n. (n, n)) matter_cluster_names),
      matter_attribute_id_map = matter_table (mn_attribute num) matter_attribute_names,
      matter_command_id_map = matter_table (mn_command num) matter_command_names,
      m_spec_compliant = compliant\<rparr>"

section \<open>Numbers\<close>

definition numbers_listed :: "matter_numbers \<Rightarrow> bool" where
  "numbers_listed num \<longleftrightarrow> list_all (\<lambda>(ns, k, attributes, commands).
     mn_cluster num ns = k \<and> list_all (\<lambda>(n, a). mn_attribute num ns n = a) attributes \<and>
     list_all (\<lambda>(n, c). mn_command num ns n = c) commands) matter_listing"

definition listed :: "string \<Rightarrow> number_rows \<Rightarrow> u32" where
  "listed n rows = (case map_of rows n of Some k \<Rightarrow> k | None \<Rightarrow> 0)"

definition listed_numbers :: matter_numbers where
  "listed_numbers =
     \<lparr>mn_cluster = (\<lambda>ns. case map_of matter_listing ns of Some (k, _) \<Rightarrow> k | None \<Rightarrow> 0),
      mn_attribute = (\<lambda>ns n. case map_of matter_listing ns of Some (_, as, _) \<Rightarrow> listed n as | None \<Rightarrow> 0),
      mn_command = (\<lambda>ns n. case map_of matter_listing ns of Some (_, _, cs) \<Rightarrow> listed n cs | None \<Rightarrow> 0)\<rparr>"

text \<open>The names of the case labels \<open>Attributes::X::Id\<close>, by their listed numbers.\<close>

definition names_listed :: "(u32 \<Rightarrow> u32 \<Rightarrow> string option) \<Rightarrow> bool" where
  "names_listed name \<longleftrightarrow> list_all (\<lambda>(ns, k, attributes, commands).
     list_all (\<lambda>(n, a). name k a = Some n) attributes) matter_listing"

definition listed_name :: "u32 \<Rightarrow> u32 \<Rightarrow> string option" where
  "listed_name k a = Option.bind (map_of (map (\<lambda>(ns, k, as, cs). (k, as)) matter_listing) k)
     (\<lambda>as. map_of (map (\<lambda>(n, a). (a, n)) as) a)"

lemma listing_distinct: "distinct (map fst matter_listing)"
  by (simp add: matter_listing_def)

lemma listed_attribute_names_distinct:
  "list_all (\<lambda>(ns, k, as, cs). distinct (map fst as)) matter_listing"
  by (simp add: matter_listing_def listed_attribute_tables)

lemma listed_command_names_distinct:
  "list_all (\<lambda>(ns, k, as, cs). distinct (map fst cs)) matter_listing"
  by (simp add: matter_listing_def listed_command_tables)

lemma listed_attribute_numbers_distinct:
  "list_all (\<lambda>(ns, k, as, cs). distinct (map snd as)) matter_listing"
  by (simp add: matter_listing_def listed_attribute_tables)

lemma listed_cluster_numbers_distinct: "distinct (map fst (map (\<lambda>(ns, k, as, cs). (k, as)) matter_listing))"
  by (simp add: matter_listing_def)

lemma listed_lookup: "distinct (map fst rows) \<Longrightarrow> (n, k) \<in> set rows \<Longrightarrow> listed n rows = k"
  by (simp add: listed_def)

lemma numbers_listed_holds: "numbers_listed listed_numbers"
proof -
  have "mn_cluster listed_numbers ns = k \<and> list_all (\<lambda>(n, a). mn_attribute listed_numbers ns n = a) as \<and>
      list_all (\<lambda>(n, c). mn_command listed_numbers ns n = c) cs" if row: "(ns, k, as, cs) \<in> set matter_listing" for ns k as cs
  proof -
    have "map_of matter_listing ns = Some (k, as, cs)" using listing_distinct row by simp
    moreover have "distinct (map fst as)" "distinct (map fst cs)"
      using row listed_attribute_names_distinct listed_command_names_distinct by (auto simp: list_all_iff)
    ultimately show ?thesis by (auto simp: listed_numbers_def list_all_iff listed_lookup)
  qed
  then show ?thesis unfolding numbers_listed_def list_all_iff by fast
qed

lemma names_listed_holds: "names_listed listed_name"
proof -
  have "listed_name k a = Some n" if row: "(ns, k, as, cs) \<in> set matter_listing" and n: "(n, a) \<in> set as" for ns k as cs n a
  proof -
    have "(k, as) \<in> set (map (\<lambda>(ns, k, as, cs). (k, as)) matter_listing)" using row by force
    then have "map_of (map (\<lambda>(ns, k, as, cs). (k, as)) matter_listing) k = Some as"
      by (rule map_of_is_SomeI [OF listed_cluster_numbers_distinct])
    moreover have "distinct (map fst (map (\<lambda>(n, a). (a, n)) as))"
      using bspec [OF listed_attribute_numbers_distinct [unfolded list_all_iff] row] by (simp add: comp_def split_beta)
    moreover have "(a, n) \<in> set (map (\<lambda>(n, a). (a, n)) as)" using n by force
    ultimately show ?thesis by (simp add: listed_name_def)
  qed
  then show ?thesis unfolding names_listed_def list_all_iff by fast
qed

section \<open>Lookups\<close>

text \<open>The namespace and the constant a table gives for a name.\<close>

definition unify_constant :: "(string \<times> string \<times> name_rows) list \<Rightarrow> string \<Rightarrow> string \<Rightarrow> (string \<times> string) option" where
  "unify_constant tables cluster name = Option.bind (map_of tables cluster)
     (\<lambda>(ns, rows). map_option (Pair ns) (map_of rows name))"

lemma id_map_eq: "id_map num rows n = map_option num (map_of rows n)"
  by (induction rows) (auto simp: id_map_def)

lemma unify_table_eq: "unify_table num tables cluster =
    map_option (\<lambda>(ns, rows). id_map (num ns) rows) (map_of tables cluster)"
  by (induction tables) (auto simp: unify_table_def)

lemma unify_table_lookup:
  "(case unify_table num tables cluster of Some m \<Rightarrow> m name | None \<Rightarrow> None) =
     map_option (\<lambda>(ns, const). num ns const) (unify_constant tables cluster name)"
  by (cases "map_of tables cluster")
    (auto simp: unify_table_eq unify_constant_def id_map_eq option.map_comp comp_def)

lemma generated_lookups:
  "get_cluster_id (generated_translator num s) cluster = map_option (mn_cluster num) (map_of unify_cluster_rows cluster)"
  "get_attribute_id (generated_translator num s) cluster name =
     map_option (\<lambda>(ns, const). mn_attribute num ns const) (unify_constant unify_attribute_rows cluster name)"
  "get_command_id (generated_translator num s) cluster name =
     map_option (\<lambda>(ns, const). mn_command num ns const) (unify_constant unify_command_rows cluster name)"
  by (simp_all add: get_cluster_id_def get_attribute_id_def get_command_id_def generated_translator_def
      id_map_eq unify_table_lookup)

lemma listed_cluster:
  "numbers_listed num \<Longrightarrow> (ns, k, as, cs) \<in> set matter_listing \<Longrightarrow> mn_cluster num ns = k"
  unfolding numbers_listed_def list_all_iff by fast

lemma listed_attribute:
  "numbers_listed num \<Longrightarrow> (ns, k, as, cs) \<in> set matter_listing \<Longrightarrow> (n, a) \<in> set as \<Longrightarrow> mn_attribute num ns n = a"
  unfolding numbers_listed_def list_all_iff by fast

lemma listed_command:
  "numbers_listed num \<Longrightarrow> (ns, k, as, cs) \<in> set matter_listing \<Longrightarrow> (n, a) \<in> set cs \<Longrightarrow> mn_command num ns n = a"
  unfolding numbers_listed_def list_all_iff by fast

lemma listed_attribute_name:
  "names_listed name \<Longrightarrow> (ns, k, as, cs) \<in> set matter_listing \<Longrightarrow> (n, a) \<in> set as \<Longrightarrow> name k a = Some n"
  unfolding names_listed_def list_all_iff by fast

end
