(* ===== verification/Command_Handlers.thy ===== *)
theory Command_Handlers
  imports Group_Command_Translator Name_Tables
begin

text \<open>
  The classes of linux/zap-generated/data_model_translator/command_translator.hpp, one for every cluster: a record of
  what the constructor and the overridden members give the base class, and the function \<open>InvokeCommand\<close> of
  command_translator.cpp. The Matter library calls, for a command, the handler registered for its cluster: one that
  \<open>main\<close> (matter_bridge_main.cpp) has created. These are the generated classes but the one of the groups cluster, for which
  \<open>main\<close> creates the handler of group_command_translator.cpp.
\<close>

section \<open>The classes\<close>

record command_class =
  cc_cluster :: cluster_id
  cc_cluster_name :: string
  cc_unify_names :: "string list"
  cc_cases :: command_cases
  cc_commands :: "command_id list"

definition identify_class :: command_class where
  "identify_class = \<lparr>cc_cluster = Identify_Id, cc_cluster_name = ''Identify'', cc_unify_names = [],
     cc_cases = identify_cases, cc_commands = identify_commands\<rparr>"

definition groups_class :: command_class where
  "groups_class = \<lparr>cc_cluster = Groups_Id, cc_cluster_name = ''Groups'', cc_unify_names = [],
     cc_cases = groups_cases, cc_commands = groups_commands\<rparr>"

definition onoff_class :: command_class where
  "onoff_class = \<lparr>cc_cluster = OnOff_Id, cc_cluster_name = ''OnOff'', cc_unify_names = [],
     cc_cases = onoff_cases, cc_commands = onoff_commands\<rparr>"

definition level_class :: command_class where
  "level_class = \<lparr>cc_cluster = LevelControl_Id, cc_cluster_name = ''Level'', cc_unify_names = [],
     cc_cases = level_cases, cc_commands = level_commands\<rparr>"

definition doorlock_class :: command_class where
  "doorlock_class = \<lparr>cc_cluster = DoorLock_Id, cc_cluster_name = ''DoorLock'', cc_unify_names = [''DoorLock''],
     cc_cases = doorlock_cases, cc_commands = doorlock_commands\<rparr>"

definition window_covering_class :: command_class where
  "window_covering_class = \<lparr>cc_cluster = WindowCovering_Id, cc_cluster_name = ''WindowCovering'', cc_unify_names = [],
     cc_cases = window_covering_cases, cc_commands = window_covering_commands\<rparr>"

definition thermostat_class :: command_class where
  "thermostat_class = \<lparr>cc_cluster = Thermostat_Id, cc_cluster_name = ''Thermostat'', cc_unify_names = [],
     cc_cases = thermostat_cases, cc_commands = thermostat_commands\<rparr>"

definition color_class :: command_class where
  "color_class = \<lparr>cc_cluster = ColorControl_Id, cc_cluster_name = ''ColorControl'', cc_unify_names = [],
     cc_cases = color_cases, cc_commands = color_commands\<rparr>"

definition illuminance_class :: command_class where
  "illuminance_class = \<lparr>cc_cluster = 1024, cc_cluster_name = ''IlluminanceMeasurement'', cc_unify_names = [],
     cc_cases = [], cc_commands = []\<rparr>"

definition temperature_class :: command_class where
  "temperature_class = \<lparr>cc_cluster = TemperatureMeasurement_Id, cc_cluster_name = ''TemperatureMeasurement'', cc_unify_names = [],
     cc_cases = [], cc_commands = []\<rparr>"

definition pressure_class :: command_class where
  "pressure_class = \<lparr>cc_cluster = PressureMeasurement_Id, cc_cluster_name = ''PressureMeasurement'', cc_unify_names = [],
     cc_cases = [], cc_commands = []\<rparr>"

definition flow_class :: command_class where
  "flow_class = \<lparr>cc_cluster = 1028, cc_cluster_name = ''FlowMeasurement'', cc_unify_names = [],
     cc_cases = [], cc_commands = []\<rparr>"

definition humidity_class :: command_class where
  "humidity_class = \<lparr>cc_cluster = 1029, cc_cluster_name = ''RelativityHumidity'', cc_unify_names = [],
     cc_cases = [], cc_commands = []\<rparr>"

definition occupancy_class :: command_class where
  "occupancy_class = \<lparr>cc_cluster = 1030, cc_cluster_name = ''OccupancySensing'', cc_unify_names = [],
     cc_cases = [], cc_commands = []\<rparr>"

definition command_classes :: "command_class list" where
  "command_classes =
    [identify_class, groups_class, onoff_class, level_class, doorlock_class, window_covering_class,
     thermostat_class, color_class, illuminance_class, temperature_class, pressure_class, flow_class,
     humidity_class, occupancy_class]"

lemmas command_class_defs = command_classes_def
  identify_class_def groups_class_def onoff_class_def level_class_def doorlock_class_def
  window_covering_class_def thermostat_class_def color_class_def illuminance_class_def
  temperature_class_def pressure_class_def flow_class_def humidity_class_def occupancy_class_def

lemmas case_table_defs = identify_cases_def groups_cases_def onoff_cases_def level_cases_def level_plain_cases_def
  level_onoff_cases_def doorlock_cases_def doorlock_lock_cases_def doorlock_week_cases_def doorlock_year_cases_def
  doorlock_holiday_cases_def doorlock_user_cases_def doorlock_credential_cases_def window_covering_cases_def
  thermostat_cases_def color_cases_def color_hue_cases_def color_saturation_cases_def color_xy_cases_def
  color_enhanced_cases_def color_rest_cases_def

section \<open>The functions\<close>

type_synonym handler = "translator_env \<Rightarrow> cache \<Rightarrow> handler_ctx \<Rightarrow> pending_map \<Rightarrow>
  (mqtt_action list \<times> cache \<times> handler_ctx \<times> pending_map) res"

definition class_invoke_command :: "translator_env \<Rightarrow> command_class \<Rightarrow> cache \<Rightarrow> handler_ctx \<Rightarrow> pending_map \<Rightarrow>
    (mqtt_action list \<times> cache \<times> handler_ctx \<times> pending_map) res" where
  "class_invoke_command env cc = invoke_command env (cc_cluster_name cc) (cc_cases cc)"

definition identify_invoke_command :: handler where
  "identify_invoke_command env = class_invoke_command env identify_class"

definition groups_invoke_command :: handler where
  "groups_invoke_command env = class_invoke_command env groups_class"

definition onoff_invoke_command :: handler where
  "onoff_invoke_command env = class_invoke_command env onoff_class"

definition level_invoke_command :: handler where
  "level_invoke_command env = class_invoke_command env level_class"

definition doorlock_invoke_command :: handler where
  "doorlock_invoke_command env = class_invoke_command env doorlock_class"

definition window_covering_invoke_command :: handler where
  "window_covering_invoke_command env = class_invoke_command env window_covering_class"

definition thermostat_invoke_command :: handler where
  "thermostat_invoke_command env = class_invoke_command env thermostat_class"

definition color_invoke_command :: handler where
  "color_invoke_command env = class_invoke_command env color_class"

definition illuminance_invoke_command :: handler where
  "illuminance_invoke_command env = class_invoke_command env illuminance_class"

definition temperature_invoke_command :: handler where
  "temperature_invoke_command env = class_invoke_command env temperature_class"

definition pressure_invoke_command :: handler where
  "pressure_invoke_command env = class_invoke_command env pressure_class"

definition flow_invoke_command :: handler where
  "flow_invoke_command env = class_invoke_command env flow_class"

definition humidity_invoke_command :: handler where
  "humidity_invoke_command env = class_invoke_command env humidity_class"

definition occupancy_invoke_command :: handler where
  "occupancy_invoke_command env = class_invoke_command env occupancy_class"

text \<open>The virtual function of an object is the one of its class.\<close>

definition class_function :: "command_class \<Rightarrow> handler" where
  "class_function cc =
     (if cc = identify_class then identify_invoke_command
      else if cc = groups_class then groups_invoke_command
      else if cc = onoff_class then onoff_invoke_command
      else if cc = level_class then level_invoke_command
      else if cc = doorlock_class then doorlock_invoke_command
      else if cc = window_covering_class then window_covering_invoke_command
      else if cc = thermostat_class then thermostat_invoke_command
      else if cc = color_class then color_invoke_command
      else if cc = illuminance_class then illuminance_invoke_command
      else if cc = temperature_class then temperature_invoke_command
      else if cc = pressure_class then pressure_invoke_command
      else if cc = flow_class then flow_invoke_command
      else if cc = humidity_class then humidity_invoke_command
      else occupancy_invoke_command)"

section \<open>The registered handlers\<close>

datatype created_handler =
    Generated command_class
  | Group_Cluster_Handler

text \<open>In the order \<open>main\<close> creates them. No object of \<open>groups_class\<close> is created.\<close>

definition created_command_handlers :: "created_handler list" where
  "created_command_handlers =
     [Group_Cluster_Handler, Generated onoff_class, Generated identify_class, Generated level_class,
      Generated color_class, Generated thermostat_class, Generated doorlock_class, Generated window_covering_class,
      Generated illuminance_class, Generated occupancy_class, Generated temperature_class, Generated pressure_class,
      Generated flow_class, Generated humidity_class]"

fun handler_cluster :: "created_handler \<Rightarrow> cluster_id" where
  "handler_cluster (Generated cc) = cc_cluster cc"
| "handler_cluster Group_Cluster_Handler = Groups_Id"

fun handler_cluster_name :: "created_handler \<Rightarrow> string" where
  "handler_cluster_name (Generated cc) = cc_cluster_name cc"
| "handler_cluster_name Group_Cluster_Handler = ''Groups''"

text \<open>The registry of the Matter library holds one handler for each cluster.\<close>

definition registered_handler :: "cluster_id \<Rightarrow> created_handler option" where
  "registered_handler cl = find (\<lambda>h. handler_cluster h = cl) created_command_handlers"

text \<open>\<open>InvokeCommand\<close> of a handler; the base class asks the group translator of the bridge for the Unify group.\<close>

fun run_handler ::
  "translator_env \<Rightarrow> 'kv kvs_ops \<Rightarrow> group_provider \<Rightarrow> created_handler \<Rightarrow> cache \<Rightarrow> handler_ctx \<Rightarrow> group_translator \<Rightarrow> 'kv \<Rightarrow>
     pending_map \<Rightarrow> (mqtt_action list \<times> cache \<times> handler_ctx \<times> group_translator \<times> 'kv \<times> pending_map) res" where
  "run_handler env ops gp (Generated cc) c ctx gt kv p =
     rbind (class_function cc (env\<lparr>te_unify_group := get_unify_group ops kv\<rparr>) c ctx p) (\<lambda>(out, c, ctx, p).
       Inr (out, c, ctx, gt, kv, p))"
| "run_handler env ops gp Group_Cluster_Handler c ctx gt kv p =
     rbind (invoke_group_command env ops gp c ctx gt kv p) (\<lambda>(out, ctx, gt, kv, p). Inr (out, c, ctx, gt, kv, p))"

text \<open>The names a handler gives to a command, whatever the request, the data of the emulator and the state are.\<close>

fun published_names :: "created_handler \<Rightarrow> command_id \<Rightarrow> string set" where
  "published_names (Generated cc) cmd =
     {name. \<exists>ctx name0 payload0 ctx' payload response.
        run_case (map_of (cc_cases cc) cmd) ctx name0 payload0 = (ctx', name, payload, response)}"
| "published_names Group_Cluster_Handler cmd =
     {name. \<exists>(ops :: (string \<rightharpoonup> u16) kvs_ops) gp c f ctx gt kv payload gt' kv'. cp_command (hc_path ctx) = cmd \<and>
        group_switch ops gp c f ctx gt kv = Inr (Some (name, payload), gt', kv')}"

declare published_names.simps [simp del]

text \<open>The subscription of a class when an endpoint is added or removed.\<close>

definition class_subscription :: "command_class \<Rightarrow> bridged_endpoint \<Rightarrow> update \<Rightarrow> mqtt_action list" where
  "class_subscription cc = commands_response_subscription (cc_unify_names cc)"

text \<open>\<open>command_response\<close>: nothing in the base class; the door lock overrides it.\<close>

definition class_command_response :: "device_translator \<Rightarrow> command_class \<Rightarrow> response_handler" where
  "class_command_response t cc =
     (if cc_cluster cc = DoorLock_Id then doorlock_command_response t
      else (\<lambda>node cluster response j pd. Inr ([], pd)))"

section \<open>The tables\<close>

lemmas invoke_command_defs = identify_invoke_command_def groups_invoke_command_def onoff_invoke_command_def
  level_invoke_command_def doorlock_invoke_command_def window_covering_invoke_command_def
  thermostat_invoke_command_def color_invoke_command_def illuminance_invoke_command_def
  temperature_invoke_command_def pressure_invoke_command_def flow_invoke_command_def
  humidity_invoke_command_def occupancy_invoke_command_def

lemma class_clusters: "map cc_cluster command_classes =
    [3, 4, 6, 8, 257, 258, 513, 768, 1024, 1026, 1027, 1028, 1029, 1030]"
  by (simp add: command_class_defs)

lemma class_function_eq:
  assumes "cc \<in> set command_classes"
  shows "class_function cc env = invoke_command env (cc_cluster_name cc) (cc_cases cc)"
  using assms
  by (auto simp: command_classes_def class_function_def invoke_command_defs class_invoke_command_def)

lemma registered_groups: "registered_handler Groups_Id = Some Group_Cluster_Handler"
  by (simp add: registered_handler_def created_command_handlers_def)

lemma registered_onoff: "registered_handler OnOff_Id = Some (Generated onoff_class)"
  by (simp add: registered_handler_def created_command_handlers_def onoff_class_def)

lemma created_handler_set:
  "set created_command_handlers = insert Group_Cluster_Handler (Generated ` (set command_classes - {groups_class}))"
  by (simp add: created_command_handlers_def command_class_defs insert_Diff_if insert_commute)

lemma handler_of_class:
  assumes "cc \<in> set command_classes"
  shows "generated_handler (cc_cluster cc) = Some (cc_cluster_name cc, cc_cases cc)"
  using assms by (auto simp: command_class_defs generated_handler_def)

lemma handler_has_class:
  assumes "generated_handler cl = Some (name, cases)"
  shows "\<exists>cc\<in>set command_classes. cc_cluster cc = cl \<and> cc_cluster_name cc = name \<and> cc_cases cc = cases"
  using assms by (auto simp: command_class_defs generated_handler_def split: if_splits)

lemma class_cluster:
  "cc_cluster identify_class = 3" "cc_cluster onoff_class = 6" "cc_cluster level_class = 8"
  "cc_cluster doorlock_class = 257" "cc_cluster window_covering_class = 258" "cc_cluster thermostat_class = 513"
  "cc_cluster color_class = 768" "cc_cluster illuminance_class = 1024" "cc_cluster temperature_class = 1026"
  "cc_cluster pressure_class = 1027" "cc_cluster flow_class = 1028" "cc_cluster humidity_class = 1029"
  "cc_cluster occupancy_class = 1030" "cc_cluster groups_class = 4"
  by (simp_all add: command_class_defs)

lemma all_found: "list_all (\<lambda>cc. cc_cluster cc = Groups_Id \<or> registered_handler (cc_cluster cc) = Some (Generated cc)) command_classes"
  by (simp add: registered_handler_def created_command_handlers_def command_classes_def class_cluster)

lemma find_created: "cc \<in> set command_classes \<Longrightarrow> cc_cluster cc \<noteq> Groups_Id \<Longrightarrow>
    registered_handler (cc_cluster cc) = Some (Generated cc)"
  using all_found by (auto simp: list_all_iff)

lemma registered_generated:
  assumes "generated_handler cl = Some (name, cases)" and "cl \<noteq> Groups_Id"
  shows "\<exists>cc. registered_handler cl = Some (Generated cc) \<and> cc \<in> set command_classes \<and>
    cc_cluster_name cc = name \<and> cc_cases cc = cases"
  using handler_has_class [OF assms(1)] find_created assms(2) by blast

lemma published_mapped:
  assumes "map_of (cc_cases cc) c = Some (Mapped cmd kfs response)"
  shows "published_names (Generated cc) c = {cmd}"
proof -
  have "\<exists>ctx name0 payload0 ctx' payload r.
      run_case (map_of (cc_cases cc) c) ctx name0 payload0 = (ctx', cmd, payload, r)"
    by (simp add: assms run_case_def split: prod.split)
  then show ?thesis by (auto simp: published_names.simps assms run_case_def split: prod.splits)
qed

text \<open>The four commands the handler of the groups cluster has a case for.\<close>

abbreviation ViewGroup_Id :: command_id where "ViewGroup_Id \<equiv> 1"
abbreviation GetGroupMembership_Id :: command_id where "GetGroupMembership_Id \<equiv> 2"

lemma join_named: "join_group ops gp f e name as gt kv = (Some (name', payload), gt', kv') \<Longrightarrow> name' = name"
  by (auto simp: join_group_def Let_def split: if_splits option.splits prod.splits)

lemma group_named:
  assumes "group_switch ops gp c f ctx gt kv = Inr (Some (name, payload), gt', kv')"
  shows "map_of [(AddGroup_Id, ''AddGroup''), (RemoveGroup_Id, ''RemoveGroup''),
    (RemoveAllGroups_Id, ''RemoveAllGroups''), (AddGroupIfIdentifying_Id, ''AddGroupIfIdentifying'')]
    (cp_command (hc_path ctx)) = Some name"
  using assms
  by (auto simp: group_switch_def leave_group_def Let_def rbind_eq_Inr dest: join_named
      split: if_splits option.splits)

definition identifying :: cache where
  "identifying = [(3, Identify_Id, IdentifyTime_Id) \<mapsto> VUInt16 10]"

lemma group_runs:
  assumes "map_of [(AddGroup_Id, ''AddGroup''), (RemoveGroup_Id, ''RemoveGroup''),
    (RemoveAllGroups_Id, ''RemoveAllGroups''), (AddGroupIfIdentifying_Id, ''AddGroupIfIdentifying'')] cmd = Some name"
  shows "\<exists>payload kv'. group_switch map_kvs (sample_provider\<lparr>gp_has_endpoint := \<lambda>_ _ _. False\<rparr>) identifying 1
    (sample_ctx Unicast_Session 3 Groups_Id cmd (Some [(''groupID'', A_Int 7)])) init_group_translator kv_g7 =
    Inr (Some (name, payload), init_group_translator, kv')"
proof -
  have "get_u16 (Plain TUInt16) identifying (3, Identify_Id, IdentifyTime_Id) = Inr (Some 10)"
    by (simp add: get_u16_plain identifying_def)
  then show ?thesis
    using assms
    by (auto simp: group_switch_def join_group_def leave_group_def sample_group_field sample_provider_def kv_g7_mapped
        sample_ctx_def decode_def Let_def split: if_splits)
qed

lemma group_published: "published_names Group_Cluster_Handler cmd = set_option (map_of
    [(AddGroup_Id, ''AddGroup''), (RemoveGroup_Id, ''RemoveGroup''), (RemoveAllGroups_Id, ''RemoveAllGroups''),
     (AddGroupIfIdentifying_Id, ''AddGroupIfIdentifying'')] cmd)"
proof -
  let ?names = "map_of [(AddGroup_Id, ''AddGroup''), (RemoveGroup_Id, ''RemoveGroup''),
    (RemoveAllGroups_Id, ''RemoveAllGroups''), (AddGroupIfIdentifying_Id, ''AddGroupIfIdentifying'')]"
  have path: "cp_command (hc_path (sample_ctx Unicast_Session 3 Groups_Id cmd as)) = cmd" for as
    by (simp add: sample_ctx_def)
  have "name \<in> published_names Group_Cluster_Handler cmd \<longleftrightarrow> ?names cmd = Some name" for name
  proof
    assume "name \<in> published_names Group_Cluster_Handler cmd"
    then show "?names cmd = Some name"
      unfolding published_names.simps mem_Collect_eq by (elim exE conjE) (drule group_named, simp only:)
  next
    assume "?names cmd = Some name"
    from group_runs [OF this] path show "name \<in> published_names Group_Cluster_Handler cmd"
      unfolding published_names.simps mem_Collect_eq by blast
  qed
  then show ?thesis unfolding set_eq_iff elem_set by blast
qed

text \<open>A case has a name, and no member of its payload is set twice.\<close>

fun case_ok :: "command_case \<Rightarrow> bool" where
  "case_ok (Mapped cmd kfs response) \<longleftrightarrow> cmd \<noteq> [] \<and> distinct (map fst kfs)"
| "case_ok Manual \<longleftrightarrow> True"

lemma case_tables_ok:
  "list_all (case_ok \<circ> snd) identify_cases" "list_all (case_ok \<circ> snd) groups_cases"
  "list_all (case_ok \<circ> snd) onoff_cases" "list_all (case_ok \<circ> snd) level_cases"
  "list_all (case_ok \<circ> snd) doorlock_cases" "list_all (case_ok \<circ> snd) window_covering_cases"
  "list_all (case_ok \<circ> snd) thermostat_cases" "list_all (case_ok \<circ> snd) color_cases"
  by (simp_all add: case_table_defs)

lemma classes_ok: "list_all (\<lambda>cc. list_all (case_ok \<circ> snd) (cc_cases cc)) command_classes"
  by (simp add: command_class_defs case_tables_ok)

lemma mapped_case_ok:
  assumes "generated_handler cl = Some (cluster, cases)" and "map_of cases c = Some (Mapped cmd kfs response)"
  shows "cmd \<noteq> []" and "distinct (map fst kfs)"
proof -
  obtain cc where cc: "cc \<in> set command_classes" "cc_cases cc = cases"
    using handler_has_class [OF assms(1)] by blast
  have "list_all (case_ok \<circ> snd) cases"
    using bspec [OF classes_ok [unfolded list_all_iff] cc(1)] cc(2) by (simp add: list_all_iff)
  then have "case_ok (Mapped cmd kfs response)"
    using map_of_SomeD [OF assms(2)] by (fastforce simp: list_all_iff)
  then show "cmd \<noteq> []" "distinct (map fst kfs)" by simp_all
qed

text \<open>The responses the commands of a table wait for.\<close>

fun case_response :: "command_case \<Rightarrow> string" where
  "case_response (Mapped cmd kfs response) = response"
| "case_response Manual = []"

definition case_responses :: "command_cases \<Rightarrow> (command_id \<times> string) list" where
  "case_responses cases = filter (\<lambda>(c, r). r \<noteq> []) (map (map_prod id case_response) cases)"

lemma no_responses:
  "case_responses identify_cases = []" "case_responses groups_cases = []" "case_responses onoff_cases = []"
  "case_responses level_cases = []" "case_responses window_covering_cases = []"
  "case_responses thermostat_cases = []" "case_responses color_cases = []" "case_responses [] = []"
  by (simp_all add: case_responses_def case_table_defs)

lemma doorlock_responses: "case_responses doorlock_cases =
    [(0, ''LockDoorResponse''), (1, ''UnlockDoorResponse''), (3, ''UnlockWithTimeoutResponse''),
     (11, ''SetWeekdayScheduleResponse''), (12, ''GetWeekdayScheduleResponse''),
     (13, ''ClearWeekdayScheduleResponse''), (14, ''SetYearDayScheduleResponse''),
     (15, ''GetYearDayScheduleResponse''), (16, ''ClearYearDayScheduleResponse''),
     (17, ''SetHolidayScheduleResponse''), (18, ''GetHolidayScheduleResponse''),
     (19, ''ClearHolidayScheduleResponse'')]"
  by (simp add: case_responses_def case_table_defs)

lemma case_responses_mem:
  "(c, Mapped cmd kfs r) \<in> set cases \<Longrightarrow> r \<noteq> [] \<Longrightarrow> (c, r) \<in> set (case_responses cases)"
  by (force simp: case_responses_def)

lemma only_doorlock_waits:
  assumes "cc \<in> set command_classes" and "cc_cluster cc \<noteq> DoorLock_Id"
  shows "case_responses (cc_cases cc) = []" and "cc_unify_names cc = []"
  using assms by (auto simp: command_class_defs no_responses)

lemma doorlock_class_subscribes:
  "class_subscription doorlock_class ep NODE_ADDED = [SubscribeEx (response_key ep ''DoorLock'' ''+'')]"
  "class_subscription doorlock_class ep NODE_DELETED = [UnsubscribeEx (response_key ep ''DoorLock'' ''+'')]"
  by (simp_all add: class_subscription_def commands_response_subscription_def doorlock_class_def)

lemma doorlock_number:
  assumes "numbers_listed num"
  shows "get_cluster_id (generated_translator num s) ''DoorLock'' = Some DoorLock_Id"
proof -
  have "mn_cluster num ''DoorLock'' = 257"
    by (rule listed_cluster [OF assms, where as = listed_doorlock_attributes and cs = listed_doorlock_commands])
      (simp add: matter_listing_def)
  then show ?thesis by (simp add: generated_lookups unify_cluster_rows_def)
qed

text \<open>The name table knows two of the twelve responses.\<close>

lemma doorlock_response_rows:
  "list_all (\<lambda>(c, r). no_slash r \<and> map_of unify_doorlock_commands r =
     (if c = 0 then Some ''LockDoor'' else if c = 1 then Some ''UnlockDoor'' else None)) (case_responses doorlock_cases)"
  by (simp add: doorlock_responses unify_doorlock_commands_def no_slash_def)

lemma doorlock_response_names:
  assumes "numbers_listed num" and "(c, response) \<in> set (case_responses doorlock_cases)"
  shows "get_command_id (generated_translator num s) ''DoorLock'' response =
      (if c \<in> {LockDoor_Id, UnlockDoor_Id} then Some c else None)"
    and "no_slash response"
proof -
  note row = bspec [OF doorlock_response_rows [unfolded list_all_iff] assms(2), simplified prod.case]
  have number: "mn_command num ''DoorLock'' n = k" if "(n, k) \<in> set listed_doorlock_commands" for n k
    by (rule listed_command [OF assms(1) _ that, where k = 257 and as = listed_doorlock_attributes])
      (simp add: matter_listing_def)
  have "mn_command num ''DoorLock'' ''LockDoor'' = 0" "mn_command num ''DoorLock'' ''UnlockDoor'' = 1"
    by (rule number, simp add: listed_doorlock_commands_def)+
  moreover have "map_of unify_command_rows ''DoorLock'' = Some (''DoorLock'', unify_doorlock_commands)"
    by (simp add: unify_command_rows_def)
  ultimately show "get_command_id (generated_translator num s) ''DoorLock'' response =
      (if c \<in> {LockDoor_Id, UnlockDoor_Id} then Some c else None)"
    using row by (simp add: generated_lookups unify_constant_def)
  show "no_slash response" using row by simp
qed

section \<open>Properties\<close>

text \<open>C21: Only commands of the door lock wait for a response, and only its handler subscribes to responses. Of the
  twelve responses it waits for, the generated name table knows those of \<open>LockDoor\<close> and \<open>UnlockDoor\<close>: they are
  answered to the client as the status of the very command that was sent. The response to any other command
  answers nobody, and its command stays waiting.\<close>

theorem doorlock_response_outcome:
  assumes "numbers_listed num" and "map_of doorlock_cases c = Some (Mapped cmd kfs response)" and "response \<noteq> []"
    and "no_slash (be_unify_unid node)" and "msg \<noteq> []"
    and "bridged_endpoint_by_unify (te_table env) (be_unify_unid node) (uint (be_unify_endpoint node)) = Some node"
    and "p (response_key node ''DoorLock'' response) = Some \<lparr>pd_request = Some request, pd_since = since\<rparr>"
    and "\<not> ishandler_timedout (te_now env) since"
    and "parse msg = Inr (JObject ms)" and "map_of ms ''Status'' = Some (JString status)" and "stoi status = Inr n"
  shows "class_subscription doorlock_class node NODE_ADDED = [SubscribeEx (response_key node ''DoorLock'' ''+'')] \<and>
    (\<forall>cc\<in>set command_classes. cc_cluster cc \<noteq> DoorLock_Id \<longrightarrow>
       case_responses (cc_cases cc) = [] \<and> class_subscription cc node u = []) \<and>
    command_on_mqtt_message env parse (class_command_response (generated_translator num s) doorlock_class)
      (response_key node ''DoorLock'' response) msg p =
    Inr (if c \<in> {LockDoor_Id, UnlockDoor_Id}
      then ([(request, \<lparr>cp_endpoint = be_matter_endpoint node, cp_cluster = DoorLock_Id, cp_command = c\<rparr>,
              if n = 1 then Success else Failure)],
            p(response_key node ''DoorLock'' response \<mapsto> \<lparr>pd_request = None, pd_since = since\<rparr>))
      else ([], p))"
proof -
  let ?t = "generated_translator num s" and ?key = "response_key node ''DoorLock'' response"
  have r: "(c, response) \<in> set (case_responses doorlock_cases)"
    using map_of_SomeD [OF assms(2)] assms(3) by (rule case_responses_mem)
  note name = doorlock_response_names [OF assms(1) r]
  have handler: "class_command_response ?t doorlock_class = doorlock_command_response ?t"
    by (simp add: class_command_response_def doorlock_class_def)
  have cluster: "get_cluster_id ?t ''DoorLock'' = Some DoorLock_Id" by (rule doorlock_number [OF assms(1)])
  have delivered: "command_on_mqtt_message env parse (doorlock_command_response ?t) ?key msg p =
    (case rbind (parse msg) (\<lambda>j. doorlock_command_response ?t node ''DoorLock'' response j
        \<lparr>pd_request = Some request, pd_since = since\<rparr>) of
      Inr (out, pd') \<Rightarrow> Inr (out, p(?key \<mapsto> pd'))
    | Inl e \<Rightarrow> if is_caught e then Inr ([], p) else Inl e)"
    by (rule response_delivered) (use assms(3-8) name(2) in \<open>simp_all add: no_slash_def\<close>)
  have "command_on_mqtt_message env parse (doorlock_command_response ?t) ?key msg p =
    Inr (if c \<in> {LockDoor_Id, UnlockDoor_Id}
      then ([(request, \<lparr>cp_endpoint = be_matter_endpoint node, cp_cluster = DoorLock_Id, cp_command = c\<rparr>,
              if n = 1 then Success else Failure)], p(?key \<mapsto> \<lparr>pd_request = None, pd_since = since\<rparr>))
      else ([], p))"
    unfolding delivered using name(1) cluster assms(7,9-11)
    by (auto simp: doorlock_command_response_def response_status_def doorlock_response_commands_def fun_upd_idem)
  then show ?thesis
    unfolding handler
    by (simp add: only_doorlock_waits class_subscription_def commands_response_subscription_def doorlock_class_def)
qed

lemma doorlock_response_outcome_witness:
  "command_on_mqtt_message (sample_te 1000000000 2) (\<lambda>_. Inr status_one)
     (class_command_response (generated_translator listed_numbers True) doorlock_class)
     (response_key lock_bridge ''DoorLock'' ''UnlockWithTimeoutResponse'') ''...''
     [response_key lock_bridge ''DoorLock'' ''UnlockWithTimeoutResponse'' \<mapsto> \<lparr>pd_request = Some 1, pd_since = 0\<rparr>] =
   Inr ([], [response_key lock_bridge ''DoorLock'' ''UnlockWithTimeoutResponse'' \<mapsto> \<lparr>pd_request = Some 1, pd_since = 0\<rparr>])"
proof -
  have "map_of doorlock_cases 3 = Some (Mapped ''UnlockWithTimeout'' [arg_of ''TimeoutInSeconds'' ''timeout'',
      opt ''PINOrRFIDCode'' ''PINCode''] ''UnlockWithTimeoutResponse'')"
    by (simp add: doorlock_cases_def doorlock_lock_cases_def)
  then show ?thesis
    using doorlock_response_outcome [where num = listed_numbers and c = 3 and node = lock_bridge and msg = "''...''"
        and response = "''UnlockWithTimeoutResponse''" and env = "sample_te 1000000000 2" and request = 1 and since = 0
        and p = "[response_key lock_bridge ''DoorLock'' ''UnlockWithTimeoutResponse'' \<mapsto> \<lparr>pd_request = Some 1, pd_since = 0\<rparr>]"
        and parse = "\<lambda>_. Inr status_one" and ms = "[(''Status'', JString ''1'')]" and status = "''1''" and n = 1
        and s = True]
    by (simp add: numbers_listed_holds no_slash_def two_nodes_lookup ishandler_timedout_def status_one_def stoi_one)
qed

end
