(* ===== verification/Name_Agreement.thy ===== *)
theory Name_Agreement
  imports Command_Handlers Attribute_Translator "HOL-Library.Sublist"
begin

text \<open>
  The generated tables agree: the identifiers matter_device_mapper.inc gives to the names of Unify are those the
  generated attribute and command translators have cases for.
\<close>

section \<open>Clusters\<close>

definition cluster_handled :: "string \<Rightarrow> string \<Rightarrow> bool" where
  "cluster_handled u ns \<longleftrightarrow> (case map_of matter_listing ns of
     None \<Rightarrow> False
   | Some (k, _) \<Rightarrow> u = ''Basic'' \<or> map_option fst (generated_handler k) = Some u \<and>
       list_ex (\<lambda>aa. aa_cluster aa = k \<and> aa_unify_cluster aa = u) attribute_accesses)"

lemmas access_defs = identify_access_def groups_access_def onoff_access_def level_access_def doorlock_access_def
  window_covering_access_def thermostat_access_def color_access_def illuminance_access_def temperature_access_def
  pressure_access_def flow_access_def humidity_access_def occupancy_access_def

lemma clusters_handled: "list_all (\<lambda>(u, ns). cluster_handled u ns) unify_cluster_rows"
  by (simp add: unify_cluster_rows_def cluster_handled_def matter_listing_def generated_handler_def
      attribute_accesses_def access_defs)

section \<open>Attributes\<close>

definition attributes_handled :: "attribute_access \<Rightarrow> bool" where
  "attributes_handled aa \<longleftrightarrow>
     (case (map_of unify_cluster_rows (aa_unify_cluster aa), map_of unify_attribute_rows (aa_unify_cluster aa)) of
        (Some ns', Some (ns, rows)) \<Rightarrow> ns' = ns \<and>
          (case map_of matter_listing ns of
             None \<Rightarrow> False
           | Some (k, as, _) \<Rightarrow> k = aa_cluster aa \<and>
               list_all (\<lambda>(u, n). map_of as n \<noteq> None \<and> map_of (aa_updates aa) n \<noteq> None \<and> no_slash u \<and> u \<noteq> []) rows)
      | _ \<Rightarrow> False)"

lemma subseq_subset: "subseq xs ys \<Longrightarrow> set xs \<subseteq> set ys"
  by (induction rule: list_emb.induct) auto

text \<open>The constants of a table stand in the order of the listing and of the handler, so one pass over either finds
  them all.\<close>

lemma attributes_handledI:
  assumes "(map_of unify_cluster_rows (aa_unify_cluster aa), map_of unify_attribute_rows (aa_unify_cluster aa)) =
      (Some ns, Some (ns, rows))"
    and "map_of matter_listing ns = Some (aa_cluster aa, as, cs)"
    and "subseq (map snd rows) (map fst as)" and "subseq (map snd rows) (map fst (aa_updates aa))"
    and "list_all (\<lambda>(u, n). no_slash u \<and> u \<noteq> []) rows"
  shows "attributes_handled aa"
proof -
  have "map_of as n \<noteq> None \<and> map_of (aa_updates aa) n \<noteq> None" if "(u, n) \<in> set rows" for u n
  proof -
    have "n \<in> set (map snd rows)" using that by force
    then have "n \<in> set (map fst as)" "n \<in> set (map fst (aa_updates aa))"
      using assms(3,4) [THEN subseq_subset] by blast+
    then show ?thesis by (simp add: map_of_eq_None_iff)
  qed
  then show ?thesis using assms(1,2,5) by (auto simp: attributes_handled_def list_all_iff)
qed

lemmas agreement_defs = unify_cluster_rows_def unify_attribute_rows_def matter_listing_def no_slash_def

lemma identify_handled: "attributes_handled identify_access"
  by (rule attributes_handledI [where ns = "''Identify''" and rows = unify_identify_attributes
        and as = listed_identify_attributes and cs = listed_identify_commands])
    (simp_all add: agreement_defs identify_access_def identify_updates_def
      unify_identify_attributes_def listed_identify_attributes_def)

lemma groups_handled: "attributes_handled groups_access"
  by (rule attributes_handledI [where ns = "''Groups''" and rows = unify_groups_attributes
        and as = listed_groups_attributes and cs = listed_groups_commands])
    (simp_all add: agreement_defs groups_access_def groups_updates_def
      unify_groups_attributes_def listed_groups_attributes_def)

lemma onoff_handled: "attributes_handled onoff_access"
  by (rule attributes_handledI [where ns = "''OnOff''" and rows = unify_onoff_attributes
        and as = listed_onoff_attributes and cs = listed_onoff_commands])
    (simp_all add: agreement_defs onoff_access_def onoff_updates_def
      unify_onoff_attributes_def listed_onoff_attributes_def)

lemma level_handled: "attributes_handled level_access"
  by (rule attributes_handledI [where ns = "''LevelControl''" and rows = unify_level_control_attributes
        and as = listed_level_control_attributes and cs = listed_level_control_commands])
    (simp_all add: agreement_defs level_access_def level_updates_def level_parts
      unify_level_control_attributes_def listed_level_control_attributes_def)

lemma doorlock_handled: "attributes_handled doorlock_access"
  by (rule attributes_handledI [where ns = "''DoorLock''" and rows = unify_doorlock_attributes
        and as = listed_doorlock_attributes and cs = listed_doorlock_commands])
    (simp_all add: agreement_defs doorlock_access_def doorlock_updates_def doorlock_parts
      unify_doorlock_attributes_def listed_doorlock_attributes_def)

lemma window_covering_handled: "attributes_handled window_covering_access"
  by (rule attributes_handledI [where ns = "''WindowCovering''" and rows = unify_window_covering_attributes
        and as = listed_window_covering_attributes and cs = listed_window_covering_commands])
    (simp_all add: agreement_defs window_covering_access_def window_covering_updates_def window_covering_parts
      unify_window_covering_attributes_def listed_window_covering_attributes_def)

lemma thermostat_handled: "attributes_handled thermostat_access"
  by (rule attributes_handledI [where ns = "''Thermostat''" and rows = unify_thermostat_attributes
        and as = listed_thermostat_attributes and cs = listed_thermostat_commands])
    (simp_all add: agreement_defs thermostat_access_def thermostat_updates_def thermostat_parts
      unify_thermostat_attributes_def listed_thermostat_attributes_def)

lemma color_handled: "attributes_handled color_access"
  by (rule attributes_handledI [where ns = "''ColorControl''" and rows = unify_color_control_attributes
        and as = listed_color_control_attributes and cs = listed_color_control_commands])
    (simp_all add: agreement_defs color_access_def color_updates_def color_parts
      unify_color_control_attributes_def listed_color_control_attributes_def)

lemma illuminance_handled: "attributes_handled illuminance_access"
  by (rule attributes_handledI [where ns = "''IlluminanceMeasurement''" and rows = unify_illuminance_measurement_attributes
        and as = listed_illuminance_measurement_attributes and cs = listed_illuminance_measurement_commands])
    (simp_all add: agreement_defs illuminance_access_def illuminance_updates_def
      unify_illuminance_measurement_attributes_def listed_illuminance_measurement_attributes_def)

lemma temperature_handled: "attributes_handled temperature_access"
  by (rule attributes_handledI [where ns = "''TemperatureMeasurement''" and rows = unify_temperature_measurement_attributes
        and as = listed_temperature_measurement_attributes and cs = listed_temperature_measurement_commands])
    (simp_all add: agreement_defs temperature_access_def temperature_updates_def
      unify_temperature_measurement_attributes_def listed_temperature_measurement_attributes_def)

lemma pressure_handled: "attributes_handled pressure_access"
  by (rule attributes_handledI [where ns = "''PressureMeasurement''" and rows = unify_pressure_measurement_attributes
        and as = listed_pressure_measurement_attributes and cs = listed_pressure_measurement_commands])
    (simp_all add: agreement_defs pressure_access_def pressure_updates_def
      unify_pressure_measurement_attributes_def listed_pressure_measurement_attributes_def)

lemma flow_handled: "attributes_handled flow_access"
  by (rule attributes_handledI [where ns = "''FlowMeasurement''" and rows = unify_flow_measurement_attributes
        and as = listed_flow_measurement_attributes and cs = listed_flow_measurement_commands])
    (simp_all add: agreement_defs flow_access_def flow_updates_def
      unify_flow_measurement_attributes_def listed_flow_measurement_attributes_def)

lemma humidity_handled: "attributes_handled humidity_access"
  by (rule attributes_handledI [where ns = "''RelativeHumidityMeasurement''" and rows = unify_relative_humidity_measurement_attributes
        and as = listed_relative_humidity_measurement_attributes and cs = listed_relative_humidity_measurement_commands])
    (simp_all add: agreement_defs humidity_access_def humidity_updates_def
      unify_relative_humidity_measurement_attributes_def listed_relative_humidity_measurement_attributes_def)

lemma occupancy_handled: "attributes_handled occupancy_access"
  by (rule attributes_handledI [where ns = "''OccupancySensing''" and rows = unify_occupancy_sensing_attributes
        and as = listed_occupancy_sensing_attributes and cs = listed_occupancy_sensing_commands])
    (simp_all add: agreement_defs occupancy_access_def occupancy_updates_def occupancy_parts
      unify_occupancy_sensing_attributes_def listed_occupancy_sensing_attributes_def)

lemma all_attributes_handled: "list_all attributes_handled attribute_accesses"
  by (simp add: attribute_accesses_def
      identify_handled groups_handled onoff_handled level_handled
      doorlock_handled window_covering_handled thermostat_handled color_handled
      illuminance_handled temperature_handled pressure_handled flow_handled
      humidity_handled occupancy_handled)

lemma mapped_attribute:
  assumes "numbers_listed num" and "names_listed name" and "aa \<in> set attribute_accesses"
    and "unify_constant unify_attribute_rows (aa_unify_cluster aa) attribute = Some (ns, n)"
  shows "get_cluster_id (generated_translator num s) (aa_unify_cluster aa) = Some (aa_cluster aa)"
    and "get_attribute_id (generated_translator num s) (aa_unify_cluster aa) attribute = Some (mn_attribute num ns n)"
    and "name (aa_cluster aa) (mn_attribute num ns n) = Some n"
    and "\<exists>u. map_of (aa_updates aa) n = Some u" and "n \<in> set (aa_reads aa)"
    and "no_slash attribute" and "attribute \<noteq> []"
proof -
  have "attributes_handled aa" using assms(3) all_attributes_handled by (auto simp: list_all_iff)
  then obtain rows as cs where rows: "map_of unify_cluster_rows (aa_unify_cluster aa) = Some ns"
      "map_of unify_attribute_rows (aa_unify_cluster aa) = Some (ns, rows)"
      "map_of matter_listing ns = Some (aa_cluster aa, as, cs)"
      "list_all (\<lambda>(u, n). map_of as n \<noteq> None \<and> map_of (aa_updates aa) n \<noteq> None \<and> no_slash u \<and> u \<noteq> []) rows"
    using assms(4) unfolding attributes_handled_def unify_constant_def
    by (auto simp: bind_eq_Some_conv split: option.splits)
  then have "(attribute, n) \<in> set rows" using assms(4) by (auto simp: unify_constant_def dest: map_of_SomeD)
  then have row: "map_of as n \<noteq> None" "map_of (aa_updates aa) n \<noteq> None" "no_slash attribute" "attribute \<noteq> []"
    using rows(4) by (auto simp: list_all_iff)
  note listed = map_of_SomeD [OF rows(3)]
  obtain a where a: "(n, a) \<in> set as" using row(1) by (auto dest: map_of_SomeD)
  show "get_cluster_id (generated_translator num s) (aa_unify_cluster aa) = Some (aa_cluster aa)"
    using rows(1) listed_cluster [OF assms(1) listed] by (simp add: generated_lookups)
  show "get_attribute_id (generated_translator num s) (aa_unify_cluster aa) attribute = Some (mn_attribute num ns n)"
    using assms(4) by (simp add: generated_lookups)
  show "name (aa_cluster aa) (mn_attribute num ns n) = Some n"
    using listed_attribute [OF assms(1) listed a] listed_attribute_name [OF assms(2) listed a] by simp
  show upd: "\<exists>u. map_of (aa_updates aa) n = Some u" using row(2) by blast
  then have "n \<in> set (map fst (aa_updates aa))" by (force dest: map_of_SomeD)
  then show "n \<in> set (aa_reads aa)"
    using attribute_tables_consistent assms(3) unfolding list_all_iff tables_ok_def by blast
  show "no_slash attribute" "attribute \<noteq> []" using row by simp_all
qed

lemma cluster_name_plain:
  assumes "aa \<in> set attribute_accesses"
  shows "no_slash (aa_unify_cluster aa)" and "aa_unify_cluster aa \<noteq> []"
proof -
  have "list_all (\<lambda>aa. no_slash (aa_unify_cluster aa) \<and> aa_unify_cluster aa \<noteq> []) attribute_accesses"
    by (simp add: attribute_accesses_def access_defs no_slash_def)
  then show "no_slash (aa_unify_cluster aa)" and "aa_unify_cluster aa \<noteq> []"
    using assms by (simp_all add: list_all_iff)
qed

section \<open>Commands\<close>

text \<open>The constant of a row has a case that maps it, to a command whose own row has the same number.\<close>

fun case_name :: "command_case \<Rightarrow> string option" where
  "case_name (Mapped cmd kfs response) = Some cmd"
| "case_name Manual = None"

definition case_names :: "command_cases \<Rightarrow> (command_id \<times> string option) list" where
  "case_names cases = map (map_prod id case_name) cases"

definition command_mapped :: "number_rows \<Rightarrow> name_rows \<Rightarrow> (command_id \<times> string option) list \<Rightarrow> string \<Rightarrow> bool" where
  "command_mapped cs rows names const \<longleftrightarrow>
     (case map_of cs const of
        None \<Rightarrow> False
      | Some c \<Rightarrow> (case map_of names c of
            Some (Some cmd) \<Rightarrow> cmd \<noteq> [] \<and> Option.bind (map_of rows cmd) (map_of cs) = Some c
          | _ \<Rightarrow> False))"

definition commands_handled :: "string \<Rightarrow> name_rows \<Rightarrow> bool" where
  "commands_handled ns rows \<longleftrightarrow>
     (case map_of matter_listing ns of
        None \<Rightarrow> False
      | Some (k, _, cs) \<Rightarrow>
          (case generated_handler k of
             None \<Rightarrow> rows = []
           | Some (_, cases) \<Rightarrow> list_all (\<lambda>(name, const). command_mapped cs rows (case_names cases) const) rows))"

lemma case_names_lookup: "map_of (case_names cases) c = map_option case_name (map_of cases c)"
  by (induction cases) (auto simp: case_names_def)

lemma commands_handledI:
  assumes "map_of matter_listing ns = Some (k, as, cs)" and "generated_handler k = Some (u, cases)"
    and "case_names cases = names" and "list_all (\<lambda>(name, const). command_mapped cs rows names const) rows"
  shows "commands_handled ns rows"
  using assms by (simp add: commands_handled_def)

lemma identify_case_names: "case_names identify_cases =
       [(0, Some ''Identify''), (64, Some ''TriggerEffect'')]"
  by (simp add: case_names_def
      identify_cases_def)

lemma identify_commands_handled: "commands_handled ''Identify'' unify_identify_commands"
  by (rule commands_handledI [OF _ _ identify_case_names, where k = 3 and as = listed_identify_attributes
        and cs = listed_identify_commands and u = "fst (the (generated_handler 3))"])
    (simp_all add: generated_handler_def matter_listing_def command_mapped_def unify_identify_commands_def
      listed_identify_commands_def)

lemma groups_case_names: "case_names groups_cases =
       [(0, Some ''AddGroup''), (1, Some ''ViewGroup''), (2, Some ''GetGroupMembership''),
        (3, Some ''RemoveGroup''), (4, Some ''RemoveAllGroups''), (5, Some ''AddGroupIfIdentifying'')]"
  by (simp add: case_names_def
      groups_cases_def)

lemma groups_commands_handled: "commands_handled ''Groups'' unify_groups_commands"
  by (rule commands_handledI [OF _ _ groups_case_names, where k = 4 and as = listed_groups_attributes
        and cs = listed_groups_commands and u = "fst (the (generated_handler 4))"])
    (simp_all add: generated_handler_def matter_listing_def command_mapped_def unify_groups_commands_def
      listed_groups_commands_def)

lemma onoff_case_names: "case_names onoff_cases =
       [(0, Some ''Off''), (1, Some ''On''), (2, Some ''Toggle''), (64, Some ''OffWithEffect''),
        (65, Some ''OnWithRecallGlobalScene''), (66, Some ''OnWithTimedOff'')]"
  by (simp add: case_names_def
      onoff_cases_def)

lemma onoff_commands_handled: "commands_handled ''OnOff'' unify_onoff_commands"
  by (rule commands_handledI [OF _ _ onoff_case_names, where k = 6 and as = listed_onoff_attributes
        and cs = listed_onoff_commands and u = "fst (the (generated_handler 6))"])
    (simp_all add: generated_handler_def matter_listing_def command_mapped_def unify_onoff_commands_def
      listed_onoff_commands_def)

lemma level_case_names: "case_names level_cases =
       [(0, Some ''MoveToLevel''), (1, Some ''Move''), (2, Some ''Step''), (3, Some ''Stop''),
        (4, Some ''MoveToLevelWithOnOff''), (5, Some ''MoveWithOnOff''), (6, Some ''StepWithOnOff''),
        (7, Some ''StopWithOnOff''), (8, Some ''MoveToClosestFrequency'')]"
  by (simp add: case_names_def
      level_cases_def level_plain_cases_def level_onoff_cases_def)

lemma level_commands_handled: "commands_handled ''LevelControl'' unify_level_control_commands"
  by (rule commands_handledI [OF _ _ level_case_names, where k = 8 and as = listed_level_control_attributes
        and cs = listed_level_control_commands and u = "fst (the (generated_handler 8))"])
    (simp_all add: generated_handler_def matter_listing_def command_mapped_def unify_level_control_commands_def
      listed_level_control_commands_def)

lemma doorlock_case_names: "case_names doorlock_cases =
       [(0, Some ''LockDoor''), (1, Some ''UnlockDoor''), (3, Some ''UnlockWithTimeout''),
        (11, Some ''SetWeekdaySchedule''), (12, Some ''GetWeekdaySchedule''),
        (13, Some ''ClearWeekdaySchedule''), (14, Some ''SetYearDaySchedule''),
        (15, Some ''GetYearDaySchedule''), (16, Some ''ClearYearDaySchedule''),
        (17, Some ''SetHolidaySchedule''), (18, Some ''GetHolidaySchedule''),
        (19, Some ''ClearHolidaySchedule''), (26, Some ''SetUser''), (27, Some ''GetUser''),
        (29, Some ''ClearUser''), (34, Some ''SetCredential''), (36, Some ''GetCredentialStatus''),
        (38, Some ''ClearCredential''), (39, Some ''UnboltDoor''), (40, None), (41, None)]"
  by (simp add: case_names_def
      doorlock_cases_def doorlock_lock_cases_def doorlock_week_cases_def doorlock_year_cases_def
      doorlock_holiday_cases_def doorlock_user_cases_def doorlock_credential_cases_def)

lemma doorlock_commands_handled: "commands_handled ''DoorLock'' unify_doorlock_commands"
  by (rule commands_handledI [OF _ _ doorlock_case_names, where k = 257 and as = listed_doorlock_attributes
        and cs = listed_doorlock_commands and u = "fst (the (generated_handler 257))"])
    (simp_all add: generated_handler_def matter_listing_def command_mapped_def unify_doorlock_commands_def
      listed_doorlock_commands_def)

lemma window_covering_case_names: "case_names window_covering_cases =
       [(0, Some ''UpOrOpen''), (1, Some ''DownOrClose''), (2, Some ''Stop''), (4, Some ''GoToLiftValue''),
        (5, Some ''GoToLiftPercentage''), (7, Some ''GoToTiltValue''), (8, Some ''GoToTiltPercentage'')]"
  by (simp add: case_names_def
      window_covering_cases_def)

lemma window_covering_commands_handled: "commands_handled ''WindowCovering'' unify_window_covering_commands"
  by (rule commands_handledI [OF _ _ window_covering_case_names, where k = 258 and as = listed_window_covering_attributes
        and cs = listed_window_covering_commands and u = "fst (the (generated_handler 258))"])
    (simp_all add: generated_handler_def matter_listing_def command_mapped_def unify_window_covering_commands_def
      listed_window_covering_commands_def)

lemma thermostat_case_names: "case_names thermostat_cases =
       [(0, Some ''SetpointRaiseOrLower''), (1, Some ''SetWeeklySchedule''), (2, Some ''GetWeeklySchedule''),
        (3, Some ''ClearWeeklySchedule''), (5, None), (6, None), (254, None)]"
  by (simp add: case_names_def
      thermostat_cases_def)

lemma thermostat_commands_handled: "commands_handled ''Thermostat'' unify_thermostat_commands"
  by (rule commands_handledI [OF _ _ thermostat_case_names, where k = 513 and as = listed_thermostat_attributes
        and cs = listed_thermostat_commands and u = "fst (the (generated_handler 513))"])
    (simp_all add: generated_handler_def matter_listing_def command_mapped_def unify_thermostat_commands_def
      listed_thermostat_commands_def)

lemma color_case_names: "case_names color_cases =
       [(0, Some ''MoveToHue''), (1, Some ''MoveHue''), (2, Some ''StepHue''), (3, Some ''MoveToSaturation''),
        (4, Some ''MoveSaturation''), (5, Some ''StepSaturation''), (6, Some ''MoveToHueAndSaturation''),
        (7, Some ''MoveToColor''), (8, Some ''MoveColor''), (9, Some ''StepColor''),
        (10, Some ''MoveToColorTemperature''), (64, Some ''EnhancedMoveToHue''),
        (65, Some ''EnhancedMoveHue''), (66, Some ''EnhancedStepHue''),
        (67, Some ''EnhancedMoveToHueAndSaturation''), (68, Some ''ColorLoopSet''),
        (71, Some ''StopMoveStep''), (75, Some ''MoveColorTemperature''), (76, Some ''StepColorTemperature'')]"
  by (simp add: case_names_def
      color_cases_def color_hue_cases_def color_saturation_cases_def color_xy_cases_def
      color_enhanced_cases_def color_rest_cases_def)

lemma color_commands_handled: "commands_handled ''ColorControl'' unify_color_control_commands"
  by (rule commands_handledI [OF _ _ color_case_names, where k = 768 and as = listed_color_control_attributes
        and cs = listed_color_control_commands and u = "fst (the (generated_handler 768))"])
    (simp_all add: generated_handler_def matter_listing_def command_mapped_def unify_color_control_commands_def
      listed_color_control_commands_def)

lemma sensor_commands_handled:
  "ns \<in> {''BridgedDeviceBasicInformation'', ''IlluminanceMeasurement'', ''TemperatureMeasurement'', ''PressureMeasurement'',
     ''FlowMeasurement'', ''RelativeHumidityMeasurement'', ''OccupancySensing''} \<Longrightarrow> commands_handled ns []"
  by (auto simp: commands_handled_def matter_listing_def generated_handler_def)

lemma all_commands_handled: "list_all (\<lambda>(u, ns, rows). commands_handled ns rows \<and> map_of unify_cluster_rows u = Some ns)
    unify_command_rows"
  by (simp add: unify_command_rows_def unify_cluster_rows_def sensor_commands_handled identify_commands_handled
      groups_commands_handled onoff_commands_handled level_commands_handled doorlock_commands_handled
      window_covering_commands_handled thermostat_commands_handled color_commands_handled
      unify_bridged_device_basic_information_commands_def unify_illuminance_measurement_commands_def
      unify_temperature_measurement_commands_def unify_pressure_measurement_commands_def
      unify_flow_measurement_commands_def unify_relative_humidity_measurement_commands_def
      unify_occupancy_sensing_commands_def)

lemma mapped_command:
  assumes "numbers_listed num"
    and "get_cluster_id (generated_translator num s) cluster = Some k"
    and "get_command_id (generated_translator num s) cluster name = Some c"
  shows "\<exists>u cases cmd kfs response. generated_handler k = Some (u, cases) \<and>
    map_of cases c = Some (Mapped cmd kfs response) \<and> cmd \<noteq> [] \<and>
    get_command_id (generated_translator num s) cluster cmd = Some c"
proof -
  obtain ns rows const where rows: "map_of unify_command_rows cluster = Some (ns, rows)" "map_of rows name = Some const"
      "c = mn_command num ns const"
    using assms(3) by (auto simp: generated_lookups unify_constant_def bind_eq_Some_conv)
  have handled: "commands_handled ns rows" "map_of unify_cluster_rows cluster = Some ns"
    using bspec [OF all_commands_handled [unfolded list_all_iff] map_of_SomeD [OF rows(1)]] by simp_all
  have row: "(name, const) \<in> set rows" using rows(2) by (rule map_of_SomeD)
  then obtain k' as cs where listed: "map_of matter_listing ns = Some (k', as, cs)"
    using handled(1) by (auto simp: commands_handled_def split: option.splits)
  have k: "k' = k"
    using assms(2) handled(2) listed_cluster [OF assms(1) map_of_SomeD [OF listed]] by (simp add: generated_lookups)
  obtain u cases where h: "generated_handler k = Some (u, cases)"
    using handled(1) listed row k by (cases "generated_handler k") (auto simp: commands_handled_def)
  have "command_mapped cs rows (case_names cases) const"
    using handled(1) listed row k h by (auto simp: commands_handled_def list_all_iff)
  then obtain c' cmd kfs response where c': "map_of cs const = Some c'" "map_of cases c' = Some (Mapped cmd kfs response)"
      "cmd \<noteq> []" "Option.bind (map_of rows cmd) (map_of cs) = Some c'"
    by (auto simp: command_mapped_def case_names_lookup split: option.splits elim!: case_name.elims)
  note number = listed_command [OF assms(1) map_of_SomeD [OF listed] map_of_SomeD]
  have "c' = c" using number [OF c'(1)] rows(3) by simp
  moreover obtain const' where "map_of rows cmd = Some const'" "map_of cs const' = Some c'"
    using c'(4) by (auto simp: bind_eq_Some_conv)
  then have "get_command_id (generated_translator num s) cluster cmd = Some c'"
    using rows(1) number by (simp add: generated_lookups unify_constant_def)
  ultimately show ?thesis using h c'(2,3) by blast
qed

section \<open>Announced commands\<close>

lemma basic_number:
  assumes "numbers_listed num"
  shows "mn_cluster num ''BridgedDeviceBasicInformation'' = 57"
  by (rule listed_cluster [OF assms, where as = listed_bridged_device_basic_information_attributes
        and cs = listed_bridged_device_basic_information_commands])
    (simp add: matter_listing_def)

lemma announced_commands:
  assumes "c \<in> set (cb_incoming_commands (build_cluster t type_size name k uc))"
  shows "c = kInvalidCommandId \<or> (\<exists>x. get_command_id t name x = Some c) \<or>
    uc_cluster_name uc = ''DoorLock'' \<and> c \<in> {LockDoor_Id, UnlockDoor_Id} \<or>
    uc_cluster_name uc = ''Groups'' \<and> c \<in> {0, 1, 2, 3, 4, 5}"
proof -
  have "c \<in> {kInvalidCommandId} \<union> {c. \<exists>x. get_command_id t name x = Some c} \<union>
      (if uc_cluster_name uc = ''DoorLock'' then {LockDoor_Id, UnlockDoor_Id}
       else if uc_cluster_name uc = ''Groups'' then {0, 1, 2, 3, 4, 5} else {})"
    using assms unfolding build_cluster_def add_emulated_commands_and_attributes_def string_emulator_map_def Let_def
    by (auto simp: cluster_emulators_def emulator_defs default_emulator_def builder_defs new_cluster_builder_def
        window_covering_emulate_def identify_emulate_def doorlock_emulate_def groups_emulate_def
        List.map_filter_def split: if_splits)
  then show ?thesis by (auto split: if_splits)
qed

lemma command_number:
  assumes "numbers_listed num" and "map_of unify_command_rows u = Some (ns, rows)"
    and "map_of matter_listing ns = Some (k, as, cs)" and "map_of rows x = Some const" and "map_of cs const = Some c"
  shows "get_command_id (generated_translator num s) u x = Some c"
  using assms(2,4) listed_command [OF assms(1) map_of_SomeD [OF assms(3)] map_of_SomeD [OF assms(5)]]
  by (simp add: generated_lookups unify_constant_def)

lemma lock_command_numbers:
  assumes "numbers_listed num"
  shows "get_command_id (generated_translator num s) ''DoorLock'' ''LockDoor'' = Some 0"
    and "get_command_id (generated_translator num s) ''DoorLock'' ''UnlockDoor'' = Some 1"
  by (rule command_number [OF assms, where ns = "''DoorLock''" and rows = unify_doorlock_commands and k = 257
        and as = listed_doorlock_attributes and cs = listed_doorlock_commands and const = "''LockDoor''"]
      command_number [OF assms, where ns = "''DoorLock''" and rows = unify_doorlock_commands and k = 257
        and as = listed_doorlock_attributes and cs = listed_doorlock_commands and const = "''UnlockDoor''"],
    simp_all add: unify_command_rows_def matter_listing_def unify_doorlock_commands_def listed_doorlock_commands_def)+

lemma group_command_number:
  assumes "numbers_listed num" and "map_of unify_groups_commands x = Some const" and "map_of listed_groups_commands const = Some c"
  shows "get_command_id (generated_translator num s) ''Groups'' x = Some c"
  by (rule command_number [OF assms(1) _ _ assms(2,3), where ns = "''Groups''" and k = 4 and as = listed_groups_attributes])
    (simp_all add: unify_command_rows_def matter_listing_def)

lemma group_command_numbers:
  assumes "numbers_listed num"
  shows "get_command_id (generated_translator num s) ''Groups'' ''AddGroup'' = Some 0"
    and "get_command_id (generated_translator num s) ''Groups'' ''ViewGroup'' = Some 1"
    and "get_command_id (generated_translator num s) ''Groups'' ''GetGroupMembership'' = Some 2"
    and "get_command_id (generated_translator num s) ''Groups'' ''RemoveGroup'' = Some 3"
    and "get_command_id (generated_translator num s) ''Groups'' ''RemoveAllGroups'' = Some 4"
    and "get_command_id (generated_translator num s) ''Groups'' ''AddGroupIfIdentifying'' = Some 5"
  using group_command_number [OF assms, of "''AddGroup''" "''AddGroupResponse''" 0 s]
    group_command_number [OF assms, of "''ViewGroup''" "''ViewGroupResponse''" 1 s]
    group_command_number [OF assms, of "''GetGroupMembership''" "''GetGroupMembershipResponse''" 2 s]
    group_command_number [OF assms, of "''RemoveGroup''" "''RemoveGroupResponse''" 3 s]
    group_command_number [OF assms, of "''RemoveAllGroups''" "''RemoveAllGroups''" 4 s]
    group_command_number [OF assms, of "''AddGroupIfIdentifying''" "''AddGroupIfIdentifying''" 5 s]
  by (simp_all add: unify_groups_commands_def listed_groups_commands_def)

lemma image_ex: "y \<in> f ` A \<Longrightarrow> \<exists>x. f x = y"
  by auto

lemma emulated_command_names:
  assumes "numbers_listed num"
  shows "c \<in> {LockDoor_Id, UnlockDoor_Id} \<Longrightarrow> \<exists>x. get_command_id (generated_translator num s) ''DoorLock'' x = Some c"
    and "c \<in> {0, 1, 2, 3, 4, 5} \<Longrightarrow> \<exists>x. get_command_id (generated_translator num s) ''Groups'' x = Some c"
proof -
  assume "c \<in> {LockDoor_Id, UnlockDoor_Id}"
  then have "Some c \<in> get_command_id (generated_translator num s) ''DoorLock'' ` {''LockDoor'', ''UnlockDoor''}"
    by (simp add: lock_command_numbers [OF assms])
  then show "\<exists>x. get_command_id (generated_translator num s) ''DoorLock'' x = Some c" by (rule image_ex)
next
  assume "c \<in> {0, 1, 2, 3, 4, 5}"
  then have "Some c \<in> get_command_id (generated_translator num s) ''Groups'' `
      {''AddGroup'', ''ViewGroup'', ''GetGroupMembership'', ''RemoveGroup'', ''RemoveAllGroups'', ''AddGroupIfIdentifying''}"
    by (simp add: group_command_numbers [OF assms])
  then show "\<exists>x. get_command_id (generated_translator num s) ''Groups'' x = Some c" by (rule image_ex)
qed

section \<open>Properties\<close>

text \<open>C5: Every command the bridge announces for a cluster of a bridged endpoint, reported by Unify or added by an
  emulator, reaches the handler \<open>main\<close> has registered for this cluster, which publishes on the topics of the very cluster
  that was reported. The handler has exactly one name for the command, and in the tables this name has the identifier
  that was announced: no announced command is answered as unsupported or sent under the name of another. The exceptions
  are \<open>ViewGroup\<close> and \<open>GetGroupMembership\<close>, which the handler of the groups cluster never publishes.\<close>

theorem announced_command_is_mapped:
  assumes "numbers_listed num" and "get_cluster_id (generated_translator num s) name = Some k"
    and "uc_cluster_name uc = name"
    and "c \<in> set (cb_incoming_commands (build_cluster (generated_translator num s) type_size name k uc))"
    and "c \<noteq> kInvalidCommandId"
  shows "\<exists>h. registered_handler k = Some h \<and> handler_cluster_name h = name \<and>
    (if h = Group_Cluster_Handler \<and> c \<in> {ViewGroup_Id, GetGroupMembership_Id} then published_names h c = {}
     else \<exists>cmd. published_names h c = {cmd} \<and> cmd \<noteq> [] \<and> get_command_id (generated_translator num s) name cmd = Some c)"
proof -
  obtain x where "get_command_id (generated_translator num s) name x = Some c"
    using announced_commands [OF assms(4)] assms(3,5) emulated_command_names [OF assms(1), of c s] by auto
  then obtain u cases cmd kfs response where m: "generated_handler k = Some (u, cases)"
      "map_of cases c = Some (Mapped cmd kfs response)" "cmd \<noteq> []"
      "get_command_id (generated_translator num s) name cmd = Some c"
    using mapped_command [OF assms(1,2)] by blast
  obtain ns where ns: "map_of unify_cluster_rows name = Some ns" "k = mn_cluster num ns"
    using assms(2) by (auto simp: generated_lookups)
  have "cluster_handled name ns"
    using bspec [OF clusters_handled [unfolded list_all_iff] map_of_SomeD [OF ns(1)]] by simp
  then obtain k' as cs where listed: "map_of matter_listing ns = Some (k', as, cs)"
    and h: "name = ''Basic'' \<or> map_option fst (generated_handler k') = Some name"
    by (auto simp: cluster_handled_def split: option.splits)
  have "k' = k" using listed_cluster [OF assms(1) map_of_SomeD [OF listed]] ns(2) by simp
  moreover have "name \<noteq> ''Basic''"
  proof
    assume "name = ''Basic''"
    then have "ns = ''BridgedDeviceBasicInformation''" using ns(1) by (simp add: unify_cluster_rows_def)
    then have "k = 57" using ns(2) basic_number [OF assms(1)] by simp
    then show False using m(1) by (simp add: generated_handler_def)
  qed
  ultimately have u: "u = name" using m(1) h by simp
  show ?thesis
  proof (cases "k = Groups_Id")
    case False
    then obtain cc where cc: "registered_handler k = Some (Generated cc)" "cc_cluster_name cc = name" "cc_cases cc = cases"
      using registered_generated m(1) u by blast
    then show ?thesis using m published_mapped by force
  next
    case True
    then have name: "name = ''Groups''" using m(1) u by (simp add: generated_handler_def)
    have "c \<in> {0, 1, 2, 3, 4, 5}"
      using m(2) m(1) True by (auto simp: generated_handler_def groups_cases_def split: if_splits)
    then show ?thesis
      unfolding name True using registered_groups by (auto simp: group_published group_command_numbers [OF assms(1)])
  qed
qed

definition lamp_cluster :: unify_cluster where
  "lamp_cluster = \<lparr>uc_cluster_name = ''OnOff'', uc_attributes = [''OnOff''], uc_supported_commands = [''Toggle''],
     uc_generated_commands = []\<rparr>"

lemma onoff_numbers:
  assumes "numbers_listed num"
  shows "get_cluster_id (generated_translator num s) ''OnOff'' = Some 6"
    and "get_command_id (generated_translator num s) ''OnOff'' ''Toggle'' = Some 2"
proof -
  have row: "map_of matter_listing ''OnOff'' = Some (6, listed_onoff_attributes, listed_onoff_commands)"
    by (simp add: matter_listing_def)
  show "get_cluster_id (generated_translator num s) ''OnOff'' = Some 6"
    using listed_cluster [OF assms map_of_SomeD [OF row]] by (simp add: generated_lookups unify_cluster_rows_def)
  show "get_command_id (generated_translator num s) ''OnOff'' ''Toggle'' = Some 2"
    by (rule command_number [OF assms _ row, where rows = unify_onoff_commands and const = "''Toggle''"])
      (simp_all add: unify_command_rows_def unify_onoff_commands_def listed_onoff_commands_def)
qed

lemma groups_number:
  assumes "numbers_listed num"
  shows "get_cluster_id (generated_translator num s) ''Groups'' = Some 4"
proof -
  have row: "map_of matter_listing ''Groups'' = Some (4, listed_groups_attributes, listed_groups_commands)"
    by (simp add: matter_listing_def)
  show ?thesis
    using listed_cluster [OF assms map_of_SomeD [OF row]] by (simp add: generated_lookups unify_cluster_rows_def)
qed

lemma announced_command_is_mapped_witness:
  "(\<exists>h cmd. registered_handler 6 = Some h \<and> published_names h 2 = {cmd} \<and>
      get_command_id (generated_translator listed_numbers True) ''OnOff'' cmd = Some 2) \<and>
   (\<exists>h cmd. registered_handler 4 = Some h \<and> published_names h 0 = {cmd} \<and> published_names h 1 = {} \<and>
      get_command_id (generated_translator listed_numbers True) ''Groups'' cmd = Some 0)"
proof -
  note onoff = onoff_numbers [OF numbers_listed_holds]
  let ?groups = "lamp_cluster\<lparr>uc_cluster_name := ''Groups'', uc_supported_commands := []\<rparr>"
  have "string_emulator_map ''OnOff'' = None"
    by (simp add: string_emulator_map_def cluster_emulators_def emulator_defs)
  then have toggle: "2 \<in> set (cb_incoming_commands (build_cluster (generated_translator listed_numbers True) (\<lambda>_ _. (1, ZCL_ENUM8))
      ''OnOff'' 6 lamp_cluster))"
    by (simp add: build_cluster_def add_emulated_commands_and_attributes_def lamp_cluster_def builder_defs
        new_cluster_builder_def onoff Let_def map_filter_def)
  have 6: "\<exists>h cmd. registered_handler 6 = Some h \<and> published_names h 2 = {cmd} \<and>
      get_command_id (generated_translator listed_numbers True) ''OnOff'' cmd = Some 2"
    using announced_command_is_mapped [OF numbers_listed_holds onoff(1) _ toggle]
    by (auto simp: lamp_cluster_def registered_onoff)
  have "{0, 1} \<subseteq> set (cb_incoming_commands (build_cluster (generated_translator listed_numbers True) (\<lambda>_ _. (1, ZCL_ENUM8))
      ''Groups'' 4 ?groups))"
    by (simp add: build_cluster_def add_emulated_commands_and_attributes_def lamp_cluster_def builder_defs
        new_cluster_builder_def Let_def map_filter_def string_emulator_map_def cluster_emulators_def emulator_defs
        default_emulator_def groups_emulate_def)
  then have announced: "0 \<in> set (cb_incoming_commands (build_cluster (generated_translator listed_numbers True)
      (\<lambda>_ _. (1, ZCL_ENUM8)) ''Groups'' 4 ?groups))" "1 \<in> set (cb_incoming_commands (build_cluster
      (generated_translator listed_numbers True) (\<lambda>_ _. (1, ZCL_ENUM8)) ''Groups'' 4 ?groups))"
    by blast+
  have groups: "get_cluster_id (generated_translator listed_numbers True) ''Groups'' = Some 4"
    by (rule groups_number [OF numbers_listed_holds])
  show ?thesis
    using 6 registered_groups
      announced_command_is_mapped [OF numbers_listed_holds groups _ announced(1)]
      announced_command_is_mapped [OF numbers_listed_holds groups _ announced(2)]
    by auto
qed

end
