(* ===== verification/Bridge_Main.thy ===== *)
theory Bridge_Main
  imports Bridge_Startup Bridge_Threads Name_Agreement Command_Handlers
begin

text \<open>
  The rest of linux/src/matter_bridge_main.cpp, and linux/src/matter_bridge_cli.cpp: the start of the program with its
  early returns, the translators it creates, and the commands of the command line. What the Unify and Matter
  libraries answer is an argument.
\<close>

section \<open>The start\<close>

datatype main_end =
    Returned int
  | Died
  | Runs device_options bool

text \<open>
  \<open>config_failed\<close> is the result of \<open>matter_bridge_config_init\<close>, \<open>uic_init\<close> whether the Unify library starts, which
  includes the fixtures, \<open>interface_id\<close> gives the identifier of a network interface, \<open>app_init\<close> whether the Matter
  application starts (\<open>VerifyOrDie\<close>). The Boolean of \<open>Runs\<close> is the argument of the device translator.
\<close>

definition start_main ::
  "bool \<Rightarrow> bool \<Rightarrow> bridge_config \<Rightarrow> (string option \<Rightarrow> nat option) \<Rightarrow> (device_options \<Rightarrow> bool) \<Rightarrow> main_end" where
  "start_main config_failed uic_init cfg interface_id app_init =
     (if config_failed then Returned (- 1)
      else if \<not> uic_init then Returned (- 1)
      else (let opt = options_of_config cfg in
        if interface_id (interface cfg) = None then Returned (- 1)
        else if \<not> app_init opt then Died
        else Runs opt (strict_device_mapping cfg)))"

text \<open>The attribute translators, in the order \<open>main\<close> creates them; the command handlers are in Command_Handlers.\<close>

definition created_attribute_classes :: "attribute_access list" where
  "created_attribute_classes =
     [groups_access, onoff_access, identify_access, level_access, color_access, thermostat_access, doorlock_access,
      window_covering_access, illuminance_access, occupancy_access, temperature_access, pressure_access, flow_access,
      humidity_access]"

section \<open>The command line\<close>

datatype cli_command =
    Cli_Commission
  | Cli_Close_Commission
  | Cli_Endpoint_Map
  | Cli_Qr_Code
  | Cli_Groups_Map
  | Cli_Attribute_Store

definition unify_cli_commands :: "(string \<times> cli_command) list" where
  "unify_cli_commands =
     [(''commission'', Cli_Commission), (''closecommission'', Cli_Close_Commission),
      (''endpoint_map'', Cli_Endpoint_Map), (''qr_code_publish'', Cli_Qr_Code), (''groups_map'', Cli_Groups_Map),
      (''matter_attribute_store'', Cli_Attribute_Store)]"

text \<open>
  The pointers the commands use, null until \<open>set_mapping_display_instance\<close> and \<open>set_qr_code_publisher\<close>: what the
  monitor and the group translator display, and the code the publisher has.
\<close>

record cli_pointers =
  cli_monitor :: "endpoint_table option"
  cli_groups :: "string option"
  cli_publisher :: "string option"

definition no_pointers :: cli_pointers where
  "no_pointers = \<lparr>cli_monitor = None, cli_groups = None, cli_publisher = None\<rparr>"

datatype cli_effect =
    Open_Window
  | Close_Window
  | Print string
  | Send mqtt_action
  | List_Store

fun run_cli_command :: "cli_pointers \<Rightarrow> cli_command \<Rightarrow> cli_effect list res" where
  "run_cli_command ps Cli_Commission = Inr [Open_Window]"
| "run_cli_command ps Cli_Close_Commission = Inr [Close_Window]"
| "run_cli_command ps Cli_Endpoint_Map =
     Inr (case cli_monitor ps of Some t \<Rightarrow> [Print (display_map t)] | None \<Rightarrow> [])"
| "run_cli_command ps Cli_Qr_Code =
     (case cli_publisher ps of Some qr \<Rightarrow> Inr (map Send (qr_publish qr)) | None \<Rightarrow> Inl Null_Dereference)"
| "run_cli_command ps Cli_Groups_Map =
     Inr (case cli_groups ps of Some text \<Rightarrow> [Print text] | None \<Rightarrow> [])"
| "run_cli_command ps Cli_Attribute_Store = Inr [List_Store]"

section \<open>Lemmas\<close>

text \<open>Every Unify cluster but \<open>Basic\<close> has exactly one attribute translator and one command handler.\<close>

lemma created_classes: "set created_attribute_classes = set attribute_accesses"
  by (simp add: created_attribute_classes_def attribute_accesses_def insert_commute)

lemma created_distinct:
  "distinct (map aa_cluster created_attribute_classes)" "distinct (map handler_cluster created_command_handlers)"
  by (simp_all add: created_attribute_classes_def created_command_handlers_def access_defs command_class_defs)

lemma registered_iff: "registered_handler k = Some h \<longleftrightarrow> h \<in> set created_command_handlers \<and> handler_cluster h = k"
  unfolding registered_handler_def using created_distinct(2) by (rule find_distinct)

lemma only_qr_code_fails:
  "run_cli_command ps cmd = Inl e \<longleftrightarrow> e = Null_Dereference \<and> cmd = Cli_Qr_Code \<and> cli_publisher ps = None"
  by (cases cmd) (auto split: option.splits)

lemma cli_before_start: "run_cli_command no_pointers Cli_Qr_Code = Inl Null_Dereference"
  by (simp add: no_pointers_def)

lemma cluster_served:
  assumes "numbers_listed num" and "get_cluster_id (generated_translator num s) u = Some k"
  shows "u = ''Basic'' \<and> k = 57 \<or> map_option fst (generated_handler k) = Some u \<and>
    (\<exists>aa\<in>set attribute_accesses. aa_cluster aa = k \<and> aa_unify_cluster aa = u)"
proof -
  obtain ns where ns: "map_of unify_cluster_rows u = Some ns" "k = mn_cluster num ns"
    using assms(2) by (auto simp: generated_lookups)
  have "cluster_handled u ns"
    using bspec [OF clusters_handled [unfolded list_all_iff] map_of_SomeD [OF ns(1)]] by simp
  then obtain k' as cs where listed: "map_of matter_listing ns = Some (k', as, cs)"
    and h: "u = ''Basic'' \<or> map_option fst (generated_handler k') = Some u \<and>
      (\<exists>aa\<in>set attribute_accesses. aa_cluster aa = k' \<and> aa_unify_cluster aa = u)"
    by (auto simp: cluster_handled_def list_ex_iff split: option.splits)
  have "k' = k" using listed_cluster [OF assms(1) map_of_SomeD [OF listed]] ns(2) by simp
  moreover have "k = 57" if "u = ''Basic''"
  proof -
    have "ns = ''BridgedDeviceBasicInformation''" using that ns(1) by (simp add: unify_cluster_rows_def)
    then show ?thesis using ns(2) basic_number [OF assms(1)] by simp
  qed
  ultimately show ?thesis using h by blast
qed

lemma basic_no_handler: "generated_handler 57 = None"
  by (simp add: generated_handler_def)

lemma handler_of_cluster:
  assumes "map_option fst (generated_handler k) = Some u"
  shows "\<exists>h. registered_handler k = Some h \<and> handler_cluster_name h = u \<and>
    (case h of Generated cc \<Rightarrow> u \<noteq> ''Groups'' \<and> class_function cc = (\<lambda>env. invoke_command env u (cc_cases cc))
     | Group_Cluster_Handler \<Rightarrow> u = ''Groups'')"
proof (cases "k = Groups_Id")
  case True
  then show ?thesis using assms registered_groups by (simp add: generated_handler_def)
next
  case False
  then have "u \<noteq> ''Groups''" using assms by (auto simp: generated_handler_def split: if_splits)
  moreover obtain cases where "generated_handler k = Some (u, cases)" using assms by (cases "generated_handler k") auto
  from registered_generated [OF this False] obtain cc where "registered_handler k = Some (Generated cc)"
      "cc \<in> set command_classes" "cc_cluster_name cc = u"
    by blast
  ultimately show ?thesis by (simp add: class_function_eq fun_eq_iff)
qed

text \<open>A command Unify has a name for and no emulator takes is mapped without a response.\<close>

lemma named_lock_command:
  assumes "numbers_listed num" and "get_command_id (generated_translator num s) ''DoorLock'' name = Some c"
  shows "c \<in> {LockDoor_Id, UnlockDoor_Id}"
proof -
  have rows: "map_of unify_command_rows ''DoorLock'' = Some (''DoorLock'', unify_doorlock_commands)"
    by (simp add: unify_command_rows_def)
  have number: "mn_command num ''DoorLock'' ''LockDoor'' = LockDoor_Id" "mn_command num ''DoorLock'' ''UnlockDoor'' = UnlockDoor_Id"
    using lock_command_numbers [OF assms(1)] rows
    by (simp_all add: generated_lookups unify_constant_def unify_doorlock_commands_def)
  have "list_all (\<lambda>(name, const). const \<in> {''LockDoor'', ''UnlockDoor''}) unify_doorlock_commands"
    by (simp add: unify_doorlock_commands_def)
  moreover obtain const where "map_of unify_doorlock_commands name = Some const" "mn_command num ''DoorLock'' const = c"
    using assms(2) rows by (auto simp: generated_lookups unify_constant_def)
  ultimately have "const \<in> {''LockDoor'', ''UnlockDoor''}"
    using map_of_SomeD unfolding list_all_iff by fastforce
  then show ?thesis using number \<open>mn_command num ''DoorLock'' const = c\<close> by blast
qed

lemma translated_command:
  assumes "numbers_listed num" and "get_cluster_id (generated_translator num s) u = Some (cp_cluster path)"
    and "get_command_id (generated_translator num s) u name = Some (cp_command path)" and "\<not> is_command_emulated path"
  shows "\<exists>cases cmd kfs. generated_handler (cp_cluster path) = Some (u, cases) \<and>
    map_of cases (cp_command path) = Some (Mapped cmd kfs []) \<and> cmd \<noteq> [] \<and> distinct (map fst kfs) \<and>
    get_command_id (generated_translator num s) u cmd = Some (cp_command path)"
proof -
  obtain u' cases cmd kfs response where h: "generated_handler (cp_cluster path) = Some (u', cases)"
      and m: "map_of cases (cp_command path) = Some (Mapped cmd kfs response)"
      and cmd: "get_command_id (generated_translator num s) u cmd = Some (cp_command path)"
    using mapped_command [OF assms(1-3)] by blast
  have u: "u' = u" using cluster_served [OF assms(1,2)] h basic_no_handler by auto
  have "response = []"
  proof (rule ccontr)
    assume "response \<noteq> []"
    then have r: "(cp_command path, response) \<in> set (case_responses cases)"
      by (rule case_responses_mem [OF map_of_SomeD [OF m]])
    obtain cc where cc: "cc \<in> set command_classes" "cc_cluster cc = cp_cluster path" "cc_cases cc = cases"
      using handler_has_class [OF h] by blast
    have lock: "cp_cluster path = DoorLock_Id"
      using only_doorlock_waits(1) [OF cc(1)] cc(2,3) r by (cases "cp_cluster path = DoorLock_Id") auto
    then have "u = ''DoorLock''" using h u by (simp add: generated_handler_def)
    then have "cp_command path \<in> {LockDoor_Id, UnlockDoor_Id}"
      using named_lock_command [OF assms(1)] assms(3) by simp
    then show False using assms(4) lock
      by (cases path) (auto simp: is_command_emulated_def command_emulator_map_eqs)
  qed
  then show ?thesis using h m cmd u mapped_case_ok [OF h m] by blast
qed

section \<open>Properties\<close>

text \<open>C8: What \<open>main\<close> creates serves every Unify cluster that has an identifier: apart from \<open>Basic\<close>, which has a
  translator of its own, its identifier belongs to exactly one of the attribute translators and one of the command
  handlers that are created, and the translator and the handler use the very name of this cluster in their topics. The
  handler is the one the registry finds; it is an object of the generated class of the cluster, except for \<open>Groups\<close>. No
  other Unify cluster has this identifier.\<close>

theorem every_cluster_is_served:
  assumes "numbers_listed num" and "get_cluster_id (generated_translator num s) u = Some k" and "u \<noteq> ''Basic''"
  shows "(\<exists>!aa. aa \<in> set created_attribute_classes \<and> aa_cluster aa = k) \<and>
    (\<forall>aa\<in>set created_attribute_classes. aa_cluster aa = k \<longrightarrow> aa_unify_cluster aa = u) \<and>
    (\<exists>!h. h \<in> set created_command_handlers \<and> handler_cluster h = k) \<and>
    (\<forall>h\<in>set created_command_handlers. handler_cluster h = k \<longrightarrow>
       handler_cluster_name h = u \<and> registered_handler k = Some h \<and>
       (case h of
          Generated cc \<Rightarrow> u \<noteq> ''Groups'' \<and> class_function cc = (\<lambda>env. invoke_command env u (cc_cases cc))
        | Group_Cluster_Handler \<Rightarrow> u = ''Groups'')) \<and>
    (\<forall>u'. get_cluster_id (generated_translator num s) u' = Some k \<longrightarrow> u' = u)"
proof -
  obtain aa where aa: "aa \<in> set created_attribute_classes" "aa_cluster aa = k" "aa_unify_cluster aa = u"
    and g: "map_option fst (generated_handler k) = Some u"
    using cluster_served [OF assms(1,2)] assms(3) created_classes by blast
  have same: "aa' = aa" if "aa' \<in> set created_attribute_classes" "aa_cluster aa' = k" for aa'
    using created_distinct(1) that aa by (auto simp: distinct_map dest: inj_onD)
  obtain h where h: "registered_handler k = Some h" "handler_cluster_name h = u"
      "case h of Generated cc \<Rightarrow> u \<noteq> ''Groups'' \<and> class_function cc = (\<lambda>env. invoke_command env u (cc_cases cc))
        | Group_Cluster_Handler \<Rightarrow> u = ''Groups''"
    using handler_of_cluster [OF g] by blast
  then have same_handler: "h' = h" if "h' \<in> set created_command_handlers" "handler_cluster h' = k" for h'
    using registered_iff [of k h'] that by simp
  have "u' = u" if "get_cluster_id (generated_translator num s) u' = Some k" for u'
    using cluster_served [OF assms(1) that] g basic_no_handler by auto
  then show ?thesis using aa same h same_handler registered_iff [of k h] by blast
qed

lemma every_cluster_is_served_witness:
  "(\<exists>!aa. aa \<in> set created_attribute_classes \<and> aa_cluster aa = 6) \<and>
   registered_handler 6 = Some (Generated onoff_class) \<and>
   class_function onoff_class = (\<lambda>env. invoke_command env ''OnOff'' onoff_cases) \<and>
   (\<exists>!h. h \<in> set created_command_handlers \<and> handler_cluster h = 4) \<and> registered_handler 4 = Some Group_Cluster_Handler"
proof -
  note onoff = every_cluster_is_served [OF numbers_listed_holds onoff_numbers(1) [OF numbers_listed_holds, of True]]
  note groups = every_cluster_is_served [OF numbers_listed_holds groups_number [OF numbers_listed_holds, of True]]
  have created: "Generated onoff_class \<in> set created_command_handlers" "handler_cluster (Generated onoff_class) = 6"
      "Group_Cluster_Handler \<in> set created_command_handlers" "handler_cluster Group_Cluster_Handler = 4"
    by (simp_all add: created_command_handlers_def onoff_class_def)
  have cases: "cc_cases onoff_class = onoff_cases" by (simp add: onoff_class_def)
  have "registered_handler 6 = Some (Generated onoff_class) \<and>
      class_function onoff_class = (\<lambda>env. invoke_command env ''OnOff'' onoff_cases)"
    using bspec [OF onoff [THEN conjunct2, THEN conjunct2, THEN conjunct2, THEN conjunct1] created(1)] created(2) cases
    by simp
  moreover have "registered_handler 4 = Some Group_Cluster_Handler"
    using bspec [OF groups [THEN conjunct2, THEN conjunct2, THEN conjunct2, THEN conjunct1] created(3)] created(4) by simp
  ultimately show ?thesis
    using onoff [THEN conjunct1] groups [THEN conjunct2, THEN conjunct2, THEN conjunct1] by simp
qed

end
