(* ===== verification/Device_Type_Names.thy ===== *)
theory Device_Type_Names
  imports Name_Agreement
begin

text \<open>
  The choice of a device type over the generated tables: the device types of matter_device_types_clusters_list.inc
  against the names of matter_id_model.inc and of matter_device_mapper.inc. In the mode that is not strict the
  clusters of an endpoint do not matter for conformance; in the strict mode they do.
\<close>

section \<open>Without the strict mode\<close>

definition required_names :: "string list" where
  "required_names =
    [''Identify'', ''Groups'', ''OnOff'', ''LevelControl'', ''Binding'', ''DoorLock'',
     ''WindowCovering'', ''Thermostat'', ''ColorControl'', ''IlluminanceMeasurement'',
     ''PressureMeasurement'', ''FlowMeasurement'', ''OccupancySensing'']"

lemma required_names_used:
  "list_all (\<lambda>(d, data). list_all (\<lambda>req. dc_is_mandatory req \<longrightarrow> dc_cluster_name req \<in> set required_names)
     (dt_clusters data)) matter_device_type_vs_clusters_map"
  by (simp add: matter_device_type_vs_clusters_map_def device_type_def cluster_req_def required_names_def)

lemma required_names_listed: "subseq required_names matter_cluster_names"
  by (simp add: required_names_def matter_cluster_names_def)

lemma required_names_known:
  "list_all (\<lambda>(d, data). list_all (\<lambda>req. dc_is_mandatory req \<longrightarrow> dc_cluster_name req \<in> set matter_cluster_names)
     (dt_clusters data)) matter_device_type_vs_clusters_map"
  using required_names_used subseq_subset [OF required_names_listed]
  unfolding list_all_iff by fast

lemma generated_matter_cluster:
  "get_matter_cluster_id (generated_translator num s) name =
     (if name \<in> set matter_cluster_names then Some (mn_cluster num name) else None)"
proof -
  have "map_of (map (\<lambda>n. (n, n)) ns) name = (if name \<in> set ns then Some name else None)" for ns :: "string list"
    by (induction ns) auto
  then show ?thesis by (simp add: get_matter_cluster_id_def generated_translator_def id_map_eq)
qed

lemma relaxed_requirement:
  assumes "dc_is_mandatory d \<longrightarrow> dc_cluster_name d \<in> set matter_cluster_names"
  shows "requirement_met (generated_translator num False) clusters d = Inr True"
  using assms by (simp add: requirement_met_def generated_matter_cluster) (simp add: generated_translator_def)

lemma relaxed_conform:
  assumes "list_all (\<lambda>d. dc_is_mandatory d \<longrightarrow> dc_cluster_name d \<in> set matter_cluster_names) ds"
  shows "conform_to_device_type (generated_translator num False) clusters ds = Inr True"
  using assms by (induction ds) (simp_all add: relaxed_requirement)

lemma relaxed_scores:
  assumes "list_all (\<lambda>(d, data). list_all (\<lambda>req. dc_is_mandatory req \<longrightarrow> dc_cluster_name req \<in> set matter_cluster_names)
     (dt_clusters data)) ds"
  shows "conforming_scores (generated_translator num False) clusters ds =
    Inr (map (score_of (generated_translator num False) clusters) ds)"
  using assms by (induction ds) (auto simp: relaxed_conform)

lemma select_scored_some:
  assumes "scores \<noteq> []"
  shows "select_scored scores \<noteq> []" and "set (select_scored scores) \<subseteq> device_type_id ` set scores"
  using assms select_loop_nonempty select_loop_set by (auto simp: select_scored_def split: list.splits) fastforce+

lemma relaxed_type:
  "\<exists>d\<in>fst ` set matter_device_type_vs_clusters_map.
     get_matter_type (generated_translator num False) clusters = Inr (Some (ucast d))"
proof -
  let ?t = "generated_translator num False"
  let ?scores = "std_sort score_less (map (score_of ?t clusters) matter_device_type_vs_clusters_map)"
  have set: "set ?scores = score_of ?t clusters ` set matter_device_type_vs_clusters_map"
    by (metis mset_std_sort set_mset_mset list.set_map)
  moreover have "matter_device_type_vs_clusters_map \<noteq> []" by (simp add: matter_device_type_vs_clusters_map_def)
  ultimately have ne: "?scores \<noteq> []" by force
  obtain d ids where sel: "select_scored ?scores = d # ids"
    using select_scored_some(1) [OF ne] by (cases "select_scored ?scores") auto
  have "d \<in> device_type_id ` set ?scores" using select_scored_some(2) [OF ne] sel by auto
  then have "d \<in> fst ` set matter_device_type_vs_clusters_map"
    unfolding set by (force simp: score_of_id)
  moreover have "get_matter_type ?t clusters = Inr (Some (ucast d))"
    by (simp add: get_matter_type_def get_device_types_def select_possible_device_types_on_score_def
        compute_device_type_match_score_def relaxed_scores [OF required_names_known] sel)
  ultimately show ?thesis by blast
qed

lemma matched_clusters_count:
  "matched_clusters t ucs = word_of_nat (length (filter (\<lambda>(name, uc). uc_attributes uc \<noteq> [] \<and> get_cluster_id t name \<noteq> None) ucs))"
proof -
  have "foldl (\<lambda>n (name, uc). if uc_attributes uc \<noteq> [] \<and> get_cluster_id t name \<noteq> None then n + 1 else n) k ucs =
     k + (word_of_nat (length (filter (\<lambda>(name, uc). uc_attributes uc \<noteq> [] \<and> get_cluster_id t name \<noteq> None) ucs)) :: u8)" for k
  proof (induction ucs arbitrary: k)
    case (Cons x ucs)
    then show ?case
      by (cases x; cases "uc_attributes (snd x) \<noteq> [] \<and> get_cluster_id t (fst x) \<noteq> None") simp_all
  qed simp
  then show ?thesis by (simp add: matched_clusters_def)
qed

section \<open>The strict mode\<close>

text \<open>No Unify cluster has the Matter cluster \<open>Binding\<close>.\<close>

lemma unify_clusters_not_binding:
  "list_all (\<lambda>(u, ns). case map_of matter_listing ns of Some (k, _) \<Rightarrow> k \<noteq> 30 | None \<Rightarrow> False) unify_cluster_rows"
  by (simp add: unify_cluster_rows_def matter_listing_def)

lemma binding_number:
  assumes "numbers_listed num"
  shows "get_matter_cluster_id (generated_translator num s) ''Binding'' = Some 30"
proof -
  have "mn_cluster num ''Binding'' = 30"
    by (rule listed_cluster [OF assms, where as = listed_binding_attributes and cs = listed_binding_commands])
      (simp add: matter_listing_def)
  moreover have "''Binding'' \<in> set matter_cluster_names" by (simp add: matter_cluster_names_def)
  ultimately show ?thesis by (simp add: generated_matter_cluster)
qed

lemma cluster_not_binding:
  assumes "numbers_listed num" and "get_cluster_id (generated_translator num s) u = Some k"
  shows "k \<noteq> 30"
proof -
  obtain ns where ns: "map_of unify_cluster_rows u = Some ns" "k = mn_cluster num ns"
    using assms(2) by (auto simp: generated_lookups)
  have "case map_of matter_listing ns of Some (k, _) \<Rightarrow> k \<noteq> 30 | None \<Rightarrow> False"
    using bspec [OF unify_clusters_not_binding [unfolded list_all_iff] map_of_SomeD [OF ns(1)]] by simp
  then obtain k' as cs where listed: "map_of matter_listing ns = Some (k', as, cs)" "k' \<noteq> 30"
    by (auto split: option.splits)
  show ?thesis using listed_cluster [OF assms(1) map_of_SomeD [OF listed(1)]] ns(2) listed(2) by simp
qed

lemma built_not_binding:
  assumes "numbers_listed num" and "c \<in> set (build_matter_cluster (generated_translator num s) type_size ucs)"
  shows "ec_cluster_id c \<noteq> 30"
proof -
  have "ec_cluster_id c \<in> set (map ec_cluster_id (build_matter_cluster (generated_translator num s) type_size ucs))"
    using assms(2) by simp
  then show ?thesis
    unfolding built_cluster_ids using cluster_not_binding [OF assms(1)]
    by (auto simp: mapped_clusters_def split: if_splits)
qed

lemma position_none: "\<forall>x\<in>set xs. \<not> P x \<Longrightarrow> position P xs = None"
  by (induction xs) auto

lemma binding_never_met:
  assumes "numbers_listed num" and "dc_is_mandatory d" and "dc_cluster_name d = ''Binding''"
  shows "requirement_met (generated_translator num True)
    (build_matter_cluster (generated_translator num True) type_size ucs) d = Inr False"
proof -
  have "check_if_cluster_in_array 30 (build_matter_cluster (generated_translator num True) type_size ucs) = - 1"
    unfolding check_if_cluster_in_array_def
    by (subst position_none) (use built_not_binding [OF assms(1)] in \<open>simp_all\<close>)
  moreover have "m_spec_compliant (generated_translator num True)" by (simp add: generated_translator_def)
  ultimately show ?thesis
    using assms(2) binding_number [OF assms(1), of True] by (simp add: requirement_met_def assms(3))
qed

lemma conforming_score_conforms:
  assumes "conforming_scores t clusters ds = Inr scores" and "s \<in> set scores"
  shows "\<exists>data. (device_type_id s, data) \<in> set ds \<and> conform_to_device_type t clusters (dt_clusters data) = Inr True"
  using assms
proof (induction ds arbitrary: scores)
  case (Cons x ds)
  obtain d data where x: "x = (d, data)" by (cases x)
  show ?case
    using Cons by (fastforce simp: x rbind_eq_Inr score_of_id split: if_splits)
qed simp

lemma selected_type_conforms:
  assumes "get_matter_type t clusters = Inr (Some ty)"
  shows "\<exists>d data. (d, data) \<in> set matter_device_type_vs_clusters_map \<and> ty = ucast d \<and>
    conform_to_device_type t clusters (dt_clusters data) = Inr True"
proof -
  obtain scores where scores: "conforming_scores t clusters matter_device_type_vs_clusters_map = Inr scores"
      and ty: "(case select_scored (std_sort score_less scores) of [] \<Rightarrow> None | d # _ \<Rightarrow> Some (ucast d)) = Some ty"
    using assms by (auto simp: get_matter_type_def get_device_types_def select_possible_device_types_on_score_def
        compute_device_type_match_score_def rbind_eq_Inr)
  obtain d ids where sel: "select_scored (std_sort score_less scores) = d # ids" "ty = ucast d"
    using ty by (auto split: list.splits)
  have "std_sort score_less scores \<noteq> []" using sel(1) by (auto simp: select_scored_def)
  then have "d \<in> device_type_id ` set (std_sort score_less scores)" using select_scored_some(2) sel(1) by fastforce
  moreover have "set (std_sort score_less scores) = set scores" by (metis mset_std_sort set_mset_mset)
  ultimately obtain s where "s \<in> set scores" "d = device_type_id s" by auto
  then show ?thesis using conforming_score_conforms [OF scores] sel(2) by blast
qed

lemma switch_requires_binding:
  "list_all (\<lambda>(d, data). (ucast d :: u16) = 259 \<longrightarrow>
     (case dt_clusters data of [] \<Rightarrow> False | req # _ \<Rightarrow> dc_is_mandatory req \<and> dc_cluster_name req = ''Binding''))
   matter_device_type_vs_clusters_map"
  by (simp add: matter_device_type_vs_clusters_map_def device_type_def cluster_req_def)

section \<open>Properties\<close>

text \<open>C26: In the strict mode no Unify device ever becomes an on/off light switch (259), whatever clusters it reports:
  this type requires \<open>Binding\<close>, which no Unify cluster is mapped to. Whatever type is chosen is one the clusters
  conform to.\<close>

theorem strict_mode_has_no_switch:
  assumes "numbers_listed num"
  shows "case get_matter_type (generated_translator num True)
        (build_matter_cluster (generated_translator num True) type_size ucs) of
      Inr (Some ty) \<Rightarrow> ty \<noteq> 259 \<and> (\<exists>(d, data) \<in> set matter_device_type_vs_clusters_map. ty = ucast d \<and>
        conform_to_device_type (generated_translator num True)
          (build_matter_cluster (generated_translator num True) type_size ucs) (dt_clusters data) = Inr True)
    | _ \<Rightarrow> True"
proof -
  let ?t = "generated_translator num True"
  let ?clusters = "build_matter_cluster ?t type_size ucs"
  have "ty \<noteq> 259 \<and> (\<exists>(d, data) \<in> set matter_device_type_vs_clusters_map. ty = ucast d \<and>
      conform_to_device_type ?t ?clusters (dt_clusters data) = Inr True)"
    if "get_matter_type ?t ?clusters = Inr (Some ty)" for ty
  proof -
    obtain d data where d: "(d, data) \<in> set matter_device_type_vs_clusters_map" "ty = ucast d"
        "conform_to_device_type ?t ?clusters (dt_clusters data) = Inr True"
      using selected_type_conforms [OF \<open>get_matter_type ?t ?clusters = Inr (Some ty)\<close>] by blast
    have "ty \<noteq> 259"
    proof
      assume "ty = 259"
      then have "case dt_clusters data of [] \<Rightarrow> False | req # _ \<Rightarrow> dc_is_mandatory req \<and> dc_cluster_name req = ''Binding''"
        using bspec [OF switch_requires_binding [unfolded list_all_iff] d(1)] d(2) by simp
      then obtain req reqs where "dt_clusters data = req # reqs" "dc_is_mandatory req" "dc_cluster_name req = ''Binding''"
        by (auto split: list.splits)
      then show False using binding_never_met [OF assms, of req type_size ucs] d(3) by simp
    qed
    then show ?thesis using d by blast
  qed
  then show ?thesis by (auto split: sum.split option.split)
qed

lemma strict_mode_has_no_switch_witness:
  "get_matter_type (generated_translator listed_numbers True)
     (build_matter_cluster (generated_translator listed_numbers True) (\<lambda>_ _. (1, ZCL_ENUM8)) []) \<noteq> Inr (Some 259)"
  using strict_mode_has_no_switch [OF numbers_listed_holds, of "\<lambda>_ _. (1, ZCL_ENUM8)" "[]"] by auto

text \<open>C20: Without the strict mode no device is lost for want of a device type, and no part of the choice can fail: a
  reported endpoint with at least one and fewer than 256 clusters is bridged, with one of the thirteen device types,
  unless none of its clusters has a Matter identifier and attributes, or it has at most two clusters of which
  the first is \<open>Groups\<close> or \<open>NameAndLocation\<close>; then nothing changes. A bridged endpoint is found under its address, with
  its persisted Matter endpoint, and every listener is told first of the endpoint and then of its state.\<close>

theorem relaxed_bridge_outcome:
  assumes "key_value_store (env_kvs env)" and "reliable_store (env_kvs env)" and "monitor_ok env nm"
    and "env_translator env = generated_translator num False"
    and "0 < length (ue_clusters ue)" and "length (ue_clusters ue) < 256"
  shows "\<exists>out nm'. add_endpoint env u online ep ue nm = Inr (out, nm') \<and>
    (if length (ue_clusters ue) \<le> 2 \<and> fst (hd (ue_clusters ue)) \<in> {''Groups'', ''NameAndLocation''} \<or>
        filter (\<lambda>(name, uc). uc_attributes uc \<noteq> [] \<and> get_cluster_id (env_translator env) name \<noteq> None) (ue_clusters ue) = []
     then (out, nm') = ([], nm)
     else \<exists>be. bridged_endpoint_by_unify (nm_endpoints nm') u (uint ep) = Some (be\<lparr>be_reachable := Some online\<rparr>) \<and>
       be_matter_type be \<in> (\<lambda>(d, _). ucast d) ` set matter_device_type_vs_clusters_map \<and>
       stored_endpoint (env_kvs env) (nm_kv nm') (u, ep) = Some (be_matter_endpoint be) \<and>
       out = map (\<lambda>l. (l, be, NODE_ADDED)) (nm_listeners nm) @
         map (\<lambda>l. (l, be\<lparr>be_reachable := Some online\<rparr>, NODE_STATE_CHANGED)) (nm_listeners nm))"
proof -
  let ?t = "env_translator env"
  let ?matched = "filter (\<lambda>(name, uc). uc_attributes uc \<noteq> [] \<and> get_cluster_id ?t name \<noteq> None) (ue_clusters ue)"
  let ?short = "length (ue_clusters ue) \<le> 2 \<and> fst (hd (ue_clusters ue)) \<in> {''Groups'', ''NameAndLocation''}"
  let ?clusters = "build_matter_cluster ?t (env_type_size env) (ue_clusters ue)"
  have ignored: "is_ignored (ue_clusters ue) = Inr ?short"
    using assms(5) by (cases "ue_clusters ue") (auto simp: is_ignored_def)
  have "length ?matched < 256" using assms(6) length_filter_le le_less_trans by blast
  then have matched: "matched_clusters ?t (ue_clusters ue) = 0 \<longleftrightarrow> ?matched = []"
    using unat_of_nat [where 'a = 8, of "length ?matched"] by (auto simp: matched_clusters_count)
  show ?thesis
  proof (cases "?short \<or> ?matched = []")
    case True
    then have "add_endpoint env u online ep ue nm = Inr ([], nm)"
      unfolding add_endpoint_def ignored rbind_Inr matched by (rule if_P)
    then show ?thesis using True by simp
  next
    case False
    obtain d where d: "d \<in> fst ` set matter_device_type_vs_clusters_map" "get_matter_type ?t ?clusters = Inr (Some (ucast d))"
      using relaxed_type [of num ?clusters] assms(4) by auto
    obtain e nm1 where assign: "assign_matter_endpoint env u ep nm = (e, nm1)"
      by (cases "assign_matter_endpoint env u ep nm")
    let ?be = "new_bridge u ep e (ei_fixed_count (env_ember env)) (ucast d) ?clusters"
    obtain out nm' where insert: "insert_bridge env online ?be nm1 = (out, nm')"
      by (cases "insert_bridge env online ?be nm1")
    have "add_endpoint env u online ep ue nm = (let clusters = ?clusters in
        rbind (get_matter_type ?t clusters) (\<lambda>matter_type.
        case matter_type of
          None \<Rightarrow> Inr ([], nm)
        | Some ty \<Rightarrow> (let (e, nm) = assign_matter_endpoint env u ep nm
             in Inr (insert_bridge env online (new_bridge u ep e (ei_fixed_count (env_ember env)) ty clusters) nm))))"
      unfolding add_endpoint_def ignored rbind_Inr matched using False by (rule if_not_P)
    then have added: "add_endpoint env u online ep ue nm = Inr (out, nm')"
      by (simp add: d(2) assign insert)
    have "be_matter_type ?be \<in> (\<lambda>(d, _). ucast d) ` set matter_device_type_vs_clusters_map"
      using d(1) by (auto simp: new_bridge_def)
    with endpoint_inserted [OF assms(1-3) added assign insert refl]
    have "\<exists>be. bridged_endpoint_by_unify (nm_endpoints nm') u (uint ep) = Some (be\<lparr>be_reachable := Some online\<rparr>) \<and>
       be_matter_type be \<in> (\<lambda>(d, _). ucast d) ` set matter_device_type_vs_clusters_map \<and>
       stored_endpoint (env_kvs env) (nm_kv nm') (u, ep) = Some (be_matter_endpoint be) \<and>
       out = map (\<lambda>l. (l, be, NODE_ADDED)) (nm_listeners nm) @
         map (\<lambda>l. (l, be\<lparr>be_reachable := Some online\<rparr>, NODE_STATE_CHANGED)) (nm_listeners nm)" by blast
    with added show ?thesis unfolding if_not_P [OF False] by blast
  qed
qed

lemma relaxed_bridge_outcome_witness:
  "\<exists>out nm'. add_endpoint (sample_env\<lparr>env_translator := generated_translator listed_numbers False\<rparr>) ''zw-1'' True 0
       \<lparr>ue_clusters = [(''OnOff'', lamp_cluster)]\<rparr> (sample_monitor Map.empty) = Inr (out, nm') \<and>
     bridged_endpoint_by_unify (nm_endpoints nm') ''zw-1'' 0 \<noteq> None"
proof -
  let ?env = "sample_env\<lparr>env_translator := generated_translator listed_numbers False\<rparr>"
  have "monitor_ok ?env (sample_monitor Map.empty)"
    by (simp add: monitor_ok_def table_ok_def sample_monitor_def)
  then show ?thesis
    using relaxed_bridge_outcome [where env = ?env and num = listed_numbers and u = "''zw-1''" and online = True and ep = 0
        and ue = "\<lparr>ue_clusters = [(''OnOff'', lamp_cluster)]\<rparr>" and nm = "sample_monitor Map.empty"]
      mem_kvs.key_value_store_axioms map_kvs_reliable onoff_numbers(1) [OF numbers_listed_holds, of False]
    by (fastforce simp: sample_env_def lamp_cluster_def)
qed

end
