(* ===== verification/Spec2Isabelle.thy ===== *)
theory Spec2Isabelle
  imports Group_Command_Translator Attribute_Translator Bridged_Basic_Info Json_Conversions Attribute_Sizes
    Node_Registry Bridge_Main Device_Type_Names
begin

text \<open>
  The Unify Matter Bridge (src/linux): a program that shows the devices of a Unify system, which are known
  by MQTT topics and JSON messages, as bridged endpoints of a Matter node, and translates the commands,
  reports and groups of either side into those of the other.

  \<^bold>\<open>The program.\<close> The Unify library delivers the nodes to the node state monitor, which chooses a Matter
  device type for each Unify endpoint, builds its Ember description, gives it a Matter endpoint that it
  keeps in persistent storage, and tells its listeners. The listeners are the translators: they
  subscribe to the topics of the new endpoint. A report on such a topic goes through the base class of the
  attribute translators to the handler of its cluster, which converts the JSON value, puts it into the
  attribute state cache and announces the change; a read of Matter is answered from the cache, after the
  emulators of the cluster had their say. A command of Matter goes through the emulators to the handler of
  its cluster, which publishes a Unify command, for one endpoint or for a Unify group. The group
  translator chooses the Unify groups.

  \<^bold>\<open>Theories and sources\<close> (paths below src/linux; functions keep the names of the source).

  \<^item> Prelude: integer widths, exceptions and undefined behaviour as values of \<open>exn\<close>, \<open>std::stoi\<close>,
    \<open>std::to_string\<close>, shared lemmas. Chip_Types: identifiers, error and status codes, paths, JSON, MQTT
    messages.
  \<^item> Attribute_State_Cache (include/attribute_state_cache.hpp): \<open>set\<close> and both \<open>get\<close>, on a map from
    attribute paths to variants; the contract \<open>attribute_store\<close> and its instances.
  \<^item> Topics: the topics and the regular expressions of the two translator base classes.
  \<^item> Data_Storage (src/matter_data_storage.cpp): the persistent tables over a key-value store, with the
    contracts \<open>key_value_store\<close> and \<open>persistent_map\<close>.
  \<^item> Group_Translator (src/cluster_translator/group_translator.cpp), Group_Command_Translator
    (group_command_translator.cpp): allocation of Unify groups, the group commands.
  \<^item> Endpoint_Builder, Cluster_Interactor, Node_State_Monitor (src/matter_node_state_monitor), Ember_Interface
    (src/matter_wrappers/unify_ember_interface.hpp), Attribute_Sizes
    (zap-generated/data_model_translator/attribute_type_size.cpp): the endpoint descriptions and the table of
    bridged endpoints. Node_Refinement: the abstract map this table implements. Node_Registry: the table, the
    dynamic endpoints of Ember and the persisted numbers stay in step.
  \<^item> Device_Translator, Device_Type_Selection (src/device_type_mapper): names, and the choice of a device type.
  \<^item> Emulator, Emulate_Level, Emulate_Simple, Emulate_Thermostat, Emulate_WindowCovering,
    Emulate_ColorControl, Cluster_Emulator (src/cluster_translator/emulations, cluster_emulator.cpp): the
    emulators under the contract \<open>command_emulator\<close>, and their registry.
  \<^item> Command_Translator (command_translator_interface.hpp, zap-generated/.../command_translator.cpp): sending,
    responses and their time-out; the generated handlers as one interpreter, \<open>invoke_command\<close>, of a table of
    cases. Command_Handlers has the classes themselves (what each gives its base class, its \<open>InvokeCommand\<close>), the
    handler registered for a cluster, and the responses that are awaited against those the name tables know.
  \<^item> Attribute_Interface (attribute_translator_interface.hpp), Attribute_Translator
    (zap-generated/.../attribute_translator.cpp), Bridged_Basic_Info
    (bridged_device_basic_info_attribute_translator.cpp): reports, reads and writes; the contract
    \<open>attribute_handler\<close> of the base class, met by the 14 generated classes and by the one that is not.
  \<^item> Json_Tables, Json_Conversions (zap-generated/.../chip_types_from_json.hpp, chip_types_to_json.hpp): the
    names of enumerations and bit masks.
  \<^item> Bridge_Startup (src/matter_bridge_config.cpp, matter_bridge_qrcode_publisher.cpp, the device options of
    matter_bridge_main.cpp, the listing of matter_bridge_cli.cpp).
  \<^item> Unify_Names (zap-generated/unify-data-model-templates/device-type-mapper/matter_device_mapper.inc), Matter_Names
    (zap-generated/data_model_translator/device-type-mapper/matter_id_model.inc), Matter_Listing
    (zap-generated/data-models/matter_support_model.js): the tables of names and numbers. Name_Tables: the device
    translator over them. Name_Agreement: they agree with the cases of the generated translators.
    Device_Type_Names: what the choice of a device type does with them, in either mode.
  \<^item> Bridge_Threads, Bridge_Main (src/matter_bridge_main.cpp, matter_bridge_cli.cpp): the two threads of the running
    bridge as a step relation, the start of \<open>main\<close>, what it creates, the command line.
  \<^item> This theory: properties that need the tables and the translators together.

  \<^bold>\<open>How code is modelled.\<close> The singletons and members the code mutates are arguments and results of the
  operations (the cache, the state of the group translator, the pending responses, the node monitor). What a
  call sends, logs or announces is a list in the result, in order. An exception, a failed assertion, a null
  dereference, a read past an end and a loop without end are the left side of \<open>res\<close>; an operation that
  catches an exception inspects it. Integers have the width of the code. JSON values have no floating point
  numbers, which no conversion of the bridge produces. Commands and attributes of the generated classes are
  rows of tables that the one interpreter runs; a row says which of the few shapes of a case it has.

  \<^bold>\<open>Code that is not here\<close> is an argument: the Matter library (Ember endpoint tables, key-value store,
  fabric and group tables, TLV decoding, event loop, numbers of identifiers and enumerators, \<open>chip::BitMask\<close>, encodable
  ranges), the JSON parser and printer, the MQTT broker, the clock, the configuration of Unify. Where a
  result relies on its behaviour, this is a named hypothesis: \<open>key_value_store\<close> and \<open>reliable_store\<close> (a map
  that keeps what was put), \<open>ember_table\<close> and \<open>ember_registry\<close> (a slot that was set is found by its endpoint;
  together with the store they are \<open>bridge_env\<close>), \<open>field_laws\<close>, distinct enumerator numbers, \<open>numbers_listed\<close> and \<open>names_listed\<close> (the identifiers have the
  numbers of the listing); the witnesses use
  an in-memory store and table.

  \<^bold>\<open>Loops.\<close> All recursions are structural or have a measure (group allocation and endpoint search count up to
  the end of their 16-bit range), except the comparison of attributes, whose 8-bit counter can wrap: it is a
  \<open>partial_function\<close>, and \<open>compare_attributes_terminates_iff\<close> says when it returns.

  \<^bold>\<open>What the lemmas show.\<close> Of every component its invariant, its behaviour on every branch and its errors; of
  the table of endpoints that it implements a map; of the topics, the persistent keys and the conversions
  that they can be undone; of the locales that the code meets them. The properties that span components
  follow a message all the way: from its topic to the value Matter reads, from a command to the message
  that is published, from a change of a node to the attribute \<open>Reachable\<close>; two of them hold in every state a bridge
  reaches from a start with nothing persisted (\<open>device_report_is_read\<close>, \<open>device_command_is_published\<close>). Several properties state what the
  code does where this is not what it means to do; they are the ones on shared groups and endpoints, on
  answered but pending responses, on the setup pin, the software version and the retained code.

  \<^bold>\<open>Threads.\<close> All callbacks of the Unify library run in the event loop of the main thread, one after the other
  (\<open>unify_calls_exclusive\<close>); the other theories therefore model them as functions on one state. The interleaving
  of the two threads is in Bridge_Threads, with the end of the program as \<open>shutdown_ends\<close>.

  \<^bold>\<open>Not modelled.\<close> Object lifetimes except where a dangling span is returned, logging, the array variant of the cache
  getter (no code calls it), the macros of zcl_global_types.hpp (not used by the program), the demonstration command
  line, the forwarding of unify_mqtt_wrapper.cpp, the tests, the generator templates.
\<close>

section \<open>Reports of enumerations\<close>

text \<open>C3: A name reported for an attribute that is an enumeration is looked up in the generated table of its
  type: the number of its enumerator is what Matter reads afterwards, and an unknown name changes nothing and
  announces nothing. This spans the topic, the table of the type, the attribute translator and the cache.\<close>

theorem enum_report_is_read:
  assumes "no_slash (be_unify_unid node)" and "no_slash cluster" and "no_slash attribute"
    and "cluster \<noteq> []" and "attribute \<noteq> []" and "msg \<noteq> []"
    and "bridged_endpoint_by_unify (ae_table env) (be_unify_unid node) (uint (be_unify_endpoint node)) = Some node"
    and "bridged_endpoint_by_matter (ae_table env) (be_matter_endpoint node) = Some node"
    and "get_cluster_id (ae_translator env) cluster = Some (aa_cluster aa)"
    and "get_attribute_id (ae_translator env) cluster attribute = Some a"
    and "ae_name env (aa_cluster aa) a = Some n" and "map_of (aa_updates aa) n = Some Store" and "n \<in> set (aa_reads aa)"
    and "\<not> is_attribute_emulated (be_matter_endpoint node, aa_cluster aa, a)"
    and "get_registered_callback reg (cluster @ ''::'' @ attribute) = None"
    and "parse msg = Inr (JObject ms)" and "map_of ms ''value'' = Some (JString s)"
    and "ae_type env (aa_cluster aa) n = Enum t" and "map_of enums_from_json ty = Some rows"
    and "ae_table_from_json env (aa_cluster aa) n = enum_from_json num rows"
    and "\<forall>k. value_type (num k) = t"
  shows "case map_of rows s of
      Some k \<Rightarrow> \<exists>c'. attribute_on_mqtt_message env aa reg parse
          (attribute_topic (be_unify_unid node) (be_unify_endpoint node) cluster attribute) msg c =
          Inr ([Attribute_Changed (be_matter_endpoint node, aa_cluster aa, a)], c') \<and>
        attribute_read env aa c' (be_matter_endpoint node, aa_cluster aa, a) = Inr (Encode (Scalar (num k))) \<and>
        (\<forall>q. q \<noteq> (be_matter_endpoint node, aa_cluster aa, a) \<longrightarrow> c' q = c q)
    | None \<Rightarrow> attribute_on_mqtt_message env aa reg parse
          (attribute_topic (be_unify_unid node) (be_unify_endpoint node) cluster attribute) msg c = Inr ([], c)"
proof (cases "map_of rows s")
  case None
  then have "reported_updated env aa node cluster attribute (JString s) c = Inr ([], c)"
    using assms(9-12,18,20) by (simp add: reported_updated_def updated_value_def enum_from_json_def Let_def)
  then show ?thesis
    using report_handled [where update = "reported_updated env aa" and parse = parse and msg = msg,
        OF assms(1-7,15-17)] None
    by (simp add: attribute_on_mqtt_message_def)
next
  case (Some k)
  have "from_json (ae_table_from_json env (aa_cluster aa) n) (ae_type env (aa_cluster aa) n) (JString s) =
      Inr (Some (Scalar (num k)))"
    using Some assms(18,20) by (simp add: enum_from_json_def)
  moreover have "readable (ae_encodable env) (ae_type env (aa_cluster aa) n) (Scalar (num k))"
    using assms(18,21) by simp
  ultimately have "\<exists>c'. attribute_on_mqtt_message env aa reg parse
          (attribute_topic (be_unify_unid node) (be_unify_endpoint node) cluster attribute) msg c =
          Inr ([Attribute_Changed (be_matter_endpoint node, aa_cluster aa, a)], c') \<and>
        attribute_read env aa c' (be_matter_endpoint node, aa_cluster aa, a) = Inr (Encode (Scalar (num k))) \<and>
        (\<forall>q. q \<noteq> (be_matter_endpoint node, aa_cluster aa, a) \<longrightarrow> c' q = c q)"
    using assms(1-17) by (intro reported_data_is_read) assumption+
  then show ?thesis using Some by simp
qed

definition lock_type_number :: "string \<Rightarrow> value_t" where
  "lock_type_number k = VUInt8 (if k = ''kDeadBolt'' then 0 else if k = ''kMagnetic'' then 1 else 2)"

definition lock_type_rows :: "(string \<times> string) list" where
  "lock_type_rows = the (map_of enums_from_json ''DoorLock::DlLockType'')"

lemma lock_type_table: "map_of enums_from_json ''DoorLock::DlLockType'' = Some lock_type_rows"
    "map_of lock_type_rows ''Magnetic'' = Some ''kMagnetic''"
  by (simp_all add: lock_type_rows_def enums_from_json_parts)

definition lock_ae :: attribute_env where
  "lock_ae = sample_ae\<lparr>ae_translator := (sample_translator True)\<lparr>unify_cluster_id_map := [''DoorLock'' \<mapsto> 257],
       unify_to_matter_attribute_id_map := [''DoorLock'' \<mapsto> [''LockType'' \<mapsto> 1]]\<rparr>,
     ae_name := (\<lambda>_ _. Some ''LockType''), ae_type := (\<lambda>_ _. Enum TUInt8),
     ae_table_from_json := (\<lambda>_ _. enum_from_json lock_type_number lock_type_rows)\<rparr>"

lemma lock_access: "aa_cluster doorlock_access = 257" "''LockType'' \<in> set (aa_reads doorlock_access)"
    "map_of (aa_updates doorlock_access) ''LockType'' = Some Store"
  by (simp_all add: doorlock_access_def doorlock_reads_def doorlock_updates_def doorlock_parts)

lemma lock_ae_fields: "ae_table lock_ae = nm_endpoints two_nodes" "ae_name lock_ae cl a = Some ''LockType''"
    "ae_type lock_ae cl n = Enum TUInt8" "ae_table_from_json lock_ae cl n = enum_from_json lock_type_number lock_type_rows"
    "get_cluster_id (ae_translator lock_ae) ''DoorLock'' = Some 257"
    "get_attribute_id (ae_translator lock_ae) ''DoorLock'' ''LockType'' = Some 1"
  by (simp_all add: lock_ae_def sample_ae_def get_cluster_id_def get_attribute_id_def)

lemma enum_report_is_read_witness:
  "\<exists>c'. attribute_on_mqtt_message lock_ae doorlock_access Map.empty
      (\<lambda>_. Inr (JObject [(''value'', JString ''Magnetic'')]))
      (attribute_topic ''zw-1'' 0 ''DoorLock'' ''LockType'') ''...'' Map.empty =
      Inr ([Attribute_Changed (2, 257, 1)], c') \<and>
    attribute_read lock_ae doorlock_access c' (2, 257, 1) = Inr (Encode (Scalar (VUInt8 1)))"
proof -
  have emulated: "\<not> is_attribute_emulated (2, 257, 1)"
    by (simp add: is_attribute_emulated_def attribute_emulator_map_def cluster_emulators_def emulator_defs)
  show ?thesis
    using enum_report_is_read [where node = lamp and cluster = "''DoorLock''" and attribute = "''LockType''"
        and msg = "''...''" and env = lock_ae and aa = doorlock_access and a = 1 and n = "''LockType''"
        and reg = Map.empty and parse = "\<lambda>_. Inr (JObject [(''value'', JString ''Magnetic'')])"
        and ms = "[(''value'', JString ''Magnetic'')]" and s = "''Magnetic''" and t = TUInt8
        and ty = "''DoorLock::DlLockType''" and rows = lock_type_rows and num = lock_type_number and c = Map.empty]
    by (simp add: lamp_fields lamp_lookup lock_ae_fields lock_access emulated no_slash_def
        get_registered_callback_def lock_type_table lock_type_number_def) blast
qed

section \<open>A bridged device\<close>

text \<open>C4: Take any state a bridge reaches, by any history of nodes, from a start with nothing persisted, a device of its
  table with a valid Matter endpoint and a UNID without a slash, and an attribute the table of the Unify names maps, which
  no emulator takes and no callback is registered for (the positions of a window covering have one). The handler of its
  cluster has a case for it, and what that case makes of the reported value, when this can be read at all, is what Matter
  reads at the endpoint of this device. Only this change is announced, with the events of a lock, and nothing else in
  the cache changes: no other device can take its place.\<close>

theorem device_report_is_read:
  assumes "bridge_env env" and "fresh_bridge env nm0" and "monitor_reachable env nm0 nm"
    and "(u, b) \<in> set (nm_endpoints nm)" and "be_matter_endpoint b \<noteq> kInvalidEndpointId"
    and "ae_table ae = nm_endpoints nm" and "ae_translator ae = generated_translator num s"
    and "numbers_listed num" and "names_listed (ae_name ae)"
    and "no_slash u" and "aa \<in> set attribute_accesses"
    and "unify_constant unify_attribute_rows (aa_unify_cluster aa) attribute = Some (ns, n)"
    and "p = (be_matter_endpoint b, aa_cluster aa, mn_attribute num ns n)" and "\<not> is_attribute_emulated p"
    and "get_registered_callback reg (aa_unify_cluster aa @ ''::'' @ attribute) = None"
    and "msg \<noteq> []" and "parse msg = Inr (JObject ms)" and "map_of ms ''value'' = Some j"
  shows "\<exists>kind. map_of (aa_updates aa) n = Some kind \<and>
    (\<forall>d. updated_value kind (from_json (ae_table_from_json ae (aa_cluster aa) n) (ae_type ae (aa_cluster aa) n)) j =
        Inr (Some d) \<longrightarrow> readable (ae_encodable ae) (ae_type ae (aa_cluster aa) n) d \<longrightarrow>
      (\<exists>events c'. attribute_on_mqtt_message ae aa reg parse
          (attribute_topic u (be_unify_endpoint b) (aa_unify_cluster aa) attribute) msg c =
          Inr (Attribute_Changed p # events, c') \<and> set events \<subseteq> range (Logged (be_matter_endpoint b)) \<and>
        attribute_read ae aa c' p = Inr (Encode d) \<and> (\<forall>q. q \<noteq> p \<longrightarrow> c' q = c q)))"
proof -
  note look = bridge_env.lookups [OF assms(1) fresh_run_ok [OF assms(1-3)] assms(4,5)]
  note mapped = mapped_attribute [OF assms(8,9,11,12)]
  obtain kind where kind: "map_of (aa_updates aa) n = Some kind" using mapped(4) by blast
  have "\<exists>events c'. attribute_on_mqtt_message ae aa reg parse
          (attribute_topic u (be_unify_endpoint b) (aa_unify_cluster aa) attribute) msg c =
          Inr (Attribute_Changed p # events, c') \<and> set events \<subseteq> range (Logged (be_matter_endpoint b)) \<and>
        attribute_read ae aa c' p = Inr (Encode d) \<and> (\<forall>q. q \<noteq> p \<longrightarrow> c' q = c q)"
    if "updated_value kind (from_json (ae_table_from_json ae (aa_cluster aa) n) (ae_type ae (aa_cluster aa) n)) j =
        Inr (Some d)" and "readable (ae_encodable ae) (ae_type ae (aa_cluster aa) n) d" for d
    using reported_case_is_read [of b "aa_unify_cluster aa" attribute msg ae aa "mn_attribute num ns n" n kind reg parse
        ms j d c] that kind mapped(1-3,5-7) cluster_name_plain [OF assms(11)] assms(6,7,10,13-18) look by simp
  then show ?thesis using kind by blast
qed

lemma lock_bridged_state:
  "\<exists>nm b. monitor_reachable sample_env (sample_monitor Map.empty) nm \<and> (''zw-1'', b) \<in> set (nm_endpoints nm) \<and>
     be_matter_endpoint b = 2 \<and> be_unify_endpoint b = 0"
  using first_lock_bridged [of "''zw-1''"] monitor_reachable.added [OF monitor_reachable.start] by blast

definition generated_ae :: "endpoint_table \<Rightarrow> attribute_env" where
  "generated_ae table = lock_ae\<lparr>ae_table := table, ae_translator := generated_translator listed_numbers True,
     ae_name := listed_name\<rparr>"

lemma lock_type_mapped:
  "unify_constant unify_attribute_rows ''DoorLock'' ''LockType'' = Some (''DoorLock'', ''LockType'')"
  "mn_attribute listed_numbers ''DoorLock'' ''LockType'' = 1"
  by (simp_all add: unify_constant_def unify_attribute_rows_def unify_doorlock_attributes_def listed_numbers_def
      matter_listing_def listed_doorlock_attributes_def listed_def)

lemma device_report_is_read_witness:
  "\<exists>nm events c'. monitor_reachable sample_env (sample_monitor Map.empty) nm \<and>
     attribute_on_mqtt_message (generated_ae (nm_endpoints nm)) doorlock_access Map.empty
      (\<lambda>_. Inr (JObject [(''value'', JString ''Magnetic'')]))
      (attribute_topic ''zw-1'' 0 ''DoorLock'' ''LockType'') ''...'' Map.empty =
      Inr (Attribute_Changed (2, 257, 1) # events, c') \<and>
    attribute_read (generated_ae (nm_endpoints nm)) doorlock_access c' (2, 257, 1) =
      Inr (Encode (Scalar (VUInt8 1)))"
proof -
  obtain nm b where nm: "monitor_reachable sample_env (sample_monitor Map.empty) nm"
      "(''zw-1'', b) \<in> set (nm_endpoints nm)" "be_matter_endpoint b = 2" "be_unify_endpoint b = 0"
    using lock_bridged_state by blast
  have emulated: "\<not> is_attribute_emulated (2, 257, 1)"
    by (simp add: is_attribute_emulated_def attribute_emulator_map_def cluster_emulators_def emulator_defs)
  let ?ae = "generated_ae (nm_endpoints nm)"
  let ?parse = "\<lambda>_. Inr (JObject [(''value'', JString ''Magnetic'')]) :: json res"
  have cluster: "aa_unify_cluster doorlock_access = ''DoorLock''" by (simp add: doorlock_access_def)
  have mapped: "unify_constant unify_attribute_rows (aa_unify_cluster doorlock_access) ''LockType'' = Some (''DoorLock'', ''LockType'')"
    by (simp add: cluster lock_type_mapped)
  have p: "(2, 257, 1) = (be_matter_endpoint b, aa_cluster doorlock_access, mn_attribute listed_numbers ''DoorLock'' ''LockType'')"
    by (simp add: nm(3) lock_access(1) lock_type_mapped)
  have fields: "be_matter_endpoint b \<noteq> kInvalidEndpointId" "ae_table ?ae = nm_endpoints nm"
      "ae_translator ?ae = generated_translator listed_numbers True" "no_slash ''zw-1''"
      "doorlock_access \<in> set attribute_accesses"
      "get_registered_callback Map.empty (aa_unify_cluster doorlock_access @ ''::'' @ ''LockType'') = None"
    by (simp_all add: nm(3) generated_ae_def no_slash_def attribute_accesses_def get_registered_callback_def)
  have names: "names_listed (ae_name ?ae)" by (simp add: generated_ae_def names_listed_holds)
  have member: "map_of [(''value'', JString ''Magnetic'')] ''value'' = Some (JString ''Magnetic'')" by simp
  obtain kind where k: "map_of (aa_updates doorlock_access) ''LockType'' = Some kind"
      "\<forall>d. updated_value kind (from_json (ae_table_from_json ?ae (aa_cluster doorlock_access) ''LockType'')
          (ae_type ?ae (aa_cluster doorlock_access) ''LockType'')) (JString ''Magnetic'') = Inr (Some d) \<longrightarrow>
        readable (ae_encodable ?ae) (ae_type ?ae (aa_cluster doorlock_access) ''LockType'') d \<longrightarrow>
        (\<exists>events c'. attribute_on_mqtt_message ?ae doorlock_access Map.empty ?parse
          (attribute_topic ''zw-1'' (be_unify_endpoint b) (aa_unify_cluster doorlock_access) ''LockType'') ''...'' Map.empty =
          Inr (Attribute_Changed (2, 257, 1) # events, c') \<and> set events \<subseteq> range (Logged (be_matter_endpoint b)) \<and>
        attribute_read ?ae doorlock_access c' (2, 257, 1) = Inr (Encode d) \<and>
        (\<forall>q. q \<noteq> (2, 257, 1) \<longrightarrow> c' q = Map.empty q))"
    using device_report_is_read [OF memory_env.bridge_env_axioms sample_fresh nm(1,2) fields(1-3) numbers_listed_holds names
        fields(4,5) mapped p emulated fields(6), where parse = ?parse and msg = "''...''" and j = "JString ''Magnetic''"
        and ms = "[(''value'', JString ''Magnetic'')]" and c = Map.empty, OF _ refl member]
    by blast
  have "kind = Store" using k(1) lock_access(3) by simp
  then have "updated_value kind (from_json (ae_table_from_json ?ae (aa_cluster doorlock_access) ''LockType'')
      (ae_type ?ae (aa_cluster doorlock_access) ''LockType'')) (JString ''Magnetic'') = Inr (Some (Scalar (VUInt8 1)))"
    by (simp add: updated_value_def generated_ae_def lock_ae_fields enum_from_json_def lock_type_table lock_type_number_def)
  moreover have "readable (ae_encodable ?ae) (ae_type ?ae (aa_cluster doorlock_access) ''LockType'') (Scalar (VUInt8 1))"
    by (simp add: generated_ae_def lock_ae_fields)
  ultimately have "\<exists>events c'. attribute_on_mqtt_message ?ae doorlock_access Map.empty ?parse
      (attribute_topic ''zw-1'' (be_unify_endpoint b) (aa_unify_cluster doorlock_access) ''LockType'') ''...'' Map.empty =
      Inr (Attribute_Changed (2, 257, 1) # events, c') \<and>
    attribute_read ?ae doorlock_access c' (2, 257, 1) = Inr (Encode (Scalar (VUInt8 1)))"
    using k(2) by blast
  then show ?thesis using nm(1) unfolding cluster nm(4) by blast
qed

text \<open>C6: In every state a bridge reaches, by any history of nodes, from a start with nothing persisted, take a
  command the name tables have for a cluster other than the groups cluster, which no emulator takes. Sent by unicast, with
  data that can be decoded, to the Matter endpoint of a listed device (with a valid number), it reaches the registered
  handler of the cluster. As long as the JSON printer does not fail, it is published once, on the command topic of this
  Unify endpoint and the Unify name of this very command, with the fields present as its payload, and answered once with
  Success; nothing else changes.\<close>

theorem device_command_is_published:
  assumes "bridge_env env" and "fresh_bridge env nm0" and "monitor_reachable env nm0 nm"
    and "(u, b) \<in> set (nm_endpoints nm)" and "be_matter_endpoint b \<noteq> kInvalidEndpointId"
    and "te_table te = nm_endpoints nm" and "cp_endpoint (hc_path ctx) = be_matter_endpoint b"
    and "numbers_listed num" and "get_cluster_id (generated_translator num s) cluster = Some (cp_cluster (hc_path ctx))"
    and "get_command_id (generated_translator num s) cluster name = Some (cp_command (hc_path ctx))"
    and "\<not> is_command_emulated (hc_path ctx)" and "fst (decode ctx) = Some as"
    and "hc_session ctx = Unicast_Session" and "\<forall>j. te_dump te j = Inr (printed j)" and "cluster \<noteq> ''Groups''"
  shows "\<exists>cc cmd kfs ctx'. registered_handler (cp_cluster (hc_path ctx)) = Some (Generated cc) \<and>
    map_of (cc_cases cc) (cp_command (hc_path ctx)) = Some (Mapped cmd kfs []) \<and>
    get_command_id (generated_translator num s) cluster cmd = Some (cp_command (hc_path ctx)) \<and>
    run_handler te ops gp (Generated cc) c ctx gt kv p =
      Inr ([Publish (by_unid_topic u (be_unify_endpoint b) @ ''/'' @ cluster @ ''/Commands/'' @ cmd)
              (if members as kfs = [] then ''{}'' else printed (JObject (members as kfs))) True], c, ctx', gt, kv, p) \<and>
    hc_statuses ctx' = hc_statuses ctx @ [(hc_path ctx, Success)] \<and> hc_handled ctx'"
proof -
  let ?te = "te\<lparr>te_unify_group := get_unify_group ops kv\<rparr>"
  note look = bridge_env.lookups [OF assms(1) fresh_run_ok [OF assms(1-3)] assms(4,5)]
  have bridged: "bridged_endpoint_by_matter (te_table ?te) (cp_endpoint (hc_path ctx)) = Some b"
    using look(1) assms(6,7) by simp
  obtain cases cmd kfs where h: "generated_handler (cp_cluster (hc_path ctx)) = Some (cluster, cases)"
      and m: "map_of cases (cp_command (hc_path ctx)) = Some (Mapped cmd kfs [])" "cmd \<noteq> []" "distinct (map fst kfs)"
      and cmd: "get_command_id (generated_translator num s) cluster cmd = Some (cp_command (hc_path ctx))"
    using translated_command [OF assms(8-11)] by blast
  have "cp_cluster (hc_path ctx) \<noteq> Groups_Id"
    using h assms(15) by (auto simp: generated_handler_def)
  then obtain cc where cc: "registered_handler (cp_cluster (hc_path ctx)) = Some (Generated cc)"
      "cc \<in> set command_classes" "cc_cluster_name cc = cluster" "cc_cases cc = cases"
    using registered_generated [OF h] by blast
  from invoke_plain [OF bridged assms(11) m(1,2) assms(12) m(3), of cluster c p]
  have "\<exists>ctx'. invoke_command ?te cluster cases c ctx p =
      Inr ([Publish (by_unid_topic u (be_unify_endpoint b) @ ''/'' @ cluster @ ''/Commands/'' @ cmd)
              (if members as kfs = [] then ''{}'' else printed (JObject (members as kfs))) True], c, ctx', p) \<and>
      hc_statuses ctx' = hc_statuses ctx @ [(hc_path ctx, Success)] \<and> hc_handled ctx'"
    using assms(13,14) look(3)
    by (auto simp: target_topic_def node_topic_def publish_command_def payload_text_def)
  then obtain ctx' where "run_handler te ops gp (Generated cc) c ctx gt kv p =
      Inr ([Publish (by_unid_topic u (be_unify_endpoint b) @ ''/'' @ cluster @ ''/Commands/'' @ cmd)
              (if members as kfs = [] then ''{}'' else printed (JObject (members as kfs))) True], c, ctx', gt, kv, p)"
      "hc_statuses ctx' = hc_statuses ctx @ [(hc_path ctx, Success)]" "hc_handled ctx'"
    using class_function_eq [OF cc(2)] cc(3,4) by auto
  then show ?thesis using cc(1,4) m(1) cmd by blast
qed

lemma device_command_is_published_witness:
  "\<exists>nm ctx'. monitor_reachable sample_env (sample_monitor Map.empty) nm \<and>
     run_handler ((sample_te 0 1)\<lparr>te_table := nm_endpoints nm\<rparr>) map_kvs sample_provider (Generated onoff_class) Map.empty
       (sample_ctx Unicast_Session 2 OnOff_Id 2 (Some [])) init_group_translator kv_g7 Map.empty =
     Inr ([Publish ''ucl/by-unid/zw-1/ep0/OnOff/Commands/Toggle'' ''{}'' True], Map.empty, ctx',
       init_group_translator, kv_g7, Map.empty)"
proof -
  obtain nm b where nm: "monitor_reachable sample_env (sample_monitor Map.empty) nm"
      "(''zw-1'', b) \<in> set (nm_endpoints nm)" "be_matter_endpoint b = 2" "be_unify_endpoint b = 0"
    using lock_bridged_state by blast
  note onoff = onoff_numbers [OF numbers_listed_holds, of True]
  have e: "\<not> is_command_emulated \<lparr>cp_endpoint = 2, cp_cluster = OnOff_Id, cp_command = 2\<rparr>"
    by (simp add: is_command_emulated_def command_emulator_map_eqs)
  have m: "map_of (cc_cases onoff_class) 2 = Some (Mapped ''Toggle'' [] [])"
    by (simp add: onoff_class_def onoff_cases_def)
  show ?thesis
    using device_command_is_published [OF memory_env.bridge_env_axioms sample_fresh nm(1,2),
        where te = "(sample_te 0 1)\<lparr>te_table := nm_endpoints nm\<rparr>" and num = listed_numbers and s = True
        and ctx = "sample_ctx Unicast_Session 2 OnOff_Id 2 (Some [])" and cluster = "''OnOff''" and name = "''Toggle''"
        and as = "[]" and printed = "\<lambda>_. ''{...}''" and c = Map.empty and p = Map.empty and ops = map_kvs
        and gp = sample_provider and gt = init_group_translator and kv = kv_g7]
      nm(1) e registered_onoff m onoff
    by (auto simp: members_def nm(3,4) by_unid_topic_def word_to_string_zero numbers_listed_holds simp del: run_handler.simps)
qed

end
